(* ===== verification/Prelude.thy ===== *)
theory Prelude
  imports Main
begin

section \<open>Shared notions: exceptions, results and the byte strings of Python 2\<close>

text \<open>
  The prelude of the development. It holds the exceptions the modelled code raises
  (\<open>pyexc\<close>), results as sums (\<open>'a res\<close>: \<open>Inl\<close> the exception, \<open>Inr\<close> the value), and the
  string methods of Python 2 that the code calls. A Python 2 \<open>str\<close> is a sequence of bytes,
  which is what a \<open>string\<close> of HOL (a list of 8-bit characters) is; upper and lower case
  are those of the C locale, as \<open>str.upper\<close> and \<open>str.lower\<close> have them without a call of
  \<open>setlocale\<close>. The collection \<open>pystr\<close> gathers the rewrite rules on strings that the
  component theories pass to the simplifier, \<open>pyres\<close> those on results.
\<close>

named_theorems pystr \<open>rewrite rules for the modelled string methods\<close>
named_theorems pyres \<open>unfolding rules for results and error branches\<close>

subsection \<open>Exceptions and results\<close>

datatype pyexc =
    ValueError string
  | TypeError string
  | AttributeError string
  | NameError string
  | ImportError string
  | KeyError string
  | IndexError string
  | LookupError string
  | SystemExit int
  | ValueErrorOf "(string \<times> string) list"

text \<open>A \<open>ValueError\<close> of a dictionary, as the generated setters raise it, is \<open>ValueErrorOf\<close>.\<close>

type_synonym 'a res = "pyexc + 'a"

definition rbind :: "'a res \<Rightarrow> ('a \<Rightarrow> 'b res) \<Rightarrow> 'b res" where
  "rbind r f = (case r of Inl e \<Rightarrow> Inl e | Inr x \<Rightarrow> f x)"

lemma rbind_Inl [simp]: "rbind (Inl e) f = Inl e"
  by (simp add: rbind_def)

lemma rbind_Inr [simp]: "rbind (Inr x) f = f x"
  by (simp add: rbind_def)

lemma rbind_eq_Inr [pyres]: "rbind r f = Inr y \<longleftrightarrow> (\<exists>x. r = Inr x \<and> f x = Inr y)"
  by (cases r) auto

lemma rbind_eq_Inl [pyres]:
  "rbind r f = Inl e \<longleftrightarrow> r = Inl e \<or> (\<exists>x. r = Inr x \<and> f x = Inl e)"
  by (cases r) auto

text \<open>\<open>x()\<close> where \<open>x\<close> is a \<open>str\<close>: a string is not callable.\<close>

definition py_call_str :: "string \<Rightarrow> 'a res" where
  "py_call_str s = Inl (TypeError '''str' object is not callable'')"

subsection \<open>Character classes of the module \<open>string\<close>\<close>

definition ascii_lowercase :: string where
  "ascii_lowercase = ''abcdefghijklmnopqrstuvwxyz''"

definition ascii_uppercase :: string where
  "ascii_uppercase = ''ABCDEFGHIJKLMNOPQRSTUVWXYZ''"

definition ascii_letters :: string where
  "ascii_letters = ascii_lowercase @ ascii_uppercase"

definition py_digits :: string where
  "py_digits = ''0123456789''"

text \<open>\<open>string.whitespace\<close>: tab, line feed, vertical tab, form feed, carriage return, space.\<close>

definition whitespace :: string where
  "whitespace = [CHR 0x09, CHR 0x0A, CHR 0x0B, CHR 0x0C, CHR 0x0D, CHR '' '']"

definition is_space :: "char \<Rightarrow> bool" where
  "is_space c \<longleftrightarrow> c \<in> set whitespace"

definition is_digit :: "char \<Rightarrow> bool" where
  "is_digit c \<longleftrightarrow> c \<in> set py_digits"

subsection \<open>Case conversion\<close>

fun shift_case :: "string \<Rightarrow> string \<Rightarrow> char \<Rightarrow> char" where
  "shift_case (a # as) (b # bs) c = (if c = a then b else shift_case as bs c)"
| "shift_case _ _ c = c"

definition str_upper :: "string \<Rightarrow> string" where
  "str_upper s = map (shift_case ascii_lowercase ascii_uppercase) s"

definition str_lower :: "string \<Rightarrow> string" where
  "str_lower s = map (shift_case ascii_uppercase ascii_lowercase) s"

subsection \<open>Searching, slicing and trimming\<close>

definition str_startswith :: "string \<Rightarrow> string \<Rightarrow> bool" where
  "str_startswith s p \<longleftrightarrow> take (length p) s = p"

text \<open>\<open>s[i:j]\<close> for \<open>i, j \<ge> 0\<close>: empty when \<open>j \<le> i\<close>, cut at the end of the string.\<close>

definition str_slice :: "string \<Rightarrow> nat \<Rightarrow> nat \<Rightarrow> string" where
  "str_slice s i j = take (j - i) (drop i s)"

definition str_lstrip :: "string \<Rightarrow> string" where
  "str_lstrip s = dropWhile is_space s"

definition str_rstrip :: "string \<Rightarrow> string" where
  "str_rstrip s = rev (dropWhile is_space (rev s))"

definition str_strip :: "string \<Rightarrow> string" where
  "str_strip s = str_rstrip (str_lstrip s)"

text \<open>\<open>s.translate(None, dels)\<close> deletes the characters of \<open>dels\<close>.\<close>

definition translate_del :: "string \<Rightarrow> string \<Rightarrow> string" where
  "translate_del s dels = filter (\<lambda>c. c \<notin> set dels) s"

text \<open>\<open>s.split(c)\<close> and \<open>c.join(ws)\<close> for a separator of one character.\<close>

fun str_split :: "char \<Rightarrow> string \<Rightarrow> string list" where
  "str_split c [] = [[]]"
| "str_split c (x # xs) =
     (if x = c then [] # str_split c xs
      else (case str_split c xs of [] \<Rightarrow> [[x]] | w # ws \<Rightarrow> (x # w) # ws))"

fun str_join :: "char \<Rightarrow> string list \<Rightarrow> string" where
  "str_join c [] = []"
| "str_join c [w] = w"
| "str_join c (w # v # ws) = w @ c # str_join c (v # ws)"

text \<open>\<open>s.partition(c)[0]\<close> and the two halves of \<open>s.split(c, 1)\<close> when \<open>c\<close> occurs.\<close>

definition str_before :: "char \<Rightarrow> string \<Rightarrow> string" where
  "str_before c s = takeWhile (\<lambda>x. x \<noteq> c) s"

definition str_after :: "char \<Rightarrow> string \<Rightarrow> string" where
  "str_after c s = drop 1 (dropWhile (\<lambda>x. x \<noteq> c) s)"

text \<open>
  \<open>s.replace(old, new)\<close> for a non-empty \<open>old\<close>: occurrences are found from the left and do
  not overlap. (\<open>old\<close> is never empty in the modelled code; for an empty \<open>old\<close>
  this function returns \<open>s\<close>.)
\<close>

function str_replace :: "string \<Rightarrow> string \<Rightarrow> string \<Rightarrow> string" where
  "str_replace old new s =
     (if s = [] \<or> old = [] then s
      else if str_startswith s old then new @ str_replace old new (drop (length old) s)
      else hd s # str_replace old new (tl s))"
  by pat_completeness auto
termination
  by (relation "measure (\<lambda>(old, new, s). length s)") auto

declare str_replace.simps [simp del]

text \<open>Python's \<open>'%s'\<close> of a value that is a string or \<open>None\<close>.\<close>

definition str_opt :: "string option \<Rightarrow> string" where
  "str_opt s = (case s of None \<Rightarrow> ''None'' | Some t \<Rightarrow> t)"

text \<open>\<open>str(n)\<close> of an integer.\<close>

fun nat_str :: "nat \<Rightarrow> string" where
  "nat_str n = (if n < 10 then [char_of (48 + n)] else nat_str (n div 10) @ [char_of (48 + n mod 10)])"

declare nat_str.simps [simp del]

definition int_str :: "int \<Rightarrow> string" where
  "int_str n = (if n < 0 then CHR ''-'' # nat_str (nat (- n)) else nat_str (nat n))"

definition bool_text :: "bool \<Rightarrow> string" where
  "bool_text b = (if b then ''True'' else ''False'')"

definition quoted :: "string \<Rightarrow> string" where
  "quoted s = [CHR 0x27] @ s @ [CHR 0x27]"

subsection \<open>Lemmas on strings\<close>

lemma str_startswith_iff [pystr]: "str_startswith s p \<longleftrightarrow> (\<exists>r. s = p @ r)"
  by (auto simp: str_startswith_def) (metis append_take_drop_id)

lemma str_startswith_append [simp]: "str_startswith (p @ r) p"
  by (simp add: str_startswith_def)

lemma drop_prefix [simp]: "drop (length p) (p @ r) = r"
  by simp

lemma length_str_slice: "length (str_slice s i j) \<le> j - i"
  by (simp add: str_slice_def)

lemma str_slice_too_short: "j - i < length w \<Longrightarrow> str_slice s i j \<noteq> w"
  using length_str_slice [of s i j] by auto

lemma str_split_not_Nil [simp]: "str_split c s \<noteq> []"
  by (induction s) (auto split: list.splits)

lemma str_split_plain: "c \<notin> set s \<Longrightarrow> str_split c s = [s]"
  by (induction s) (auto split: list.splits)

lemma str_split_append: "c \<notin> set w \<Longrightarrow> str_split c (w @ c # s) = w # str_split c s"
  by (induction w) (auto split: list.splits)

lemma str_split_parts: "w \<in> set (str_split c s) \<Longrightarrow> c \<notin> set w"
  by (induction s arbitrary: w) (auto split: if_splits list.splits)

lemma str_split_length: "length (str_split c s) = Suc (count_list s c)"
proof (induction s)
  case Nil
  then show ?case by simp
next
  case (Cons x s)
  then show ?case by (cases "str_split c s") auto
qed

lemma str_join_Cons: "ws \<noteq> [] \<Longrightarrow> str_join c (w # ws) = w @ c # str_join c ws"
  by (cases ws) auto

lemma str_join_append:
  "us \<noteq> [] \<Longrightarrow> str_join c (us @ vs) = str_join c us @ (if vs = [] then [] else c # str_join c vs)"
proof (induction us)
  case Nil
  then show ?case by simp
next
  case (Cons u us)
  show ?case
  proof (cases "us = []")
    case True
    then show ?thesis by (simp add: str_join_Cons)
  next
    case False
    with Cons.IH show ?thesis by (simp add: str_join_Cons)
  qed
qed

lemma str_join_split: "str_join c (str_split c s) = s"
proof (induction s)
  case Nil
  then show ?case by simp
next
  case (Cons x s)
  obtain w ws where ws: "str_split c s = w # ws"
    by (cases "str_split c s") auto
  show ?case
    using Cons ws by (cases ws) (auto simp: str_join_Cons)
qed

lemma str_split_join:
  "ws \<noteq> [] \<Longrightarrow> \<forall>w \<in> set ws. c \<notin> set w \<Longrightarrow> str_split c (str_join c ws) = ws"
proof (induction ws)
  case Nil
  then show ?case by simp
next
  case (Cons w ws)
  then show ?case
    by (cases "ws = []") (auto simp: str_join_Cons str_split_plain str_split_append)
qed

lemma translate_del_empty_iff [pystr]: "translate_del s dels = [] \<longleftrightarrow> set s \<subseteq> set dels"
  by (auto simp: translate_del_def filter_empty_conv)

lemma str_strip_empty_iff [pystr]: "str_strip s = [] \<longleftrightarrow> (\<forall>c \<in> set s. is_space c)"
proof
  assume "str_strip s = []"
  then have "\<forall>c \<in> set (dropWhile is_space s). is_space c"
    by (simp add: str_strip_def str_rstrip_def str_lstrip_def)
  then show "\<forall>c \<in> set s. is_space c"
    using dropWhile_eq_Nil_conv hd_dropWhile list.set_sel(1) by metis
next
  assume all: "\<forall>c \<in> set s. is_space c"
  then have "dropWhile is_space s = []"
    by simp
  then show "str_strip s = []"
    by (simp only: str_strip_def str_rstrip_def str_lstrip_def) simp
qed

lemma str_before_after: "c \<in> set s \<Longrightarrow> s = str_before c s @ c # str_after c s"
  by (induction s) (auto simp: str_before_def str_after_def)

lemma str_before_append: "c \<notin> set p \<Longrightarrow> str_before c (p @ c # r) = p"
  by (induction p) (auto simp: str_before_def)

lemma str_replace_Nil [simp]: "str_replace old new [] = []"
  by (simp add: str_replace.simps)

lemma str_replace_hit:
  "old \<noteq> [] \<Longrightarrow> str_replace old new (old @ s) = new @ str_replace old new s"
  by (subst str_replace.simps) auto

lemma str_replace_absent:
  "(\<And>p r. s \<noteq> p @ old @ r) \<Longrightarrow> str_replace old new s = s"
proof (induction s)
  case Nil
  then show ?case by simp
next
  case (Cons x s)
  have tail: "\<And>p r. s \<noteq> p @ old @ r"
  proof
    fix p r assume "s = p @ old @ r"
    then have "x # s = (x # p) @ old @ r" by simp
    with Cons.prems show False by blast
  qed
  have "\<not> str_startswith (x # s) old"
    using Cons.prems [of "[]"] by (auto simp: str_startswith_iff)
  with Cons.IH [OF tail] show ?case
    by (subst str_replace.simps) simp
qed

lemma str_replace_char: "str_replace [a] [b] s = map (\<lambda>c. if c = a then b else c) s"
proof (induction s)
  case Nil
  then show ?case by simp
next
  case (Cons x s)
  then show ?case
    by (subst str_replace.simps) (simp add: str_startswith_def)
qed

end
