(* ===== verification/Contracts.thy ===== *)
theory Contracts
  imports Prelude
begin

section \<open>Interfaces the components rely on, and the dictionary that provides one\<close>

text \<open>
  Two contracts used across the development, each proved once from its laws. \<open>codec\<close>: a
  text form with a reader that undoes it (the \<open>'/'\<close> and \<open>','\<close> separated texts of RESTCONF
  paths and key lists, the XML names with a namespace). \<open>dictionary\<close>: what the code uses
  of a Python dictionary, look-up after assignment; \<open>keyed_dictionary\<close> adds the key set.
  The provider of the latter two is \<open>pydict\<close> below: a dictionary is an association
  list in iteration order, an assignment to an existing key keeps its place.
\<close>

subsection \<open>Text forms\<close>

locale codec =
  fixes enc :: "'a \<Rightarrow> 'b"
    and dec :: "'b \<Rightarrow> 'a"
    and valid :: "'a \<Rightarrow> bool"
  assumes dec_enc: "valid x \<Longrightarrow> dec (enc x) = x"
begin

lemma enc_inj: "valid x \<Longrightarrow> valid y \<Longrightarrow> enc x = enc y \<Longrightarrow> x = y"
  using dec_enc by metis

lemma enc_eq_iff: "valid x \<Longrightarrow> valid y \<Longrightarrow> enc x = enc y \<longleftrightarrow> x = y"
  using enc_inj by blast

end

text \<open>A codec whose reader accepts every text and whose printer undoes it as well.\<close>

locale exact_codec = codec +
  assumes enc_dec: "enc (dec y) = y"
    and valid_dec: "valid (dec y)"
begin

lemma dec_inj: "dec y = dec z \<Longrightarrow> y = z"
  using enc_dec by metis

lemma enc_range: "\<exists>x. valid x \<and> enc x = y"
  using enc_dec valid_dec by blast

end

interpretation sep: exact_codec "str_join c" "str_split c"
  "\<lambda>ws. ws \<noteq> [] \<and> (\<forall>w \<in> set ws. c \<notin> set w)" for c
  by unfold_locales (auto simp: str_split_join str_join_split dest: str_split_parts)

subsection \<open>Dictionaries\<close>

locale dictionary =
  fixes empty :: "'d"
    and get :: "'d \<Rightarrow> 'k \<Rightarrow> 'v option"
    and put :: "'k \<Rightarrow> 'v \<Rightarrow> 'd \<Rightarrow> 'd"
  assumes get_empty: "get empty k = None"
    and get_put: "get (put k v d) k' = (if k' = k then Some v else get d k')"
begin

lemma get_put_same: "get (put k v d) k = Some v"
  by (simp add: get_put)

lemma get_put_other: "k' \<noteq> k \<Longrightarrow> get (put k v d) k' = get d k'"
  by (simp add: get_put)

lemma get_fold_put:
  "get (fold (\<lambda>(k, v). put k v) kvs d) k =
     (case map_of (rev kvs) k of None \<Rightarrow> get d k | Some v \<Rightarrow> Some v)"
  by (induction kvs arbitrary: d) (auto simp: get_put map_add_def split: option.splits)

end

locale keyed_dictionary = dictionary +
  fixes keys :: "'d \<Rightarrow> 'k set"
  assumes keys_get: "k \<in> keys d \<longleftrightarrow> get d k \<noteq> None"
begin

lemma keys_empty: "keys empty = {}"
  using keys_get get_empty by blast

lemma keys_put: "keys (put k v d) = insert k (keys d)"
  by (auto simp: keys_get get_put split: if_splits)

lemma keys_fold_put: "keys (fold (\<lambda>(k, v). put k v) kvs d) = fst ` set kvs \<union> keys d"
  by (induction kvs arbitrary: d) (auto simp: keys_put)

end

type_synonym ('k, 'v) pydict = "('k \<times> 'v) list"

definition dict_get :: "('k, 'v) pydict \<Rightarrow> 'k \<Rightarrow> 'v option" where
  "dict_get d k = map_of d k"

fun dict_set :: "'k \<Rightarrow> 'v \<Rightarrow> ('k, 'v) pydict \<Rightarrow> ('k, 'v) pydict" where
  "dict_set k v [] = [(k, v)]"
| "dict_set k v ((k', v') # d) = (if k = k' then (k', v) # d else (k', v') # dict_set k v d)"

text \<open>\<open>d.update(e)\<close>: the assignments of \<open>e\<close> in its iteration order.\<close>

definition dict_update :: "('k, 'v) pydict \<Rightarrow> ('k, 'v) pydict \<Rightarrow> ('k, 'v) pydict" where
  "dict_update d e = fold (\<lambda>(k, v). dict_set k v) e d"

definition dict_keys :: "('k, 'v) pydict \<Rightarrow> 'k set" where
  "dict_keys d = fst ` set d"

definition dict_ok :: "('k, 'v) pydict \<Rightarrow> bool" where
  "dict_ok d \<longleftrightarrow> distinct (map fst d)"

lemma dict_get_set: "dict_get (dict_set k v d) k' = (if k' = k then Some v else dict_get d k')"
  by (induction d) (auto simp: dict_get_def)

interpretation pyd: keyed_dictionary "[]" dict_get dict_set dict_keys
  by unfold_locales (simp_all add: dict_get_set dict_keys_def dict_get_def map_of_eq_None_iff,
      simp add: dict_get_set flip: dict_get_def)

lemma dict_get_Nil [simp]: "dict_get [] k = None"
  by (rule pyd.get_empty)

lemma dict_get_update:
  "dict_get (dict_update d e) k =
     (case map_of (rev e) k of None \<Rightarrow> dict_get d k | Some v \<Rightarrow> Some v)"
  unfolding dict_update_def by (rule pyd.get_fold_put)

lemma map_of_rev_distinct: "distinct (map fst e) \<Longrightarrow> map_of (rev e) = map_of e"
  by (rule map_of_eqI) (auto simp: rev_map [symmetric] map_of_is_SomeI)

lemma dict_get_update_ok:
  "dict_ok e \<Longrightarrow>
   dict_get (dict_update d e) k = (case dict_get e k of None \<Rightarrow> dict_get d k | Some v \<Rightarrow> Some v)"
  unfolding dict_get_update dict_ok_def by (simp add: map_of_rev_distinct flip: dict_get_def)

lemma dict_keys_update: "dict_keys (dict_update d e) = dict_keys e \<union> dict_keys d"
  unfolding dict_update_def by (simp add: pyd.keys_fold_put) (simp add: dict_keys_def)

lemma map_fst_dict_set:
  "map fst (dict_set k v d) = (if k \<in> dict_keys d then map fst d else map fst d @ [k])"
  by (induction d) (force simp: dict_keys_def)+

lemma dict_ok_set [simp]: "dict_ok d \<Longrightarrow> dict_ok (dict_set k v d)"
  by (auto simp: dict_ok_def map_fst_dict_set dict_keys_def)

lemma dict_ok_Nil [simp]: "dict_ok []"
  by (simp add: dict_ok_def)

lemma dict_ok_update [simp]: "dict_ok d \<Longrightarrow> dict_ok (dict_update d e)"
  unfolding dict_update_def by (induction e arbitrary: d) auto

text \<open>A function applied to the values of a dictionary.\<close>

definition dict_map :: "('v \<Rightarrow> 'w) \<Rightarrow> ('k, 'v) pydict \<Rightarrow> ('k, 'w) pydict" where
  "dict_map f d = map (\<lambda>(k, v). (k, f v)) d"

lemma dict_map_set: "dict_map f (dict_set k v d) = dict_set k (f v) (dict_map f d)"
  by (induction d) (auto simp: dict_map_def)

lemma dict_map_update: "dict_map f (dict_update d e) = dict_update (dict_map f d) (dict_map f e)"
proof (induction e arbitrary: d)
  case Nil
  then show ?case by (simp add: dict_update_def dict_map_def)
next
  case (Cons p e)
  obtain k v where p: "p = (k, v)" by (cases p)
  have "dict_map f (dict_update d (p # e)) = dict_map f (dict_update (dict_set k v d) e)"
    by (simp add: dict_update_def p)
  also have "\<dots> = dict_update (dict_set k (f v) (dict_map f d)) (dict_map f e)"
    by (simp add: Cons.IH dict_map_set)
  also have "\<dots> = dict_update (dict_map f d) (dict_map f (p # e))"
    by (simp add: dict_update_def dict_map_def p)
  finally show ?case .
qed

lemma dict_get_map: "dict_get (dict_map f d) k = map_option f (dict_get d k)"
  by (simp add: dict_get_def dict_map_def map_of_map)

lemma values_dict_set: "snd ` set (dict_set k v d) \<subseteq> insert v (snd ` set d)"
proof -
  have "p \<in> set (dict_set k v d) \<Longrightarrow> p \<in> set d \<or> snd p = v" for p
    by (induction d) (auto split: if_splits)
  then show ?thesis by auto
qed

lemma values_dict_update: "snd ` set (dict_update d e) \<subseteq> snd ` set e \<union> snd ` set d"
proof (induction e arbitrary: d)
  case Nil
  then show ?case by (simp add: dict_update_def)
next
  case (Cons p e)
  obtain k v where p: "p = (k, v)" by (cases p)
  have "dict_update d (p # e) = dict_update (dict_set k v d) e"
    by (simp add: dict_update_def p)
  with Cons.IH [of "dict_set k v d"] values_dict_set [of k v d] show ?case
    by (auto simp: p)
qed

lemma dict_get_values: "dict_get d k = Some v \<Longrightarrow> v \<in> snd ` set d"
  by (force simp: dict_get_def dest: map_of_SomeD)

end
