(* ===== verification/Identifiers.thy ===== *)
theory Identifiers
  imports Contracts
begin

section \<open>RESTCONF identifiers\<close>

text \<open>
  The character tables and the predicate \<open>valid_identifier\<close> of \<open>RestconfDataResource\<close>
  (\<open>tools/restconf/message/restconfDataResource.py\<close>), and the grammar rule its
  docstring quotes, stated on its own. The lemmas show that the two agree and that no
  identifier contains a separator of a RESTCONF path, on which the parsers rely.
\<close>

definition badStart :: string where
  "badStart = ''''"

definition goodStart :: string where
  "goodStart = translate_del (ascii_letters @ ''_'') badStart"

definition validChars :: string where
  "validChars = ascii_letters @ py_digits @ ''_-.''"

definition valid_identifier :: "string \<Rightarrow> bool" where
  "valid_identifier identifier \<longleftrightarrow>
     length identifier > 0 \<and>
     hd identifier \<in> set goodStart \<and>
     length (translate_del identifier validChars) = 0"

subsection \<open>The grammar\<close>

text \<open>
  \<open>identifier = (ALPHA / "_") *(ALPHA / DIGIT / "_" / "-" / ".")\<close>, with \<open>ALPHA\<close> and
  \<open>DIGIT\<close> by their character codes, as in RFC 5234.
\<close>

definition abnf_alpha :: "char \<Rightarrow> bool" where
  "abnf_alpha c \<longleftrightarrow> (of_char c :: nat) \<in> {0x41..0x5A} \<or> (of_char c :: nat) \<in> {0x61..0x7A}"

definition abnf_digit :: "char \<Rightarrow> bool" where
  "abnf_digit c \<longleftrightarrow> (of_char c :: nat) \<in> {0x30..0x39}"

inductive abnf_identifier :: "string \<Rightarrow> bool" where
  start: "abnf_alpha c \<or> c = CHR ''_'' \<Longrightarrow> abnf_identifier [c]"
| extend: "abnf_identifier s \<Longrightarrow>
     abnf_alpha c \<or> abnf_digit c \<or> c = CHR ''_'' \<or> c = CHR ''-'' \<or> c = CHR ''.'' \<Longrightarrow>
     abnf_identifier (s @ [c])"

subsection \<open>Lemmas\<close>

lemma letters_are_alpha: "c \<in> set ascii_letters \<longleftrightarrow> abnf_alpha c"
proof -
  have "\<forall>c. c \<in> set ascii_letters \<longleftrightarrow> abnf_alpha c"
    unfolding abnf_alpha_def atLeastAtMost_iff by code_simp
  then show ?thesis by blast
qed

lemma digits_are_digit: "c \<in> set py_digits \<longleftrightarrow> abnf_digit c"
proof -
  have "\<forall>c. c \<in> set py_digits \<longleftrightarrow> abnf_digit c"
    unfolding abnf_digit_def atLeastAtMost_iff by code_simp
  then show ?thesis by blast
qed

lemma goodStart_iff: "c \<in> set goodStart \<longleftrightarrow> abnf_alpha c \<or> c = CHR ''_''"
  by (auto simp: goodStart_def badStart_def translate_del_def letters_are_alpha)

lemma validChars_iff:
  "c \<in> set validChars \<longleftrightarrow>
     abnf_alpha c \<or> abnf_digit c \<or> c = CHR ''_'' \<or> c = CHR ''-'' \<or> c = CHR ''.''"
  by (auto simp: validChars_def letters_are_alpha digits_are_digit)

lemma valid_identifier_iff:
  "valid_identifier s \<longleftrightarrow> s \<noteq> [] \<and> hd s \<in> set goodStart \<and> set s \<subseteq> set validChars"
  by (auto simp: valid_identifier_def translate_del_empty_iff)

lemma goodStart_valid: "c \<in> set goodStart \<Longrightarrow> c \<in> set validChars"
  by (auto simp: goodStart_iff validChars_iff)

lemma valid_identifier_single: "valid_identifier [c] \<longleftrightarrow> c \<in> set goodStart"
  by (auto simp: valid_identifier_iff dest: goodStart_valid)

lemma valid_identifier_snoc:
  "s \<noteq> [] \<Longrightarrow> valid_identifier (s @ [c]) \<longleftrightarrow> valid_identifier s \<and> c \<in> set validChars"
  by (auto simp: valid_identifier_iff)

lemma valid_identifier_separators:
  assumes "valid_identifier s"
  shows "CHR ''/'' \<notin> set s" and "CHR '':'' \<notin> set s" and "CHR ''='' \<notin> set s"
    and "CHR '','' \<notin> set s"
proof -
  have "\<forall>c \<in> {CHR ''/'', CHR '':'', CHR ''='', CHR '',''}. c \<notin> set validChars"
    by (simp add: validChars_iff abnf_alpha_def abnf_digit_def)
  with assms show "CHR ''/'' \<notin> set s" and "CHR '':'' \<notin> set s" and "CHR ''='' \<notin> set s"
    and "CHR '','' \<notin> set s"
    by (auto simp: valid_identifier_iff)
qed

lemma valid_identifier_not_Nil [simp]: "\<not> valid_identifier []"
  by (simp add: valid_identifier_def)

subsection \<open>Agreement with the grammar\<close>

lemma abnf_identifier_not_Nil: "abnf_identifier s \<Longrightarrow> s \<noteq> []"
  by (induction rule: abnf_identifier.induct) auto

lemma abnf_implies_valid: "abnf_identifier s \<Longrightarrow> valid_identifier s"
  by (induction rule: abnf_identifier.induct)
    (auto simp: valid_identifier_single valid_identifier_snoc goodStart_iff validChars_iff
      dest: abnf_identifier_not_Nil)

lemma valid_implies_abnf: "valid_identifier s \<Longrightarrow> abnf_identifier s"
proof (induction s rule: rev_induct)
  case Nil
  then show ?case by simp
next
  case (snoc c s)
  show ?case
  proof (cases "s = []")
    case True
    with snoc.prems show ?thesis
      by (auto simp: valid_identifier_single goodStart_iff intro: abnf_identifier.start)
  next
    case False
    with snoc.prems have "valid_identifier s" and "c \<in> set validChars"
      by (simp_all add: valid_identifier_snoc)
    with snoc.IH show ?thesis
      by (auto simp: validChars_iff intro: abnf_identifier.extend)
  qed
qed

text \<open>
  C4: \<open>RestconfDataResource.valid_identifier\<close> accepts exactly the strings the
  \<open>identifier\<close> rule of the RESTCONF grammar derives.
\<close>

theorem valid_identifier_grammar: "valid_identifier s \<longleftrightarrow> abnf_identifier s"
  using abnf_implies_valid valid_implies_abnf by blast

end
