(* ===== verification/KeyValues.thy ===== *)
theory KeyValues
  imports Prelude "HOL-Library.Char_ord" "HOL-Library.List_Lexorder"
begin

section \<open>Key values of a list instance\<close>

text \<open>
  \<open>RestconfListInstance._validate_and_modify_keys\<close>
  (\<open>tools/restconf/message/restconfListInstance.py\<close>) and what it uses of Python 2: the
  constructors \<open>float\<close>, \<open>long\<close> and \<open>int\<close> on strings, and the comparison of values of
  different types. A float is kept as the literal denotes it, a sign, a decimal mantissa
  and a power of ten, before it is rounded to a double; its printing is an argument of the
  definitions that print.
\<close>

subsection \<open>Reading numbers\<close>

datatype pyfloat = FNan | FInf bool | FDec bool nat int

fun digit_val :: "char \<Rightarrow> nat" where
  "digit_val c = (of_char c :: nat) - 48"

definition digits_val :: "string \<Rightarrow> nat" where
  "digits_val ds = fold (\<lambda>c n. 10 * n + digit_val c) ds 0"

fun split_sign :: "string \<Rightarrow> bool \<times> string" where
  "split_sign (c # s) =
     (if c = CHR ''-'' then (True, s) else if c = CHR ''+'' then (False, s) else (False, c # s))"
| "split_sign [] = (False, [])"

definition signed :: "bool \<Rightarrow> nat \<Rightarrow> int" where
  "signed neg n = (if neg then - int n else int n)"

text \<open>The exponent part that may follow the digits: \<open>None\<close> when it is malformed.\<close>

definition float_exponent :: "string \<Rightarrow> int option" where
  "float_exponent s =
     (case s of
        [] \<Rightarrow> Some 0
      | c # t \<Rightarrow>
          if c = CHR ''e'' \<or> c = CHR ''E'' then
            (case split_sign t of (neg, ds) \<Rightarrow>
               if ds \<noteq> [] \<and> (\<forall>d \<in> set ds. is_digit d) then Some (signed neg (digits_val ds))
               else None)
          else None)"

definition float_body :: "string \<Rightarrow> pyfloat option" where
  "float_body s =
     (case split_sign s of (neg, r) \<Rightarrow>
        if str_lower r = ''inf'' \<or> str_lower r = ''infinity'' then Some (FInf neg)
        else if str_lower r = ''nan'' then Some FNan
        else
          (let ip = takeWhile is_digit r;
               r1 = dropWhile is_digit r;
               dot = (r1 \<noteq> [] \<and> hd r1 = CHR ''.'');
               fp = (if dot then takeWhile is_digit (tl r1) else []);
               r2 = (if dot then dropWhile is_digit (tl r1) else r1)
           in if ip = [] \<and> fp = [] then None
              else map_option (\<lambda>e. FDec neg (digits_val (ip @ fp)) (e - int (length fp)))
                     (float_exponent r2)))"

text \<open>\<open>float(s)\<close>: \<open>None\<close> stands for the \<open>ValueError\<close>.\<close>

definition py_float :: "string \<Rightarrow> pyfloat option" where
  "py_float s = float_body (str_strip s)"

text \<open>
  \<open>long(s)\<close>: white space around the number and after its sign is skipped, one \<open>L\<close> or
  \<open>l\<close> may follow the digits. \<open>int(s)\<close> does not accept the suffix.
\<close>

definition integer_body :: "bool \<Rightarrow> string \<Rightarrow> int option" where
  "integer_body suffix s =
     (case split_sign (str_lstrip s) of (neg, r) \<Rightarrow>
        (let t = str_lstrip r;
             ds = takeWhile is_digit t;
             r1 = dropWhile is_digit t;
             r2 = (if suffix \<and> r1 \<noteq> [] \<and> (hd r1 = CHR ''L'' \<or> hd r1 = CHR ''l'') then tl r1 else r1)
         in if ds \<noteq> [] \<and> str_lstrip r2 = [] then Some (signed neg (digits_val ds)) else None))"

definition py_long :: "string \<Rightarrow> int option" where
  "py_long s = integer_body True s"

definition py_int :: "string \<Rightarrow> int option" where
  "py_int s = integer_body False s"

subsection \<open>Comparison across types\<close>

text \<open>Python 2 orders every number before every string.\<close>

datatype pyscalar = PyNum int | PyStr string

instantiation pyscalar :: linorder
begin

fun less_eq_pyscalar :: "pyscalar \<Rightarrow> pyscalar \<Rightarrow> bool" where
  "less_eq_pyscalar (PyNum a) (PyNum b) \<longleftrightarrow> a \<le> b"
| "less_eq_pyscalar (PyNum a) (PyStr t) \<longleftrightarrow> True"
| "less_eq_pyscalar (PyStr s) (PyNum b) \<longleftrightarrow> False"
| "less_eq_pyscalar (PyStr s) (PyStr t) \<longleftrightarrow> s \<le> t"

definition less_pyscalar :: "pyscalar \<Rightarrow> pyscalar \<Rightarrow> bool" where
  "less_pyscalar x y \<longleftrightarrow> x \<le> y \<and> \<not> y \<le> (x :: pyscalar)"

instance
proof
  fix x y z :: pyscalar
  show "x < y \<longleftrightarrow> x \<le> y \<and> \<not> y \<le> x" by (rule less_pyscalar_def)
  show "x \<le> x" by (cases x) auto
  show "x \<le> y \<Longrightarrow> y \<le> z \<Longrightarrow> x \<le> z" by (cases x; cases y; cases z) auto
  show "x \<le> y \<Longrightarrow> y \<le> x \<Longrightarrow> x = y" by (cases x; cases y) auto
  show "x \<le> y \<or> y \<le> x" by (cases x; cases y) auto
qed

end

subsection \<open>Conversion of one key\<close>

datatype keyval = KStr string | KFloat pyfloat | KBool bool | KInt int | KLong int

definition sys_maxint :: int where
  "sys_maxint = 2 ^ 63 - 1"

definition convert_key :: "string \<Rightarrow> keyval" where
  "convert_key key =
     (if \<not> (\<exists>x \<in> set whitespace. x \<notin> set key) then
        (case py_float key of
           Some f \<Rightarrow> KFloat f
         | None \<Rightarrow>
             if key \<in> set [''True'', ''true''] then KBool True
             else if key \<in> set [''False'', ''false''] then KBool False
             else
               (case py_long key of
                  None \<Rightarrow> KStr key
                | Some n \<Rightarrow>
                    if PyNum (- sys_maxint - 1) \<le> PyStr key \<and> PyStr key \<le> PyNum sys_maxint then
                      (case py_int key of Some m \<Rightarrow> KInt m | None \<Rightarrow> KLong n)
                    else KLong n))
      else KStr key)"

text \<open>The loop over the key list: the converted keys are appended one by one.\<close>

fun validate_and_modify_keys :: "string list \<Rightarrow> keyval list \<Rightarrow> keyval list" where
  "validate_and_modify_keys [] keys = keys"
| "validate_and_modify_keys (key # key_list) keys =
     validate_and_modify_keys key_list (keys @ [convert_key key])"

lemma validate_and_modify_keys_map:
  "validate_and_modify_keys ks keys = keys @ map convert_key ks"
  by (induction ks arbitrary: keys) auto

lemma convert_key_plain: "x \<in> set whitespace \<Longrightarrow> x \<notin> set key \<Longrightarrow> convert_key key = KStr key"
proof -
  assume "x \<in> set whitespace" and "x \<notin> set key"
  then have "\<exists>x \<in> set whitespace. x \<notin> set key" by blast
  then show ?thesis by (simp only: convert_key_def not_True_eq_False if_False)
qed

lemma has_all_whitespace_not_literal:
  assumes "\<forall>x \<in> set whitespace. x \<in> set key"
  shows "key \<notin> set [''True'', ''true'']" and "key \<notin> set [''False'', ''false'']"
proof -
  have sp: "CHR '' '' \<in> set key"
    using assms by (simp add: whitespace_def)
  have "\<forall>w \<in> set [''True'', ''true'', ''False'', ''false'']. CHR '' '' \<notin> set w"
    by simp
  then have lits: "\<And>w. w \<in> set [''True'', ''true'', ''False'', ''false''] \<Longrightarrow> w \<noteq> key"
    using sp by blast
  show "key \<notin> set [''True'', ''true'']"
    using lits [of "''True''"] lits [of "''true''"] by (simp only: list.set insert_iff empty_iff simp_thms) metis
  show "key \<notin> set [''False'', ''false'']"
    using lits [of "''False''"] lits [of "''false''"] by (simp only: list.set insert_iff empty_iff simp_thms) metis
qed

lemma convert_key_cases:
  "convert_key key = KStr key \<or> (\<exists>f. convert_key key = KFloat f) \<or> (\<exists>n. convert_key key = KLong n)"
proof (cases "\<exists>x \<in> set whitespace. x \<notin> set key")
  case True
  then show ?thesis by (auto intro: convert_key_plain)
next
  case False
  then have lit: "key \<notin> set [''True'', ''true'']" "key \<notin> set [''False'', ''false'']"
    using has_all_whitespace_not_literal [of key] by blast+
  have "convert_key key =
    (case py_float key of
       Some f \<Rightarrow> KFloat f
     | None \<Rightarrow> (case py_long key of None \<Rightarrow> KStr key | Some n \<Rightarrow> KLong n))"
    unfolding convert_key_def using False lit
    by (simp only: if_False if_True less_eq_pyscalar.simps not_False_eq_True simp_thms)
  then show ?thesis by (simp split: option.split)
qed

text \<open>
  C32: the conversion of a key list only ever turns a key into a float or a \<open>long\<close>: whatever
  the keys are, no boolean and no plain integer is stored. The tests on \<open>'True'\<close> and
  \<open>'False'\<close> and the conversion to \<open>int\<close> cannot be reached.
\<close>

theorem key_conversion_range:
  "list_all (\<lambda>v. case v of KBool _ \<Rightarrow> False | KInt _ \<Rightarrow> False | _ \<Rightarrow> True)
     (validate_and_modify_keys ks [])"
proof -
  have "case convert_key k of KBool _ \<Rightarrow> False | KInt _ \<Rightarrow> False | _ \<Rightarrow> True" for k
    using convert_key_cases [of k] by (auto split: keyval.split)
  then show ?thesis
    by (simp add: validate_and_modify_keys_map list_all_iff)
qed

text \<open>
  A key is converted at all only when it contains each of the six white-space
  characters; every other key, such as \<open>123\<close>, \<open>-1.5\<close> or \<open>true\<close>, is stored as the text it
  was, after the keys that were there.
\<close>

theorem keys_kept_as_text:
  assumes "\<And>k. k \<in> set ks \<Longrightarrow> \<exists>x \<in> set whitespace. x \<notin> set k"
  shows "validate_and_modify_keys ks keys = keys @ map KStr ks"
proof -
  have "convert_key k = KStr k" if "k \<in> set ks" for k
    using assms [OF that] convert_key_plain by blast
  then show ?thesis by (simp add: validate_and_modify_keys_map)
qed

theorem keys_kept_as_text_witness:
  "validate_and_modify_keys [''123'', ''-1.5'', ''true''] [] = [KStr ''123'', KStr ''-1.5'', KStr ''true'']"
proof -
  have "\<exists>x \<in> set whitespace. x \<notin> set k" if "k \<in> set [''123'', ''-1.5'', ''true'']" for k
    using that by (auto simp: whitespace_def)
  then have "validate_and_modify_keys [''123'', ''-1.5'', ''true''] [] =
      [] @ map KStr [''123'', ''-1.5'', ''true'']"
    by (rule keys_kept_as_text)
  then show ?thesis by (simp only: append_Nil list.map)
qed

end
