(* ===== verification/ListInstance.thy ===== *)
theory ListInstance
  imports Identifiers KeyValues
begin

section \<open>List instances\<close>

text \<open>
  The class \<open>RestconfListInstance\<close> (\<open>tools/restconf/message/restconfListInstance.py\<close>).
  The list \<open>_keys\<close> is created once, in the class body, and every instance extends that one
  list, so it is the state of the class (\<open>li_class\<close>) and not a field of the instance.
  An attribute that the class does not define is looked up by its name
  (\<open>li_call_validate\<close>, \<open>li_no_attribute\<close>): \<open>RestconfListInstance\<close> is the constructor as it is
  written, with the name \<open>_validate_keys\<close>; \<open>RestconfListInstance_via\<close> has the name of the method
  as an argument, which lets the lemmas say what the code that follows the call does when
  the name is the one the class defines, \<open>_validate_and_modify_keys\<close>.
\<close>

record li_class =
  lc_keys :: "keyval list"

record list_instance =
  li_identifier :: string
  li_module_name :: "string option"
  li_valid :: bool
  li_error_message :: string

definition li_class_initial :: li_class where
  "li_class_initial = \<lparr>lc_keys = []\<rparr>"

definition li_no_attribute :: "string \<Rightarrow> pyexc" where
  "li_no_attribute name =
     AttributeError (quoted ''RestconfListInstance'' @ '' object has no attribute '' @ quoted name)"

text \<open>The method \<open>_validate_and_modify_keys\<close>, and \<open>self.<name>(key_list)\<close>: the class binds one method on key lists.\<close>

definition li_validate_and_modify_keys :: "string list \<Rightarrow> li_class \<Rightarrow> bool \<times> li_class" where
  "li_validate_and_modify_keys key_list c = (True, c\<lparr>lc_keys := validate_and_modify_keys key_list (lc_keys c)\<rparr>)"

definition li_call_validate ::
  "string \<Rightarrow> string list \<Rightarrow> li_class \<Rightarrow> bool res \<times> li_class" where
  "li_call_validate name key_list c =
     (if name = ''_validate_and_modify_keys''
      then map_prod Inr id (li_validate_and_modify_keys key_list c)
      else (Inl (li_no_attribute name), c))"

text \<open>
  \<open>_parse_list_instance\<close>: the result is the returned flag with the fields the method
  assigned (identifier, error message). On a malformed text the error message is built from
  \<open>self._resource\<close>, which no instance has.
\<close>

definition parse_list_instance_via ::
  "string \<Rightarrow> string \<Rightarrow> li_class \<Rightarrow> (bool \<times> string \<times> string) res \<times> li_class" where
  "parse_list_instance_via validate list_instance c =
     (let instance_and_keys = str_split (CHR ''='') list_instance in
      if length instance_and_keys \<noteq> 2 \<or> length (str_strip (instance_and_keys ! 1)) = 0
      then (Inl (li_no_attribute ''_resource''), c)
      else
        (let identifier = instance_and_keys ! 0 in
         if \<not> valid_identifier identifier
         then (Inr (False, identifier,
                 ''Invalid Identifier '' @ quoted identifier @
                 '' found in list-instance resource path: '' @ quoted list_instance), c)
         else
           (case li_call_validate validate (str_split (CHR '','') (instance_and_keys ! 1)) c of
              (Inl e, c') \<Rightarrow> (Inl e, c')
            | (Inr ok, c') \<Rightarrow> (Inr (ok, identifier, ''''), c'))))"

definition RestconfListInstance_via ::
  "string \<Rightarrow> string \<Rightarrow> string option \<Rightarrow> li_class \<Rightarrow> list_instance res \<times> li_class" where
  "RestconfListInstance_via validate identifier module_name c =
     (case parse_list_instance_via validate identifier c of
        (Inl e, c') \<Rightarrow> (Inl e, c')
      | (Inr (ok, ident, msg), c') \<Rightarrow>
          (Inr \<lparr>li_identifier = ident, li_module_name = module_name, li_valid = ok,
                li_error_message = msg\<rparr>, c'))"

definition RestconfListInstance ::
  "string \<Rightarrow> string option \<Rightarrow> li_class \<Rightarrow> list_instance res \<times> li_class" where
  "RestconfListInstance = RestconfListInstance_via ''_validate_keys''"

text \<open>\<open>str(key)\<close>; \<open>fstr\<close> prints a float.\<close>

fun key_str :: "(pyfloat \<Rightarrow> string) \<Rightarrow> keyval \<Rightarrow> string" where
  "key_str fstr (KStr s) = s"
| "key_str fstr (KFloat f) = fstr f"
| "key_str fstr (KBool b) = (if b then ''True'' else ''False'')"
| "key_str fstr (KInt n) = int_str n"
| "key_str fstr (KLong n) = int_str n"

text \<open>\<open>__str__\<close>: the loop over the keys with its flag \<open>first\<close>.\<close>

fun keys_str_loop :: "(pyfloat \<Rightarrow> string) \<Rightarrow> keyval list \<Rightarrow> bool \<Rightarrow> string \<Rightarrow> string" where
  "keys_str_loop fstr [] first str_val = str_val"
| "keys_str_loop fstr (key # keys) first str_val =
     keys_str_loop fstr keys False
       ((if \<not> first then str_val @ '','' else str_val) @ key_str fstr key)"

definition list_instance_str :: "(pyfloat \<Rightarrow> string) \<Rightarrow> li_class \<Rightarrow> list_instance \<Rightarrow> string" where
  "list_instance_str fstr c inst = keys_str_loop fstr (lc_keys c) True (li_identifier inst @ ''='')"

text \<open>The properties \<open>is_valid\<close>, \<open>error_message\<close>, \<open>module_name\<close> and \<open>keys\<close>.\<close>

definition li_is_valid :: "list_instance \<Rightarrow> bool" where
  "li_is_valid inst = li_valid inst"

definition li_get_error_message :: "list_instance \<Rightarrow> string" where
  "li_get_error_message inst = li_error_message inst"

definition li_get_module_name :: "list_instance \<Rightarrow> string option" where
  "li_get_module_name inst = li_module_name inst"

definition li_keys :: "li_class \<Rightarrow> list_instance \<Rightarrow> keyval list" where
  "li_keys c inst = lc_keys c"

subsection \<open>Printing is joining with commas\<close>

lemma keys_str_loop_rest:
  "keys_str_loop fstr ks False s = s @ concat (map (\<lambda>k. '','' @ key_str fstr k) ks)"
  by (induction ks arbitrary: s) auto

lemma str_join_concat: "str_join c (w # ws) = w @ concat (map (\<lambda>v. c # v) ws)"
proof (induction ws arbitrary: w)
  case Nil
  then show ?case by simp
next
  case (Cons v ws)
  then show ?case by (simp only: str_join.simps) simp
qed

lemma keys_str_loop_join:
  "keys_str_loop fstr ks True s = s @ str_join (CHR '','') (map (key_str fstr) ks)"
proof (cases ks)
  case Nil
  then show ?thesis by simp
next
  case (Cons k ks')
  have "map (key_str fstr) ks = key_str fstr k # map (key_str fstr) ks'"
    using Cons by simp
  then show ?thesis
    by (simp add: Cons keys_str_loop_rest str_join_concat o_def del: str_join.simps)
qed

lemma str_split_two:
  "length (str_split c s) = 2 \<longleftrightarrow> (\<exists>a b. str_split c s = [a, b])"
  by (auto simp: length_Suc_conv numeral_2_eq_2)

lemma str_split_two_text: "str_split c s = [a, b] \<Longrightarrow> s = a @ c # b"
  using str_join_split [of c s] by simp

subsection \<open>What the constructor does\<close>

lemma list_instance_unfold:
  "RestconfListInstance uri m c =
     (let ik = str_split (CHR ''='') uri in
      if length ik \<noteq> 2 \<or> str_strip (ik ! 1) = [] then (Inl (li_no_attribute ''_resource''), c)
      else if \<not> valid_identifier (ik ! 0)
      then (Inr \<lparr>li_identifier = ik ! 0, li_module_name = m, li_valid = False,
              li_error_message = ''Invalid Identifier '' @ quoted (ik ! 0) @
                '' found in list-instance resource path: '' @ quoted uri\<rparr>, c)
      else (Inl (li_no_attribute ''_validate_keys''), c))"
  by (simp add: RestconfListInstance_def RestconfListInstance_via_def parse_list_instance_via_def Let_def
      li_call_validate_def)

text \<open>
  C31: the constructor never gives a valid instance, and changes nothing: it raises an
  \<open>AttributeError\<close> for \<open>_resource\<close> on a malformed text, an \<open>AttributeError\<close> for
  \<open>_validate_keys\<close> on every well-formed one, and returns only when the name before the
  equal sign is not an identifier, with an instance that is not valid.
\<close>

theorem list_instance_never_valid:
  "(case RestconfListInstance uri m c of
      (Inl e, c') \<Rightarrow> c' = c \<and>
        (e = li_no_attribute ''_resource'' \<or>
         e = li_no_attribute ''_validate_keys'' \<and>
         (\<exists>name keys. uri = name @ ''='' @ keys \<and> valid_identifier name))
    | (Inr inst, c') \<Rightarrow> c' = c \<and> \<not> li_is_valid inst \<and> li_get_error_message inst \<noteq> [] \<and>
        \<not> valid_identifier (li_identifier inst))"
proof -
  let ?ik = "str_split (CHR ''='') uri"
  have two: "uri = ?ik ! 0 @ ''='' @ ?ik ! 1" if "length ?ik = 2"
    using that str_split_two_text by (auto simp: str_split_two)
  consider (bad) "length ?ik \<noteq> 2 \<or> str_strip (?ik ! 1) = []"
    | (name) "length ?ik = 2" "str_strip (?ik ! 1) \<noteq> []" "\<not> valid_identifier (?ik ! 0)"
    | (good) "length ?ik = 2" "str_strip (?ik ! 1) \<noteq> []" "valid_identifier (?ik ! 0)"
    by blast
  then show ?thesis
  proof cases
    case good
    with two have "\<exists>name keys. uri = name @ ''='' @ keys \<and> valid_identifier name" by blast
    with good show ?thesis by (simp add: list_instance_unfold)
  qed (auto simp: list_instance_unfold Let_def li_is_valid_def li_get_error_message_def)
qed

subsection \<open>What follows when the method is found\<close>

definition well_formed_instance :: "string \<Rightarrow> string list \<Rightarrow> string \<Rightarrow> bool" where
  "well_formed_instance name keys uri \<longleftrightarrow>
     valid_identifier name \<and> keys \<noteq> [] \<and> (\<forall>k \<in> set keys. CHR ''='' \<notin> set k \<and> CHR '','' \<notin> set k) \<and>
     str_strip (str_join (CHR '','') keys) \<noteq> [] \<and> uri = name @ ''='' @ str_join (CHR '','') keys"

lemma set_str_join: "set (str_join c ws) \<subseteq> insert c (\<Union> (set ` set ws))"
  by (induction c ws rule: str_join.induct) auto

lemma well_formed_split:
  assumes "well_formed_instance name keys uri"
  shows "str_split (CHR ''='') uri = [name, str_join (CHR '','') keys]"
    and "str_split (CHR '','') (str_join (CHR '','') keys) = keys"
proof -
  let ?j = "str_join (CHR '','') keys"
  from assms have "CHR ''='' \<notin> set ?j"
    using set_str_join [of "CHR '',''" keys] by (auto simp: well_formed_instance_def)
  moreover from assms have "CHR ''='' \<notin> set name" and "uri = name @ CHR ''='' # ?j"
    by (auto simp: well_formed_instance_def dest: valid_identifier_separators)
  ultimately show "str_split (CHR ''='') uri = [name, ?j]"
    by (simp add: str_split_append str_split_plain)
  from assms show "str_split (CHR '','') ?j = keys"
    by (intro sep.dec_enc) (auto simp: well_formed_instance_def)
qed

lemma list_instance_via_well_formed:
  assumes "well_formed_instance name keys uri"
  shows "RestconfListInstance_via ''_validate_and_modify_keys'' uri m c =
    (Inr \<lparr>li_identifier = name, li_module_name = m, li_valid = True, li_error_message = ''''\<rparr>,
     c\<lparr>lc_keys := lc_keys c @ map convert_key keys\<rparr>)"
proof -
  from assms have "valid_identifier name" and "str_strip (str_join (CHR '','') keys) \<noteq> []"
    by (auto simp: well_formed_instance_def)
  with well_formed_split [OF assms] show ?thesis
    by (simp add: RestconfListInstance_via_def parse_list_instance_via_def li_call_validate_def
        li_validate_and_modify_keys_def validate_and_modify_keys_map)
qed

definition plain_keys :: "string list \<Rightarrow> bool" where
  "plain_keys keys \<longleftrightarrow> (\<forall>k \<in> set keys. \<exists>x \<in> set whitespace. x \<notin> set k)"

lemma plain_keys_convert: "plain_keys keys \<Longrightarrow> map convert_key keys = map KStr keys"
  by (auto simp: plain_keys_def dest: convert_key_plain)

text \<open>
  C30: plain keys, those that lack a white-space character, survive storing and printing: after the method that
  stores the keys of a text, any instance prints what it printed before and then the text, with a comma between them if there were keys.
  So keys such as \<open>true\<close> or \<open>0123\<close> are printed as they were written.
\<close>

theorem keys_print_roundtrip:
  assumes "plain_keys (str_split (CHR '','') written)"
  shows "case li_validate_and_modify_keys (str_split (CHR '','') written) c of (ok, c') \<Rightarrow>
    ok \<and> list_instance_str fstr c' inst =
      list_instance_str fstr c inst @ (if lc_keys c = [] then written else '','' @ written)"
proof -
  let ?ks = "str_split (CHR '','') written"
  have keys: "map (key_str fstr) (map KStr ws) = ws" for ws by (induction ws) auto
  have join: "str_join (CHR '','') (us @ ws) = (if us = [] then str_join (CHR '','') ws
      else str_join (CHR '','') us @ '','' @ str_join (CHR '','') ws)" if "ws \<noteq> []" for us ws
    using that by (simp add: str_join_append)
  have "map (key_str fstr) (validate_and_modify_keys ?ks (lc_keys c)) = map (key_str fstr) (lc_keys c) @ ?ks"
    using keys by (simp only: validate_and_modify_keys_map plain_keys_convert [OF assms] map_append)
  then show ?thesis
    using join [OF str_split_not_Nil [of "CHR '',''" written], of "map (key_str fstr) (lc_keys c)"]
    by (simp add: li_validate_and_modify_keys_def list_instance_str_def keys_str_loop_join str_join_split)
qed

lemma well_formed_sample:
  "well_formed_instance ''list1'' [''key1'', ''key2''] ''list1=key1,key2''"
  by (simp add: well_formed_instance_def valid_identifier_def goodStart_def badStart_def
      validChars_def translate_del_def ascii_letters_def ascii_lowercase_def ascii_uppercase_def
      py_digits_def str_strip_empty_iff is_space_def whitespace_def)

theorem keys_print_roundtrip_witness:
  "case li_validate_and_modify_keys [''true'', ''0123''] (li_class_initial\<lparr>lc_keys := [KStr ''a'']\<rparr>) of (ok, c') \<Rightarrow>
     ok \<and> list_instance_str (\<lambda>_. '''') c' \<lparr>li_identifier = ''9x'', li_module_name = None, li_valid = False, li_error_message = ''m''\<rparr> =
       ''9x=a,true,0123''"
proof -
  have split: "str_split (CHR '','') ''true,0123'' = [''true'', ''0123'']"
    by code_simp
  have "plain_keys [''true'', ''0123'']"
    by (simp add: plain_keys_def whitespace_def)
  with keys_print_roundtrip [where written = "''true,0123''" and c = "li_class_initial\<lparr>lc_keys := [KStr ''a'']\<rparr>" and fstr = "\<lambda>_. ''''"
      and inst = "\<lparr>li_identifier = ''9x'', li_module_name = None, li_valid = False, li_error_message = ''m''\<rparr>"]
  show ?thesis unfolding split by (simp add: list_instance_str_def)
qed

text \<open>
  The key list is shared by every instance: after a second instance is built, the
  first reports the keys of both, and so does the second.
\<close>

theorem list_instance_keys_shared:
  assumes "well_formed_instance n1 ks1 u1" and "well_formed_instance n2 ks2 u2"
    and "RestconfListInstance_via ''_validate_and_modify_keys'' u1 m1 li_class_initial = (Inr i1, c1)"
    and "RestconfListInstance_via ''_validate_and_modify_keys'' u2 m2 c1 = (Inr i2, c2)"
  shows "li_keys c1 i1 = map convert_key ks1 \<and>
    li_keys c2 i1 = map convert_key (ks1 @ ks2) \<and>
    li_keys c2 i2 = map convert_key (ks1 @ ks2)"
  using assms
  by (auto simp: list_instance_via_well_formed li_class_initial_def li_keys_def)

theorem list_instance_keys_shared_witness:
  "\<exists>c2 i1 i2. li_keys c2 i1 = map convert_key [''key1'', ''key2'', ''key1'', ''key2''] \<and>
     li_keys c2 i2 = li_keys c2 i1"
  using list_instance_keys_shared
    [OF well_formed_sample well_formed_sample
      list_instance_via_well_formed [OF well_formed_sample]
      list_instance_via_well_formed [OF well_formed_sample]]
  by (auto intro!: exI)

end
