(* ===== verification/DataResource.thy ===== *)
theory DataResource
  imports ListInstance
begin

section \<open>Data resources\<close>

text \<open>
  The class \<open>RestconfDataResource\<close> (\<open>tools/restconf/message/restconfDataResource.py\<close>),
  which splits a RESTCONF path into the identifiers of each module. The dictionary
  \<open>_resource_dict\<close> is created in the class body and every instance writes into it, so it is
  part of the state of the class (\<open>dr_class\<close>), together with the state of the class
  \<open>RestconfListInstance\<close>, whose constructor is called. The code asks whether a segment holds a
  colon with the method \<open>contains\<close>, which a Python string does not have:
  \<open>RestconfDataResource\<close> is the constructor as written, and \<open>RestconfDataResource_via\<close> takes the outcome of
  that call as an argument, so that the lemmas can follow the parser when the call answers
  whether the character occurs (\<open>str_has\<close>). Everything after the call is as written; in particular a segment without
  a colon is passed in the place of the module, and the module in the place of the identifier.
\<close>

record dr_class =
  dc_dict :: "(string, string list) pydict"
  dc_li :: li_class

record data_resource =
  dr_resource :: string
  dr_valid :: bool
  dr_error_message :: string

definition dr_class_initial :: dr_class where
  "dr_class_initial = \<lparr>dc_dict = [], dc_li = li_class_initial\<rparr>"

text \<open>\<open>s.contains(x)\<close>: a \<open>str\<close> has no such attribute; and the answer of \<open>x in s\<close>.\<close>

definition str_call_contains :: "string \<Rightarrow> char \<Rightarrow> bool res" where
  "str_call_contains s x = Inl (AttributeError (quoted ''str'' @ '' object has no attribute '' @ quoted ''contains''))"

definition str_has :: "string \<Rightarrow> char \<Rightarrow> bool res" where
  "str_has s x = Inr (x \<in> set s)"

text \<open>
  The parsers of a segment return an exception, or the error message that goes with a
  \<open>False\<close> status, or the module and the identifier.
\<close>

type_synonym segment_result = "(string + string \<times> string) res \<times> li_class"

definition invalid_in_path :: "string \<Rightarrow> string \<Rightarrow> string \<Rightarrow> string" where
  "invalid_in_path what w resource =
     ''Invalid '' @ what @ '' '' @ quoted w @ '' found in resource path: '' @ quoted resource"

text \<open>
  \<open>_parse_list_instance\<close>: a \<open>RestconfListInstance\<close> has no length, so the test that
  follows its construction raises.
\<close>

definition parse_list_instance :: "string \<Rightarrow> string \<Rightarrow> string \<Rightarrow> li_class \<Rightarrow> segment_result" where
  "parse_list_instance resource current_module_name list_inst li =
     (case RestconfListInstance list_inst (Some current_module_name) li of
        (Inl e, li') \<Rightarrow> (Inl e, li')
      | (Inr inst, li') \<Rightarrow>
          (Inl (TypeError (''object of type '' @ quoted ''RestconfListInstance'' @ '' has no len()'')), li'))"

definition parse_identifier_or_list_instance ::
  "string \<Rightarrow> string \<Rightarrow> string \<Rightarrow> li_class \<Rightarrow> segment_result" where
  "parse_identifier_or_list_instance resource current_module_name identifier li =
     (if CHR ''='' \<in> set identifier then
        parse_list_instance resource current_module_name identifier li
      else if \<not> valid_identifier identifier then
        (Inr (Inl (invalid_in_path ''Identifier'' identifier resource)), li)
      else (Inr (Inr (current_module_name, identifier)), li))"

definition parse_module_and_identifier ::
  "string \<Rightarrow> string \<Rightarrow> string \<Rightarrow> li_class \<Rightarrow> segment_result" where
  "parse_module_and_identifier resource module_name identifier li =
     (if \<not> valid_identifier module_name then
        (Inr (Inl (invalid_in_path ''Module'' module_name resource)), li)
      else parse_identifier_or_list_instance resource module_name identifier li)"

text \<open>
  \<open>if m not in d: d[m] = []\<close> and \<open>d[m].extend(identifier)\<close>: extending a list by a string
  appends its characters, each a string of length one.
\<close>

definition extend_entry ::
  "string \<Rightarrow> string \<Rightarrow> (string, string list) pydict \<Rightarrow> (string, string list) pydict" where
  "extend_entry m identifier d =
     (let d1 = (if dict_get d m = None then dict_set m [] d else d) in
      case dict_get d1 m of
        None \<Rightarrow> d1
      | Some old \<Rightarrow> dict_set m (old @ map (\<lambda>c. [c]) identifier) d1)"

text \<open>
  One segment, before the dictionary is touched. The parameters of
  \<open>_parse_identifier_or_list_instance\<close> are the current module and the identifier; the call for a segment without
  a colon passes the segment first and the module second.
\<close>

definition parse_segment ::
  "(string \<Rightarrow> char \<Rightarrow> bool res) \<Rightarrow> string \<Rightarrow> string \<Rightarrow> string \<Rightarrow> li_class \<Rightarrow> segment_result" where
  "parse_segment contains resource module_name api_identifier li =
     (case contains api_identifier (CHR '':'') of
        Inl e \<Rightarrow> (Inl e, li)
      | Inr colon \<Rightarrow>
          if colon then
            (let module_and_identifier = str_split (CHR '':'') api_identifier in
             if length module_and_identifier = 2 then
               parse_module_and_identifier resource (module_and_identifier ! 0)
                 (module_and_identifier ! 1) li
             else
               (Inr (Inl (''Invalid Module and Identity '' @ quoted api_identifier @
                  '' found in resource path: '' @ quoted resource)), li))
          else parse_identifier_or_list_instance resource api_identifier module_name li)"

text \<open>The loop of \<open>_parse_api_path\<close>; its result is the flag and the error message.\<close>

fun api_path_loop ::
  "(string \<Rightarrow> char \<Rightarrow> bool res) \<Rightarrow> string \<Rightarrow> string list \<Rightarrow> string \<Rightarrow> dr_class \<Rightarrow> (bool \<times> string) res \<times> dr_class" where
  "api_path_loop contains resource [] module_name c = (Inr (True, ''''), c)"
| "api_path_loop contains resource (api_identifier # rest) module_name c =
     (case parse_segment contains resource module_name api_identifier (dc_li c) of
        (Inl e, li) \<Rightarrow> (Inl e, c\<lparr>dc_li := li\<rparr>)
      | (Inr (Inl msg), li) \<Rightarrow> (Inr (False, msg), c\<lparr>dc_li := li\<rparr>)
      | (Inr (Inr (m, identifier)), li) \<Rightarrow>
          api_path_loop contains resource rest m
            (c\<lparr>dc_dict := extend_entry m identifier (dc_dict c), dc_li := li\<rparr>))"

definition parse_api_path :: "(string \<Rightarrow> char \<Rightarrow> bool res) \<Rightarrow> string \<Rightarrow> dr_class \<Rightarrow> (bool \<times> string) res \<times> dr_class" where
  "parse_api_path contains resource c =
     api_path_loop contains resource (str_split (CHR ''/'') resource) '''' c"

definition RestconfDataResource_via ::
  "(string \<Rightarrow> char \<Rightarrow> bool res) \<Rightarrow> string \<Rightarrow> dr_class \<Rightarrow> data_resource res \<times> dr_class" where
  "RestconfDataResource_via contains resource c =
     (case parse_api_path contains resource c of
        (Inl e, c') \<Rightarrow> (Inl e, c')
      | (Inr (ok, msg), c') \<Rightarrow>
          (Inr \<lparr>dr_resource = resource, dr_valid = ok, dr_error_message = msg\<rparr>, c'))"

definition RestconfDataResource :: "string \<Rightarrow> dr_class \<Rightarrow> data_resource res \<times> dr_class" where
  "RestconfDataResource = RestconfDataResource_via str_call_contains"

text \<open>The properties \<open>dict\<close>, \<open>is_valid\<close>, \<open>error_message\<close> and \<open>__str__\<close>.\<close>

definition dr_get_dict :: "dr_class \<Rightarrow> data_resource \<Rightarrow> (string, string list) pydict" where
  "dr_get_dict c r = dc_dict c"

definition dr_is_valid :: "data_resource \<Rightarrow> bool" where
  "dr_is_valid r = dr_valid r"

definition dr_get_error_message :: "data_resource \<Rightarrow> string" where
  "dr_get_error_message r = dr_error_message r"

definition dr_str :: "data_resource \<Rightarrow> string" where
  "dr_str r = dr_resource r"

subsection \<open>The constructor as written\<close>

text \<open>
  The constructor raises an \<open>AttributeError\<close> on every text, before it looks at the
  first segment, and leaves the class as it was.
\<close>

lemma data_resource_always_raises:
  "RestconfDataResource resource c =
     (Inl (AttributeError (quoted ''str'' @ '' object has no attribute '' @ quoted ''contains'')), c)"
proof -
  obtain s ss where split: "str_split (CHR ''/'') resource = s # ss"
    by (cases "str_split (CHR ''/'') resource") auto
  show ?thesis
    by (simp add: RestconfDataResource_def RestconfDataResource_via_def parse_api_path_def split
        parse_segment_def str_call_contains_def)
qed

subsection \<open>The parser past the call\<close>

text \<open>
  Where \<open>contains\<close> answers, the loop carries a name from segment to segment (its variable \<open>module_name\<close>, empty at
  first). A segment with a colon is a module and an identifier, and its module is the next name. A
  segment without a colon is taken for a module: the identifier recorded for it is the name carried
  so far, and the segment is the next name, whatever it is. \<open>records\<close> is this specification of what the loop
  records, \<open>carried\<close> the name after the segments, \<open>path_ok\<close> the paths that are accepted.
\<close>

datatype path_seg = Plain string | Qualified string string

fun seg_text :: "path_seg \<Rightarrow> string" where
  "seg_text (Plain w) = w"
| "seg_text (Qualified m i) = m @ CHR '':'' # i"

fun seg_ok :: "string \<Rightarrow> path_seg \<Rightarrow> bool" where
  "seg_ok name (Plain w) \<longleftrightarrow> valid_identifier name \<and> CHR '':'' \<notin> set w \<and> CHR ''/'' \<notin> set w"
| "seg_ok name (Qualified m i) \<longleftrightarrow> valid_identifier m \<and> valid_identifier i"

fun seg_record :: "string \<Rightarrow> path_seg \<Rightarrow> string \<times> string" where
  "seg_record name (Plain w) = (w, name)"
| "seg_record name (Qualified m i) = (m, i)"

fun path_ok :: "string \<Rightarrow> path_seg list \<Rightarrow> bool" where
  "path_ok name [] \<longleftrightarrow> True"
| "path_ok name (s # ss) \<longleftrightarrow> seg_ok name s \<and> path_ok (fst (seg_record name s)) ss"

fun records :: "string \<Rightarrow> path_seg list \<Rightarrow> (string \<times> string) list" where
  "records name [] = []"
| "records name (s # ss) = seg_record name s # records (fst (seg_record name s)) ss"

fun carried :: "string \<Rightarrow> path_seg list \<Rightarrow> string" where
  "carried name [] = name"
| "carried name (s # ss) = carried (fst (seg_record name s)) ss"

definition record_all ::
  "(string \<times> string) list \<Rightarrow> (string, string list) pydict \<Rightarrow> (string, string list) pydict" where
  "record_all rs d = fold (\<lambda>(m, i). extend_entry m i) rs d"

definition path_text :: "path_seg list \<Rightarrow> string" where
  "path_text ss = str_join (CHR ''/'') (map seg_text ss)"

text \<open>What the dictionary holds for a module: the list so far and the characters appended.\<close>

definition entry_of :: "(string, string list) pydict \<Rightarrow> string \<Rightarrow> string list" where
  "entry_of d m = (case dict_get d m of None \<Rightarrow> [] | Some l \<Rightarrow> l)"

definition recorded_chars :: "string \<Rightarrow> (string \<times> string) list \<Rightarrow> string list" where
  "recorded_chars m rs = map (\<lambda>c. [c]) (concat (map snd (filter (\<lambda>p. fst p = m) rs)))"

lemma dict_get_extend_entry:
  "dict_get (extend_entry m i d) m' =
     (if m' = m then Some (entry_of d m @ map (\<lambda>c. [c]) i) else dict_get d m')"
  by (auto simp: extend_entry_def entry_of_def Let_def dict_get_set split: option.splits)

lemma dict_get_record_all:
  "dict_get (record_all rs d) m =
     (if m \<in> fst ` set rs \<or> dict_get d m \<noteq> None then Some (entry_of d m @ recorded_chars m rs)
      else None)"
proof (induction rs arbitrary: d)
  case Nil
  then show ?case
    by (auto simp: record_all_def recorded_chars_def entry_of_def)
next
  case (Cons p rs)
  obtain m1 i1 where p: "p = (m1, i1)" by (cases p)
  have step: "record_all (p # rs) d = record_all rs (extend_entry m1 i1 d)"
    by (simp add: record_all_def p)
  show ?case
    unfolding step Cons.IH
    by (auto simp: p dict_get_extend_entry entry_of_def recorded_chars_def)
qed

lemma seg_ok_text: "seg_ok name s \<Longrightarrow> CHR ''/'' \<notin> set (seg_text s)"
  by (cases s) (auto dest: valid_identifier_separators)

lemma path_ok_text: "path_ok name ss \<Longrightarrow> \<forall>s \<in> set ss. CHR ''/'' \<notin> set (seg_text s)"
  by (induction name ss rule: path_ok.induct) (auto dest: seg_ok_text)

lemma parse_segment_ok:
  assumes "seg_ok name s"
  shows "parse_segment str_has resource name (seg_text s) li = (Inr (Inr (seg_record name s)), li)"
proof (cases s)
  case (Plain w)
  with assms show ?thesis
    by (auto simp: parse_segment_def str_has_def parse_identifier_or_list_instance_def
        dest: valid_identifier_separators)
next
  case (Qualified m i)
  with assms have ok: "valid_identifier m" "valid_identifier i" by auto
  then have "str_split (CHR '':'') (m @ CHR '':'' # i) = [m, i]"
    by (simp add: str_split_append str_split_plain valid_identifier_separators)
  with ok Qualified show ?thesis
    by (auto simp: parse_segment_def str_has_def parse_module_and_identifier_def
        parse_identifier_or_list_instance_def dest: valid_identifier_separators)
qed

lemma parse_segment_accepts:
  assumes "parse_segment str_has resource name s li = (Inr (Inr r), li')" and "CHR ''/'' \<notin> set s"
  shows "\<exists>ps. seg_ok name ps \<and> seg_text ps = s \<and> seg_record name ps = r"
proof -
  have lists: "parse_list_instance resource a b li \<noteq> (Inr (Inr r), li')" for a b
    by (auto simp: parse_list_instance_def split: sum.splits prod.splits)
  show ?thesis
  proof (cases "CHR '':'' \<in> set s")
    case False
    with assms lists have "valid_identifier name" and "r = (s, name)"
      by (auto simp: parse_segment_def str_has_def parse_identifier_or_list_instance_def
          split: if_splits)
    with False assms(2) show ?thesis by (intro exI [of _ "Plain s"]) simp
  next
    case True
    with assms have "length (str_split (CHR '':'') s) = 2"
      by (auto simp: parse_segment_def str_has_def Let_def split: if_splits)
    then obtain a b where ab: "str_split (CHR '':'') s = [a, b]"
      by (auto simp: str_split_two)
    from assms True lists have "valid_identifier a" and "valid_identifier b" and "r = (a, b)"
      by (auto simp: parse_segment_def str_has_def ab parse_module_and_identifier_def
          parse_identifier_or_list_instance_def split: if_splits)
    with str_split_two_text [OF ab] show ?thesis
      by (intro exI [of _ "Qualified a b"]) simp
  qed
qed

lemma api_path_loop_ok:
  "path_ok name ss \<Longrightarrow>
   api_path_loop str_has resource (map seg_text ss @ rest) name c =
     api_path_loop str_has resource rest (carried name ss)
       (c\<lparr>dc_dict := record_all (records name ss) (dc_dict c)\<rparr>)"
proof (induction ss arbitrary: name c)
  case Nil
  then show ?case by (simp add: record_all_def)
next
  case (Cons s ss)
  then have "parse_segment str_has resource name (seg_text s) (dc_li c) =
      (Inr (Inr (fst (seg_record name s), snd (seg_record name s))), dc_li c)"
    by (simp add: parse_segment_ok)
  with Cons show ?case
    by (simp add: record_all_def case_prod_beta)
qed

lemma api_path_loop_accepts:
  "api_path_loop str_has resource segs name c = (Inr (True, msg), c') \<Longrightarrow> \<forall>w \<in> set segs. CHR ''/'' \<notin> set w \<Longrightarrow>
   \<exists>ss. path_ok name ss \<and> map seg_text ss = segs"
proof (induction segs arbitrary: name c)
  case Nil
  then show ?case by simp
next
  case (Cons seg segs)
  from Cons.prems(1) obtain m' i li where
    seg: "parse_segment str_has resource name seg (dc_li c) = (Inr (Inr (m', i)), li)"
    and rest: "api_path_loop str_has resource segs m'
      (c\<lparr>dc_dict := extend_entry m' i (dc_dict c), dc_li := li\<rparr>) = (Inr (True, msg), c')"
    by (auto split: prod.splits sum.splits)
  from Cons.IH [OF rest] Cons.prems(2) obtain ss where "path_ok m' ss" "map seg_text ss = segs"
    by auto
  moreover from parse_segment_accepts [OF seg] Cons.prems(2) obtain ps
    where "seg_ok name ps" "seg_text ps = seg" "seg_record name ps = (m', i)"
    by auto
  ultimately show ?case
    by (intro exI [of _ "ps # ss"]) simp
qed

lemma split_path_text:
  assumes "ss @ rest \<noteq> []" and "\<forall>w \<in> set (ss @ rest). CHR ''/'' \<notin> set w"
  shows "str_split (CHR ''/'') (str_join (CHR ''/'') (ss @ rest)) = ss @ rest"
  using assms by (intro sep.dec_enc) auto

lemma data_resource_via_path:
  assumes "ss \<noteq> []" and "path_ok '''' ss"
  shows "RestconfDataResource_via str_has (path_text ss) c =
    (Inr \<lparr>dr_resource = path_text ss, dr_valid = True, dr_error_message = ''''\<rparr>,
     c\<lparr>dc_dict := record_all (records '''' ss) (dc_dict c)\<rparr>)"
proof -
  have "str_split (CHR ''/'') (path_text ss) = map seg_text ss"
    using split_path_text [of "map seg_text ss" "[]"] assms(1) path_ok_text [OF assms(2)] by (simp add: path_text_def)
  with api_path_loop_ok [OF assms(2), of "path_text ss" "[]" c] show ?thesis
    by (simp add: RestconfDataResource_via_def parse_api_path_def)
qed

subsection \<open>What the parser accepts and records\<close>

text \<open>
  C9: where \<open>contains\<close> answers, the parser accepts a text, with a valid resource, exactly when it is a non-empty
  sequence of segments of which the first has a module, each module and identifier written with a colon is an
  identifier, and each segment without a colon follows a segment whose module, or for
  one without a colon whose text, is an identifier. So no path that starts with a slash or
  with an unqualified name is accepted.
\<close>

theorem data_resource_accepts:
  "(\<exists>r c'. RestconfDataResource_via str_has resource c = (Inr r, c') \<and> dr_is_valid r) \<longleftrightarrow>
   (\<exists>ss. ss \<noteq> [] \<and> path_ok '''' ss \<and> resource = path_text ss)"
proof
  assume "\<exists>ss. ss \<noteq> [] \<and> path_ok '''' ss \<and> resource = path_text ss"
  then show "\<exists>r c'. RestconfDataResource_via str_has resource c = (Inr r, c') \<and> dr_is_valid r"
    using data_resource_via_path by (fastforce simp: dr_is_valid_def)
next
  assume "\<exists>r c'. RestconfDataResource_via str_has resource c = (Inr r, c') \<and> dr_is_valid r"
  then obtain msg c' where
    "api_path_loop str_has resource (str_split (CHR ''/'') resource) '''' c = (Inr (True, msg), c')"
    by (auto simp: RestconfDataResource_via_def parse_api_path_def dr_is_valid_def
        split: prod.splits sum.splits)
  moreover have "\<forall>w \<in> set (str_split (CHR ''/'') resource). CHR ''/'' \<notin> set w"
    using str_split_parts by blast
  ultimately obtain ss where ss: "path_ok '''' ss" "map seg_text ss = str_split (CHR ''/'') resource"
    using api_path_loop_accepts by blast
  then have "resource = path_text ss"
    by (simp add: path_text_def str_join_split)
  moreover from ss(2) have "ss \<noteq> []" using str_split_not_Nil by (metis list.simps(8))
  ultimately show "\<exists>ss. ss \<noteq> [] \<and> path_ok '''' ss \<and> resource = path_text ss"
    using ss(1) by auto
qed

text \<open>
  C8: on such a text the parser appends to what earlier instances left in the shared dictionary: for a segment with a colon
  the characters of its identifier, under its module; for a segment without a colon the
  characters of the module, or segment, before it, under the segment itself. All other entries are unchanged.
\<close>

theorem data_resource_records:
  assumes "ss \<noteq> []" and "path_ok '''' ss"
  shows "case RestconfDataResource_via str_has (path_text ss) c of
      (Inl e, c') \<Rightarrow> False
    | (Inr r, c') \<Rightarrow> dr_is_valid r \<and> dr_get_error_message r = '''' \<and> dr_str r = path_text ss \<and>
        (\<forall>m. dict_get (dr_get_dict c' r) m =
           (if m \<in> fst ` set (records '''' ss) then
              Some (entry_of (dc_dict c) m @ recorded_chars m (records '''' ss))
            else dict_get (dc_dict c) m))"
proof -
  have "recorded_chars m (records '''' ss) = []" if "m \<notin> fst ` set (records '''' ss)" for m
    using that by (force simp: recorded_chars_def filter_empty_conv)
  then show ?thesis
    by (auto simp: data_resource_via_path [OF assms] dr_is_valid_def dr_get_error_message_def
        dr_str_def dr_get_dict_def dict_get_record_all entry_of_def split: option.splits)
qed

lemma valid_identifier_samples: "valid_identifier ''abcd'' \<and> valid_identifier ''ef'' \<and> valid_identifier ''m''"
  by (simp add: valid_identifier_def goodStart_def badStart_def
      validChars_def translate_del_def ascii_letters_def ascii_lowercase_def ascii_uppercase_def
      py_digits_def)

theorem data_resource_records_witness:
  "case RestconfDataResource_via str_has (path_text [Qualified ''m'' ''abcd'', Plain ''ef'']) dr_class_initial of
      (Inl e, c') \<Rightarrow> False
    | (Inr r, c') \<Rightarrow> dr_is_valid r \<and>
        dict_get (dr_get_dict c' r) ''m'' = Some [''a'', ''b'', ''c'', ''d''] \<and>
        dict_get (dr_get_dict c' r) ''ef'' = Some [''m'']"
  using data_resource_records [of "[Qualified ''m'' ''abcd'', Plain ''ef'']" dr_class_initial]
    valid_identifier_samples
  by (auto simp: recorded_chars_def entry_of_def dr_class_initial_def split: prod.splits sum.splits)



text \<open>
  A text that starts with a slash, as every path of the RESTCONF grammar does, is
  refused: the resource is not valid, the message names the empty identifier, and nothing
  is recorded.
\<close>

lemma data_resource_leading_slash:
  "RestconfDataResource_via str_has (CHR ''/'' # path) c =
     (Inr \<lparr>dr_resource = CHR ''/'' # path, dr_valid = False,
           dr_error_message = invalid_in_path ''Identifier'' '''' (CHR ''/'' # path)\<rparr>, c)"
proof -
  have "parse_segment str_has (CHR ''/'' # path) '''' [] (dc_li c) =
      (Inr (Inl (invalid_in_path ''Identifier'' '''' (CHR ''/'' # path))), dc_li c)"
    by (simp add: parse_segment_def str_has_def parse_identifier_or_list_instance_def)
  then show ?thesis
    by (simp add: RestconfDataResource_via_def parse_api_path_def)
qed

end
