(* ===== verification/UrlParse.thy ===== *)
theory UrlParse
  imports Prelude
begin

section \<open>Splitting a URL\<close>

text \<open>
  The function \<open>urlparse\<close> of the Python 2.7 standard library, as
  \<open>tools/restconf/message/restconfUrl.py\<close> calls it: with a default scheme, and with
  fragments split off. The lemmas say what the path of a URL with a network location
  looks like, which decides what the class \<open>RestconfUrl\<close> accepts.
\<close>

record parse_result =
  pr_scheme :: string
  pr_netloc :: string
  pr_path :: string
  pr_params :: string
  pr_query :: string
  pr_fragment :: string

definition scheme_chars :: string where
  "scheme_chars = ascii_letters @ py_digits @ ''+-.''"

definition uses_params :: "string list" where
  "uses_params = ['''', ''ftp'', ''hdl'', ''prospero'', ''http'', ''imap'', ''https'', ''shttp'',
     ''rtsp'', ''rtspu'', ''sip'', ''sips'', ''mms'', ''sftp'', ''tel'']"

text \<open>
  The scheme and the rest: the text before the first colon is a scheme when all its
  characters can be in one and what follows is not just a port number; \<open>http\<close> always is.
\<close>

definition split_scheme :: "string \<Rightarrow> string \<Rightarrow> string \<times> string" where
  "split_scheme url dflt =
     (let before = str_before (CHR '':'') url; rest = str_after (CHR '':'') url in
      if CHR '':'' \<in> set url \<and> before \<noteq> [] \<and>
         (before = ''http'' \<or>
          (\<forall>c \<in> set before. c \<in> set scheme_chars) \<and> (rest = [] \<or> (\<exists>c \<in> set rest. \<not> is_digit c)))
      then (str_lower before, rest)
      else (dflt, url))"

definition netloc_end :: "char \<Rightarrow> bool" where
  "netloc_end c \<longleftrightarrow> c = CHR ''/'' \<or> c = CHR ''?'' \<or> c = CHR ''#''"

definition split_netloc :: "string \<Rightarrow> string \<times> string" where
  "split_netloc url =
     (if take 2 url = ''//'' then
        (takeWhile (\<lambda>c. \<not> netloc_end c) (drop 2 url), dropWhile (\<lambda>c. \<not> netloc_end c) (drop 2 url))
      else ('''', url))"

text \<open>\<open>url.split(c, 1)\<close> when \<open>c\<close> occurs, else the whole text and the empty one.\<close>

definition split_once :: "char \<Rightarrow> string \<Rightarrow> string \<times> string" where
  "split_once c url = (if c \<in> set url then (str_before c url, str_after c url) else (url, ''''))"

text \<open>The parameters are split off the last segment of the path.\<close>

definition split_params :: "string \<Rightarrow> string \<times> string" where
  "split_params url =
     (let last_seg = rev (takeWhile (\<lambda>c. c \<noteq> CHR ''/'') (rev url));
          prefix = rev (dropWhile (\<lambda>c. c \<noteq> CHR ''/'') (rev url))
      in if CHR '';'' \<in> set last_seg
         then (prefix @ str_before (CHR '';'') last_seg, str_after (CHR '';'') last_seg)
         else (url, ''''))"

definition urlparse :: "string \<Rightarrow> string \<Rightarrow> parse_result res" where
  "urlparse url dflt =
     (let (scheme, url1) = split_scheme url dflt;
          (netloc, url2) = split_netloc url1
      in if (CHR ''['' \<in> set netloc) \<noteq> (CHR '']'' \<in> set netloc)
         then Inl (ValueError ''Invalid IPv6 URL'')
         else
           (let (url3, fragment) = split_once (CHR ''#'') url2;
                (url4, query) = split_once (CHR ''?'') url3;
                (path, params) = (if scheme \<in> set uses_params \<and> CHR '';'' \<in> set url4
                                  then split_params url4 else (url4, ''''))
            in Inr \<lparr>pr_scheme = scheme, pr_netloc = netloc, pr_path = path, pr_params = params,
                    pr_query = query, pr_fragment = fragment\<rparr>))"

subsection \<open>The path of a URL with a network location\<close>

definition rooted :: "string \<Rightarrow> bool" where
  "rooted p \<longleftrightarrow> p = [] \<or> hd p = CHR ''/''"

lemma split_netloc_rest:
  "split_netloc url = (n, r) \<Longrightarrow> n \<noteq> [] \<Longrightarrow> r = [] \<or> netloc_end (hd r)"
proof (cases "take 2 url = ''//''")
  case True
  assume "split_netloc url = (n, r)"
  with True have "r = dropWhile (\<lambda>c. \<not> netloc_end c) (drop 2 url)"
    by (simp add: split_netloc_def)
  then show ?thesis
    using hd_dropWhile [of "\<lambda>c. \<not> netloc_end c" "drop 2 url"] by metis
next
  case False
  assume "split_netloc url = (n, r)" and "n \<noteq> []"
  with False show ?thesis by (simp add: split_netloc_def)
qed

lemma split_once_prefix: "fst (split_once c url) = takeWhile (\<lambda>x. x \<noteq> c) url"
proof (cases "c \<in> set url")
  case False
  then have "takeWhile (\<lambda>x. x \<noteq> c) url = url"
    by (auto simp: takeWhile_eq_all_conv)
  then show ?thesis using False by (simp only: split_once_def if_False fst_conv)
qed (simp add: split_once_def str_before_def)

lemma rooted_split_once: "rooted p \<Longrightarrow> rooted (fst (split_once c p))"
  by (cases p) (auto simp: rooted_def split_once_prefix)

lemma split_once_end:
  "r = [] \<or> netloc_end (hd r) \<Longrightarrow>
   rooted (fst (split_once (CHR ''?'') (fst (split_once (CHR ''#'') r))))"
  by (cases r) (auto simp: rooted_def split_once_prefix netloc_end_def)

lemma rooted_split_params: "rooted p \<Longrightarrow> rooted (fst (split_params p))"
proof (cases p)
  case Nil
  then show ?thesis by (simp add: split_params_def rooted_def)
next
  case (Cons a t)
  assume "rooted p"
  with Cons have a: "a = CHR ''/''" by (simp add: rooted_def)
  let ?d = "dropWhile (\<lambda>c. c \<noteq> CHR ''/'') (rev p)"
  have "rev p = takeWhile (\<lambda>c. c \<noteq> CHR ''/'') (rev p) @ ?d" by simp
  moreover have "?d \<noteq> []"
    using Cons a by (simp add: dropWhile_eq_Nil_conv)
  ultimately have "last ?d = last (rev p)"
    by (metis last_appendR)
  then have "hd (rev ?d) = CHR ''/''"
    using Cons a by (simp add: hd_rev)
  with \<open>?d \<noteq> []\<close> \<open>rooted p\<close> show ?thesis
    by (auto simp: split_params_def rooted_def Let_def hd_append)
qed

lemma urlparse_netloc_rooted:
  assumes "urlparse url dflt = Inr p" and "pr_netloc p \<noteq> []"
  shows "rooted (pr_path p)"
proof -
  obtain scheme url1 where s: "split_scheme url dflt = (scheme, url1)" by fastforce
  obtain netloc url2 where n: "split_netloc url1 = (netloc, url2)" by fastforce
  obtain url3 fragment where f: "split_once (CHR ''#'') url2 = (url3, fragment)" by fastforce
  obtain url4 query where q: "split_once (CHR ''?'') url3 = (url4, query)" by fastforce
  from assms have p: "pr_netloc p = netloc"
    "pr_path p = (if scheme \<in> set uses_params \<and> CHR '';'' \<in> set url4 then fst (split_params url4) else url4)"
    by (auto simp: urlparse_def s n f q split: if_splits prod.splits)
  from n assms(2) p(1) have "url2 = [] \<or> netloc_end (hd url2)"
    by (auto dest: split_netloc_rest)
  then have "rooted url4"
    using split_once_end [of url2] by (simp add: f q)
  with p(2) show ?thesis
    by (simp add: rooted_split_params)
qed

lemma rooted_not_startswith:
  "rooted p \<Longrightarrow> root \<noteq> [] \<Longrightarrow> hd root \<noteq> CHR ''/'' \<Longrightarrow> \<not> str_startswith p root"
  by (cases root) (auto simp: rooted_def str_startswith_iff)

end
