(* ===== verification/RestconfUrl.thy ===== *)
theory RestconfUrl
  imports UrlParse
begin

section \<open>RESTCONF URLs\<close>

text \<open>
  The class \<open>RestconfUrl\<close> (\<open>tools/restconf/message/restconfUrl.py\<close>) and its subclasses for
  the data, operations and library resources (\<open>restconfDataUrl.py\<close>,
  \<open>restconfOperationUrl.py\<close>, \<open>restconfLibraryUrl.py\<close>). The code reads the path of the parsed
  URL with \<open>parsed.path()\<close>. In Python 2 \<open>path\<close> is a string, so the call raises a
  \<open>TypeError\<close>: \<open>py_call_str\<close>. \<open>RestconfUrl\<close> and \<open>create\<close> are the constructor and the factory
  as written; \<open>RestconfUrl_via\<close> and \<open>create_via\<close> take the reading of the path as an
  argument, and the lemmas for \<open>Inr\<close> (the path itself) follow the code past the call.
\<close>

definition allSchemes :: "string list" where
  "allSchemes = [''http'', ''https'']"

definition allMethods :: "string list" where
  "allMethods = [''GET'', ''POST'', ''PUT'', ''PATCH'', ''DELETE'', ''OPTIONS'', ''HEAD'']"

definition DEFAULT_METHOD :: string where
  "DEFAULT_METHOD = ''GET''"

definition DEFAULT_SCHEME :: string where
  "DEFAULT_SCHEME = ''http''"

definition DEFAULT_API_ROOT :: string where
  "DEFAULT_API_ROOT = ''restconf''"

definition DATA_RESOURCE_API :: string where
  "DATA_RESOURCE_API = ''data''"

definition OPERATIONS_RESOURCE_API :: string where
  "OPERATIONS_RESOURCE_API = ''operations''"

definition LIBRARY_RESOURCE_API :: string where
  "LIBRARY_RESOURCE_API = ''yang-library-version''"

datatype url_class = BaseUrl | DataUrl | OperationUrl | LibraryUrl

record restconf_url =
  ru_class :: url_class
  ru_method :: string
  ru_parsedUrl :: parse_result
  ru_entry :: string
  ru_resource :: string
  ru_query :: string
  ru_valid :: bool
  ru_errorMessage :: string

definition bad_method :: "string \<Rightarrow> pyexc" where
  "bad_method m = ValueError (''['' @ m @ ''] is not a valid RESTCONF operation/method'')"

definition bad_scheme :: "string \<Rightarrow> pyexc" where
  "bad_scheme s = ValueError (''Scheme '' @ quoted s @ '' not valid for RESTCONF'')"

definition bad_root :: "string \<Rightarrow> string \<Rightarrow> pyexc" where
  "bad_root path api_root =
     ValueError (''URL path '' @ quoted path @ '' does not start RESTCONF API root '' @ quoted api_root)"

definition bad_api :: "string \<Rightarrow> pyexc" where
  "bad_api path = ValueError (''URL path '' @ quoted path @ '' does not start a valid RESTCONF API URI'')"

definition parse_entry :: "(string \<Rightarrow> string res) \<Rightarrow> parse_result \<Rightarrow> string \<Rightarrow> string res" where
  "parse_entry call parsed api_root =
     rbind (call (pr_path parsed)) (\<lambda>path.
       if \<not> str_startswith path api_root then Inl (bad_root path api_root) else Inr api_root)"

definition parse_resource :: "(string \<Rightarrow> string res) \<Rightarrow> parse_result \<Rightarrow> string \<Rightarrow> string res" where
  "parse_resource call parsed api_root =
     rbind (call (pr_path parsed)) (\<lambda>path.
       if \<not> str_startswith path api_root then Inl (bad_root path api_root)
       else Inr (drop (length api_root) path))"

definition parse_query :: string where
  "parse_query = ''''"

text \<open>The constructor, inherited by the three subclasses. An exception discards the object.\<close>

definition RestconfUrl_via ::
  "(string \<Rightarrow> string res) \<Rightarrow> url_class \<Rightarrow> string \<Rightarrow> string \<Rightarrow> string \<Rightarrow> restconf_url res" where
  "RestconfUrl_via call cls url meth api_root =
     (let um = str_upper meth in
      if um \<notin> set allMethods then Inl (bad_method um)
      else
        rbind (urlparse url DEFAULT_SCHEME) (\<lambda>parsed.
        rbind (parse_entry call parsed api_root) (\<lambda>entry.
        rbind (parse_resource call parsed api_root) (\<lambda>resource.
          Inr \<lparr>ru_class = cls, ru_method = um, ru_parsedUrl = parsed, ru_entry = entry,
               ru_resource = resource, ru_query = parse_query, ru_valid = True,
               ru_errorMessage = ''''\<rparr>))))"

definition RestconfUrl :: "url_class \<Rightarrow> string \<Rightarrow> string \<Rightarrow> string \<Rightarrow> restconf_url res" where
  "RestconfUrl = RestconfUrl_via py_call_str"

definition RestconfDataUrl :: "string \<Rightarrow> string \<Rightarrow> string \<Rightarrow> restconf_url res" where
  "RestconfDataUrl = RestconfUrl DataUrl"

definition RestconfOperationUrl :: "string \<Rightarrow> string \<Rightarrow> string \<Rightarrow> restconf_url res" where
  "RestconfOperationUrl = RestconfUrl OperationUrl"

definition RestconfLibraryUrl :: "string \<Rightarrow> string \<Rightarrow> string \<Rightarrow> restconf_url res" where
  "RestconfLibraryUrl = RestconfUrl LibraryUrl"

text \<open>The test for one of the resources after the API root, with the slices of the code.\<close>

definition api_is :: "string \<Rightarrow> string \<Rightarrow> bool" where
  "api_is api res \<longleftrightarrow>
     str_slice api 1 (length res) = res \<and>
     (length (drop (1 + length res) api) = 0 \<or> str_slice api (1 + length res) 1 = ''/'')"

definition create_via ::
  "(string \<Rightarrow> string res) \<Rightarrow> string \<Rightarrow> string \<Rightarrow> string \<Rightarrow> restconf_url res" where
  "create_via call url meth api_root =
     (if meth \<notin> set allMethods then Inl (bad_method meth)
      else
        rbind (urlparse url DEFAULT_SCHEME) (\<lambda>parsed.
          if pr_scheme parsed \<notin> set allSchemes then Inl (bad_scheme (pr_scheme parsed))
          else
            rbind (call (pr_path parsed)) (\<lambda>path.
              if \<not> str_startswith path api_root then Inl (bad_root path api_root)
              else
                (let api = drop (length api_root) path in
                 if length api = 0 \<or> length api = 1 \<and> api = ''/''
                 then RestconfUrl_via call BaseUrl url meth api_root
                 else if api_is api DATA_RESOURCE_API
                 then RestconfUrl_via call DataUrl url meth api_root
                 else if api_is api OPERATIONS_RESOURCE_API
                 then RestconfUrl_via call OperationUrl url meth api_root
                 else if api_is api OPERATIONS_RESOURCE_API
                 then RestconfUrl_via call LibraryUrl url meth api_root
                 else Inl (bad_api path)))))"

definition create :: "string \<Rightarrow> string \<Rightarrow> string \<Rightarrow> restconf_url res" where
  "create = create_via py_call_str"

text \<open>\<open>resource_api\<close> of the class and its subclasses, and the properties.\<close>

definition resource_api :: "restconf_url \<Rightarrow> string option" where
  "resource_api u =
     (case ru_class u of
        BaseUrl \<Rightarrow> None
      | DataUrl \<Rightarrow> Some DATA_RESOURCE_API
      | OperationUrl \<Rightarrow> Some OPERATIONS_RESOURCE_API
      | LibraryUrl \<Rightarrow> Some LIBRARY_RESOURCE_API)"

definition url_is_valid :: "restconf_url \<Rightarrow> bool" where
  "url_is_valid u = ru_valid u"

definition url_error_message :: "restconf_url \<Rightarrow> string" where
  "url_error_message u = ru_errorMessage u"

definition url_method :: "restconf_url \<Rightarrow> string" where
  "url_method u = ru_method u"

definition url_scheme :: "restconf_url \<Rightarrow> string" where
  "url_scheme u = str_lower (pr_scheme (ru_parsedUrl u))"

definition url_entry :: "restconf_url \<Rightarrow> string" where
  "url_entry u = ru_entry u"

definition url_resource :: "restconf_url \<Rightarrow> string" where
  "url_resource u = ru_resource u"

definition url_query :: "restconf_url \<Rightarrow> string" where
  "url_query u = ru_query u"

text \<open>\<open>_parse_scheme\<close>, which no method calls.\<close>

definition parse_scheme :: "restconf_url \<Rightarrow> unit res \<times> restconf_url" where
  "parse_scheme u =
     (if url_scheme u \<notin> set allSchemes then
        (Inl (bad_scheme (url_scheme u)),
         u\<lparr>ru_valid := False,
           ru_errorMessage := ''Scheme '' @ quoted (url_scheme u) @ '' not valid for RESTCONF''\<rparr>)
      else (Inr (), u))"

subsection \<open>The code as written\<close>

definition path_call_error :: pyexc where
  "path_call_error = TypeError '''str' object is not callable''"

lemma py_call_str_error [simp]: "py_call_str s = Inl path_call_error"
  by (simp add: py_call_str_def path_call_error_def)

text \<open>
  No object of any of the four classes can be built: whatever the arguments, the
  constructor raises, a \<open>ValueError\<close> for an unknown method or a malformed URL, and a
  \<open>TypeError\<close> otherwise.
\<close>

theorem restconf_url_always_raises:
  "RestconfUrl cls url meth api_root =
     Inl (if str_upper meth \<notin> set allMethods then bad_method (str_upper meth)
          else case urlparse url DEFAULT_SCHEME of Inl e \<Rightarrow> e | Inr _ \<Rightarrow> path_call_error)"
  by (auto simp: RestconfUrl_def RestconfUrl_via_def parse_entry_def Let_def split: sum.split)

text \<open>
  The factory raises on every input as well: a \<open>ValueError\<close> for a method that is not one
  of the seven as it is spelt, a malformed URL or a foreign scheme, a \<open>TypeError\<close> otherwise.
\<close>

theorem create_always_raises:
  "create url meth api_root =
     Inl (if meth \<notin> set allMethods then bad_method meth
          else case urlparse url DEFAULT_SCHEME of
            Inl e \<Rightarrow> e
          | Inr p \<Rightarrow> if pr_scheme p \<notin> set allSchemes then bad_scheme (pr_scheme p) else path_call_error)"
  by (auto simp: create_def create_via_def split: sum.split)

subsection \<open>Past the call: reading the path\<close>

lemma restconf_url_via_path:
  assumes "str_upper meth \<in> set allMethods" and "urlparse url DEFAULT_SCHEME = Inr p"
  shows "RestconfUrl_via Inr cls url meth api_root =
    (if str_startswith (pr_path p) api_root then
       Inr \<lparr>ru_class = cls, ru_method = str_upper meth, ru_parsedUrl = p, ru_entry = api_root,
            ru_resource = drop (length api_root) (pr_path p), ru_query = parse_query,
            ru_valid = True, ru_errorMessage = ''''\<rparr>
     else Inl (bad_root (pr_path p) api_root))"
  using assms by (simp add: RestconfUrl_via_def parse_entry_def parse_resource_def)

lemma api_is_False: "length res \<ge> 1 \<Longrightarrow> \<not> api_is api res"
  using str_slice_too_short [where s = api and i = 1 and j = "length res" and w = res]
  by (auto simp: api_is_def)

lemma api_never_found:
  "\<not> api_is api DATA_RESOURCE_API" "\<not> api_is api OPERATIONS_RESOURCE_API"
  by (simp_all add: api_is_False DATA_RESOURCE_API_def OPERATIONS_RESOURCE_API_def)

lemma create_via_path:
  assumes "meth \<in> set allMethods" and "urlparse url DEFAULT_SCHEME = Inr p"
    and "pr_scheme p \<in> set allSchemes" and "pr_path p = api_root @ api"
  shows "create_via Inr url meth api_root =
    (if api = '''' \<or> api = ''/'' then RestconfUrl_via Inr BaseUrl url meth api_root
     else Inl (bad_api (pr_path p)))"
proof -
  have "length api = 0 \<or> length api = 1 \<and> api = ''/'' \<longleftrightarrow> api = '''' \<or> api = ''/''"
    by auto
  with assms show ?thesis
    by (simp only: create_via_def rbind_Inr Let_def api_never_found if_False not_True_eq_False
        str_startswith_append drop_prefix)
qed

lemma create_via_Inr:
  assumes "create_via Inr url meth api_root = Inr u"
  obtains p api where "urlparse url DEFAULT_SCHEME = Inr p" and "pr_path p = api_root @ api"
    and "pr_scheme p \<in> set allSchemes" and "meth \<in> set allMethods"
proof -
  from assms obtain p where "meth \<in> set allMethods" "urlparse url DEFAULT_SCHEME = Inr p"
    "pr_scheme p \<in> set allSchemes" "str_startswith (pr_path p) api_root"
    unfolding create_via_def rbind_def by (force split: if_splits sum.splits)
  then show ?thesis
    using that by (auto simp: str_startswith_iff)
qed

text \<open>
  C28: even then the factory never returns an object of a subclass: it returns a plain
  \<open>RestconfUrl\<close> when the path is the API root, with at most a slash after it, and raises for
  every other path. \<open>restconf/data\<close>, \<open>restconf/operations\<close> and \<open>restconf/yang-library-version\<close>
  are refused, since the slice that is compared is one character too short.
\<close>

theorem create_never_dispatches:
  assumes "create_via Inr url meth api_root = Inr u"
  shows "ru_class u = BaseUrl \<and> resource_api u = None \<and>
    (url_resource u = '''' \<or> url_resource u = ''/'')"
proof -
  from assms obtain p api where p: "urlparse url DEFAULT_SCHEME = Inr p" "pr_path p = api_root @ api"
    "pr_scheme p \<in> set allSchemes" "meth \<in> set allMethods"
    by (rule create_via_Inr)
  from assms create_via_path [OF p(4,1,3,2)]
  have api: "api = '''' \<or> api = ''/''" and u: "RestconfUrl_via Inr BaseUrl url meth api_root = Inr u"
    by (auto split: if_splits)
  from u p(1,2) have "ru_class u = BaseUrl" and "ru_resource u = api"
    by (auto simp: RestconfUrl_via_def parse_entry_def parse_resource_def Let_def split: if_splits)
  with api show ?thesis by (simp add: resource_api_def url_resource_def)
qed

lemma sample_url:
  "urlparse ''restconf/'' DEFAULT_SCHEME =
     Inr \<lparr>pr_scheme = ''http'', pr_netloc = '''', pr_path = ''restconf/'', pr_params = '''',
          pr_query = '''', pr_fragment = ''''\<rparr>"
  by (simp add: urlparse_def split_scheme_def split_netloc_def split_once_def DEFAULT_SCHEME_def)

lemma upper_GET: "str_upper ''GET'' = ''GET''"
  by (simp add: str_upper_def ascii_lowercase_def ascii_uppercase_def)

lemma sample_create:
  "\<exists>u. create_via Inr ''restconf/'' ''GET'' ''restconf'' = Inr u"
proof -
  have "create_via Inr ''restconf/'' ''GET'' ''restconf'' = RestconfUrl_via Inr BaseUrl ''restconf/'' ''GET'' ''restconf''"
    using create_via_path [OF _ sample_url, of "''GET''" "''restconf''" "''/''"]
    by (simp add: allMethods_def allSchemes_def)
  then show ?thesis
    using restconf_url_via_path [OF _ sample_url, of "''GET''" BaseUrl "''restconf''"]
    by (simp add: upper_GET allMethods_def str_startswith_def)
qed

theorem create_never_dispatches_witness:
  "\<exists>u. create_via Inr ''restconf/'' ''GET'' ''restconf'' = Inr u \<and> resource_api u = None"
  using sample_create create_never_dispatches by metis

text \<open>
  A URL with a network location, such as \<open>http://host/restconf/data\<close>, is refused by the
  constructor and by the factory for every API root that is not empty and does not start with
  a slash, the default \<open>restconf\<close> among them: its path is empty or starts with a slash.
\<close>

theorem absolute_url_refused:
  assumes "urlparse url DEFAULT_SCHEME = Inr p" and "pr_netloc p \<noteq> []"
    and "api_root \<noteq> []" and "hd api_root \<noteq> CHR ''/''"
  shows "(\<exists>e. RestconfUrl_via Inr cls url meth api_root = Inl (ValueError e)) \<and>
    (\<exists>e. create_via Inr url meth api_root = Inl (ValueError e))"
proof -
  have no: "\<not> str_startswith (pr_path p) api_root"
    using urlparse_netloc_rooted [OF assms(1,2)] rooted_not_startswith assms(3,4) by blast
  then show ?thesis
    by (simp add: RestconfUrl_via_def create_via_def parse_entry_def Let_def assms(1)
        bad_method_def bad_root_def bad_scheme_def)
qed

theorem absolute_url_refused_witness:
  "\<exists>e. create_via Inr ''http://a/restconf'' ''GET'' ''restconf'' = Inl (ValueError e)"
proof -
  have "\<exists>p. urlparse ''http://a/restconf'' DEFAULT_SCHEME = Inr p \<and> pr_netloc p \<noteq> []"
    by (simp add: urlparse_def split_scheme_def split_netloc_def split_once_def DEFAULT_SCHEME_def
        str_before_def str_after_def netloc_end_def)
  then show ?thesis
    using absolute_url_refused [of "''http://a/restconf''" _ "''restconf''"] by auto
qed

end
