(* ===== verification/Requests.thy ===== *)
theory Requests
  imports Contracts
begin

section \<open>Requests\<close>

text \<open>
  The class \<open>Request\<close> (\<open>tools/restconf/message/request.py\<close>), the base of the requests from client to
  server. Its property \<open>content\<close> is a stub: reading it gives \<open>None\<close> and the setter does nothing. An
  instance is given by the dictionary of its attributes.
\<close>

record request =
  rq_attributes :: "(string, string) pydict"

definition request_content :: "request \<Rightarrow> string option" where
  "request_content self = None"

definition set_request_content :: "string option \<Rightarrow> request \<Rightarrow> request" where
  "set_request_content value self = self"

text \<open>Whatever is assigned to \<open>content\<close>, in any sequence, nothing is kept.\<close>

lemma request_content_lost:
  "fold set_request_content values self = self \<and> request_content (fold set_request_content values self) = None"
  by (induction "values") (simp_all add: set_request_content_def request_content_def)

end
