(* ===== verification/Elements.thy ===== *)
theory Elements
  imports Contracts
begin

section \<open>XML elements\<close>

text \<open>
  What the code uses of the module \<open>xml.etree.ElementTree\<close>: an element has a tag, in which
  a namespace stands in braces before the name, a dictionary of attributes, and children.
  The text of an element is left out, since no modelled code reads it. The two searches are
  the ones the code writes: \<open>findall\<close> and \<open>find\<close> for a tag among the children, and the
  children that have an attribute \<open>name\<close>.
\<close>

datatype element = Element (tag: string) (attrib: "(string, string) pydict") (children: "element list")

definition el_attr :: "element \<Rightarrow> string \<Rightarrow> string option" where
  "el_attr n a = dict_get (attrib n) a"

text \<open>\<open>node.findall(t)\<close> and \<open>node.find('./' + t)\<close> for a tag \<open>t\<close>.\<close>

definition find_all :: "string \<Rightarrow> element \<Rightarrow> element list" where
  "find_all t node = filter (\<lambda>n. tag n = t) (children node)"

definition find_first :: "string \<Rightarrow> element \<Rightarrow> element option" where
  "find_first t node = (case find_all t node of [] \<Rightarrow> None | n # _ \<Rightarrow> Some n)"

text \<open>\<open>node.findall('./*[@a]')\<close>: the children with an attribute \<open>a\<close>.\<close>

definition find_with_attr :: "string \<Rightarrow> element \<Rightarrow> element list" where
  "find_with_attr a node = filter (\<lambda>n. el_attr n a \<noteq> None) (children node)"

text \<open>\<open>str(QName(ns, name))\<close>: an empty name leaves the namespace alone.\<close>

definition qname :: "string \<Rightarrow> string \<Rightarrow> string" where
  "qname ns name = (if name = [] then ns else ''{'' @ ns @ ''}'' @ name)"

lemma find_with_attr_children: "n \<in> set (find_with_attr a node) \<Longrightarrow> n \<in> set (children node)"
  by (simp add: find_with_attr_def)

end
