(* ===== verification/Helpers.thy ===== *)
theory Helpers
  imports Elements
begin

section \<open>RESTCONF helpers of the mock device: time stamps and entity tags\<close>

text \<open>
  The classes \<open>RestconfDataHelper\<close>, \<open>RestconfConfigHelper\<close> and \<open>RestconfStatusHelper\<close>
  (\<open>tools/mockDevice/restconfDataHelper.py\<close>, \<open>restconfConfigHelper.py\<close>,
  \<open>restconfStatusHelper.py\<close>) and the time stamp and entity tag of the whole datastore in
  \<open>tools/mockDevice/dataModels.py\<close>. Helpers point to their parents and are changed in
  place, so they live in a store (\<open>rs_heap\<close>): the address of a helper is its place in the
  order of creation. A time stamp or tag that an instance has not assigned is read from
  the class (\<open>rs_class_ts\<close>, \<open>rs_class_tag\<close>). The clock and the generator of UUIDs are
  given by what their successive calls return (\<open>env\<close>), with the calls counted in the state.
  \<open>set_modified\<close> walks up the parents; it is a \<open>partial_function\<close>, with \<open>None\<close> for a walk
  that does not end.
\<close>

type_synonym datetime = int

record env =
  utcnow :: "nat \<Rightarrow> datetime"
  uuid4 :: "nat \<Rightarrow> string"

datatype helper_class = RestconfDataHelper | RestconfConfigHelper | RestconfStatusHelper

record helper =
  h_class :: helper_class
  h_parent :: "nat option"
  h_node :: element
  h_lastModified :: "datetime option"
  h_eTag :: "string option"

record rstate =
  rs_heap :: "helper list"
  rs_class_ts :: datetime
  rs_class_tag :: string
  rs_datastore_ts :: datetime
  rs_datastore_tag :: string
  rs_clock :: nat
  rs_uuids :: nat

subsection \<open>Operations\<close>

text \<open>The constructors: the three classes only store the node and the parent.\<close>

definition new_helper ::
  "helper_class \<Rightarrow> element \<Rightarrow> nat option \<Rightarrow> rstate \<Rightarrow> nat \<times> rstate" where
  "new_helper cls node parent s =
     (length (rs_heap s),
      s\<lparr>rs_heap := rs_heap s @ [\<lparr>h_class = cls, h_parent = parent, h_node = node,
          h_lastModified = None, h_eTag = None\<rparr>]\<rparr>)"

text \<open>The method \<open>is_config\<close> of the three classes, and \<open>is_container\<close>.\<close>

definition is_config :: "helper \<Rightarrow> bool" where
  "is_config h =
     (case h_class h of
        RestconfDataHelper \<Rightarrow> False
      | RestconfConfigHelper \<Rightarrow> True
      | RestconfStatusHelper \<Rightarrow> False)"

definition is_container :: "helper \<Rightarrow> bool" where
  "is_container h = False"

definition last_modified_timestamp :: "rstate \<Rightarrow> helper \<Rightarrow> datetime" where
  "last_modified_timestamp s h =
     (case h_lastModified h of None \<Rightarrow> rs_class_ts s | Some ts \<Rightarrow> ts)"

definition entity_tag :: "rstate \<Rightarrow> helper \<Rightarrow> string" where
  "entity_tag s h = (case h_eTag h of None \<Rightarrow> rs_class_tag s | Some t \<Rightarrow> t)"

text \<open>\<open>__str__\<close> of the two subclasses; \<open>fmt\<close> prints a time.\<close>

definition node_name :: "helper \<Rightarrow> string res" where
  "node_name h =
     (case el_attr (h_node h) ''name'' of None \<Rightarrow> Inl (KeyError ''name'') | Some n \<Rightarrow> Inr n)"

definition config_helper_str :: "(datetime \<Rightarrow> string) \<Rightarrow> rstate \<Rightarrow> helper \<Rightarrow> string res" where
  "config_helper_str fmt s h =
     rbind (node_name h) (\<lambda>n.
       Inr (''RestconfConfigHelper: '' @ n @ '', LastModified: '' @ fmt (last_modified_timestamp s h)))"

definition status_helper_str :: "helper \<Rightarrow> string res" where
  "status_helper_str h = rbind (node_name h) (\<lambda>n. Inr (''RestconfStatusHelper: '' @ n))"

definition update_datastore :: "datetime \<Rightarrow> string \<Rightarrow> rstate \<Rightarrow> rstate" where
  "update_datastore ts t s = s\<lparr>rs_datastore_ts := ts, rs_datastore_tag := t\<rparr>"

definition class_at :: "rstate \<Rightarrow> nat \<Rightarrow> helper_class option" where
  "class_at s a = (if a < length (rs_heap s) then Some (h_class (rs_heap s ! a)) else None)"

definition no_set_modified :: pyexc where
  "no_set_modified = AttributeError (''object has no attribute '' @ quoted ''set_modified'')"

text \<open>
  \<open>set_modified(updateTime=...)\<close>: the default of \<open>kwargs.get\<close> is computed in any case, so
  the clock is read at every level. The handler around the call on the parent prints a line
  and raises the exception again. An address of no helper counts as an object
  without the method; in a state with \<open>heap_ok\<close> there is none.
\<close>

definition stamp :: "env \<Rightarrow> nat \<Rightarrow> datetime option \<Rightarrow> rstate \<Rightarrow> rstate" where
  "stamp env a updateTime s =
     (let ts = (case updateTime of None \<Rightarrow> utcnow env (rs_clock s) | Some u \<Rightarrow> u);
          t = uuid4 env (rs_uuids s);
          h = (rs_heap s ! a)\<lparr>h_lastModified := Some ts, h_eTag := Some t\<rparr>
      in update_datastore ts t
           (s\<lparr>rs_heap := (rs_heap s)[a := h], rs_clock := Suc (rs_clock s), rs_uuids := Suc (rs_uuids s)\<rparr>))"

partial_function (option) set_modified ::
  "env \<Rightarrow> nat \<Rightarrow> datetime option \<Rightarrow> rstate \<Rightarrow> (unit res \<times> rstate) option" where
  "set_modified env a updateTime s =
     (if class_at s a \<noteq> Some RestconfConfigHelper then Some (Inl no_set_modified, s)
      else
        (case h_parent (rs_heap s ! a) of
           None \<Rightarrow> Some (Inr (), stamp env a updateTime s)
         | Some p \<Rightarrow>
             set_modified env p (h_lastModified (rs_heap (stamp env a updateTime s) ! a))
               (stamp env a updateTime s)))"

definition set_last_modified_timestamp ::
  "env \<Rightarrow> nat \<Rightarrow> datetime \<Rightarrow> rstate \<Rightarrow> (unit res \<times> rstate) option" where
  "set_last_modified_timestamp env a updateTime s = set_modified env a (Some updateTime) s"

subsection \<open>The store of helpers as an interface\<close>

text \<open>
  What the reader of YIN files relies on: creating a helper yields a new address, leaves
  the others alone, and records the parent and the kind. From these laws alone, parents stay older than
  their children, and if a configurable helper is only created under configurable parents,
  no configurable helper ever has a parent that is not.
\<close>

locale helper_store =
  fixes size_of :: "'s \<Rightarrow> nat"
    and par :: "'s \<Rightarrow> nat \<Rightarrow> nat option"
    and cfg :: "'s \<Rightarrow> nat \<Rightarrow> bool"
    and new :: "bool \<Rightarrow> 'n \<Rightarrow> nat option \<Rightarrow> 's \<Rightarrow> nat \<times> 's"
  assumes new_address: "fst (new c n p s) = size_of s"
    and new_size: "size_of (snd (new c n p s)) = Suc (size_of s)"
    and new_par: "par (snd (new c n p s)) a = (if a = size_of s then p else par s a)"
    and new_cfg: "cfg (snd (new c n p s)) a = (if a = size_of s then c else cfg s a)"
begin

lemma new_keeps_forest:
  assumes "\<And>a q. a < size_of s \<Longrightarrow> par s a = Some q \<Longrightarrow> q < a"
    and "\<And>q. p = Some q \<Longrightarrow> q < size_of s"
    and "a < size_of (snd (new c n p s))" and "par (snd (new c n p s)) a = Some q"
  shows "q < a"
  using assms by (auto simp: new_size new_par less_Suc_eq split: if_splits)

lemma new_keeps_config_closed:
  assumes "\<And>a q. a < size_of s \<Longrightarrow> par s a = Some q \<Longrightarrow> q < a"
    and "\<And>a q. a < size_of s \<Longrightarrow> cfg s a \<Longrightarrow> par s a = Some q \<Longrightarrow> cfg s q"
    and "\<And>q. p = Some q \<Longrightarrow> q < size_of s" and "\<And>q. c \<Longrightarrow> p = Some q \<Longrightarrow> cfg s q"
    and "a < size_of (snd (new c n p s))" and "cfg (snd (new c n p s)) a"
    and "par (snd (new c n p s)) a = Some q"
  shows "cfg (snd (new c n p s)) q"
proof (cases "a = size_of s")
  case True
  with assms(3,4,6,7) show ?thesis by (auto simp: new_par new_cfg)
next
  case False
  with assms(5) have "a < size_of s" by (simp add: new_size)
  with False assms(1,2,6,7) show ?thesis
    by (force simp: new_par new_cfg)
qed

end

definition class_of_flag :: "bool \<Rightarrow> helper_class" where
  "class_of_flag c = (if c then RestconfConfigHelper else RestconfStatusHelper)"

definition heap_size :: "rstate \<Rightarrow> nat" where
  "heap_size s = length (rs_heap s)"

definition parent_at :: "rstate \<Rightarrow> nat \<Rightarrow> nat option" where
  "parent_at s a = (if a < length (rs_heap s) then h_parent (rs_heap s ! a) else None)"

definition config_at :: "rstate \<Rightarrow> nat \<Rightarrow> bool" where
  "config_at s a \<longleftrightarrow> class_at s a = Some RestconfConfigHelper"

interpretation hs: helper_store heap_size parent_at config_at "\<lambda>c. new_helper (class_of_flag c)"
  by unfold_locales
    (auto simp: new_helper_def heap_size_def parent_at_def config_at_def class_at_def
      class_of_flag_def nth_append)

subsection \<open>Well-formed stores and ancestor chains\<close>

definition heap_ok :: "rstate \<Rightarrow> bool" where
  "heap_ok s \<longleftrightarrow> (\<forall>a < heap_size s. \<forall>p. parent_at s a = Some p \<longrightarrow> p < a)"

definition config_closed :: "rstate \<Rightarrow> bool" where
  "config_closed s \<longleftrightarrow>
     (\<forall>a < heap_size s. \<forall>p. config_at s a \<longrightarrow> parent_at s a = Some p \<longrightarrow> config_at s p)"

definition parent_ok :: "bool \<Rightarrow> nat option \<Rightarrow> rstate \<Rightarrow> bool" where
  "parent_ok c p s \<longleftrightarrow> (\<forall>q. p = Some q \<longrightarrow> q < heap_size s \<and> (c \<longrightarrow> config_at s q))"

lemma heap_ok_new: "heap_ok s \<Longrightarrow> parent_ok c p s \<Longrightarrow> heap_ok (snd (new_helper (class_of_flag c) n p s))"
  unfolding heap_ok_def parent_ok_def using hs.new_keeps_forest by blast

lemma config_closed_new:
  "heap_ok s \<Longrightarrow> config_closed s \<Longrightarrow> parent_ok c p s \<Longrightarrow>
   config_closed (snd (new_helper (class_of_flag c) n p s))"
  unfolding heap_ok_def config_closed_def parent_ok_def using hs.new_keeps_config_closed by blast

text \<open>The helper at an address and its ancestors, the closest first.\<close>

function ancestors :: "rstate \<Rightarrow> nat \<Rightarrow> nat list" where
  "ancestors s a =
     (case parent_at s a of
        None \<Rightarrow> [a]
      | Some p \<Rightarrow> if p < a then a # ancestors s p else [a])"
  by pat_completeness auto
termination
  by (relation "measure snd") auto

declare ancestors.simps [simp del]

lemma ancestors_None: "parent_at s a = None \<Longrightarrow> ancestors s a = [a]"
  by (simp add: ancestors.simps)

lemma ancestors_Some: "parent_at s a = Some p \<Longrightarrow> p < a \<Longrightarrow> ancestors s a = a # ancestors s p"
  by (simp add: ancestors.simps [of s a])

lemma ancestors_self: "ancestors s a = a # tl (ancestors s a)"
  by (simp add: ancestors.simps split: option.split)

lemma ancestors_sorted: "sorted_wrt (>) (ancestors s a)" and ancestors_le: "b \<in> set (ancestors s a) \<Longrightarrow> b \<le> a"
proof -
  have "sorted_wrt (>) (ancestors s a) \<and> (\<forall>b \<in> set (ancestors s a). b \<le> a)"
  proof (induction s a rule: ancestors.induct)
    case (1 s a)
    show ?case
    proof (cases "parent_at s a")
      case None
      then show ?thesis by (simp add: ancestors_None)
    next
      case (Some p)
      show ?thesis
      proof (cases "p < a")
        case True
        with "1.IH" Some have "sorted_wrt (>) (ancestors s p)" "\<forall>b \<in> set (ancestors s p). b \<le> p"
          by blast+
        with True Some show ?thesis by (auto simp: ancestors_Some)
      next
        case False
        with Some show ?thesis by (subst ancestors.simps, subst ancestors.simps) simp
      qed
    qed
  qed
  then show "sorted_wrt (>) (ancestors s a)" and "b \<in> set (ancestors s a) \<Longrightarrow> b \<le> a"
    by blast+
qed

lemma ancestors_distinct: "distinct (ancestors s a)"
  using ancestors_sorted [of s a] by (induction "ancestors s a" arbitrary: a rule: list.induct)
    (auto simp: strict_sorted_iff sorted_wrt_iff_nth_less distinct_conv_nth nat_neq_iff)

lemma ancestors_config:
  "config_closed s \<Longrightarrow> heap_ok s \<Longrightarrow> a < heap_size s \<Longrightarrow> config_at s a \<Longrightarrow>
   \<forall>b \<in> set (ancestors s a). config_at s b"
proof (induction s a rule: ancestors.induct)
  case (1 s a)
  show ?case
  proof (cases "parent_at s a")
    case None
    with "1.prems" show ?thesis by (simp add: ancestors_None)
  next
    case (Some p)
    with "1.prems" have "p < a" and cp: "config_at s p"
      by (auto simp: heap_ok_def config_closed_def)
    with "1.prems" have "p < heap_size s" by simp
    with "1.IH" [OF Some \<open>p < a\<close>] "1.prems" cp have "\<forall>b \<in> set (ancestors s p). config_at s b"
      by simp
    with Some \<open>p < a\<close> "1.prems" show ?thesis by (simp add: ancestors_Some)
  qed
qed

subsection \<open>The walk of \<open>set_modified\<close>\<close>

text \<open>The stamps of a whole chain, with one time.\<close>

fun stamp_chain :: "env \<Rightarrow> datetime \<Rightarrow> nat list \<Rightarrow> rstate \<Rightarrow> rstate" where
  "stamp_chain env ts [] s = s"
| "stamp_chain env ts (a # as) s = stamp_chain env ts as (stamp env a (Some ts) s)"

definition update_time :: "env \<Rightarrow> datetime option \<Rightarrow> rstate \<Rightarrow> datetime" where
  "update_time env updateTime s =
     (case updateTime of None \<Rightarrow> utcnow env (rs_clock s) | Some u \<Rightarrow> u)"

lemma stamp_heap_size [simp]: "heap_size (stamp env a u s) = heap_size s"
  by (simp add: stamp_def heap_size_def update_datastore_def Let_def)

lemma stamp_parent_at [simp]: "parent_at (stamp env a u s) b = parent_at s b"
  by (cases "a = b") (auto simp: stamp_def parent_at_def update_datastore_def Let_def)

lemma stamp_class_at [simp]: "class_at (stamp env a u s) b = class_at s b"
  by (cases "a = b") (auto simp: stamp_def class_at_def update_datastore_def Let_def)

lemma stamp_config_at [simp]: "config_at (stamp env a u s) b = config_at s b"
  by (simp add: config_at_def)

lemma stamp_ancestors [simp]: "ancestors (stamp env a u s) b = ancestors s b"
proof (induction s b rule: ancestors.induct)
  case (1 s b)
  then show ?case
    by (subst (1 2) ancestors.simps) (simp split: option.split)
qed

lemma stamp_heap_ok [simp]: "heap_ok (stamp env a u s) = heap_ok s"
  by (simp add: heap_ok_def)

lemma stamp_Some: "stamp env a u s = stamp env a (Some (update_time env u s)) s"
  by (simp add: stamp_def update_time_def split: option.split)

lemma stamp_lastModified:
  "a < heap_size s \<Longrightarrow> h_lastModified (rs_heap (stamp env a u s) ! a) = Some (update_time env u s)"
  by (simp add: stamp_def update_datastore_def heap_size_def update_time_def Let_def)

text \<open>The chain as far as it is configurable, and whether that is all of it.\<close>

definition config_prefix :: "rstate \<Rightarrow> nat \<Rightarrow> nat list" where
  "config_prefix s a = takeWhile (config_at s) (ancestors s a)"

definition chain_result :: "rstate \<Rightarrow> nat \<Rightarrow> unit res" where
  "chain_result s a = (if \<forall>b \<in> set (ancestors s a). config_at s b then Inr () else Inl no_set_modified)"

lemma chain_not_config:
  assumes "\<not> config_at s a"
  shows "config_prefix s a = []" and "chain_result s a = Inl no_set_modified"
proof -
  obtain as where as: "ancestors s a = a # as" using ancestors_self by metis
  with assms show "config_prefix s a = []" and "chain_result s a = Inl no_set_modified"
    by (auto simp: config_prefix_def chain_result_def)
qed

lemma chain_root:
  assumes "config_at s a" and "parent_at s a = None"
  shows "config_prefix s a = [a]" and "chain_result s a = Inr ()"
  using assms by (simp_all add: config_prefix_def chain_result_def ancestors_None)

lemma chain_step:
  assumes "config_at s a" and "parent_at s a = Some p" and "p < a"
  shows "config_prefix s a = a # config_prefix s p" and "chain_result s a = chain_result s p"
  using assms by (simp_all add: config_prefix_def chain_result_def ancestors_Some)

lemma chain_stamp [simp]:
  "config_prefix (stamp env b u s) a = config_prefix s a"
  "chain_result (stamp env b u s) a = chain_result s a"
proof -
  have "config_at (stamp env b u s) = config_at s" by (rule ext) simp
  then show "config_prefix (stamp env b u s) a = config_prefix s a"
    and "chain_result (stamp env b u s) a = chain_result s a"
    by (simp_all add: config_prefix_def chain_result_def)
qed

lemma set_modified_root:
  "config_at s a \<Longrightarrow> parent_at s a = None \<Longrightarrow> a < heap_size s \<Longrightarrow>
   set_modified env a u s = Some (Inr (), stamp env a u s)"
  by (subst set_modified.simps) (simp add: config_at_def parent_at_def heap_size_def)

lemma set_modified_step:
  "config_at s a \<Longrightarrow> parent_at s a = Some p \<Longrightarrow> a < heap_size s \<Longrightarrow>
   set_modified env a u s = set_modified env p (Some (update_time env u s)) (stamp env a u s)"
  using stamp_lastModified [of a s env u]
  by (subst set_modified.simps) (simp add: config_at_def parent_at_def heap_size_def)

lemma set_modified_not_config:
  "\<not> config_at s a \<Longrightarrow> set_modified env a u s = Some (Inl no_set_modified, s)"
  by (subst set_modified.simps) (simp add: config_at_def)

lemma set_modified_walk:
  "heap_ok s \<Longrightarrow> a < heap_size s \<Longrightarrow>
   set_modified env a u s =
     Some (chain_result s a, stamp_chain env (update_time env u s) (config_prefix s a) s)"
proof (induction a arbitrary: s u rule: less_induct)
  case (less a)
  show ?case
  proof (cases "config_at s a")
    case False
    then show ?thesis
      by (simp add: set_modified_not_config chain_not_config)
  next
    case cfg: True
    show ?thesis
    proof (cases "parent_at s a")
      case None
      with cfg less.prems show ?thesis
        by (simp add: set_modified_root chain_root flip: stamp_Some)
    next
      case (Some p)
      with less.prems have "p < a" and "p < heap_size s"
        by (auto simp: heap_ok_def)
      let ?s1 = "stamp env a u s" and ?t = "update_time env u s"
      have "set_modified env p (Some ?t) ?s1 =
          Some (chain_result s p, stamp_chain env ?t (config_prefix s p) ?s1)"
        using less.IH [OF \<open>p < a\<close>, of ?s1 "Some ?t"] less.prems \<open>p < heap_size s\<close>
        by (simp add: update_time_def)
      with cfg Some \<open>p < a\<close> less.prems show ?thesis
        by (simp add: set_modified_step chain_step flip: stamp_Some)
    qed
  qed
qed

subsection \<open>What a walk leaves behind\<close>

lemma stamp_chain_size [simp]: "heap_size (stamp_chain env ts as s) = heap_size s"
  by (induction as arbitrary: s) auto

lemma stamp_chain_structure [simp]:
  "parent_at (stamp_chain env ts as s) b = parent_at s b"
  "class_at (stamp_chain env ts as s) b = class_at s b"
  by (induction as arbitrary: s) auto

lemma stamp_chain_heap_ok [simp]: "heap_ok (stamp_chain env ts as s) = heap_ok s"
  by (simp add: heap_ok_def)

lemma stamp_chain_config_closed [simp]: "config_closed (stamp_chain env ts as s) = config_closed s"
  by (simp add: config_closed_def config_at_def)

lemma stamp_chain_counts:
  "rs_clock (stamp_chain env ts as s) = rs_clock s + length as \<and>
   rs_uuids (stamp_chain env ts as s) = rs_uuids s + length as"
  by (induction as arbitrary: s) (auto simp: stamp_def update_datastore_def Let_def)

lemma stamp_chain_datastore:
  "as \<noteq> [] \<Longrightarrow>
   rs_datastore_ts (stamp_chain env ts as s) = ts \<and>
   rs_datastore_tag (stamp_chain env ts as s) = uuid4 env (rs_uuids s + (length as - 1))"
proof (induction as arbitrary: s)
  case Nil
  then show ?case by simp
next
  case (Cons a as)
  have "rs_uuids (stamp env a (Some ts) s) = Suc (rs_uuids s)"
    by (simp add: stamp_def update_datastore_def Let_def)
  with Cons.IH [of "stamp env a (Some ts) s"] show ?case
    by (cases as) (auto simp: stamp_def update_datastore_def Let_def)
qed

lemma stamp_other: "b \<noteq> a \<Longrightarrow> rs_heap (stamp env a u s) ! b = rs_heap s ! b"
  by (simp add: stamp_def update_datastore_def Let_def)

lemma stamp_chain_other: "b \<notin> set as \<Longrightarrow> rs_heap (stamp_chain env ts as s) ! b = rs_heap s ! b"
  by (induction as arbitrary: s) (auto simp: stamp_other)

lemma stamp_chain_helper:
  "distinct as \<Longrightarrow> \<forall>a \<in> set as. a < heap_size s \<Longrightarrow> i < length as \<Longrightarrow>
   rs_heap (stamp_chain env ts as s) ! (as ! i) =
     (rs_heap s ! (as ! i))\<lparr>h_lastModified := Some ts, h_eTag := Some (uuid4 env (rs_uuids s + i))\<rparr>"
proof (induction as arbitrary: s i)
  case Nil
  then show ?case by simp
next
  case (Cons a as)
  let ?s1 = "stamp env a (Some ts) s"
  have u: "rs_uuids ?s1 = Suc (rs_uuids s)"
    by (simp add: stamp_def update_datastore_def Let_def)
  show ?case
  proof (cases i)
    case 0
    have "rs_heap (stamp_chain env ts as ?s1) ! a = rs_heap ?s1 ! a"
      using Cons.prems by (simp add: stamp_chain_other)
    with 0 Cons.prems show ?thesis
      by (simp add: stamp_def update_datastore_def Let_def heap_size_def)
  next
    case (Suc j)
    with Cons.prems have "as ! j \<noteq> a" by auto
    with Suc Cons.prems Cons.IH [of ?s1 j] show ?thesis
      by (simp add: u stamp_other)
  qed
qed

lemma stamp_chain_nth:
  "distinct as \<Longrightarrow> \<forall>a \<in> set as. a < heap_size s \<Longrightarrow> i < length as \<Longrightarrow>
   h_lastModified (rs_heap (stamp_chain env ts as s) ! (as ! i)) = Some ts \<and>
   h_eTag (rs_heap (stamp_chain env ts as s) ! (as ! i)) = Some (uuid4 env (rs_uuids s + i))"
  by (simp add: stamp_chain_helper)

text \<open>Apart from the helpers, only the stamps of the datastore and the two counters change.\<close>

lemma stamp_chain_rest:
  "as \<noteq> [] \<Longrightarrow>
   (stamp_chain env ts as s)\<lparr>rs_heap := hs\<rparr> =
     s\<lparr>rs_heap := hs, rs_datastore_ts := ts, rs_datastore_tag := uuid4 env (rs_uuids s + (length as - 1)),
       rs_clock := rs_clock s + length as, rs_uuids := rs_uuids s + length as\<rparr>"
proof (induction as arbitrary: s)
  case Nil
  then show ?case by simp
next
  case (Cons a as)
  from Cons.IH [of "stamp env a (Some ts) s"] show ?case
    by (cases "as = []"; cases "length as") (auto simp: stamp_def update_datastore_def Let_def)
qed

lemma config_prefix_facts:
  "heap_ok s \<Longrightarrow> a < heap_size s \<Longrightarrow> distinct (config_prefix s a)"
  "a < heap_size s \<Longrightarrow> \<forall>b \<in> set (config_prefix s a). b < heap_size s"
  by (auto simp: config_prefix_def distinct_takeWhile ancestors_distinct
      dest!: set_takeWhileD intro: le_less_trans [OF ancestors_le])

text \<open>
  C16: in a store whose parents are older than their children, \<open>set_modified\<close> always ends,
  whatever the kinds of the helpers.
\<close>

theorem set_modified_returns:
  assumes "heap_ok s" and "a < heap_size s"
  shows "\<exists>r s'. set_modified env a updateTime s = Some (r, s') \<and> heap_ok s' \<and> heap_size s' = heap_size s"
  using set_modified_walk [OF assms] assms by simp

text \<open>
  C2: when no configurable helper has a parent that is not, \<open>set_modified\<close> on a
  configurable helper raises nothing and stamps the helper and all its ancestors: each gets
  the one update time and a fresh tag of its own, in the order of the walk, and keeps its kind, parent and node; the
  datastore gets the same time and the tag of the topmost ancestor. Nothing else changes: no helper is made, every other helper
  and the class attributes, which helpers without a stamp report, are as before, and the clock
  and the generator of UUIDs are asked once for each helper stamped.
\<close>

theorem set_modified_stamps_ancestors:
  assumes "heap_ok s" and "config_closed s" and "a < heap_size s" and "config_at s a"
  shows "\<exists>s'. set_modified env a updateTime s = Some (Inr (), s') \<and>
    (\<forall>i < length (ancestors s a).
       last_modified_timestamp s' (rs_heap s' ! (ancestors s a ! i)) = update_time env updateTime s \<and>
       entity_tag s' (rs_heap s' ! (ancestors s a ! i)) = uuid4 env (rs_uuids s + i) \<and>
       rs_heap s' ! (ancestors s a ! i) =
         (rs_heap s ! (ancestors s a ! i))\<lparr>h_lastModified := Some (update_time env updateTime s),
            h_eTag := Some (uuid4 env (rs_uuids s + i))\<rparr>) \<and>
    (\<forall>b. b \<notin> set (ancestors s a) \<longrightarrow> rs_heap s' ! b = rs_heap s ! b) \<and>
    heap_size s' = heap_size s \<and>
    rs_datastore_tag s' = entity_tag s' (rs_heap s' ! last (ancestors s a)) \<and>
    s'\<lparr>rs_heap := rs_heap s\<rparr> =
      s\<lparr>rs_datastore_ts := update_time env updateTime s, rs_datastore_tag := rs_datastore_tag s',
        rs_clock := rs_clock s + length (ancestors s a), rs_uuids := rs_uuids s + length (ancestors s a)\<rparr>"
proof -
  let ?as = "ancestors s a" and ?t = "update_time env updateTime s"
  let ?s' = "stamp_chain env ?t ?as s"
  have all: "\<forall>b \<in> set ?as. config_at s b"
    by (rule ancestors_config [OF assms(2,1,3,4)])
  then have pre: "config_prefix s a = ?as"
    by (simp add: config_prefix_def takeWhile_eq_all_conv)
  have ne: "?as \<noteq> []" by (subst ancestors_self) simp
  have run: "set_modified env a updateTime s = Some (Inr (), ?s')"
    using set_modified_walk [OF assms(1,3)] all by (simp add: pre chain_result_def)
  have nth: "rs_heap ?s' ! (?as ! i) =
      (rs_heap s ! (?as ! i))\<lparr>h_lastModified := Some ?t, h_eTag := Some (uuid4 env (rs_uuids s + i))\<rparr>" if "i < length ?as" for i
    using config_prefix_facts(1) [OF assms(1,3)] config_prefix_facts(2) [OF assms(3)] that
    by (intro stamp_chain_helper) (simp_all add: pre)
  have "last ?as = ?as ! (length ?as - 1)" using ne by (rule last_conv_nth)
  with nth [of "length ?as - 1"] ne stamp_chain_datastore [OF ne, of env ?t s]
  have ds: "rs_datastore_tag ?s' = entity_tag ?s' (rs_heap ?s' ! last ?as)"
    by (simp add: entity_tag_def)
  have rest: "?s'\<lparr>rs_heap := rs_heap s\<rparr> =
      s\<lparr>rs_datastore_ts := ?t, rs_datastore_tag := rs_datastore_tag ?s',
        rs_clock := rs_clock s + length ?as, rs_uuids := rs_uuids s + length ?as\<rparr>"
    using stamp_chain_rest [OF ne, where env = env and ts = ?t and s = s and hs = "rs_heap s"] stamp_chain_datastore [OF ne, of env ?t s] by simp
  show ?thesis
    using run nth ds rest by (intro exI [of _ ?s'])
      (auto simp: last_modified_timestamp_def entity_tag_def stamp_chain_other)
qed

definition sample_node :: element where
  "sample_node = Element ''leaf'' [(''name'', ''a'')] []"

definition sample_state :: rstate where
  "sample_state = \<lparr>rs_heap = [], rs_class_ts = 0, rs_class_tag = ''t'', rs_datastore_ts = 0,
     rs_datastore_tag = ''t'', rs_clock = 0, rs_uuids = 0\<rparr>"

definition sample_env :: env where
  "sample_env = \<lparr>utcnow = int, uuid4 = (\<lambda>n. replicate n CHR ''u'')\<rparr>"

definition two_helpers :: "bool \<Rightarrow> rstate" where
  "two_helpers c = snd (new_helper RestconfConfigHelper sample_node (Some 0)
     (snd (new_helper (class_of_flag c) sample_node None sample_state)))"

lemma two_helpers_ok:
  "heap_ok (two_helpers c)" "heap_size (two_helpers c) = 2" "config_at (two_helpers c) 1"
  "config_at (two_helpers c) 0 = c" "parent_at (two_helpers c) 1 = Some 0"
  "parent_at (two_helpers c) 0 = None"
  by (auto simp: two_helpers_def new_helper_def heap_ok_def heap_size_def parent_at_def sample_state_def
      config_at_def class_at_def class_of_flag_def nth_append less_Suc_eq)

lemma two_helpers_config_closed: "config_closed (two_helpers True)"
  using two_helpers_ok [of True]
  by (auto simp: config_closed_def less_Suc_eq numeral_2_eq_2)

theorem set_modified_returns_witness:
  "\<exists>r s'. set_modified sample_env 1 None (two_helpers False) =
     Some (r, s') \<and> heap_ok s'"
  using set_modified_returns [OF two_helpers_ok(1), of 1 False sample_env None] two_helpers_ok(2) [of False]
  by auto

theorem set_modified_stamps_ancestors_witness:
  "\<exists>s'. set_modified sample_env 1 None (two_helpers True) =
     Some (Inr (), s') \<and> rs_class_ts s' = rs_class_ts (two_helpers True)"
  using set_modified_stamps_ancestors [OF two_helpers_ok(1) two_helpers_config_closed, of 1 sample_env None]
    two_helpers_ok(2,3) [of True]
  by (auto dest!: arg_cong [where f = rs_class_ts])

text \<open>
  C20: when some ancestor of a configurable helper is not configurable, \<open>set_modified\<close>
  raises an \<open>AttributeError\<close> after it has stamped the helper and the ancestors below that one,
  and these stamps, and those of the datastore, stay.
\<close>

theorem set_modified_partial_failure:
  assumes "heap_ok s" and "a < heap_size s" and "config_at s a"
    and "b \<in> set (ancestors s a)" and "\<not> config_at s b"
  shows "\<exists>s'. set_modified env a updateTime s = Some (Inl no_set_modified, s') \<and>
    h_lastModified (rs_heap s' ! a) = Some (update_time env updateTime s) \<and>
    rs_datastore_ts s' = update_time env updateTime s \<and>
    rs_heap s' ! b = rs_heap s ! b"
proof -
  let ?as = "config_prefix s a" and ?t = "update_time env updateTime s"
  let ?s' = "stamp_chain env ?t ?as s"
  have run: "set_modified env a updateTime s = Some (Inl no_set_modified, ?s')"
    using set_modified_walk [OF assms(1,2)] assms(4,5) by (auto simp: chain_result_def)
  obtain as where "ancestors s a = a # as" using ancestors_self by metis
  with assms(3) have as: "?as ! 0 = a" "?as \<noteq> []"
    by (simp_all add: config_prefix_def)
  have "h_lastModified (rs_heap ?s' ! (?as ! 0)) = Some ?t"
    using stamp_chain_nth [OF config_prefix_facts(1) [OF assms(1,2)] config_prefix_facts(2) [OF assms(2)], of 0]
      as(2) by simp
  moreover have "b \<notin> set ?as"
    using assms(5) by (auto simp: config_prefix_def dest: set_takeWhileD)
  ultimately show ?thesis
    using run as stamp_chain_datastore [OF as(2), of env ?t s]
    by (intro exI [of _ ?s']) (simp add: stamp_chain_other)
qed

theorem set_modified_partial_failure_witness:
  "\<exists>s'. set_modified sample_env 1 None (two_helpers False) =
     Some (Inl no_set_modified, s') \<and> rs_heap s' ! 0 = rs_heap (two_helpers False) ! 0"
proof -
  have "ancestors (two_helpers False) 1 = [1, 0]"
    using ancestors_Some [OF two_helpers_ok(5) [of False]] ancestors_None [OF two_helpers_ok(6) [of False]]
    by simp
  then show ?thesis
    using set_modified_partial_failure [OF two_helpers_ok(1), of 1 False 0 sample_env None] two_helpers_ok(2,3,4) [of False]
    by auto
qed

end
