(* ===== verification/YinFile.thy ===== *)
theory YinFile
  imports Helpers
begin

section \<open>YIN files\<close>

text \<open>
  The class \<open>YINFile\<close> (\<open>tools/mockDevice/yinFile.py\<close>): the names of a YIN document with and
  without its namespace, the module name and revision, and the walk that pairs the tree of
  a generated class with the YIN elements and creates one helper for each node. The
  document is given by its root element. Lines printed for \<open>verbose\<close> are left out. The
  values a generated class reports are dictionaries (\<open>VDict\<close>, in their iteration order)
  or something else (\<open>VOther\<close>).
\<close>

definition important_keywords :: "string list" where
  "important_keywords =
     [''container'', ''list'', ''leaf'', ''leaf-list'', ''choice'', ''anyxml'', ''uses'']"

record yinfile =
  yf_path :: string
  yf_root :: element
  yf_namespace :: "string option"
  yf_keywords :: "string list"

definition with_namespace :: "string option \<Rightarrow> string \<Rightarrow> string" where
  "with_namespace ns name = (case ns of None \<Rightarrow> name | Some u \<Rightarrow> qname u name)"

definition get_name_with_namespace :: "yinfile \<Rightarrow> string \<Rightarrow> string" where
  "get_name_with_namespace yf name = with_namespace (yf_namespace yf) name"

definition get_name_wo_namespace :: "yinfile \<Rightarrow> string \<Rightarrow> string" where
  "get_name_wo_namespace yf fullname =
     (case yf_namespace yf of
        None \<Rightarrow> fullname
      | Some ns \<Rightarrow> str_replace (''{'' @ ns @ ''}'') '''' fullname)"

text \<open>The constructor, after the document is parsed: an empty tag has no first character.\<close>

definition YINFile :: "string \<Rightarrow> element \<Rightarrow> yinfile res" where
  "YINFile file_path root =
     (case tag root of
        [] \<Rightarrow> Inl (IndexError ''string index out of range'')
      | c # rest \<Rightarrow>
          (let ns = (if c = CHR ''{'' then Some (str_before (CHR ''}'') rest) else None) in
           Inr \<lparr>yf_path = file_path, yf_root = root, yf_namespace = ns,
                yf_keywords = map (with_namespace ns) important_keywords\<rparr>))"

definition yin_str :: "yinfile \<Rightarrow> string" where
  "yin_str yf = ''YINFile: '' @ yf_path yf"

definition yin_file_path :: "yinfile \<Rightarrow> string" where
  "yin_file_path yf = yf_path yf"

definition yin_module_name :: "yinfile \<Rightarrow> string option" where
  "yin_module_name yf = el_attr (yf_root yf) ''name''"

definition yin_namespace :: "yinfile \<Rightarrow> string option" where
  "yin_namespace yf = yf_namespace yf"

text \<open>The method \<open>is_config\<close> of the class has no body and returns \<open>None\<close>.\<close>

definition yin_is_config :: "yinfile \<Rightarrow> element \<Rightarrow> bool \<Rightarrow> bool option" where
  "yin_is_config yf element include_children = None"

subsection \<open>The module revision\<close>

text \<open>
  \<open>datetime.strptime(data, format)\<close>. A format without directives is matched character by
  character, upper and lower case alike, a run of white space in it against a run of white
  space in the data; the date is then the default one. Formats with directives are left to
  the argument \<open>directives\<close>.
\<close>

definition fold_case :: "char \<Rightarrow> char" where
  "fold_case c = shift_case ascii_uppercase ascii_lowercase c"

function literal_match :: "string \<Rightarrow> string \<Rightarrow> string option" where
  "literal_match data [] = Some data"
| "literal_match data (f # fs) =
     (if is_space f then
        (if data \<noteq> [] \<and> is_space (hd data)
         then literal_match (dropWhile is_space data) (dropWhile is_space fs) else None)
      else
        (case data of
           [] \<Rightarrow> None
         | x # xs \<Rightarrow> if fold_case x = fold_case f then literal_match xs fs else None))"
  by pat_completeness auto
termination
  by (relation "measure (\<lambda>(d, f). length f)") (auto simp: less_Suc_eq_le length_dropWhile_le)

definition strptime ::
  "(string \<Rightarrow> string \<Rightarrow> datetime res) \<Rightarrow> string \<Rightarrow> string \<Rightarrow> datetime res" where
  "strptime directives data format =
     (if CHR ''%'' \<in> set format then directives data format
      else
        (case literal_match data format of
           Some [] \<Rightarrow> Inr (- 2208988800)
         | Some rest \<Rightarrow> Inl (ValueError (''unconverted data remains: '' @ rest))
         | None \<Rightarrow> Inl (ValueError (''time data '' @ quoted data @ '' does not match format '' @ quoted format))))"

text \<open>The arguments are in the order of the code.\<close>

definition module_revision ::
  "(string \<Rightarrow> string \<Rightarrow> datetime res) \<Rightarrow> yinfile \<Rightarrow> datetime option res" where
  "module_revision directives yf =
     (let rev_list = find_all (get_name_with_namespace yf ''revision'') (yf_root yf) in
      case rev_list of
        [] \<Rightarrow> Inr None
      | r # _ \<Rightarrow>
          (case el_attr r ''date'' of
             None \<Rightarrow> Inr None
           | Some d \<Rightarrow> rbind (strptime directives ''%Y-%m-%d'' d) (\<lambda>t. Inr (Some t))))"

subsection \<open>The walk\<close>

datatype pyval = VDict "(string \<times> pyval) list" | VOther

text \<open>The YIN nodes of a key: children with this name and one of the keyword tags.\<close>

definition nodes_for :: "yinfile \<Rightarrow> element \<Rightarrow> string \<Rightarrow> element list" where
  "nodes_for yf node key =
     filter (\<lambda>n. tag n \<in> set (yf_keywords yf) \<and> el_attr n ''name'' = Some key)
       (find_with_attr ''name'' node)"

text \<open>\<open>config_node is None or config_node.attrib['value'].lower() != 'false'\<close>.\<close>

definition own_config :: "yinfile \<Rightarrow> element \<Rightarrow> bool res" where
  "own_config yf key_node =
     (case find_first (get_name_with_namespace yf ''config'') key_node of
        None \<Rightarrow> Inr True
      | Some c \<Rightarrow>
          (case el_attr c ''value'' of
             None \<Rightarrow> Inl (KeyError ''value'')
           | Some v \<Rightarrow> Inr (str_lower v \<noteq> ''false'')))"

definition node_config :: "yinfile \<Rightarrow> bool \<Rightarrow> element \<Rightarrow> bool res" where
  "node_config yf inherited key_node = (if inherited then own_config yf key_node else Inr False)"

definition parent_config :: "rstate \<Rightarrow> nat option \<Rightarrow> bool" where
  "parent_config s parent_helper =
     (case parent_helper of None \<Rightarrow> True | Some p \<Rightarrow> is_config (rs_heap s ! p))"

function get_extmethods ::
    "yinfile \<Rightarrow> pyval \<Rightarrow> element \<Rightarrow> string \<Rightarrow> nat option \<Rightarrow> rstate \<Rightarrow>
     (string, nat) pydict res \<times> rstate"
  and extmethods_loop ::
    "yinfile \<Rightarrow> (string \<times> pyval) list \<Rightarrow> element \<Rightarrow> string \<Rightarrow> nat option \<Rightarrow>
     (string, nat) pydict \<Rightarrow> rstate \<Rightarrow> (string, nat) pydict res \<times> rstate"
where
  "get_extmethods yf VOther node path_base parent_helper s = (Inr [], s)"
| "get_extmethods yf (VDict items) node path_base parent_helper s =
     extmethods_loop yf items node path_base parent_helper [] s"
| "extmethods_loop yf [] node path_base parent_helper extmethods s = (Inr extmethods, s)"
| "extmethods_loop yf ((key, item) # rest) node path_base parent_helper extmethods s =
     (let path = path_base @ ''/'' @ key in
      case nodes_for yf node key of
        [] \<Rightarrow> extmethods_loop yf rest node path_base parent_helper extmethods s
      | key_node # _ \<Rightarrow>
          (case node_config yf (parent_config s parent_helper) key_node of
             Inl e \<Rightarrow> (Inl e, s)
           | Inr config \<Rightarrow>
               (let (helper, s1) = new_helper (class_of_flag config) key_node parent_helper s in
                case get_extmethods yf item key_node path (Some helper) s1 of
                  (Inl e, s2) \<Rightarrow> (Inl e, s2)
                | (Inr sub, s2) \<Rightarrow>
                    extmethods_loop yf rest node path_base parent_helper
                      (dict_update (dict_set path helper extmethods) sub) s2)))"
  by pat_completeness auto
termination
  by (relation "measure (\<lambda>x. case x of
        Inl (yf, v, node, pb, ph, s) \<Rightarrow> size v
      | Inr (yf, items, node, pb, ph, ext, s) \<Rightarrow> size_list (size_prod (\<lambda>_. 0) size) items)") auto

text \<open>The call of the model loader: the root node, no path and no parent.\<close>

definition root_extmethods :: "yinfile \<Rightarrow> pyval \<Rightarrow> rstate \<Rightarrow> (string, nat) pydict res \<times> rstate" where
  "root_extmethods yf value s = get_extmethods yf value (yf_root yf) '''' None s"

subsection \<open>The walk keeps the store well formed\<close>

definition extends :: "rstate \<Rightarrow> rstate \<Rightarrow> bool" where
  "extends s s' \<longleftrightarrow>
     heap_size s \<le> heap_size s' \<and> (\<forall>a < heap_size s. rs_heap s' ! a = rs_heap s ! a)"

definition addresses_in :: "nat \<Rightarrow> nat \<Rightarrow> ('k, nat) pydict \<Rightarrow> bool" where
  "addresses_in lo hi d \<longleftrightarrow> (\<forall>h \<in> snd ` set d. lo \<le> h \<and> h < hi)"

lemma extends_refl [simp]: "extends s s"
  by (simp add: extends_def)

lemma extends_trans: "extends s t \<Longrightarrow> extends t u \<Longrightarrow> extends s u"
  by (auto simp: extends_def)

lemma extends_new: "new_helper cls n p s = (h, s1) \<Longrightarrow> extends s s1 \<and> h = heap_size s \<and> heap_size s1 = Suc h"
  by (auto simp: new_helper_def extends_def heap_size_def nth_append)

lemma extends_config_at: "extends s s' \<Longrightarrow> a < heap_size s \<Longrightarrow> config_at s' a = config_at s a"
  by (simp add: extends_def config_at_def class_at_def heap_size_def)

lemma addresses_in_mono: "addresses_in lo hi d \<Longrightarrow> lo' \<le> lo \<Longrightarrow> hi \<le> hi' \<Longrightarrow> addresses_in lo' hi' d"
  by (auto simp: addresses_in_def)

lemma ball_subset_Un: "A \<subseteq> B \<union> C \<Longrightarrow> \<forall>x \<in> C. P x \<Longrightarrow> \<forall>x \<in> B. P x \<Longrightarrow> \<forall>x \<in> A. P x"
  by blast

lemma ball_subset_insert: "A \<subseteq> insert b C \<Longrightarrow> \<forall>x \<in> C. P x \<Longrightarrow> P b \<Longrightarrow> \<forall>x \<in> A. P x"
  by blast

lemma addresses_in_set: "addresses_in lo hi d \<Longrightarrow> lo \<le> h \<Longrightarrow> h < hi \<Longrightarrow> addresses_in lo hi (dict_set k h d)"
  unfolding addresses_in_def by (rule ball_subset_insert [OF values_dict_set]) auto

lemma addresses_in_update:
  "addresses_in lo hi d \<Longrightarrow> addresses_in lo hi e \<Longrightarrow> addresses_in lo hi (dict_update d e)"
  unfolding addresses_in_def by (rule ball_subset_Un [OF values_dict_update])

lemma is_config_at: "p < heap_size s \<Longrightarrow> is_config (rs_heap s ! p) = config_at s p"
  by (simp add: is_config_def config_at_def class_at_def heap_size_def split: helper_class.split)

lemma parent_config_at: "parent_ok False p s \<Longrightarrow> parent_config s p = (\<forall>q. p = Some q \<longrightarrow> config_at s q)"
  by (auto simp: parent_config_def parent_ok_def is_config_at split: option.splits)

lemma node_config_parent_ok:
  "parent_ok False p s \<Longrightarrow> node_config yf (parent_config s p) n = Inr c \<Longrightarrow> parent_ok c p s"
  by (auto simp: node_config_def parent_config_at parent_ok_def split: if_splits)

text \<open>The state after one helper is created for a key.\<close>

lemma step_new_helper:
  assumes "heap_ok s" and "config_closed s" and "parent_ok False p s"
    and "node_config yf (parent_config s p) n = Inr c"
    and "new_helper (class_of_flag c) n p s = (h, s1)"
  shows "heap_ok s1" and "config_closed s1" and "extends s s1" and "h = heap_size s"
    and "heap_size s1 = Suc h" and "parent_ok False (Some h) s1" and "config_at s1 h = c"
    and "parent_ok False p s1"
proof -
  have ok: "parent_ok c p s" using assms(3,4) by (rule node_config_parent_ok)
  have s1: "s1 = snd (new_helper (class_of_flag c) n p s)" using assms(5) by simp
  show "heap_ok s1" and "config_closed s1"
    unfolding s1 using heap_ok_new config_closed_new assms(1,2) ok by blast+
  show ext: "extends s s1" and h: "h = heap_size s" and sz: "heap_size s1 = Suc h"
    using extends_new [OF assms(5)] by blast+
  show "config_at s1 h = c"
    unfolding s1 by (simp add: hs.new_cfg h)
  show "parent_ok False (Some h) s1" and "parent_ok False p s1"
    using assms(3) h sz by (auto simp: parent_ok_def)
qed

lemma parent_ok_extends: "parent_ok False p s \<Longrightarrow> extends s s' \<Longrightarrow> parent_ok False p s'"
  by (auto simp: parent_ok_def extends_def)

lemma walk_keeps_store:
  "heap_ok s \<Longrightarrow> config_closed s \<Longrightarrow> parent_ok False ph s \<Longrightarrow>
   get_extmethods yf v node pb ph s = (r, s') \<Longrightarrow>
   heap_ok s' \<and> config_closed s' \<and> extends s s' \<and>
   (\<forall>d. r = Inr d \<longrightarrow> addresses_in (heap_size s) (heap_size s') d)"
  "heap_ok s \<Longrightarrow> config_closed s \<Longrightarrow> parent_ok False ph s \<Longrightarrow>
   lo \<le> heap_size s \<Longrightarrow> addresses_in lo (heap_size s) ext \<Longrightarrow>
   extmethods_loop yf items node pb ph ext s = (r, s') \<Longrightarrow>
   heap_ok s' \<and> config_closed s' \<and> extends s s' \<and>
   (\<forall>d. r = Inr d \<longrightarrow> addresses_in lo (heap_size s') d)"
proof (induction yf v node pb ph s and yf items node pb ph ext s
    arbitrary: r s' and r s' lo rule: get_extmethods_extmethods_loop.induct)
  case (1 yf node pb ph s)
  then show ?case by (auto simp: addresses_in_def)
next
  case (2 yf items node pb ph s)
  from "2.IH" [OF "2.prems"(1-3), of "heap_size s" r s'] "2.prems"(4) show ?case
    by (simp add: addresses_in_def)
next
  case (3 yf node pb ph ext s)
  then show ?case by auto
next
  case (4 yf key item rest node pb ph ext s)
  let ?path = "pb @ ''/'' @ key"
  show ?case
  proof (cases "nodes_for yf node key")
    case Nil
    with "4.IH"(1) [OF refl Nil "4.prems"(1-5)] "4.prems"(6) show ?thesis by simp
  next
    case (Cons n ns)
    show ?thesis
    proof (cases "node_config yf (parent_config s ph) n")
      case (Inl e)
      with Cons "4.prems" show ?thesis by auto
    next
      case (Inr c)
      obtain h s1 where new: "new_helper (class_of_flag c) n ph s = (h, s1)" by fastforce
      note st = step_new_helper [OF "4.prems"(1,2,3) Inr new]
      obtain r2 s2 where sub: "get_extmethods yf item n ?path (Some h) s1 = (r2, s2)" by fastforce
      have IH2: "heap_ok s2 \<and> config_closed s2 \<and> extends s1 s2 \<and>
          (\<forall>d. r2 = Inr d \<longrightarrow> addresses_in (heap_size s1) (heap_size s2) d)"
        using "4.IH"(2) [OF refl Cons Inr new [symmetric] refl st(1,2,6) sub] by simp
      have ext2: "extends s s2" using st(3) IH2 extends_trans by blast
      show ?thesis
      proof (cases r2)
        case (Inl e)
        with "4.prems"(6) Cons Inr new sub \<open>node_config yf (parent_config s ph) n = Inr c\<close> IH2 ext2
        show ?thesis by auto
      next
        case (Inr d2)
        let ?ext = "dict_update (dict_set ?path h ext) d2"
        have sizes: "heap_size s1 \<le> heap_size s2" "heap_size s \<le> heap_size s1" "h < heap_size s1" "lo \<le> h"
          using IH2 st "4.prems"(4) by (auto simp: extends_def)
        then have "addresses_in lo (heap_size s2) (dict_set ?path h ext)"
          using "4.prems"(5) addresses_in_mono by (intro addresses_in_set) fastforce+
        moreover have "addresses_in lo (heap_size s2) d2"
          using IH2 Inr sizes addresses_in_mono by fastforce
        ultimately have addr: "addresses_in lo (heap_size s2) ?ext" by (rule addresses_in_update)
        have run: "extmethods_loop yf rest node pb ph ?ext s2 = (r, s')"
          using "4.prems"(6) Cons Inr new sub \<open>node_config yf (parent_config s ph) n = Inr c\<close> by simp
        have "lo \<le> heap_size s2" using sizes by simp
        from "4.IH"(3) [OF refl Cons \<open>node_config yf (parent_config s ph) n = Inr c\<close> new [symmetric]
            refl sub [symmetric] Inr _ _ parent_ok_extends [OF "4.prems"(3) ext2] this addr run]
        show ?thesis using IH2 ext2 extends_trans by blast
      qed
    qed
  qed
qed

subsection \<open>The configuration flag of each path\<close>

text \<open>
  The same walk without the store: it gives each path the flag of its helper. \<open>get_extmethods\<close>
  refines it, with \<open>config_at\<close> on the addresses of the result as the abstraction.
\<close>

function path_flags ::
    "yinfile \<Rightarrow> pyval \<Rightarrow> element \<Rightarrow> string \<Rightarrow> bool \<Rightarrow> (string, bool) pydict res"
  and path_flags_loop ::
    "yinfile \<Rightarrow> (string \<times> pyval) list \<Rightarrow> element \<Rightarrow> string \<Rightarrow> bool \<Rightarrow> (string, bool) pydict \<Rightarrow>
     (string, bool) pydict res"
where
  "path_flags yf VOther node base inherited = Inr []"
| "path_flags yf (VDict items) node base inherited = path_flags_loop yf items node base inherited []"
| "path_flags_loop yf [] node base inherited flags = Inr flags"
| "path_flags_loop yf ((key, item) # rest) node base inherited flags =
     (case nodes_for yf node key of
        [] \<Rightarrow> path_flags_loop yf rest node base inherited flags
      | n # _ \<Rightarrow>
          rbind (node_config yf inherited n) (\<lambda>c.
          rbind (path_flags yf item n (base @ ''/'' @ key) c) (\<lambda>sub.
            path_flags_loop yf rest node base inherited
              (dict_update (dict_set (base @ ''/'' @ key) c flags) sub))))"
  by pat_completeness auto
termination
  by (relation "measure (\<lambda>x. case x of
        Inl (yf, v, node, b, i) \<Rightarrow> size v
      | Inr (yf, items, node, b, i, fl) \<Rightarrow> size_list (size_prod (\<lambda>_. 0) size) items)") auto

definition flags_of :: "rstate \<Rightarrow> (string, nat) pydict res \<Rightarrow> (string, bool) pydict res" where
  "flags_of s r = (case r of Inl e \<Rightarrow> Inl e | Inr d \<Rightarrow> Inr (dict_map (config_at s) d))"

lemma dict_map_cong: "(\<And>h. h \<in> snd ` set d \<Longrightarrow> f h = g h) \<Longrightarrow> dict_map f d = dict_map g d"
  by (force simp: dict_map_def)

lemma dict_map_config_extends:
  assumes "extends s s'" and "addresses_in lo (heap_size s) d"
  shows "dict_map (config_at s') d = dict_map (config_at s) d"
  using assms by (intro dict_map_cong) (auto simp: addresses_in_def extends_config_at)

lemma parent_config_extends:
  "parent_ok False ph s \<Longrightarrow> extends s s' \<Longrightarrow> parent_config s' ph = parent_config s ph"
  using parent_ok_extends [of ph s s']
  by (auto simp: parent_config_at parent_ok_def extends_config_at)

lemma walk_refines_flags:
  "heap_ok s \<Longrightarrow> config_closed s \<Longrightarrow> parent_ok False ph s \<Longrightarrow>
   get_extmethods yf v node pb ph s = (r, s') \<Longrightarrow>
   flags_of s' r = path_flags yf v node pb (parent_config s ph)"
  "heap_ok s \<Longrightarrow> config_closed s \<Longrightarrow> parent_ok False ph s \<Longrightarrow>
   addresses_in 0 (heap_size s) ext \<Longrightarrow>
   extmethods_loop yf items node pb ph ext s = (r, s') \<Longrightarrow>
   flags_of s' r =
     path_flags_loop yf items node pb (parent_config s ph) (dict_map (config_at s) ext)"
proof (induction yf v node pb ph s and yf items node pb ph ext s
    arbitrary: r s' and r s' rule: get_extmethods_extmethods_loop.induct)
  case (1 yf node pb ph s)
  then show ?case by (auto simp: flags_of_def dict_map_def)
next
  case (2 yf items node pb ph s)
  from "2.IH" [OF "2.prems"(1-3), of r s'] "2.prems"(4) show ?case
    by (simp add: addresses_in_def dict_map_def)
next
  case (3 yf node pb ph ext s)
  then show ?case by (auto simp: flags_of_def)
next
  case (4 yf key item rest node pb ph ext s)
  let ?path = "pb @ ''/'' @ key"
  show ?case
  proof (cases "nodes_for yf node key")
    case Nil
    with "4.IH"(1) [OF refl Nil "4.prems"(1-4)] "4.prems"(5) show ?thesis by simp
  next
    case (Cons n ns)
    show ?thesis
    proof (cases "node_config yf (parent_config s ph) n")
      case (Inl e)
      with Cons "4.prems" show ?thesis by (auto simp: flags_of_def)
    next
      case cfg: (Inr c)
      obtain h s1 where new: "new_helper (class_of_flag c) n ph s = (h, s1)" by fastforce
      note st = step_new_helper [OF "4.prems"(1,2,3) cfg new]
      obtain r2 s2 where sub: "get_extmethods yf item n ?path (Some h) s1 = (r2, s2)" by fastforce
      have "parent_config s1 (Some h) = c"
        using st(6,7) by (simp add: parent_config_at)
      with "4.IH"(2) [OF refl Cons cfg new [symmetric] refl st(1,2,6) sub]
      have IH2: "flags_of s2 r2 = path_flags yf item n ?path c" by simp
      from walk_keeps_store(1) [OF st(1,2,6) sub]
      have keep: "heap_ok s2" "config_closed s2" "extends s1 s2"
        "\<And>d. r2 = Inr d \<Longrightarrow> addresses_in (heap_size s1) (heap_size s2) d" by blast+
      have ext2: "extends s s2" using st(3) keep(3) extends_trans by blast
      show ?thesis
      proof (cases r2)
        case (Inl e)
        with IH2 have "path_flags yf item n ?path c = Inl e" by (simp add: flags_of_def)
        with Inl "4.prems"(5) Cons cfg new sub show ?thesis
          by (auto simp: flags_of_def)
      next
        case (Inr d2)
        let ?ext = "dict_update (dict_set ?path h ext) d2"
        have sizes: "heap_size s1 \<le> heap_size s2" "heap_size s \<le> heap_size s1" "h < heap_size s1"
          using keep(3) st by (auto simp: extends_def)
        have a1: "addresses_in 0 (heap_size s1) (dict_set ?path h ext)"
          using "4.prems"(4) sizes addresses_in_mono by (intro addresses_in_set) fastforce+
        have a2: "addresses_in 0 (heap_size s2) ?ext"
          using addresses_in_mono [OF a1 _ sizes(1), of 0] addresses_in_mono [OF keep(4) [OF Inr], of 0]
          by (intro addresses_in_update) auto
        have "dict_map (config_at s2) (dict_set ?path h ext) = dict_set ?path c (dict_map (config_at s) ext)"
          using dict_map_config_extends [OF keep(3) a1] dict_map_config_extends [OF st(3) "4.prems"(4)]
          by (simp add: dict_map_set st(7))
        then have m: "dict_map (config_at s2) ?ext =
            dict_update (dict_set ?path c (dict_map (config_at s) ext)) (dict_map (config_at s2) d2)"
          by (simp add: dict_map_update)
        have run: "extmethods_loop yf rest node pb ph ?ext s2 = (r, s')"
          using "4.prems"(5) Cons cfg new sub Inr by simp
        from "4.IH"(3) [OF refl Cons cfg new [symmetric] refl sub [symmetric] Inr keep(1,2)
            parent_ok_extends [OF "4.prems"(3) ext2] a2 run]
        have "flags_of s' r = path_flags_loop yf rest node pb (parent_config s ph) (dict_map (config_at s2) ?ext)"
          by (simp add: parent_config_extends [OF "4.prems"(3) ext2])
        moreover have "path_flags yf item n ?path c = Inr (dict_map (config_at s2) d2)"
          using IH2 Inr by (simp add: flags_of_def)
        ultimately show ?thesis
          using Cons cfg m by simp
      qed
    qed
  qed
qed

subsection \<open>Chains of keys\<close>

text \<open>
  \<open>reaches yf v node inherited ks c\<close>: the keys \<open>ks\<close> lead down the values and the YIN nodes
  together, from a place with the flag \<open>inherited\<close> to a node with the flag \<open>c\<close>.
\<close>

inductive reaches :: "yinfile \<Rightarrow> pyval \<Rightarrow> element \<Rightarrow> bool \<Rightarrow> string list \<Rightarrow> bool \<Rightarrow> bool" where
  here: "(key, item) \<in> set items \<Longrightarrow> nodes_for yf node key = n # ns \<Longrightarrow>
     node_config yf inherited n = Inr c \<Longrightarrow> reaches yf (VDict items) node inherited [key] c"
| below: "(key, item) \<in> set items \<Longrightarrow> nodes_for yf node key = n # ns \<Longrightarrow>
     node_config yf inherited n = Inr c \<Longrightarrow> reaches yf item n c ks c' \<Longrightarrow>
     reaches yf (VDict items) node inherited (key # ks) c'"

inductive_cases reaches_other: "reaches yf VOther node inherited ks c"
inductive_cases reaches_dict: "reaches yf (VDict items) node inherited ks c"

definition path_of :: "string \<Rightarrow> string list \<Rightarrow> string" where
  "path_of base ks = base @ concat (map (\<lambda>k. ''/'' @ k) ks)"

lemma path_of_simps [simp]:
  "path_of base [] = base"
  "path_of base (k # ks) = path_of (base @ ''/'' @ k) ks"
  by (simp_all add: path_of_def)

lemma reaches_mono: "reaches yf (VDict items) node i ks c \<Longrightarrow> set items \<subseteq> set items' \<Longrightarrow>
  reaches yf (VDict items') node i ks c"
  by (erule reaches_dict) (blast intro: reaches.intros)+

lemma reaches_inherits: "reaches yf v node inherited ks c \<Longrightarrow> c \<Longrightarrow> inherited"
  by (induction rule: reaches.induct) (auto simp: node_config_def split: if_splits)

lemma map_of_rev_Some: "map_of (rev d) k = Some v \<Longrightarrow> (k, v) \<in> set d"
  by (auto dest: map_of_SomeD)

lemma in_dict_set: "p \<in> set (dict_set k v d) \<Longrightarrow> p \<in> set d \<or> p = (k, v)"
  by (induction d) (auto split: if_splits)

lemma in_dict_update: "p \<in> set (dict_update d e) \<Longrightarrow> p \<in> set d \<or> p \<in> set e"
proof (induction e arbitrary: d)
  case Nil
  then show ?case by (simp add: dict_update_def)
next
  case (Cons q e)
  obtain k v where q: "q = (k, v)" by (cases q)
  then have "dict_update d (q # e) = dict_update (dict_set k v d) e"
    by (simp add: dict_update_def)
  with Cons show ?case by (auto simp: q dest: in_dict_set)
qed

lemma path_flags_sound:
  "path_flags yf v node base inherited = Inr d \<Longrightarrow> (p, c) \<in> set d \<Longrightarrow>
   \<exists>ks. p = path_of base ks \<and> reaches yf v node inherited ks c"
  "path_flags_loop yf items node base inherited flags = Inr d \<Longrightarrow> (p, c) \<in> set d \<Longrightarrow>
   (p, c) \<in> set flags \<or> (\<exists>ks. p = path_of base ks \<and> reaches yf (VDict items) node inherited ks c)"
proof (induction yf v node base inherited and yf items node base inherited flags
    arbitrary: d p c and d p c rule: path_flags_path_flags_loop.induct)
  case (1 yf node base inherited)
  then show ?case by simp
next
  case (2 yf items node base inherited)
  from "2.IH" [of d p c] "2.prems" show ?case by simp
next
  case (3 yf node base inherited flags)
  then show ?case by simp
next
  case (4 yf key item rest node base inherited flags)
  have mono: "reaches yf (VDict rest) node inherited ks c \<Longrightarrow>
      reaches yf (VDict ((key, item) # rest)) node inherited ks c" for ks
    by (erule reaches_mono) auto
  show ?case
  proof (cases "nodes_for yf node key")
    case Nil
    with "4.IH"(1) [OF Nil, of d p c] "4.prems" mono show ?thesis by auto
  next
    case (Cons n ns)
    with "4.prems"(1) obtain c1 sub where cfg: "node_config yf inherited n = Inr c1"
      and sub: "path_flags yf item n (base @ ''/'' @ key) c1 = Inr sub"
      and run: "path_flags_loop yf rest node base inherited
        (dict_update (dict_set (base @ ''/'' @ key) c1 flags) sub) = Inr d"
      by (auto simp: rbind_eq_Inr)
    from "4.IH"(3) [OF Cons run "4.prems"(2)]
    consider (rest) "\<exists>ks. p = path_of base ks \<and> reaches yf (VDict rest) node inherited ks c"
      | (acc) "(p, c) \<in> set flags" | (new) "(p, c) = (base @ ''/'' @ key, c1)" | (sub) "(p, c) \<in> set sub"
      by (auto dest!: in_dict_update in_dict_set)
    then show ?thesis
    proof cases
      case rest
      then show ?thesis using mono by blast
    next
      case acc
      then show ?thesis by blast
    next
      case new
      have "reaches yf (VDict ((key, item) # rest)) node inherited [key] c1"
        using Cons cfg by (intro reaches.here [of key item]) auto
      with new show ?thesis by (intro disjI2 exI [of _ "[key]"]) simp
    next
      case sub
      from "4.IH"(2) [OF Cons \<open>path_flags yf item n (base @ ''/'' @ key) c1 = Inr sub\<close> sub]
      obtain ks where ks: "p = path_of (base @ ''/'' @ key) ks" "reaches yf item n c1 ks c" by blast
      have "reaches yf (VDict ((key, item) # rest)) node inherited (key # ks) c"
        using Cons cfg ks(2) by (intro reaches.below [of key item]) auto
      with ks(1) show ?thesis by (intro disjI2 exI [of _ "key # ks"]) simp
    qed
  qed
qed

end
