(* ===== verification/YinPaths.thy ===== *)
theory YinPaths
  imports YinFile
begin

section \<open>What the walk over a YIN document guarantees\<close>

text \<open>
  The properties of \<open>YINFile.get_extmethods\<close> and of the other methods of the class, proved
  from the walk and its reference \<open>path_flags\<close> in \<open>YinFile\<close>: which paths are in the result
  and with which flag, that \<open>set_modified\<close> never fails on a helper the walk made, the
  round trip of the names, and the module revision.
\<close>

subsection \<open>Every chain of keys is in the result\<close>

lemma dict_keys_set [simp]: "dict_keys (dict_set k v d) = insert k (dict_keys d)"
  by (rule pyd.keys_put)

lemma path_flags_complete:
  "path_flags yf v node base inherited = Inr d \<Longrightarrow> reaches yf v node inherited ks c \<Longrightarrow>
   path_of base ks \<in> dict_keys d"
  "path_flags_loop yf items node base inherited flags = Inr d \<Longrightarrow>
   dict_keys flags \<subseteq> dict_keys d \<and>
   (reaches yf (VDict items) node inherited ks c \<longrightarrow> path_of base ks \<in> dict_keys d)"
proof (induction yf v node base inherited and yf items node base inherited flags
    arbitrary: d ks c and d ks c rule: path_flags_path_flags_loop.induct)
  case (1 yf node base inherited)
  then show ?case by (auto elim: reaches_other)
next
  case (2 yf items node base inherited)
  from "2.IH" [of d ks c] "2.prems" show ?case by simp
next
  case (3 yf node base inherited flags)
  then show ?case by (auto elim: reaches_dict)
next
  case (4 yf key item rest node base inherited flags)
  show ?case
  proof (cases "nodes_for yf node key")
    case Nil
    have "reaches yf (VDict rest) node inherited ks c"
      if "reaches yf (VDict ((key, item) # rest)) node inherited ks c"
      using that Nil by (auto elim!: reaches_dict intro: reaches.intros)
    with "4.IH"(1) [OF Nil, of d ks c] "4.prems" Nil show ?thesis by auto
  next
    case (Cons n ns)
    with "4.prems" obtain c1 sub where cfg: "node_config yf inherited n = Inr c1"
      and sub: "path_flags yf item n (base @ ''/'' @ key) c1 = Inr sub"
      and run: "path_flags_loop yf rest node base inherited
        (dict_update (dict_set (base @ ''/'' @ key) c1 flags) sub) = Inr d"
      by (auto simp: rbind_eq_Inr)
    from "4.IH"(3) [OF Cons run, of ks c]
    have keys: "insert (base @ ''/'' @ key) (dict_keys flags) \<union> dict_keys sub \<subseteq> dict_keys d"
      and rest: "reaches yf (VDict rest) node inherited ks c \<Longrightarrow> path_of base ks \<in> dict_keys d"
      by (auto simp: dict_keys_update)
    have below: "path_of (base @ ''/'' @ key) ks' \<in> dict_keys sub" if "reaches yf item n c1 ks' c'" for ks' c'
      by (rule "4.IH"(2) [OF Cons sub that])
    have "path_of base ks \<in> dict_keys d"
      if "reaches yf (VDict ((key, item) # rest)) node inherited ks c"
      using that
    proof cases
      case (here k it n' ns')
      then show ?thesis using keys rest by (auto intro: reaches.here)
    next
      case (below k it n' ns' c' ks')
      show ?thesis
      proof (cases "(k, it) \<in> set rest")
        case True
        with below rest show ?thesis by (auto intro: reaches.below)
      next
        case False
        with below Cons cfg have "reaches yf item n c1 ks' c" and "ks = key # ks'" by auto
        with keys \<open>\<And>ks' c'. reaches yf item n c1 ks' c' \<Longrightarrow> _\<close> show ?thesis by auto
      qed
    qed
    with keys show ?thesis by blast
  qed
qed

text \<open>The keys of a generated class: different at each level, and without a slash.\<close>

fun keys_ok :: "pyval \<Rightarrow> bool" where
  "keys_ok VOther = True"
| "keys_ok (VDict items) =
     (distinct (map fst items) \<and> list_all (\<lambda>(k, v). CHR ''/'' \<notin> set k \<and> keys_ok v) items)"

lemma reaches_keys: "reaches yf v node i ks c \<Longrightarrow> keys_ok v \<Longrightarrow> list_all (\<lambda>k. CHR ''/'' \<notin> set k) ks"
  by (induction rule: reaches.induct) (auto simp: list_all_iff)

lemma reaches_fun:
  "reaches yf v node i ks c \<Longrightarrow> keys_ok v \<Longrightarrow> reaches yf v node i ks c' \<Longrightarrow> c = c'"
proof (induction arbitrary: c' rule: reaches.induct)
  case (here key item items yf node n ns inherited c)
  from here.prems(2) show ?case
    by (rule reaches_dict) (use here in \<open>auto elim: reaches.cases\<close>)
next
  case (below key item items yf node n ns inherited c ks c1)
  from below.prems(1) below.hyps(1) have ok: "keys_ok item" and d: "distinct (map fst items)"
    by (auto simp: list_all_iff)
  from below.prems(2) show ?case
  proof (rule reaches_dict)
    fix key' item' n' ns'
    assume "key # ks = [key']"
    with below.hyps(4) show ?thesis by (auto elim: reaches.cases)
  next
    fix key' item' n' ns' c2 ks'
    assume *: "key # ks = key' # ks'" "(key', item') \<in> set items" "nodes_for yf node key' = n' # ns'"
      "node_config yf inherited n' = Inr c2" "reaches yf item' n' c2 ks' c'"
    from * d below.hyps(1) have "item' = item" by (metis eq_key_imp_eq_value list.inject)
    with * below.hyps(2,3) have "reaches yf item n c ks c'" by auto
    with below.IH ok show ?thesis by blast
  qed
qed

lemma path_of_join: "path_of base ks = base @ (if ks = [] then [] else CHR ''/'' # str_join CHR ''/'' ks)"
proof (induction ks arbitrary: base)
  case Nil
  then show ?case by simp
next
  case (Cons k ks)
  from Cons [of "base @ ''/'' @ k"] show ?case by (cases ks) simp_all
qed

lemma path_of_inj:
  assumes "path_of base ks = path_of base ks'"
    and "list_all (\<lambda>k. CHR ''/'' \<notin> set k) ks" and "list_all (\<lambda>k. CHR ''/'' \<notin> set k) ks'"
  shows "ks = ks'"
proof (cases "ks = [] \<or> ks' = []")
  case True
  with assms(1) show ?thesis by (auto simp: path_of_join split: if_splits)
next
  case False
  with assms show ?thesis
    by (intro sep.enc_inj [of _ "CHR ''/''"]) (auto simp: path_of_join list_all_iff)
qed

theorem path_flags_exact:
  assumes "path_flags yf v node base inherited = Inr d" and "keys_ok v"
  shows "(p, c) \<in> set d \<longleftrightarrow> (\<exists>ks. p = path_of base ks \<and> reaches yf v node inherited ks c)"
proof
  assume "(p, c) \<in> set d"
  with path_flags_sound(1) [OF assms(1)] show "\<exists>ks. p = path_of base ks \<and> reaches yf v node inherited ks c"
    by blast
next
  assume "\<exists>ks. p = path_of base ks \<and> reaches yf v node inherited ks c"
  then obtain ks where ks: "p = path_of base ks" "reaches yf v node inherited ks c" by blast
  from path_flags_complete(1) [OF assms(1) ks(2)] ks(1) obtain c' where c': "(p, c') \<in> set d"
    by (auto simp: dict_keys_def)
  with path_flags_sound(1) [OF assms(1)] obtain ks' where "p = path_of base ks'" "reaches yf v node inherited ks' c'"
    by blast
  with ks path_of_inj [of base ks ks'] reaches_keys [OF _ assms(2)] have "ks' = ks" "reaches yf v node inherited ks c'"
    by blast+
  with c' ks(2) reaches_fun [OF _ assms(2)] show "(p, c) \<in> set d" by blast
qed

subsection \<open>The helpers of a document\<close>

lemma root_extmethods_walk:
  assumes "heap_ok s" and "config_closed s" and "root_extmethods yf v s = (r, s')"
  shows "flags_of s' r = path_flags yf v (yf_root yf) '''' True"
    and "heap_ok s'" and "config_closed s'" and "extends s s'"
    and "\<And>d p h. r = Inr d \<Longrightarrow> (p, h) \<in> set d \<Longrightarrow> h < heap_size s'"
proof -
  note run = assms(3) [unfolded root_extmethods_def]
  have p: "parent_ok False None s" by (simp add: parent_ok_def)
  from walk_refines_flags(1) [OF assms(1,2) p run]
  show "flags_of s' r = path_flags yf v (yf_root yf) '''' True" by (simp add: parent_config_def)
  from walk_keeps_store(1) [OF assms(1,2) p run]
  show "heap_ok s'" and "config_closed s'" and "extends s s'"
    and "\<And>d p h. r = Inr d \<Longrightarrow> (p, h) \<in> set d \<Longrightarrow> h < heap_size s'"
    by (auto simp: addresses_in_def)
qed

lemma extmethods_flags:
  assumes "heap_ok s" and "config_closed s" and "root_extmethods yf v s = (Inr d, s')"
  shows "path_flags yf v (yf_root yf) '''' True = Inr (dict_map (config_at s') d)"
  using root_extmethods_walk(1) [OF assms] by (simp add: flags_of_def)

text \<open>
  C1: the dictionary of \<open>get_extmethods\<close> holds exactly the paths of the chains of keys that
  lead down the class and the YIN document together, and the helper of a path is
  configurable if and only if the flag of the chain says so.
\<close>

theorem extmethods_paths:
  assumes "heap_ok s" and "config_closed s" and "keys_ok v" and "root_extmethods yf v s = (Inr d, s')"
  shows "(\<exists>h. (p, h) \<in> set d \<and> config_at s' h = c) \<longleftrightarrow>
    (\<exists>ks. p = path_of '''' ks \<and> reaches yf v (yf_root yf) True ks c)"
  using path_flags_exact [OF extmethods_flags [OF assms(1,2,4)] assms(3), of p c]
  by (force simp: dict_map_def image_iff)

text \<open>A change of a configurable helper that the walk made can be recorded.\<close>

lemma walk_modifiable:
  assumes "heap_ok s" and "config_closed s" and "root_extmethods yf v s = (Inr d, s')"
    and "(p, h) \<in> set d" and "config_at s' h"
  shows "\<exists>s''. set_modified env h updateTime s' = Some (Inr (), s'')"
proof -
  note w = root_extmethods_walk [OF assms(1,2,3)]
  from assms(4) have "h < heap_size s'" by (rule w(5) [OF refl])
  then show ?thesis
    using set_modified_walk [OF w(2), of h env updateTime] ancestors_config [OF w(3,2) _ assms(5)]
    by (simp add: chain_result_def)
qed

text \<open>The flags along a chain.\<close>

lemma reaches_prefix:
  "reaches yf v node i ks c \<Longrightarrow> keys_ok v \<Longrightarrow> reaches yf v node i (ks @ ks2) c' \<Longrightarrow> c' \<Longrightarrow> c"
proof (induction arbitrary: c' rule: reaches.induct)
  case (here key item items yf node n ns inherited c)
  show ?case
  proof (cases "ks2 = []")
    case True
    with here reaches_fun [OF reaches.here] show ?thesis by fastforce
  next
    case False
    from here.prems(2) show ?thesis
    proof cases
      case (below key' item' n' ns' c2 ks')
      with here.hyps here.prems(3) reaches_inherits show ?thesis by fastforce
    qed (use False in auto)
  qed
next
  case (below key item items yf node n ns inherited c ks c1)
  from below.prems(1) below.hyps(1) have ok: "keys_ok item" and d: "distinct (map fst items)"
    by (auto simp: list_all_iff)
  from below.prems(2) show ?case
  proof cases
    case (here item' n' ns')
    with below.hyps(4) show ?thesis by (auto elim: reaches.cases)
  next
    case b: (below key' item' n' ns' c2 ks')
    then have "item' = item" using d below.hyps(1) by (metis append_Cons eq_key_imp_eq_value list.inject)
    with b below.hyps(2,3) have "reaches yf item n c (ks @ ks2) c'" by auto
    with below.IH ok below.prems(3) show ?thesis by blast
  qed
qed

text \<open>
  C18: below a node that is not configurable no helper of the dictionary is configurable:
  the flag \<open>config false\<close> is inherited, whatever the nodes below say.
\<close>

theorem extmethods_inherit:
  assumes "heap_ok s" and "config_closed s" and "keys_ok v" and "root_extmethods yf v s = (Inr d, s')"
    and "(path_of '''' ks, h) \<in> set d" and "(path_of '''' (ks @ ks2), h') \<in> set d"
    and "list_all (\<lambda>k. CHR ''/'' \<notin> set k) (ks @ ks2)" and "\<not> config_at s' h"
  shows "\<not> config_at s' h'"
proof -
  let ?slashless = "list_all (\<lambda>k. CHR ''/'' \<notin> set k)"
  have chain: "reaches yf v (yf_root yf) True us (config_at s' a)"
    if "(path_of '''' us, a) \<in> set d" and "?slashless us" for us a
  proof -
    have "(path_of '''' us, config_at s' a) \<in> set (dict_map (config_at s') d)"
      using that(1) by (force simp: dict_map_def)
    with path_flags_exact [OF extmethods_flags [OF assms(1,2,4)] assms(3)] obtain vs
      where vs: "path_of '''' us = path_of '''' vs" "reaches yf v (yf_root yf) True vs (config_at s' a)"
      by blast
    with path_of_inj [OF vs(1) that(2) reaches_keys [OF vs(2) assms(3)]] show ?thesis by simp
  qed
  from assms(7) have "?slashless ks" by simp
  from reaches_prefix [OF chain [OF assms(5) this] assms(3) chain [OF assms(6,7)]] assms(8)
  show ?thesis by blast
qed

subsection \<open>Names and the revision\<close>

lemma str_replace_no_brace: "CHR ''{'' \<notin> set s \<Longrightarrow> str_replace (CHR ''{'' # old) new s = s"
  by (rule str_replace_absent) auto

interpretation yinname: codec "get_name_with_namespace yf" "get_name_wo_namespace yf"
  "\<lambda>name. name \<noteq> [] \<and> CHR ''{'' \<notin> set name" for yf
proof
  fix x :: string
  assume x: "x \<noteq> [] \<and> CHR ''{'' \<notin> set x"
  show "get_name_wo_namespace yf (get_name_with_namespace yf x) = x"
  proof (cases "yf_namespace yf")
    case None
    then show ?thesis by (simp add: get_name_wo_namespace_def get_name_with_namespace_def with_namespace_def)
  next
    case (Some ns)
    have "str_replace (''{'' @ ns @ ''}'') [] ((''{'' @ ns @ ''}'') @ x) = x"
      using x by (subst str_replace_hit) (auto simp: str_replace_no_brace)
    with Some x show ?thesis
      by (simp add: get_name_wo_namespace_def get_name_with_namespace_def with_namespace_def qname_def)
  qed
qed

text \<open>
  C34: taking the namespace off undoes putting it on, for every name that is not empty and
  has no opening brace, in documents with and without a namespace.
\<close>

theorem yin_name_roundtrip:
  assumes "name \<noteq> []" and "CHR ''{'' \<notin> set name"
  shows "get_name_wo_namespace yf (get_name_with_namespace yf name) = name"
  using assms by (intro yinname.dec_enc) simp

text \<open>
  The keyword test of the walk is right: in a document that the constructor accepts,
  the tag of a YANG statement with the document's namespace is among the keywords if and only
  if the statement is one of the seven of the list.
\<close>

theorem yin_keyword_test:
  assumes "YINFile path root = Inr yf" and "name \<noteq> []" and "CHR ''{'' \<notin> set name"
  shows "get_name_with_namespace yf name \<in> set (yf_keywords yf) \<longleftrightarrow> name \<in> set important_keywords"
proof -
  have kw: "yf_keywords yf = map (get_name_with_namespace yf) important_keywords"
    using assms(1) by (auto simp: YINFile_def get_name_with_namespace_def Let_def split: list.splits)
  have plain: "\<forall>w \<in> set important_keywords. w \<noteq> [] \<and> CHR ''{'' \<notin> set w"
    by (simp add: important_keywords_def)
  show ?thesis
    using plain assms(2,3) yinname.enc_inj [of name _ yf] by (auto simp: kw)
qed

lemma literal_match_percent:
  assumes "d \<noteq> []" and "CHR ''%'' \<notin> set d"
  shows "literal_match (CHR ''%'' # xs) d = None"
proof (cases d)
  case (Cons f fs)
  have "fold_case f \<noteq> CHR ''%''" if "f \<noteq> CHR ''%''"
  proof -
    have "shift_case as bs f \<noteq> CHR ''%''" if "CHR ''%'' \<notin> set bs" for as bs
      using that \<open>f \<noteq> CHR ''%''\<close> by (induction as bs f rule: shift_case.induct) auto
    then show ?thesis by (simp add: fold_case_def ascii_lowercase_def)
  qed
  moreover have "fold_case (CHR ''%'') = CHR ''%''" "\<not> is_space (CHR ''%'')"
    by (simp_all add: fold_case_def ascii_lowercase_def ascii_uppercase_def is_space_def whitespace_def)
  ultimately show ?thesis using assms Cons by auto
qed (use assms in simp)

text \<open>
  \<open>module_revision\<close> raises \<open>ValueError\<close> for every document whose first revision has a
  date without a percent sign, so for every date of the form YYYY-MM-DD: the arguments of
  \<open>strptime\<close> are swapped.
\<close>

theorem module_revision_raises:
  assumes "find_all (get_name_with_namespace yf ''revision'') (yf_root yf) = r # rs"
    and "el_attr r ''date'' = Some d" and "CHR ''%'' \<notin> set d"
  shows "\<exists>msg. module_revision directives yf = Inl (ValueError msg)"
proof (cases "d = []")
  case True
  with assms show ?thesis by (simp add: module_revision_def strptime_def)
next
  case False
  with assms literal_match_percent [OF False assms(3)] show ?thesis
    by (simp add: module_revision_def strptime_def)
qed

subsection \<open>The module of the toaster\<close>

definition toaster_ns :: string where
  "toaster_ns = ''urn:ietf:params:xml:ns:yang:yin:1''"

definition toaster_leaf :: "string \<Rightarrow> element" where
  "toaster_leaf name =
     Element (qname toaster_ns ''leaf'') [(''name'', name)]
       [Element (qname toaster_ns ''config'') [(''value'', ''false'')] []]"

definition toaster_root :: element where
  "toaster_root =
     Element (qname toaster_ns ''module'') [(''name'', ''toaster'')]
       [Element (qname toaster_ns ''revision'') [(''date'', ''2009-11-20'')] [],
        Element (qname toaster_ns ''container'') [(''name'', ''toaster'')]
          [toaster_leaf ''toasterManufacturer'', toaster_leaf ''toasterModelNumber'']]"

definition toaster_yf :: yinfile where
  "toaster_yf = \<lparr>yf_path = ''toaster.xml'', yf_root = toaster_root, yf_namespace = Some toaster_ns,
     yf_keywords = map (qname toaster_ns) important_keywords\<rparr>"

definition toaster_value :: pyval where
  "toaster_value = VDict [(''toaster'',
     VDict [(''toasterManufacturer'', VOther), (''toasterModelNumber'', VOther)])]"

definition toaster_walk :: "(string, nat) pydict res \<times> rstate" where
  "toaster_walk = root_extmethods toaster_yf toaster_value sample_state"

lemma sample_state_ok: "heap_ok sample_state" "config_closed sample_state"
  by (simp_all add: heap_ok_def config_closed_def heap_size_def sample_state_def)

lemma toaster_keys_ok: "keys_ok toaster_value"
  by (simp add: toaster_value_def)

lemma toaster_YINFile: "YINFile ''toaster.xml'' toaster_root = Inr toaster_yf"
  by (simp add: YINFile_def toaster_yf_def toaster_root_def qname_def toaster_ns_def str_before_def
      with_namespace_def [abs_def] Let_def)

lemma toaster_result:
  "toaster_walk = (Inr [(''/toaster'', 0), (''/toaster/toasterManufacturer'', 1), (''/toaster/toasterModelNumber'', 2)],
     snd toaster_walk)"
  "map (config_at (snd toaster_walk)) [0, 1, 2] = [True, False, False]"
  by code_simp+

lemma toaster_result':
  "root_extmethods toaster_yf toaster_value sample_state =
     (Inr [(''/toaster'', 0), (''/toaster/toasterManufacturer'', 1), (''/toaster/toasterModelNumber'', 2)],
      snd toaster_walk)"
  using toaster_result(1) by (simp add: toaster_walk_def)

text \<open>
  C19: \<open>get_extmethods\<close>, which creates the helpers in the store, computes the flags of the
  pure walk \<open>path_flags\<close>, errors included: a YIN document with a \<open>config\<close> statement without
  value raises the same \<open>KeyError\<close>.
\<close>

theorem extmethods_refine:
  assumes "heap_ok s" and "config_closed s"
  shows "flags_of (snd (root_extmethods yf v s)) (fst (root_extmethods yf v s)) =
    path_flags yf v (yf_root yf) '''' True"
  using root_extmethods_walk(1) [OF assms] by simp

theorem extmethods_refine_witness:
  "path_flags toaster_yf toaster_value toaster_root '''' True =
     Inr [(''/toaster'', True), (''/toaster/toasterManufacturer'', False), (''/toaster/toasterModelNumber'', False)]"
  using extmethods_refine [OF sample_state_ok, of toaster_yf toaster_value] toaster_result(2)
  by (simp add: toaster_result' flags_of_def dict_map_def) (simp add: toaster_yf_def)

theorem extmethods_paths_witness:
  "\<exists>ks. ''/toaster/toasterManufacturer'' = path_of '''' ks \<and>
     reaches toaster_yf toaster_value toaster_root True ks False"
  using extmethods_paths [OF sample_state_ok toaster_keys_ok toaster_result',
      of "''/toaster/toasterManufacturer''" False] toaster_result(2)
  by (auto simp: toaster_yf_def)

text \<open>A status node with a configurable statement below it.\<close>

definition status_root :: element where
  "status_root =
     Element ''module'' [(''name'', ''m'')]
       [Element ''container'' [(''name'', ''a'')]
          [Element ''config'' [(''value'', ''false'')] [],
           Element ''leaf'' [(''name'', ''b'')] [Element ''config'' [(''value'', ''true'')] []]]]"

definition status_yf :: yinfile where
  "status_yf = \<lparr>yf_path = ''m.xml'', yf_root = status_root, yf_namespace = None,
     yf_keywords = important_keywords\<rparr>"

definition status_value :: pyval where
  "status_value = VDict [(''a'', VDict [(''b'', VOther)])]"

lemma status_result:
  "root_extmethods status_yf status_value sample_state =
     (Inr [(''/a'', 0), (''/a/b'', 1)], snd (root_extmethods status_yf status_value sample_state))"
  "config_at (snd (root_extmethods status_yf status_value sample_state)) 0 = False"
  by code_simp+

lemma status_keys_ok: "keys_ok status_value"
  by (simp add: status_value_def)

theorem extmethods_inherit_witness:
  "\<not> config_at (snd (root_extmethods status_yf status_value sample_state)) 1"
  by (rule extmethods_inherit [OF sample_state_ok _ status_result(1), of "[''a'']" 0 "[''b'']"])
    (simp_all add: status_result(2) status_keys_ok)

theorem yin_name_roundtrip_witness:
  "get_name_wo_namespace toaster_yf (get_name_with_namespace toaster_yf ''leaf'') = ''leaf''"
  by (rule yin_name_roundtrip) simp_all

theorem yin_keyword_test_witness:
  "get_name_with_namespace toaster_yf ''rpc'' \<notin> set (yf_keywords toaster_yf)"
  using yin_keyword_test [OF toaster_YINFile, of "''rpc''"] by (simp add: important_keywords_def)

theorem module_revision_raises_witness:
  "\<exists>msg. module_revision (\<lambda>_ _. Inr 0) toaster_yf = Inl (ValueError msg)"
  by (rule module_revision_raises [where d = "''2009-11-20''" and rs = "[]"
        and r = "Element (qname toaster_ns ''revision'') [(''date'', ''2009-11-20'')] []"])
    (simp_all add: find_all_def get_name_with_namespace_def with_namespace_def toaster_yf_def toaster_root_def
      qname_def el_attr_def dict_get_def)

end
