(* ===== verification/YinHelpers.thy ===== *)
theory YinHelpers
  imports YinPaths
begin

section \<open>The tree of helpers\<close>

text \<open>
  The helpers that \<open>YINFile.get_extmethods\<close> creates mirror the paths: the helper of a path
  holds the YIN node with the name of the last key, and its parent is the helper of the path
  above, or none at the top.
\<close>

abbreviation slashless :: "string list \<Rightarrow> bool" where
  "slashless ks \<equiv> list_all (\<lambda>k. CHR ''/'' \<notin> set k) ks"

definition name_at :: "rstate \<Rightarrow> nat \<Rightarrow> string option" where
  "name_at s h = (if h < heap_size s then el_attr (h_node (rs_heap s ! h)) ''name'' else None)"

definition tree :: "string \<Rightarrow> nat option \<Rightarrow> rstate \<Rightarrow> (string, nat) pydict \<Rightarrow> bool" where
  "tree base ph s d \<longleftrightarrow>
     (\<forall>(p, h) \<in> set d. \<exists>ks k. slashless (ks @ [k]) \<and> p = path_of base (ks @ [k]) \<and> name_at s h = Some k \<and>
        (if ks = [] then parent_at s h = ph
         else \<exists>h0. parent_at s h = Some h0 \<and> (path_of base ks, h0) \<in> set d))"

lemma treeD:
  "tree base ph s d \<Longrightarrow> (p, h) \<in> set d \<Longrightarrow>
   \<exists>ks k. slashless (ks @ [k]) \<and> p = path_of base (ks @ [k]) \<and> name_at s h = Some k \<and>
     (if ks = [] then parent_at s h = ph else \<exists>h0. parent_at s h = Some h0 \<and> (path_of base ks, h0) \<in> set d)"
  unfolding tree_def by (drule (1) bspec) simp

text \<open>Disjoint dictionaries are put together by \<open>update\<close>.\<close>

lemma dict_set_new: "k \<notin> dict_keys d \<Longrightarrow> dict_set k v d = d @ [(k, v)]"
  by (induction d) (auto simp: dict_keys_def)

lemma dict_update_new:
  "dict_ok e \<Longrightarrow> dict_keys d \<inter> dict_keys e = {} \<Longrightarrow> dict_update d e = d @ e"
proof (induction e arbitrary: d)
  case Nil
  then show ?case by (simp add: dict_update_def)
next
  case (Cons q e)
  obtain k v where q: "q = (k, v)" by (cases q)
  have new: "k \<notin> dict_keys d" and rest: "dict_keys (dict_set k v d) \<inter> dict_keys e = {}" and ok: "dict_ok e"
    using Cons.prems q by (auto simp: dict_keys_def dict_ok_def pyd.keys_put [unfolded dict_keys_def])
  have "dict_update d (q # e) = dict_update (dict_set k v d) e" by (simp add: dict_update_def q)
  with Cons.IH [OF ok rest] dict_set_new [OF new] show ?case by (simp add: q)
qed

lemma walk_dict_ok:
  "get_extmethods yf v node pb ph s = (Inr d, s') \<Longrightarrow> dict_ok d"
  "extmethods_loop yf items node pb ph ext s = (Inr d, s') \<Longrightarrow> dict_ok ext \<Longrightarrow> dict_ok d"
proof (induction yf v node pb ph s and yf items node pb ph ext s
    arbitrary: d s' and d s' rule: get_extmethods_extmethods_loop.induct)
  case (4 yf key item rest node pb ph ext s)
  then show ?case
    by (auto simp: Let_def split: list.splits sum.splits prod.splits)
qed auto

lemma extends_tree:
  assumes "tree base ph s d" and "extends s s'" and "addresses_in lo (heap_size s) d"
  shows "tree base ph s' d"
proof -
  have "name_at s' h = name_at s h \<and> parent_at s' h = parent_at s h" if "(p, h) \<in> set d" for p h
  proof -
    have "h < heap_size s" using assms(3) that by (force simp: addresses_in_def)
    with assms(2) show ?thesis by (auto simp: name_at_def parent_at_def extends_def heap_size_def)
  qed
  note same = this
  show ?thesis
    unfolding tree_def
  proof clarify
    fix p h assume m: "(p, h) \<in> set d"
    from treeD [OF assms(1) m] show "\<exists>ks k. slashless (ks @ [k]) \<and> p = path_of base (ks @ [k]) \<and> name_at s' h = Some k \<and>
        (if ks = [] then parent_at s' h = ph else \<exists>h0. parent_at s' h = Some h0 \<and> (path_of base ks, h0) \<in> set d)"
      unfolding same [OF m, THEN conjunct1] same [OF m, THEN conjunct2] .
  qed
qed

text \<open>No path of the dictionary starts with one of these keys.\<close>

definition avoids :: "string \<Rightarrow> string set \<Rightarrow> (string, nat) pydict \<Rightarrow> bool" where
  "avoids base K d \<longleftrightarrow> (\<forall>p \<in> dict_keys d. \<forall>k \<in> K. \<forall>ks. slashless (k # ks) \<longrightarrow> p \<noteq> path_of base (k # ks))"

lemma avoidsD: "avoids base K d \<Longrightarrow> k \<in> K \<Longrightarrow> slashless (k # ks) \<Longrightarrow> path_of base (k # ks) \<notin> dict_keys d"
  unfolding avoids_def by blast

lemma tree_keys:
  assumes "tree base ph s d" and "p \<in> dict_keys d"
  shows "\<exists>ks. ks \<noteq> [] \<and> slashless ks \<and> p = path_of base ks"
proof -
  from assms(2) obtain h where "(p, h) \<in> set d" by (auto simp: dict_keys_def)
  from treeD [OF assms(1) this] show ?thesis by blast
qed

lemma nodes_for_name: "n \<in> set (nodes_for yf node key) \<Longrightarrow> el_attr n ''name'' = Some key"
  by (simp add: nodes_for_def)

lemma new_helper_at:
  "new_helper cls n p s = (h, s1) \<Longrightarrow> name_at s1 h = el_attr n ''name'' \<and> parent_at s1 h = p"
  by (auto simp: new_helper_def name_at_def parent_at_def heap_size_def)

text \<open>One round of the loop: the new helper and the dictionary of its subtree join the others.\<close>

lemma subtree_keys:
  assumes "tree (base @ ''/'' @ key) p s sub" and "q \<in> dict_keys sub"
  shows "\<exists>ks. ks \<noteq> [] \<and> slashless ks \<and> q = path_of base (key # ks)"
  using tree_keys [OF assms] by fastforce

lemma join_list:
  assumes sub: "tree (base @ ''/'' @ key) (Some h) s2 sub" and ok: "dict_ok sub" and key: "CHR ''/'' \<notin> set key"
    and av: "avoids base (insert key K) ext"
  shows "dict_update (dict_set (base @ ''/'' @ key) h ext) sub = ext @ [(base @ ''/'' @ key, h)] @ sub"
proof -
  let ?path = "base @ ''/'' @ key"
  have new: "?path \<notin> dict_keys ext"
    using avoidsD [OF av, of key "[]"] key by simp
  have "p \<notin> dict_keys ext" if "p \<in> dict_keys sub" for p
    using subtree_keys [OF sub that] avoidsD [OF av, of key] key by auto
  moreover have "?path \<notin> dict_keys sub"
  proof
    assume "?path \<in> dict_keys sub"
    from subtree_keys [OF sub this] obtain ks where ks: "ks \<noteq> []" "slashless ks" "?path = path_of base (key # ks)"
      by blast
    have "path_of base [key] = ?path" by simp
    also note ks(3)
    finally show False
      using path_of_inj [of base "[key]" "key # ks"] key ks(1,2) by simp
  qed
  ultimately have "dict_keys (dict_set ?path h ext) \<inter> dict_keys sub = {}" by (auto simp: pyd.keys_put)
  from dict_update_new [OF ok this] dict_set_new [OF new] show ?thesis by simp
qed

lemma tree_join:
  assumes ext: "tree base ph s2 ext" and sub: "tree (base @ ''/'' @ key) (Some h) s2 sub"
    and ok: "dict_ok sub" and key: "CHR ''/'' \<notin> set key"
    and av: "avoids base (insert key K) ext" and "key \<notin> K"
    and h: "name_at s2 h = Some key" "parent_at s2 h = ph"
  shows "tree base ph s2 (ext @ [(base @ ''/'' @ key, h)] @ sub) \<and> avoids base K (ext @ [(base @ ''/'' @ key, h)] @ sub)"
proof -
  let ?path = "base @ ''/'' @ key" and ?d = "ext @ [(base @ ''/'' @ key, h)] @ sub"
  have path: "?path = path_of base [key]" "path_of ?path ks = path_of base (key # ks)" for ks by simp_all
  have set_d: "set ?d = insert (?path, h) (set ext \<union> set sub)" by auto
  have "tree base ph s2 ?d"
    unfolding tree_def
  proof (clarify)
    fix p a
    assume "(p, a) \<in> set ?d"
    then consider (new) "p = ?path" "a = h" | (ext) "(p, a) \<in> set ext" | (sub) "(p, a) \<in> set sub"
      unfolding set_d by blast
    then show "\<exists>ks k. slashless (ks @ [k]) \<and> p = path_of base (ks @ [k]) \<and> name_at s2 a = Some k \<and>
        (if ks = [] then parent_at s2 a = ph else \<exists>h0. parent_at s2 a = Some h0 \<and> (path_of base ks, h0) \<in> set ?d)"
    proof cases
      case new
      with h key show ?thesis unfolding set_d by (intro exI [of _ "[]"] exI [of _ key]) simp
    next
      case ext
      from treeD [OF \<open>tree base ph s2 ext\<close> ext] obtain ks k where
        "slashless (ks @ [k])" "p = path_of base (ks @ [k])" "name_at s2 a = Some k"
        "if ks = [] then parent_at s2 a = ph else \<exists>h0. parent_at s2 a = Some h0 \<and> (path_of base ks, h0) \<in> set ext"
        by blast
      then show ?thesis unfolding set_d by (intro exI [of _ ks] exI [of _ k]) auto
    next
      case sub
      from treeD [OF \<open>tree ?path (Some h) s2 sub\<close> sub] obtain ks k where
        "slashless (ks @ [k])" "p = path_of ?path (ks @ [k])" "name_at s2 a = Some k"
        "if ks = [] then parent_at s2 a = Some h else \<exists>h0. parent_at s2 a = Some h0 \<and> (path_of ?path ks, h0) \<in> set sub"
        by blast
      then show ?thesis
        using key unfolding set_d by (intro exI [of _ "key # ks"] exI [of _ k]) (cases "ks = []"; force)
    qed
  qed
  moreover have "avoids base K ?d"
    unfolding avoids_def
  proof (intro ballI allI impI notI)
    fix p k ks
    assume p: "p \<in> dict_keys ?d" and k: "k \<in> K" "slashless (k # ks)" "p = path_of base (k # ks)"
    from p have "p \<in> dict_keys sub \<or> p = ?path \<or> p \<in> dict_keys ext"
      by (auto simp: dict_keys_def)
    moreover have "p \<notin> dict_keys ext" using avoidsD [OF av, of k ks] k by simp
    ultimately consider "p \<in> dict_keys sub" | "p = path_of base [key]" unfolding path(1) by blast
    then obtain us where us: "slashless us" "p = path_of base (key # us)"
      by cases (use subtree_keys [OF sub] in blast, use list.pred_inject(1) in blast)
    with k(2,3) key path_of_inj [of base "key # us" "k # ks"] have "key = k" by simp
    with k(1) \<open>key \<notin> K\<close> show False by simp
  qed
  ultimately show ?thesis by blast
qed

lemma walk_tree:
  "heap_ok s \<Longrightarrow> config_closed s \<Longrightarrow> parent_ok False ph s \<Longrightarrow> keys_ok v \<Longrightarrow>
   get_extmethods yf v node pb ph s = (Inr d, s') \<Longrightarrow>
   tree pb ph s' d \<and> map snd d = [heap_size s..<heap_size s']"
  "heap_ok s \<Longrightarrow> config_closed s \<Longrightarrow> parent_ok False ph s \<Longrightarrow> keys_ok (VDict items) \<Longrightarrow>
   addresses_in 0 (heap_size s) ext \<Longrightarrow> tree pb ph s ext \<Longrightarrow> avoids pb (fst ` set items) ext \<Longrightarrow>
   lo \<le> heap_size s \<Longrightarrow> map snd ext = [lo..<heap_size s] \<Longrightarrow>
   extmethods_loop yf items node pb ph ext s = (Inr d, s') \<Longrightarrow> tree pb ph s' d \<and> map snd d = [lo..<heap_size s']"
proof (induction yf v node pb ph s and yf items node pb ph ext s
    arbitrary: d s' and d s' lo rule: get_extmethods_extmethods_loop.induct)
  case (1 yf node pb ph s)
  then show ?case by (simp add: tree_def)
next
  case (2 yf items node pb ph s)
  from "2.IH" [OF "2.prems"(1-4), of "heap_size s" d s'] "2.prems"(5) show ?case
    by (simp add: addresses_in_def tree_def avoids_def dict_keys_def)
next
  case (3 yf node pb ph ext s)
  then show ?case by simp
next
  case (4 yf key item rest node pb ph ext s)
  let ?path = "pb @ ''/'' @ key"
  from "4.prems"(4) have keys: "keys_ok (VDict rest)" "keys_ok item" "CHR ''/'' \<notin> set key" "key \<notin> fst ` set rest"
    by auto
  show ?case
  proof (cases "nodes_for yf node key")
    case Nil
    have "avoids pb (fst ` set rest) ext" using "4.prems"(7) by (simp add: avoids_def)
    with "4.IH"(1) [OF refl Nil "4.prems"(1-3) keys(1) "4.prems"(5,6) _ "4.prems"(8,9)] "4.prems"(10) Nil show ?thesis by simp
  next
    case (Cons n ns)
    with "4.prems"(10) obtain c where cfg: "node_config yf (parent_config s ph) n = Inr c"
      by (auto simp: Let_def split: sum.splits)
    obtain h s1 where new: "new_helper (class_of_flag c) n ph s = (h, s1)" by fastforce
    note st = step_new_helper [OF "4.prems"(1,2,3) cfg new]
    from "4.prems"(10) Cons cfg new obtain sub s2 where sub: "get_extmethods yf item n ?path (Some h) s1 = (Inr sub, s2)"
      and run: "extmethods_loop yf rest node pb ph (dict_update (dict_set ?path h ext) sub) s2 = (Inr d, s')"
      by (auto simp: Let_def split: sum.splits prod.splits)
    from "4.IH"(2) [OF refl Cons cfg new [symmetric] refl st(1,2,6) keys(2) sub]
    have subtree: "tree ?path (Some h) s2 sub" and numbers: "map snd sub = [heap_size s1..<heap_size s2]" by blast+
    from walk_keeps_store(1) [OF st(1,2,6) sub]
    have keep: "heap_ok s2" "config_closed s2" "extends s1 s2" "addresses_in (heap_size s1) (heap_size s2) sub"
      by blast+
    have ext2: "extends s s2" using st(3) keep(3) extends_trans by blast
    have h: "name_at s2 h = Some key" "parent_at s2 h = ph"
      using new_helper_at [OF new] nodes_for_name [of n yf node key] Cons keep(3) st(5)
      by (auto simp: name_at_def parent_at_def extends_def heap_size_def)
    have av: "avoids pb (insert key (fst ` set rest)) ext" using "4.prems"(7) by simp
    note list = join_list [OF subtree walk_dict_ok(1) [OF sub] keys(3) av]
    have join: "tree pb ph s2 (ext @ [(?path, h)] @ sub) \<and> avoids pb (fst ` set rest) (ext @ [(?path, h)] @ sub)"
      by (rule tree_join [OF extends_tree [OF "4.prems"(6) ext2 "4.prems"(5)] subtree walk_dict_ok(1) [OF sub] keys(3) av keys(4) h])
    have sizes: "lo \<le> heap_size s" "heap_size s = h" "heap_size s1 = Suc h" "Suc h \<le> heap_size s2"
      using "4.prems"(8) st(4,5) keep(3) by (auto simp: extends_def)
    have all: "map snd (ext @ [(?path, h)] @ sub) = [lo..<heap_size s2]"
    proof -
      have "[lo..<heap_size s2] = [lo..<h] @ [h..<heap_size s2]"
        using sizes upt_add_eq_append [of lo h "heap_size s2 - h"] by simp
      with "4.prems"(9) numbers sizes show ?thesis by (simp add: upt_conv_Cons)
    qed
    then have "addresses_in 0 (heap_size s2) (ext @ [(?path, h)] @ sub)"
      unfolding addresses_in_def image_set all by simp
    from "4.IH"(3) [OF refl Cons cfg new [symmetric] refl sub [symmetric] refl keep(1,2)
        parent_ok_extends [OF "4.prems"(3) ext2] keys(1), of lo d s', unfolded list,
        OF this conjunct1 [OF join] conjunct2 [OF join] _ all run [unfolded list]] sizes
    show ?thesis by simp
  qed
qed

text \<open>
  C15: the walk makes one helper for each path of its dictionary and no other, and numbers
  them in the order of the dictionary: no helper is shared, lost or taken from the store as it was.
\<close>

theorem extmethods_fresh:
  assumes "heap_ok s" and "config_closed s" and "keys_ok v" and "root_extmethods yf v s = (Inr d, s')"
  shows "map snd d = [heap_size s..<heap_size s']"
proof -
  have "parent_ok False None s" by (simp add: parent_ok_def)
  from walk_tree(1) [OF assms(1,2) this assms(3) assms(4) [unfolded root_extmethods_def]] show ?thesis by blast
qed

theorem extmethods_fresh_witness:
  "[0, 1, 2] = [heap_size sample_state..<heap_size (snd toaster_walk)]"
  using extmethods_fresh [OF sample_state_ok toaster_keys_ok toaster_result'] by simp

text \<open>
  C17: the helpers of the dictionary form the tree of its paths: the helper of a path holds the
  YIN node named like the last key, and its parent is the helper of the path without that key, which
  is in the dictionary too; at the top it has no parent.
\<close>

theorem extmethods_tree:
  assumes "heap_ok s" and "config_closed s" and "keys_ok v" and "root_extmethods yf v s = (Inr d, s')"
    and "(p, h) \<in> set d"
  shows "\<exists>ks k. p = path_of '''' (ks @ [k]) \<and> name_at s' h = Some k \<and>
    (if ks = [] then parent_at s' h = None
     else \<exists>h0. parent_at s' h = Some h0 \<and> (path_of '''' ks, h0) \<in> set d)"
proof -
  have "parent_ok False None s" by (simp add: parent_ok_def)
  from walk_tree(1) [OF assms(1,2) this assms(3) assms(4) [unfolded root_extmethods_def]]
  have "tree '''' None s' d" by blast
  from treeD [OF this assms(5)] show ?thesis by blast
qed

theorem extmethods_tree_witness:
  "\<exists>ks k. ''/toaster/toasterModelNumber'' = path_of '''' (ks @ [k]) \<and> name_at (snd toaster_walk) 2 = Some k"
  using extmethods_tree [OF sample_state_ok toaster_keys_ok toaster_result', of "''/toaster/toasterModelNumber''" 2]
  by auto

end
