(* ===== verification/YangModel.thy ===== *)
theory YangModel
  imports YinPaths
begin

section \<open>YANG models\<close>

text \<open>
  The class \<open>YangModel\<close> (\<open>tools/mockDevice/yangModel.py\<close>): one YIN file, the generated class
  that belongs to it, and the helpers made for its nodes. What is not in the repository is
  an argument (\<open>generated\<close>): the parser of YIN files, and for the generated packages the outcome of the import, of
  looking up the class, of \<open>yang_class().get()\<close> and of \<open>yang_class(extmethods=...)\<close>. The lines
  printed for \<open>verbose\<close> are left out; the one printed for a caught \<open>ImportError\<close> too.
\<close>

definition path_join :: "string \<Rightarrow> string \<Rightarrow> string" where
  "path_join a b =
     (if b \<noteq> [] \<and> hd b = CHR ''/'' then b
      else if a = [] \<or> last a = CHR ''/'' then a @ b
      else a @ ''/'' @ b)"

record generated =
  parse_yin :: "string \<Rightarrow> element res"
  import_package :: "string \<Rightarrow> unit res"
  find_class :: "string \<Rightarrow> string \<Rightarrow> unit res"
  class_get :: "string \<Rightarrow> pyval res"
  class_with :: "string \<Rightarrow> (string, nat) pydict \<Rightarrow> unit res"

text \<open>\<open>_yang_class\<close>: not set, the class itself, or an instance made with the helpers.\<close>

datatype yang_class = NoClass | ClassItself string | InstanceWith string "(string, nat) pydict"

record yang_model =
  ym_yin :: yinfile
  ym_extmethods :: "(string, nat) pydict option"
  ym_class :: yang_class

definition model_name :: "yang_model \<Rightarrow> string option" where
  "model_name m = yin_module_name (ym_yin m)"

definition model_str :: "yang_model \<Rightarrow> string" where
  "model_str m = ''YangModel: '' @ str_opt (model_name m)"

definition package_of :: "string \<Rightarrow> string" where
  "package_of name = str_replace '' '' ''_'' (str_replace ''-'' ''_'' name)"

definition package_name :: "yinfile \<Rightarrow> string res" where
  "package_name yin =
     (case yin_module_name yin of
        None \<Rightarrow> Inl (AttributeError ''object has no attribute replace'')
      | Some name \<Rightarrow> Inr (package_of name))"

subsection \<open>Importing the generated class\<close>

text \<open>
  The body of the \<open>try\<close> statement of \<open>_import_models\<close>, with the attributes as they are when it
  ends or raises: \<open>_extmethods\<close> is assigned before the class is made again.
\<close>

definition import_class ::
  "generated \<Rightarrow> yinfile \<Rightarrow> string \<Rightarrow> string \<Rightarrow> rstate \<Rightarrow>
   unit res \<times> (string, nat) pydict option \<times> yang_class \<times> rstate" where
  "import_class g yin package module s =
     (case import_package g (package @ ''.'' @ module) of
        Inl e \<Rightarrow> (Inl e, None, NoClass, s)
      | Inr u \<Rightarrow>
     (case find_class g (package @ ''.'' @ module) module of
        Inl e \<Rightarrow> (Inl e, None, NoClass, s)
      | Inr u \<Rightarrow>
     (case class_get g module of
        Inl e \<Rightarrow> (Inl e, None, NoClass, s)
      | Inr value \<Rightarrow>
     (case root_extmethods yin value s of
        (Inl e, s1) \<Rightarrow> (Inl e, None, NoClass, s1)
      | (Inr d, s1) \<Rightarrow>
          if d \<noteq> [] then
            (case class_with g module d of
               Inl e \<Rightarrow> (Inl e, Some d, NoClass, s1)
             | Inr u \<Rightarrow> (Inr (), Some d, InstanceWith module d, s1))
          else (Inr (), Some d, ClassItself module, s1)))))"

fun is_import_error :: "pyexc \<Rightarrow> bool" where
  "is_import_error (ImportError msg) = True"
| "is_import_error _ = False"

text \<open>\<open>_import_models\<close>: an \<open>ImportError\<close> is reported and dropped, the rest goes up.\<close>

definition import_models ::
  "generated \<Rightarrow> yinfile \<Rightarrow> string \<Rightarrow> rstate \<Rightarrow> yang_model res \<times> rstate" where
  "import_models g yin model_dir s =
     (case package_name yin of
        Inl e \<Rightarrow> (Inl e, s)
      | Inr module \<Rightarrow>
          (case import_class g yin model_dir module s of
             (r, ext, cls, s1) \<Rightarrow>
               (let model = \<lparr>ym_yin = yin, ym_extmethods = ext, ym_class = cls\<rparr> in
                case r of
                  Inr u \<Rightarrow> (Inr model, s1)
                | Inl e \<Rightarrow> if is_import_error e then (Inr model, s1) else (Inl e, s1))))"

definition YangModel ::
  "generated \<Rightarrow> string \<Rightarrow> string \<Rightarrow> string \<Rightarrow> rstate \<Rightarrow> yang_model res \<times> rstate" where
  "YangModel g yin_path yin_file model_dir s =
     (case rbind (parse_yin g (path_join yin_path yin_file)) (YINFile (path_join yin_path yin_file)) of
        Inl e \<Rightarrow> (Inl e, s)
      | Inr yin \<Rightarrow> import_models g yin model_dir s)"

subsection \<open>The walk over model objects\<close>

text \<open>
  \<open>_get_extmethods\<close> and \<open>_fix_extmethods\<close>, which no code calls. A value is a dictionary or
  an object; of an object the walk reads the attributes \<open>_is_leaf\<close> and
  \<open>flags.writeable\<close>, \<open>None\<close> for one that it does not have.
\<close>

datatype model_value =
    ModelDict "(string \<times> model_value) list"
  | ModelObject "bool option" "bool option"

fun value_config :: "model_value \<Rightarrow> bool" where
  "value_config (ModelDict items) = True"
| "value_config (ModelObject (Some True) (Some writeable)) = writeable"
| "value_config (ModelObject leaf writeable) = True"

fun model_extmethods :: "model_value \<Rightarrow> string \<Rightarrow> (string, bool) pydict"
  and model_extmethods_loop :: "(string \<times> model_value) list \<Rightarrow> string \<Rightarrow> (string, bool) pydict \<Rightarrow> (string, bool) pydict"
where
  "model_extmethods (ModelObject leaf writeable) path_base = []"
| "model_extmethods (ModelDict items) path_base = model_extmethods_loop items path_base []"
| "model_extmethods_loop [] path_base ext = ext"
| "model_extmethods_loop ((key, v) # rest) path_base ext =
     model_extmethods_loop rest path_base
       (dict_update (dict_set (path_base @ ''/'' @ key) (value_config v) ext)
         (model_extmethods v (path_base @ ''/'' @ key)))"

definition fix_extmethods :: "(string, bool) pydict \<Rightarrow> (string, bool) pydict" where
  "fix_extmethods extmethods = extmethods"

subsection \<open>Properties\<close>

lemma str_replace_one: "str_replace [a] [b] s = map (\<lambda>c. if c = a then b else c) s"
  by (rule str_replace_char)

lemma package_of_map: "package_of name = map (\<lambda>c. if c = CHR ''-'' \<or> c = CHR '' '' then CHR ''_'' else c) name"
  by (simp add: package_of_def str_replace_char)

text \<open>
  The package name has the length of the module name and differs from it exactly in the
  hyphens and spaces, which are underscores; so two module names of one package differ at
  most in these three characters.
\<close>

theorem package_name_chars:
  "package_of name = package_of name' \<longleftrightarrow>
   list_all2 (\<lambda>c d. c = d \<or> {c, d} \<subseteq> {CHR ''-'', CHR '' '', CHR ''_''}) name name'"
  by (auto simp: package_of_map list_eq_iff_nth_eq list_all2_conv_all_nth split: if_splits)

lemma import_class_keeps:
  assumes "heap_ok s" and "config_closed s" and "import_class g yin package module s = (r, ext, cls, s')"
  shows "heap_ok s'" and "config_closed s'" and "extends s s'"
proof -
  have "s' = s \<or> (\<exists>v r'. root_extmethods yin v s = (r', s'))"
    using assms(3) by (auto simp: import_class_def split: sum.splits prod.splits if_splits)
  then consider "s' = s" | v r' where "root_extmethods yin v s = (r', s')" by blast
  then have "heap_ok s' \<and> config_closed s' \<and> extends s s'"
  proof cases
    case 2
    from root_extmethods_walk(2,3,4) [OF assms(1,2) this] show ?thesis by blast
  qed (use assms in simp)
  then show "heap_ok s'" and "config_closed s'" and "extends s s'" by blast+
qed

lemma YangModel_keeps:
  assumes "heap_ok s" and "config_closed s" and "YangModel g p f d s = (r, s')"
  shows "heap_ok s' \<and> config_closed s' \<and> extends s s'"
proof -
  have "s' = s \<or> (\<exists>yin package module r' ext cls. import_class g yin package module s = (r', ext, cls, s'))"
    using assms(3)
    by (auto simp: YangModel_def import_models_def Let_def split: sum.splits prod.splits if_splits)
  then consider "s' = s" | yin package module r' ext cls
    where "import_class g yin package module s = (r', ext, cls, s')" by blast
  then show ?thesis
  proof cases
    case 2
    from import_class_keeps [OF assms(1,2) 2] show ?thesis by blast
  qed (use assms in simp)
qed

text \<open>
  The model that the constructor returns is consistent: it holds an instance only if the
  walk gave helpers, and then one made with just these; it holds the class itself only if the
  walk gave none. Otherwise an \<open>ImportError\<close> was dropped and it holds no class.
\<close>

theorem YangModel_consistent:
  assumes "YangModel g yin_path yin_file model_dir s = (Inr m, s')"
  shows "case ym_class m of
      NoClass \<Rightarrow> True
    | ClassItself c \<Rightarrow> ym_extmethods m = Some [] \<and> package_name (ym_yin m) = Inr c
    | InstanceWith c d \<Rightarrow> ym_extmethods m = Some d \<and> d \<noteq> [] \<and> package_name (ym_yin m) = Inr c"
  using assms
  by (auto simp: YangModel_def import_models_def import_class_def Let_def
      split: sum.splits prod.splits if_splits)

text \<open>
  When the package of a model cannot be imported, the constructor still returns a model,
  without class and helpers, and creates nothing in the store.
\<close>

theorem import_error_dropped:
  assumes "rbind (parse_yin g (path_join yin_path yin_file)) (YINFile (path_join yin_path yin_file)) = Inr yin"
    and "package_name yin = Inr module" and "import_package g (model_dir @ ''.'' @ module) = Inl (ImportError msg)"
  shows "YangModel g yin_path yin_file model_dir s =
    (Inr \<lparr>ym_yin = yin, ym_extmethods = None, ym_class = NoClass\<rparr>, s)"
  using assms by (simp add: YangModel_def import_models_def import_class_def)

lemma YangModel_extmethods:
  assumes "YangModel g yin_path yin_file model_dir s = (Inr m, s')" and "ym_extmethods m = Some d"
  shows "\<exists>v. root_extmethods (ym_yin m) v s = (Inr d, s')"
  using assms
  by (auto simp: YangModel_def import_models_def import_class_def Let_def
      split: sum.splits prod.splits if_splits)

text \<open>
  A change of any configurable helper that a model was given can be recorded, from the
  state the constructor leaves behind: \<open>set_modified\<close> raises nothing.
\<close>

theorem YangModel_modifiable:
  assumes "heap_ok s" and "config_closed s" and "YangModel g yin_path yin_file model_dir s = (Inr m, s')"
    and "ym_extmethods m = Some d" and "(p, h) \<in> set d" and "config_at s' h"
  shows "\<exists>s''. set_modified env h updateTime s' = Some (Inr (), s'')"
proof -
  from YangModel_extmethods [OF assms(3,4)] obtain v
    where "root_extmethods (ym_yin m) v s = (Inr d, s')" by blast
  from walk_modifiable [OF assms(1,2) this assms(5,6)] show ?thesis .
qed

subsection \<open>The model of the toaster\<close>

definition toaster_generated :: "pyexc option \<Rightarrow> generated" where
  "toaster_generated e =
     \<lparr>parse_yin = (\<lambda>_. Inr toaster_root),
      import_package = (\<lambda>_. case e of None \<Rightarrow> Inr () | Some x \<Rightarrow> Inl x),
      find_class = (\<lambda>_ _. Inr ()), class_get = (\<lambda>_. Inr toaster_value), class_with = (\<lambda>_ _. Inr ())\<rparr>"

definition toaster_dict :: "(string, nat) pydict" where
  "toaster_dict = [(''/toaster'', 0), (''/toaster/toasterManufacturer'', 1), (''/toaster/toasterModelNumber'', 2)]"

lemma toaster_package: "package_name (toaster_yf\<lparr>yf_path := p\<rparr>) = Inr ''toaster''"
  by code_simp

lemma toaster_model:
  "YangModel (toaster_generated None) ''generated'' ''toaster.xml'' ''generated'' sample_state =
     (Inr \<lparr>ym_yin = toaster_yf\<lparr>yf_path := ''generated/toaster.xml''\<rparr>, ym_extmethods = Some toaster_dict,
        ym_class = InstanceWith ''toaster'' toaster_dict\<rparr>, snd toaster_walk)"
  by code_simp

theorem YangModel_consistent_witness:
  "case ym_class \<lparr>ym_yin = toaster_yf\<lparr>yf_path := ''generated/toaster.xml''\<rparr>, ym_extmethods = Some toaster_dict,
        ym_class = InstanceWith ''toaster'' toaster_dict\<rparr> of
      NoClass \<Rightarrow> False | ClassItself c \<Rightarrow> False | InstanceWith c d \<Rightarrow> d \<noteq> []"
  using YangModel_consistent [OF toaster_model] by simp

theorem YangModel_modifiable_witness:
  "\<exists>s''. set_modified sample_env 0 None (snd toaster_walk) = Some (Inr (), s'')"
  by (rule YangModel_modifiable [OF sample_state_ok toaster_model, of toaster_dict "''/toaster''"])
    (use toaster_result(2) in \<open>simp_all add: toaster_dict_def\<close>)

theorem import_error_dropped_witness:
  "YangModel (toaster_generated (Some (ImportError ''x''))) ''generated'' ''toaster.xml'' ''generated'' sample_state =
    (Inr \<lparr>ym_yin = toaster_yf\<lparr>yf_path := ''generated/toaster.xml''\<rparr>, ym_extmethods = None, ym_class = NoClass\<rparr>, sample_state)"
proof (rule import_error_dropped)
  show "rbind (parse_yin (toaster_generated (Some (ImportError ''x''))) (path_join ''generated'' ''toaster.xml''))
      (YINFile (path_join ''generated'' ''toaster.xml'')) = Inr (toaster_yf\<lparr>yf_path := ''generated/toaster.xml''\<rparr>)"
    by code_simp
qed (simp_all add: toaster_package toaster_generated_def)

end
