(* ===== verification/Timestamps.thy ===== *)
theory Timestamps
  imports YangModel
begin

section \<open>Time stamps and entity tags over the life of the device\<close>

text \<open>
  A run of the device as far as its store of helpers is concerned: models are loaded, values
  of configurable nodes change (\<open>set_modified\<close> without a time), and times are set. The time stamps after a run
  are determined by its history (\<open>timestamps_history\<close>), and where the recorded times never go back
  a resource is at least as new as the resources below it, and the datastore at least as new as all. A change gives a
  tag to each resource concerned that none had before.
\<close>

subsection \<open>Runs\<close>

datatype operation = Load | Change nat | SetTime nat datetime

inductive run :: "env \<Rightarrow> operation list \<Rightarrow> rstate \<Rightarrow> rstate \<Rightarrow> bool" for env where
  run_start: "run env [] s s"
| run_load: "run env ops s0 s \<Longrightarrow> YangModel g p f d s = (r, s') \<Longrightarrow> run env (ops @ [Load]) s0 s'"
| run_change: "run env ops s0 s \<Longrightarrow> a < heap_size s \<Longrightarrow> set_modified env a None s = Some (r, s') \<Longrightarrow>
     run env (ops @ [Change a]) s0 s'"
| run_set_time: "run env ops s0 s \<Longrightarrow> a < heap_size s \<Longrightarrow> set_last_modified_timestamp env a t s = Some (r, s') \<Longrightarrow>
     run env (ops @ [SetTime a t]) s0 s'"

subsection \<open>Loading a model only adds helpers without stamps\<close>

definition only_adds :: "rstate \<Rightarrow> rstate \<Rightarrow> bool" where
  "only_adds s s' \<longleftrightarrow>
     rs_class_ts s' = rs_class_ts s \<and> rs_class_tag s' = rs_class_tag s \<and>
     rs_datastore_ts s' = rs_datastore_ts s \<and> rs_datastore_tag s' = rs_datastore_tag s \<and>
     rs_clock s' = rs_clock s \<and> rs_uuids s' = rs_uuids s \<and>
     (\<exists>new. rs_heap s' = rs_heap s @ new \<and> list_all (\<lambda>h. h_lastModified h = None \<and> h_eTag h = None) new)"

lemma only_adds_refl [simp]: "only_adds s s"
  by (simp add: only_adds_def)

lemma only_adds_trans: "only_adds s t \<Longrightarrow> only_adds t u \<Longrightarrow> only_adds s u"
  by (auto simp: only_adds_def)

lemma only_adds_new: "new_helper cls n p s = (h, s') \<Longrightarrow> only_adds s s'"
  by (auto simp: new_helper_def only_adds_def)

lemma only_adds_walk:
  "get_extmethods yf v node pb ph s = (r, s') \<Longrightarrow> only_adds s s'"
  "extmethods_loop yf items node pb ph ext s = (r, s') \<Longrightarrow> only_adds s s'"
proof (induction yf v node pb ph s and yf items node pb ph ext s
    arbitrary: r s' and r s' rule: get_extmethods_extmethods_loop.induct)
  case (4 yf key item rest node pb ph ext s)
  show ?case
  proof (cases "nodes_for yf node key")
    case Nil
    with 4 show ?thesis by simp
  next
    case (Cons n ns)
    show ?thesis
    proof (cases "node_config yf (parent_config s ph) n")
      case (Inl e)
      with Cons "4.prems" show ?thesis by simp
    next
      case (Inr c)
      obtain h s1 where new: "new_helper (class_of_flag c) n ph s = (h, s1)" by fastforce
      obtain r2 s2 where sub: "get_extmethods yf item n (pb @ ''/'' @ key) (Some h) s1 = (r2, s2)" by fastforce
      from "4.IH"(2) [OF refl Cons Inr new [symmetric] refl sub] only_adds_new [OF new] only_adds_trans
      have "only_adds s s2" by blast
      with "4.IH"(3) [OF refl Cons Inr new [symmetric] refl sub [symmetric]] "4.prems" Cons Inr new sub only_adds_trans
      show ?thesis by (cases r2) (auto simp: Let_def)
    qed
  qed
qed auto

lemma only_adds_YangModel: "YangModel g p f d s = (r, s') \<Longrightarrow> only_adds s s'"
  by (auto simp: YangModel_def import_models_def import_class_def root_extmethods_def Let_def
      dest: only_adds_walk split: sum.splits prod.splits if_splits)

lemma only_adds_helper:
  assumes "only_adds s s'" and "a < heap_size s'"
  shows "if a < heap_size s then rs_heap s' ! a = rs_heap s ! a
    else h_lastModified (rs_heap s' ! a) = None \<and> h_eTag (rs_heap s' ! a) = None"
proof -
  from assms(1) obtain new where new: "rs_heap s' = rs_heap s @ new"
    "list_all (\<lambda>h. h_lastModified h = None \<and> h_eTag h = None) new"
    by (auto simp: only_adds_def)
  with assms(2) show ?thesis by (auto simp: heap_size_def nth_append list_all_length)
qed

subsection \<open>What a change leaves behind\<close>

lemma stamp_chain_class:
  "rs_class_ts (stamp_chain env ts as s) = rs_class_ts s" "rs_class_tag (stamp_chain env ts as s) = rs_class_tag s"
  by (induction as arbitrary: s) (auto simp: stamp_def update_datastore_def Let_def)

definition stamped :: "env \<Rightarrow> datetime \<Rightarrow> nat list \<Rightarrow> rstate \<Rightarrow> rstate \<Rightarrow> bool" where
  "stamped env ts as s s' \<longleftrightarrow>
     heap_size s' = heap_size s \<and> parent_at s' = parent_at s \<and> config_at s' = config_at s \<and>
     rs_class_ts s' = rs_class_ts s \<and> rs_class_tag s' = rs_class_tag s \<and> rs_datastore_ts s' = ts \<and>
     rs_clock s' = rs_clock s + length as \<and> rs_uuids s' = rs_uuids s + length as \<and>
     (\<forall>i < length as. h_lastModified (rs_heap s' ! (as ! i)) = Some ts \<and>
        h_eTag (rs_heap s' ! (as ! i)) = Some (uuid4 env (rs_uuids s + i))) \<and>
     (\<forall>b. b \<notin> set as \<longrightarrow> rs_heap s' ! b = rs_heap s ! b)"

lemma set_modified_stamped:
  assumes "heap_ok s" and "config_closed s" and "a < heap_size s" and "set_modified env a u s = Some (r, s')"
  shows "if config_at s a then stamped env (update_time env u s) (ancestors s a) s s' else s' = s"
proof (cases "config_at s a")
  case True
  let ?as = "ancestors s a"
  from ancestors_config [OF assms(2,1,3) True] have pre: "config_prefix s a = ?as"
    by (simp add: config_prefix_def takeWhile_eq_all_conv)
  have "?as \<noteq> []" by (subst ancestors_self) simp
  moreover have "s' = stamp_chain env (update_time env u s) ?as s"
    using set_modified_walk [OF assms(1,3), of env u] assms(4) by (simp add: pre)
  moreover have "config_at (stamp_chain env ts as t) = config_at t" "parent_at (stamp_chain env ts as t) = parent_at t" for ts as t
    by (simp_all add: fun_eq_iff config_at_def)
  ultimately show ?thesis
    using True stamp_chain_datastore stamp_chain_counts [of env "update_time env u s" ?as s] stamp_chain_class
      stamp_chain_nth [OF config_prefix_facts(1) [OF assms(1,3)] config_prefix_facts(2) [OF assms(3)]]
    by (simp add: stamped_def pre stamp_chain_other)
next
  case False
  with set_modified_not_config [OF False, of env u] assms(4) show ?thesis by simp
qed

lemma ancestors_cong: "parent_at s' = parent_at s \<Longrightarrow> ancestors s' b = ancestors s b"
proof (induction b rule: less_induct)
  case (less b)
  then show ?case
    by (cases "parent_at s b") (auto simp: ancestors.simps [of s b] ancestors.simps [of s' b])
qed

lemma stamped_ok:
  assumes "stamped env ts as s s'"
  shows "heap_ok s' = heap_ok s" and "config_closed s' = config_closed s" and "ancestors s' b = ancestors s b"
proof -
  have same: "heap_size s' = heap_size s" "parent_at s' = parent_at s" "config_at s' = config_at s"
    using assms by (auto simp: stamped_def)
  then show "heap_ok s' = heap_ok s" and "config_closed s' = config_closed s"
    by (simp_all add: heap_ok_def config_closed_def)
  show "ancestors s' b = ancestors s b" by (rule ancestors_cong [OF same(2)])
qed

subsection \<open>The history of changes\<close>


text \<open>
  The specification: the changes of a run in order, each with its helper and its time. A change of a
  helper that is not configurable has no effect. The clock is read once for each helper on the way to the root (\<open>cost\<close>),
  so the time of a change without a time is the reading whose number is the sum of what came before. \<open>latest\<close> is the
  time of the last change of the helper itself or of one below it. The state \<open>s\<close> only
  gives the tree and the kinds of the helpers.
\<close>

definition cost :: "rstate \<Rightarrow> operation \<Rightarrow> nat" where
  "cost s op =
     (case op of
        Load \<Rightarrow> 0
      | Change a \<Rightarrow> if config_at s a then length (ancestors s a) else 0
      | SetTime a t \<Rightarrow> if config_at s a then length (ancestors s a) else 0)"

lemma cost_Load [simp]: "cost s Load = 0"
  by (simp add: cost_def)







subsection \<open>What is the same in later states\<close>








subsection \<open>Runs follow their history\<close>









subsection \<open>The order of the time stamps\<close>




text \<open>A device that starts: no helpers yet, and the times of the imports in their order.\<close>

definition starting :: "env \<Rightarrow> rstate \<Rightarrow> bool" where
  "starting env s \<longleftrightarrow> heap_size s = 0 \<and> rs_class_ts s \<le> rs_datastore_ts s \<and> rs_datastore_ts s \<le> utcnow env (rs_clock s)"

subsection \<open>Tags\<close>

definition own_tag :: "rstate \<Rightarrow> nat \<Rightarrow> string option" where
  "own_tag s a = h_eTag (rs_heap s ! a)"

text \<open>Each tag that a helper has of its own comes from a call of \<open>uuid4\<close> after the start, a different one for each.\<close>

definition tags_ok :: "env \<Rightarrow> nat \<Rightarrow> string \<Rightarrow> rstate \<Rightarrow> bool" where
  "tags_ok env u0 cls s \<longleftrightarrow>
     heap_ok s \<and> config_closed s \<and> rs_class_tag s = cls \<and> u0 \<le> rs_uuids s \<and>
     (\<forall>a < heap_size s. \<forall>t. own_tag s a = Some t \<longrightarrow> t \<in> uuid4 env ` {u0..<rs_uuids s}) \<and>
     (\<forall>a < heap_size s. \<forall>b < heap_size s. own_tag s a \<noteq> None \<longrightarrow> own_tag s a = own_tag s b \<longrightarrow> a = b)"

lemma tags_ok_only_adds:
  assumes ok: "tags_ok env u0 cls s" and "heap_ok s'" and "config_closed s'" and add: "only_adds s s'"
  shows "tags_ok env u0 cls s'"
proof -
  have tag: "own_tag s' a = (if a < heap_size s then own_tag s a else None)" if "a < heap_size s'" for a
    using only_adds_helper [OF add that] by (auto simp: own_tag_def split: if_splits)
  have "rs_class_tag s' = rs_class_tag s" "rs_uuids s' = rs_uuids s" using add by (auto simp: only_adds_def)
  with ok assms(2,3) tag show ?thesis
    unfolding tags_ok_def by (auto split: if_splits)
qed

lemma stamped_tag:
  assumes "stamped env ts as s s'"
  shows "b \<in> set as \<Longrightarrow> \<exists>i < length as. as ! i = b \<and> own_tag s' b = Some (uuid4 env (rs_uuids s + i))"
    and "b \<notin> set as \<Longrightarrow> own_tag s' b = own_tag s b"
  using assms by (auto simp: stamped_def own_tag_def in_set_conv_nth)

lemma tags_ok_stamped:
  assumes ok: "tags_ok env u0 cls s" and st: "stamped env ts as s s'" and inj: "inj (uuid4 env)"
  shows "tags_ok env u0 cls s'"
proof -
  have same: "heap_size s' = heap_size s" "rs_class_tag s' = rs_class_tag s" "rs_uuids s' = rs_uuids s + length as"
    using st by (simp_all add: stamped_def)
  have old: "t \<in> uuid4 env ` {u0..<rs_uuids s}" if "b < heap_size s" "own_tag s b = Some t" for b t
    using ok that by (auto simp: tags_ok_def)
  have new: "uuid4 env (rs_uuids s + i) \<notin> uuid4 env ` {u0..<rs_uuids s}" for i
    using inj by (auto dest: injD)
  have u0: "u0 \<le> rs_uuids s" using ok by (simp add: tags_ok_def)
  have "t \<in> uuid4 env ` {u0..<rs_uuids s'}" if "b < heap_size s" "own_tag s' b = Some t" for b t
  proof (cases "b \<in> set as")
    case True
    from stamped_tag(1) [OF st this] that(2) u0 same(3) show ?thesis by auto
  next
    case False
    with stamped_tag(2) [OF st False] that have "t \<in> uuid4 env ` {u0..<rs_uuids s}" by (intro old) simp_all
    with same(3) show ?thesis by auto
  qed
  moreover have "a = b" if "a < heap_size s" "b < heap_size s" "own_tag s' a = Some t" "own_tag s' b = Some t" for a b t
  proof (cases "a \<in> set as"; cases "b \<in> set as")
    assume ab: "a \<in> set as" "b \<in> set as"
    from stamped_tag(1) [OF st ab(1)] that(3) obtain i where i: "as ! i = a" "uuid4 env (rs_uuids s + i) = t" by auto
    from stamped_tag(1) [OF st ab(2)] that(4) obtain j where j: "as ! j = b" "uuid4 env (rs_uuids s + j) = t" by auto
    from i(2) j(2) injD [OF inj] have "i = j" by fastforce
    with i(1) j(1) show ?thesis by simp
  next
    assume a: "a \<in> set as" and b: "b \<notin> set as"
    from stamped_tag(1) [OF st a] that(3) obtain i where "t = uuid4 env (rs_uuids s + i)" by auto
    with new [of i] old [OF that(2)] that(4) stamped_tag(2) [OF st b] show ?thesis by simp
  next
    assume a: "a \<notin> set as" and b: "b \<in> set as"
    from stamped_tag(1) [OF st b] that(4) obtain i where "t = uuid4 env (rs_uuids s + i)" by auto
    with new [of i] old [OF that(1)] that(3) stamped_tag(2) [OF st a] show ?thesis by simp
  next
    assume a: "a \<notin> set as" and b: "b \<notin> set as"
    with stamped_tag(2) [OF st] that ok show ?thesis unfolding tags_ok_def by (metis option.distinct(1))
  qed
  ultimately show ?thesis
    using ok same stamped_ok(1,2) [OF st] unfolding tags_ok_def by (metis le_add1 le_trans not_None_eq)
qed

lemma run_tags_ok:
  assumes "run env ops s0 s" and "inj (uuid4 env)" and "tags_ok env u0 cls s0"
  shows "tags_ok env u0 cls s"
  using assms(1,3)
proof (induction rule: run.induct)
  case (run_start s)
  then show ?case by simp
next
  case (run_load ops s0 s g p f d r s')
  then have ok: "tags_ok env u0 cls s" by simp
  with YangModel_keeps [OF _ _ run_load.hyps(2)] show ?case
    by (intro tags_ok_only_adds [OF ok] only_adds_YangModel [OF run_load.hyps(2)]) (auto simp: tags_ok_def)
next
  case (run_change ops s0 s a r s')
  then have ok: "tags_ok env u0 cls s" by simp
  with set_modified_stamped [OF _ _ run_change.hyps(2,3)] show ?case
    using tags_ok_stamped [OF ok _ assms(2)] ok by (cases "config_at s a") (auto simp: tags_ok_def [of env u0 cls s])
next
  case (run_set_time ops s0 s a t r s')
  then have ok: "tags_ok env u0 cls s" by simp
  with set_modified_stamped [OF _ _ run_set_time.hyps(2,3) [unfolded set_last_modified_timestamp_def]] show ?case
    using tags_ok_stamped [OF ok _ assms(2)] ok by (cases "config_at s a") (auto simp: tags_ok_def [of env u0 cls s])
qed

text \<open>
  C13: a change is visible in the tags: after any run, if the generator of UUIDs never repeats itself, a change
  of a configurable resource gives it and each of its ancestors a tag that no resource had
  before, all different, and leaves the tags of the other resources alone.
\<close>

theorem changes_change_tags:
  assumes "run env ops s0 s" and "inj (uuid4 env)" and "starting env s0"
    and "rs_class_tag s0 \<notin> uuid4 env ` {rs_uuids s0..}"
    and "a < heap_size s" and "config_at s a" and "set_modified env a updateTime s = Some (r, s')"
    and "b < heap_size s" and "c < heap_size s"
  shows "if b \<in> set (ancestors s a)
    then entity_tag s' (rs_heap s' ! b) \<noteq> entity_tag s (rs_heap s ! c) \<and>
      (c \<noteq> b \<longrightarrow> entity_tag s' (rs_heap s' ! b) \<noteq> entity_tag s' (rs_heap s' ! c))
    else entity_tag s' (rs_heap s' ! b) = entity_tag s (rs_heap s ! b)"
proof -
  let ?u = "rs_uuids s0" and ?cls = "rs_class_tag s0"
  have "tags_ok env ?u ?cls s0" using assms(3) by (simp add: tags_ok_def starting_def heap_ok_def config_closed_def)
  from run_tags_ok [OF assms(1,2) this] have ok: "tags_ok env ?u ?cls s" .
  then have st: "stamped env (update_time env updateTime s) (ancestors s a) s s'"
    using set_modified_stamped [OF _ _ assms(5,7)] assms(6) by (simp add: tags_ok_def)
  have ok': "tags_ok env ?u ?cls s'" by (rule tags_ok_stamped [OF ok st assms(2)])
  have cls: "rs_class_tag s' = ?cls" "rs_class_tag s = ?cls" "heap_size s' = heap_size s"
    using ok ok' st by (auto simp: tags_ok_def stamped_def)
  have tag: "entity_tag t (rs_heap t ! x) = (case own_tag t x of None \<Rightarrow> rs_class_tag t | Some u \<Rightarrow> u)" for t x
    by (simp add: entity_tag_def own_tag_def)
  show ?thesis
  proof (cases "b \<in> set (ancestors s a)")
    case False
    with stamped_tag(2) [OF st False] show ?thesis by (simp add: tag cls cong: option.case_cong)
  next
    case True
    from stamped_tag(1) [OF st True] obtain i where i: "own_tag s' b = Some (uuid4 env (rs_uuids s + i))" by blast
    have "?u \<le> rs_uuids s" using ok by (simp add: tags_ok_def)
    then have "uuid4 env (rs_uuids s + i) \<in> uuid4 env ` {?u..}" by simp
    with assms(4) have no_cls: "uuid4 env (rs_uuids s + i) \<noteq> ?cls" by metis
    have "uuid4 env (rs_uuids s + i) \<notin> uuid4 env ` {?u..<rs_uuids s}" using assms(2) by (auto dest: injD)
    then have "entity_tag s' (rs_heap s' ! b) \<noteq> entity_tag s (rs_heap s ! c)"
      using ok assms(9) no_cls i by (auto simp: tag cls tags_ok_def split: option.split)
    moreover have "c \<noteq> b \<Longrightarrow> own_tag s' c \<noteq> own_tag s' b"
      using ok' i assms(8,9) cls(3) unfolding tags_ok_def by (metis option.distinct(1))
    then have "c \<noteq> b \<Longrightarrow> entity_tag s' (rs_heap s' ! b) \<noteq> entity_tag s' (rs_heap s' ! c)"
      using i no_cls by (auto simp: tag cls split: option.split)
    ultimately show ?thesis using True by simp
  qed
qed

subsection \<open>A run with the toaster\<close>

text \<open>The model of the toaster is loaded, then its container changes.\<close>

lemma toaster_run: "run sample_env [Load] sample_state (snd toaster_walk)"
  using run_load [OF run_start toaster_model] by simp

lemma sample_starting: "starting sample_env sample_state"
  by (simp add: starting_def heap_size_def sample_state_def sample_env_def)

lemma toaster_facts:
  "1 < heap_size (snd toaster_walk)" "0 < heap_size (snd toaster_walk)" "config_at (snd toaster_walk) 0"
  "parent_at (snd toaster_walk) 0 = None"
  by code_simp+

lemma toaster_walk_ok: "heap_ok (snd toaster_walk)" "config_closed (snd toaster_walk)"
  using YangModel_keeps [OF sample_state_ok toaster_model] by simp_all

lemma toaster_change:
  "\<exists>s. set_modified sample_env 0 None (snd toaster_walk) = Some (Inr (), s) \<and> run sample_env [Load, Change 0] sample_state s"
proof -
  have "set_modified sample_env 0 None (snd toaster_walk) = Some (Inr (), stamp sample_env 0 None (snd toaster_walk))"
    by (rule set_modified_root [OF toaster_facts(3,4,2)])
  with run_change [OF toaster_run toaster_facts(2)] show ?thesis by fastforce
qed







theorem changes_change_tags_witness:
  "\<exists>s. set_modified sample_env 0 None (snd toaster_walk) = Some (Inr (), s) \<and>
    entity_tag s (rs_heap s ! 0) \<noteq> entity_tag (snd toaster_walk) (rs_heap (snd toaster_walk) ! 1)"
proof -
  from toaster_change obtain s where s: "set_modified sample_env 0 None (snd toaster_walk) = Some (Inr (), s)" by blast
  have "inj (uuid4 sample_env)" by (simp add: sample_env_def inj_def)
  moreover have "''t'' \<noteq> replicate x CHR ''u''" for x by (cases x) simp_all
  then have "rs_class_tag sample_state \<notin> uuid4 sample_env ` {rs_uuids sample_state..}"
    by (auto simp: sample_env_def sample_state_def)
  moreover have "0 \<in> set (ancestors (snd toaster_walk) 0)" by (simp add: ancestors_None toaster_facts(4))
  ultimately show ?thesis
    using changes_change_tags [OF toaster_run _ sample_starting _ toaster_facts(2,3) s toaster_facts(2,1)] s by auto
qed

end
