(* ===== verification/MockDevice.thy ===== *)
theory MockDevice
  imports YangModel
begin

section \<open>The mock device\<close>

text \<open>
  The program \<open>tools/mockDevice/mockDevice.py\<close> with its modules \<open>globals.py\<close>,
  \<open>dataModels.py\<close>, \<open>yangLibrary.py\<close>, \<open>apiResource.py\<close> and \<open>resource/datastore.py\<close>, as they
  behave once their imports have succeeded (\<open>ImportCycles\<close> shows that they do not). The state
  \<open>device\<close> holds the module variables. Running \<open>mockDevice.py\<close> makes two applications: the
  one of the main script and the one of the module \<open>mockDevice\<close> that the other modules
  import. Flask's \<open>add_url_rule\<close>, the directory listing and the clock are arguments; the lines printed for
  \<open>verbose\<close> are left out where they cannot fail.
\<close>

subsection \<open>Defaults and command line\<close>

definition DEFAULT_HTTP_PORT :: int where
  "DEFAULT_HTTP_PORT = 8080"

definition DEFAULT_ROOT_RESOURCE :: string where
  "DEFAULT_ROOT_RESOURCE = ''restconf''"

definition GENERATED_DIR_NAME :: string where
  "GENERATED_DIR_NAME = ''generated''"

text \<open>\<open>--http_port\<close> has no \<open>type\<close>: a port given on the command line stays a string.\<close>

datatype port = PortNumber int | PortText string

record settings =
  verbose :: bool
  root_resource :: string
  http_port :: port
  disable_schema :: bool
  default_xml :: bool
  patch_option :: bool

definition default_settings :: settings where
  "default_settings =
     \<lparr>verbose = False, root_resource = DEFAULT_ROOT_RESOURCE, http_port = PortNumber DEFAULT_HTTP_PORT,
      disable_schema = False, default_xml = False, patch_option = False\<rparr>"

text \<open>
  The module variables that the functions below read. \<open>accept_patch\<close> is first the flag and then,
  by the \<open>def\<close> with the same name, the function.
\<close>

datatype pyobject = Flag bool | FunctionObject string

definition truth :: "pyobject \<Rightarrow> bool" where
  "truth v = (case v of Flag b \<Rightarrow> b | FunctionObject f \<Rightarrow> True)"

definition module_default_json :: "settings \<Rightarrow> bool" where
  "module_default_json args = (\<not> default_xml args)"

definition module_accept_patch :: "settings \<Rightarrow> pyobject" where
  "module_accept_patch args =
     last [Flag (patch_option args), FunctionObject ''accept_patch'']"

definition default_encoding_json :: "settings \<Rightarrow> bool" where
  "default_encoding_json args = module_default_json args"

definition default_encoding_xml :: "settings \<Rightarrow> bool" where
  "default_encoding_xml args = (\<not> default_encoding_json args)"

definition accept_patch :: "settings \<Rightarrow> pyobject" where
  "accept_patch args = module_accept_patch args"

subsection \<open>Applications and their URL rules\<close>

record app =
  app_rules :: "(string \<times> string) list"
  app_converters :: "string list"

type_synonym add_rule = "app \<Rightarrow> string \<Rightarrow> string \<Rightarrow> app res"

record device =
  dv_store :: rstate
  dv_models :: "yang_model list"
  dv_paths :: "(string, yang_model) pydict"
  dv_library :: "yang_model list option"
  dv_app :: app
  dv_main_app :: app

definition WildcardConverter_matches :: "string \<Rightarrow> bool" where
  "WildcardConverter_matches path \<longleftrightarrow>
     path = [] \<or> (hd path = CHR ''/'' \<and> CHR 0x0A \<notin> set path)"

definition RegexConverter :: "string list \<Rightarrow> string res" where
  "RegexConverter items = (case items of [] \<Rightarrow> Inl (IndexError ''tuple index out of range'') | r # _ \<Rightarrow> Inr r)"

text \<open>The part of a URL after \<open>/root/data\<close>, when the data rule matches it.\<close>

definition data_path :: "string \<Rightarrow> string \<Rightarrow> string option" where
  "data_path root url =
     (let base = ''/'' @ root @ ''/data'';
          rest = drop (length base) url
      in if str_startswith url base \<and> WildcardConverter_matches rest then Some rest else None)"

subsection \<open>Data models\<close>

type_synonym directory = "(string \<times> bool) list"

definition is_xml :: "string \<Rightarrow> bool" where
  "is_xml f \<longleftrightarrow> str_lower (last (str_split (CHR ''.'') f)) = ''xml''"

definition xml_files :: "directory \<Rightarrow> string list" where
  "xml_files entries = map fst (filter (\<lambda>(f, is_file). is_file \<and> is_xml f) entries)"

fun import_files ::
  "generated \<Rightarrow> string \<Rightarrow> string \<Rightarrow> string list \<Rightarrow> device \<Rightarrow> unit res \<times> device" where
  "import_files g gen_dir model_dir [] dv = (Inr (), dv)"
| "import_files g gen_dir model_dir (filename # files) dv =
     (case YangModel g gen_dir filename model_dir (dv_store dv) of
        (Inl e, s) \<Rightarrow> (Inl e, dv\<lparr>dv_store := s\<rparr>)
      | (Inr model, s) \<Rightarrow>
          import_files g gen_dir model_dir files
            (dv\<lparr>dv_store := s, dv_models := dv_models dv @ [model]\<rparr>))"

definition import_data_models ::
  "generated \<Rightarrow> (string \<Rightarrow> directory option) \<Rightarrow> string \<Rightarrow> string \<Rightarrow> device \<Rightarrow> unit res \<times> device" where
  "import_data_models g listing here model_dir dv =
     (let gen_dir = path_join here model_dir in
      case listing gen_dir of
        None \<Rightarrow> (Inr (), dv)
      | Some entries \<Rightarrow> import_files g gen_dir model_dir (xml_files entries) dv)"

definition model_path :: "string \<Rightarrow> yang_model \<Rightarrow> string" where
  "model_path root model = ''/'' @ root @ ''/data/'' @ str_opt (model_name model)"

definition register_data_models ::
  "add_rule \<Rightarrow> generated \<Rightarrow> (string \<Rightarrow> directory option) \<Rightarrow> string \<Rightarrow> string \<Rightarrow> string \<Rightarrow> device \<Rightarrow>
   unit res \<times> device" where
  "register_data_models add g listing here model_dir root dv =
     (case import_data_models g listing here model_dir dv of
        (Inl e, dv1) \<Rightarrow> (Inl e, dv1)
      | (Inr u, dv1) \<Rightarrow>
          (case add (dv_app dv1) (''/'' @ root @ ''/data<wildcard:path>'') ''_data_get'' of
             Inl e \<Rightarrow> (Inl e, dv1)
           | Inr a \<Rightarrow>
               (Inr (), dv1\<lparr>dv_app := a,
                  dv_paths := fold (\<lambda>m. dict_set (model_path root m) m) (dv_models dv1) (dv_paths dv1)\<rparr>)))"

text \<open>The handlers return \<open>None\<close> after they have looked at the \<open>Accept\<close> header.\<close>

definition data_get :: "string option \<Rightarrow> string \<Rightarrow> string option" where
  "data_get accept path = None"

subsection \<open>The YANG library\<close>

text \<open>
  \<open>register_yang_library_version\<close> makes a \<open>YangLibrary\<close> of the models in a local variable; the
  variable \<open>yang_library\<close> of the module stays as it is. \<open>lib_init\<close> is the outcome of creating the
  generated class.
\<close>

definition YangLibrary :: "unit res \<Rightarrow> yang_model list \<Rightarrow> yang_model list res" where
  "YangLibrary lib_init models = rbind lib_init (\<lambda>u. Inr models)"

definition register_yang_library_version ::
  "add_rule \<Rightarrow> unit res \<Rightarrow> string \<Rightarrow> device \<Rightarrow> unit res \<times> device" where
  "register_yang_library_version add lib_init root dv =
     (case YangLibrary lib_init (dv_models dv) of
        Inl e \<Rightarrow> (Inl e, dv)
      | Inr local_library \<Rightarrow>
          (case add (dv_app dv) (''/'' @ root @ ''/yang-library-version:modules'') ''_yang_library_get'' of
             Inl e \<Rightarrow> (Inl e, dv)
           | Inr a \<Rightarrow> (Inr (), dv\<lparr>dv_app := a\<rparr>)))"

definition yang_library_get :: "string option \<Rightarrow> string option" where
  "yang_library_get accept = None"

subsection \<open>The API resource\<close>

definition register_top_level_resource :: "add_rule \<Rightarrow> string \<Rightarrow> device \<Rightarrow> unit res \<times> device" where
  "register_top_level_resource add root dv =
     (case add (dv_app dv) root ''_top_level_api_get'' of
        Inl e \<Rightarrow> (Inl e, dv)
      | Inr a \<Rightarrow> (Inr (), dv\<lparr>dv_app := a\<rparr>))"

text \<open>
  \<open>_top_level_api_get\<close>: the keys of the dictionary it builds, and the \<open>None\<close> that it returns. The
  list of models is never \<open>None\<close>; \<open>operations\<close> is \<open>None\<close> in \<open>mockDevice.py\<close>.
\<close>

definition top_level_result :: "device \<Rightarrow> string list" where
  "top_level_result dv =
     [''data''] @ (case dv_library dv of None \<Rightarrow> [] | Some l \<Rightarrow> [''yang-library-version''])"

definition top_level_api_get :: "string option \<Rightarrow> device \<Rightarrow> string list \<times> string option" where
  "top_level_api_get accept dv = (top_level_result dv, None)"

subsection \<open>Host metadata, reset and index\<close>

record link =
  link_rel :: string
  link_type :: "string option"
  link_href :: string

definition host_meta_elements :: "(string \<times> string) list" where
  "host_meta_elements = [(''hm:Host'', ''testDevice'')]"

definition host_meta_links :: "settings \<Rightarrow> link list" where
  "host_meta_links args =
     [\<lparr>link_rel = ''license'', link_type = None, link_href = ''http://www.apache.org/licenses/LICENSE-2.0''\<rparr>,
      \<lparr>link_rel = ''author'', link_type = None, link_href = ''http://bcsw.net''\<rparr>,
      \<lparr>link_rel = ''restconf'', link_type = None, link_href = root_resource args\<rparr>,
      \<lparr>link_rel = ''testPath'', link_type = None, link_href = ''this/does/not/exist''\<rparr>,
      \<lparr>link_rel = ''http://oexchange.org/spec/0.8/rel/resident-target'', link_type = Some ''application/xrd+xml'',
       link_href = ''http://twitter.com/oexchange.xrd''\<rparr>]"

definition index_page :: string where
  "index_page = ''This is a test program to simulate a RESTCONF capable device.<br'' @ [CHR 0x5C] @ ''>''"

definition do_reset :: "settings \<Rightarrow> string option" where
  "do_reset args = None"

subsection \<open>The datastore blueprint\<close>

definition show_module :: "string option \<Rightarrow> string" where
  "show_module m = ''hello world: '' @ str_opt m"

text \<open>
  The class \<open>DataStore\<close>. It reads \<open>self.basePath\<close> and \<open>self.lastModified\<close>, which neither it nor its
  methods assign: \<open>base_path\<close> and \<open>last_modified_attr\<close> are \<open>None\<close> unless a subclass provides
  them. The class does not derive from \<open>object\<close>: an assignment to its property \<open>last_modified\<close> does not call
  the setter but makes an attribute of the instance (\<open>own_last_modified\<close>), which later reads find first.
\<close>

record data_store =
  base_path :: "string option"
  store_path :: "string option"
  last_modified_attr :: "datetime option"
  own_last_modified :: "datetime option"
  lastModifiedTimestamp :: datetime

definition DataStore :: "data_store \<Rightarrow> string \<Rightarrow> data_store res" where
  "DataStore self path =
     (case base_path self of
        None \<Rightarrow> Inl (AttributeError ''DataStore instance has no attribute basePath'')
      | Some b \<Rightarrow> Inr (self\<lparr>store_path := Some (path_join b path)\<rparr>))"

definition store_uri :: "data_store \<Rightarrow> string res" where
  "store_uri self =
     (case store_path self of
        None \<Rightarrow> Inl (AttributeError ''DataStore instance has no attribute path'')
      | Some p \<Rightarrow> Inr p)"

definition store_last_modified :: "data_store \<Rightarrow> datetime res" where
  "store_last_modified self =
     (case own_last_modified self of
        Some t \<Rightarrow> Inr t
      | None \<Rightarrow>
          (case last_modified_attr self of
             None \<Rightarrow> Inl (AttributeError ''DataStore instance has no attribute lastModified'')
           | Some t \<Rightarrow> Inr t))"

definition store_set_last_modified :: "datetime \<Rightarrow> data_store \<Rightarrow> data_store" where
  "store_set_last_modified t self = self\<lparr>own_last_modified := Some t\<rparr>"

text \<open>\<open>get\<close> reads the global name \<open>app\<close>, which \<open>datastore.py\<close> does not bind.\<close>

definition store_get :: "data_store \<Rightarrow> unit res" where
  "store_get self = Inl (NameError ''global name app is not defined'')"

subsection \<open>Starting up\<close>

text \<open>
  The block under \<open>if __name__ == '__main__'\<close>: converters go to the application of the main script, rules to
  that of the module \<open>mockDevice\<close>. With \<open>verbose\<close> the last line formats the port with \<open>%d\<close>. The
  result is the argument of \<open>app.run\<close>.
\<close>

definition add_converters :: "device \<Rightarrow> device" where
  "add_converters dv =
     dv\<lparr>dv_main_app := (dv_main_app dv)\<lparr>app_converters := app_converters (dv_main_app dv) @ [''regex'', ''wildcard'']\<rparr>\<rparr>"

definition run_port :: "settings \<Rightarrow> port res" where
  "run_port args =
     (case http_port args of
        PortNumber n \<Rightarrow> Inr (PortNumber n)
      | PortText t \<Rightarrow>
          if verbose args then Inl (TypeError ''%d format: a number is required, not str'')
          else Inr (PortText t))"

fun in_order :: "(device \<Rightarrow> unit res \<times> device) list \<Rightarrow> device \<Rightarrow> unit res \<times> device" where
  "in_order [] dv = (Inr (), dv)"
| "in_order (step # steps) dv =
     (case step dv of (Inl e, dv1) \<Rightarrow> (Inl e, dv1) | (Inr u, dv1) \<Rightarrow> in_order steps dv1)"

definition start_up ::
  "add_rule \<Rightarrow> generated \<Rightarrow> (string \<Rightarrow> directory option) \<Rightarrow> unit res \<Rightarrow> string \<Rightarrow> settings \<Rightarrow> device \<Rightarrow>
   port res \<times> device" where
  "start_up add g listing lib_init here args dv =
     (case in_order
        ([register_data_models add g listing here GENERATED_DIR_NAME (root_resource args)] @
         (if disable_schema args then [] else [register_yang_library_version add lib_init (root_resource args)]) @
         [register_top_level_resource add (root_resource args)])
        (add_converters dv) of
        (Inl e, dv1) \<Rightarrow> (Inl e, dv1)
      | (Inr u, dv1) \<Rightarrow> (run_port args, dv1))"

end
