(* ===== verification/DeviceFacts.thy ===== *)
theory DeviceFacts
  imports MockDevice "HOL-Library.Sublist"
begin

section \<open>What the mock device guarantees\<close>

text \<open>
  The properties of the definitions in \<open>MockDevice\<close>: which files are taken for YIN files, which
  URLs reach the data handler, what loading and registering the models leaves in the
  state, and how starting up ends.
\<close>

subsection \<open>Names of YIN files\<close>

lemma last_split: "last (str_split c s) = w \<longleftrightarrow> c \<notin> set w \<and> (s = w \<or> (\<exists>p. s = p @ c # w))"
proof (induction s)
  case Nil
  then show ?case by auto
next
  case (Cons x s)
  obtain v vs where vs: "str_split c s = v # vs" by (cases "str_split c s") auto
  show ?case
  proof (cases "x = c")
    case True
    then have "last (str_split c (x # s)) = last (str_split c s)" by simp
    with Cons True show ?thesis by (auto simp: Cons_eq_append_conv)
  next
    case x: False
    show ?thesis
    proof (cases vs)
      case Nil
      then have "c \<notin> set s"
        using vs str_split_length [of c s] by (simp add: count_list_0_iff)
      with x have "str_split c (x # s) = [x # s]" by (intro str_split_plain) auto
      with x \<open>c \<notin> set s\<close> show ?thesis by (auto simp: Cons_eq_append_conv)
    next
      case (Cons u us)
      with vs x have "last (str_split c (x # s)) = last (str_split c s)" by simp
      moreover have "s \<noteq> w" if "c \<notin> set w"
        using that vs Cons str_split_plain [of c w] by auto
      moreover have "x # s \<noteq> w" if "c \<notin> set w"
      proof
        assume "x # s = w"
        with that have "c \<notin> set s" by auto
        with vs Cons str_split_plain [of c s] show False by simp
      qed
      ultimately show ?thesis
        using Cons.IH x by (auto simp: Cons_eq_append_conv)
    qed
  qed
qed

lemma lower_dot: "shift_case ascii_uppercase ascii_lowercase c = CHR ''.'' \<longleftrightarrow> c = CHR ''.''"
proof -
  have "shift_case as bs c = CHR ''.'' \<Longrightarrow> CHR ''.'' \<notin> set bs \<Longrightarrow> c = CHR ''.''" for as bs
    by (induction as bs c rule: shift_case.induct) (auto split: if_splits)
  from this [of ascii_uppercase ascii_lowercase]
  show ?thesis by (auto simp: ascii_lowercase_def ascii_uppercase_def)
qed

lemma lower_split: "map str_lower (str_split (CHR ''.'') s) = str_split (CHR ''.'') (str_lower s)"
proof (induction s)
  case Nil
  then show ?case by (simp add: str_lower_def)
next
  case (Cons x s)
  obtain v vs where vs: "str_split (CHR ''.'') s = v # vs" by (cases "str_split (CHR ''.'') s") auto
  with Cons show ?case
    by (cases "x = CHR ''.''") (auto simp: str_lower_def lower_dot split: list.splits)
qed

text \<open>
  A file is taken for a YIN file if and only if its name ends in \<open>.xml\<close>, in any case, or is
  \<open>xml\<close> itself.
\<close>

theorem is_xml_suffix:
  "is_xml f \<longleftrightarrow> str_lower f = ''xml'' \<or> (\<exists>p. str_lower f = p @ ''.xml'')"
proof -
  have "str_lower (last (str_split (CHR ''.'') f)) = last (str_split (CHR ''.'') (str_lower f))"
    by (simp add: last_map flip: lower_split)
  then show ?thesis by (simp add: is_xml_def last_split)
qed

subsection \<open>URLs of data resources\<close>

text \<open>
  Below \<open>/root/data\<close> the data rule takes just the URLs that end there or go on with a
  slash, and hands on what follows, slash included; \<open>/root/datastuff\<close> is not matched.
\<close>

theorem data_path_spec:
  "data_path root url = Some path \<longleftrightarrow>
   url = ''/'' @ root @ ''/data'' @ path \<and>
   (path = [] \<or> (\<exists>rest. path = ''/'' @ rest \<and> CHR 0x0A \<notin> set rest))"
  by (cases path) (auto simp: data_path_def Let_def str_startswith_iff WildcardConverter_matches_def)

subsection \<open>Loading the models\<close>

text \<open>
  The invariant of the device: the store of helpers is well formed, and the helpers of all
  models are in it.
\<close>

definition models_in :: "rstate \<Rightarrow> yang_model list \<Rightarrow> bool" where
  "models_in s ms \<longleftrightarrow>
     (\<forall>m \<in> set ms. \<forall>d. ym_extmethods m = Some d \<longrightarrow> (\<forall>(p, h) \<in> set d. h < heap_size s))"

definition device_ok :: "device \<Rightarrow> bool" where
  "device_ok dv \<longleftrightarrow>
     heap_ok (dv_store dv) \<and> config_closed (dv_store dv) \<and> models_in (dv_store dv) (dv_models dv)"

lemma models_in_extends: "models_in s ms \<Longrightarrow> extends s s' \<Longrightarrow> models_in s' ms"
  unfolding models_in_def extends_def by fastforce

lemma device_ok_model:
  assumes "device_ok dv" and "YangModel g p f d (dv_store dv) = (r, s')"
  shows "device_ok (dv\<lparr>dv_store := s'\<rparr>)"
    and "r = Inr m \<Longrightarrow> device_ok (dv\<lparr>dv_store := s', dv_models := dv_models dv @ [m]\<rparr>)"
proof -
  have store: "heap_ok s' \<and> config_closed s' \<and> extends (dv_store dv) s'"
    using YangModel_keeps [OF _ _ assms(2)] assms(1) by (simp add: device_ok_def)
  with assms(1) models_in_extends show ok: "device_ok (dv\<lparr>dv_store := s'\<rparr>)"
    by (auto simp: device_ok_def)
  assume r: "r = Inr m"
  have "h < heap_size s'" if d: "ym_extmethods m = Some d'" "(q, h) \<in> set d'" for d' q h
  proof -
    from YangModel_extmethods [OF assms(2) [unfolded r] d(1)] obtain v
      where "root_extmethods (ym_yin m) v (dv_store dv) = (Inr d', s')" by blast
    with assms(1) root_extmethods_walk(5) [OF _ _ this refl d(2)] show ?thesis by (simp add: device_ok_def)
  qed
  with ok show "device_ok (dv\<lparr>dv_store := s', dv_models := dv_models dv @ [m]\<rparr>)"
    by (auto simp: device_ok_def models_in_def)
qed

lemma import_files_ok:
  "device_ok dv \<Longrightarrow> import_files g gen_dir model_dir files dv = (r, dv') \<Longrightarrow> device_ok dv'"
proof (induction g gen_dir model_dir files dv rule: import_files.induct)
  case (2 g gen_dir model_dir filename files dv)
  obtain r1 s where m: "YangModel g gen_dir filename model_dir (dv_store dv) = (r1, s)" by fastforce
  from device_ok_model [OF "2.prems"(1) m] "2.prems" "2.IH" m show ?case
    by (cases r1) auto
qed simp

lemma register_data_models_ok:
  assumes "device_ok dv" and "register_data_models add g listing here model_dir root dv = (r, dv')"
  shows "device_ok dv'"
  using assms import_files_ok [OF assms(1)]
  by (auto simp: register_data_models_def import_data_models_def Let_def device_ok_def
      split: sum.splits prod.splits option.splits)

lemma register_others_keep:
  "register_yang_library_version add lib_init root dv = (r, dv') \<Longrightarrow>
     dv_store dv' = dv_store dv \<and> dv_models dv' = dv_models dv \<and> dv_library dv' = dv_library dv"
  "register_top_level_resource add root dv = (r', dv'') \<Longrightarrow>
     dv_store dv'' = dv_store dv \<and> dv_models dv'' = dv_models dv \<and> dv_library dv'' = dv_library dv"
  by (auto simp: register_yang_library_version_def register_top_level_resource_def split: sum.splits)

lemma in_order_invariant:
  assumes "\<And>step dv r dv'. step \<in> set steps \<Longrightarrow> I dv \<Longrightarrow> step dv = (r, dv') \<Longrightarrow> I dv'"
  shows "I dv \<Longrightarrow> in_order steps dv = (r, dv') \<Longrightarrow> I dv'"
  using assms
proof (induction steps arbitrary: dv)
  case (Cons step steps)
  obtain r1 dv1 where s: "step dv = (r1, dv1)" by fastforce
  with Cons.prems have "I dv1" by auto
  with Cons.IH [of dv1] Cons.prems s show ?case by (cases r1) auto
qed simp

lemma start_up_invariant:
  assumes "I (add_converters dv)"
    and "\<And>dv r dv'. I dv \<Longrightarrow> register_data_models add g listing here GENERATED_DIR_NAME (root_resource args) dv = (r, dv') \<Longrightarrow> I dv'"
    and "\<And>dv r dv'. I dv \<Longrightarrow> register_yang_library_version add lib_init (root_resource args) dv = (r, dv') \<Longrightarrow> I dv'"
    and "\<And>dv r dv'. I dv \<Longrightarrow> register_top_level_resource add (root_resource args) dv = (r, dv') \<Longrightarrow> I dv'"
  shows "I (snd (start_up add g listing lib_init here args dv))"
proof -
  let ?steps = "[register_data_models add g listing here GENERATED_DIR_NAME (root_resource args)] @
    (if disable_schema args then [] else [register_yang_library_version add lib_init (root_resource args)]) @
    [register_top_level_resource add (root_resource args)]"
  obtain r dv' where run: "in_order ?steps (add_converters dv) = (r, dv')" by fastforce
  have "I dv'"
  proof (rule in_order_invariant [where I = I, OF _ assms(1) run])
    fix step dv r dv'
    assume step: "step \<in> set ?steps" and I: "I dv" and run: "step dv = (r, dv')"
    from step consider "step = register_data_models add g listing here GENERATED_DIR_NAME (root_resource args)"
      | "step = register_yang_library_version add lib_init (root_resource args)"
      | "step = register_top_level_resource add (root_resource args)"
      by (auto split: if_splits)
    then show "I dv'"
      by cases (use assms(2-4) [OF I] run in blast)+
  qed
  with run show ?thesis by (cases r) (simp_all add: start_up_def)
qed

text \<open>
  C3: whatever happens while the program starts, every change of a configurable helper
  of any model it has loaded can be recorded afterwards: \<open>set_modified\<close> raises nothing.
\<close>

theorem start_up_modifiable:
  assumes "device_ok dv" and "dv' = snd (start_up add g listing lib_init here args dv)"
    and "m \<in> set (dv_models dv')" and "ym_extmethods m = Some d" and "(p, h) \<in> set d"
    and "config_at (dv_store dv') h"
  shows "\<exists>s. set_modified env h updateTime (dv_store dv') = Some (Inr (), s)"
proof -
  have ok: "device_ok dv'"
    unfolding assms(2)
  proof (rule start_up_invariant)
    show "device_ok (add_converters dv)"
      using assms(1) by (simp add: device_ok_def add_converters_def)
  qed (auto dest: register_data_models_ok, auto simp: device_ok_def dest!: register_others_keep)
  with assms(3-5) have "h < heap_size (dv_store dv')"
    by (fastforce simp: device_ok_def models_in_def)
  with ok show ?thesis
    using set_modified_walk [of "dv_store dv'" h env updateTime] ancestors_config [OF _ _ _ assms(6)]
    by (simp add: device_ok_def chain_result_def)
qed

text \<open>
  The program never announces a YANG library: \<open>register_yang_library_version\<close> keeps it in a
  local variable, so after any start the top-level resource lists only the data resource.
\<close>

theorem library_never_announced:
  assumes "dv_library dv = None"
  shows "top_level_result (snd (start_up add g listing lib_init here args dv)) = [''data'']"
proof -
  have files: "import_files g gen_dir model_dir files dv = (r, dv') \<Longrightarrow> dv_library dv' = dv_library dv"
    for gen_dir model_dir files dv r dv'
    by (induction g gen_dir model_dir files dv arbitrary: r dv' rule: import_files.induct)
      (fastforce split: sum.splits prod.splits)+
  have "dv_library (snd (start_up add g listing lib_init here args dv)) = None"
    by (rule start_up_invariant)
      (use assms files in \<open>fastforce simp: add_converters_def register_data_models_def import_data_models_def Let_def
        dest: register_others_keep split: sum.splits prod.splits option.splits\<close>)+
  then show ?thesis by (simp add: top_level_result_def)
qed

text \<open>
  C38: the converters are added to one application and the rules to another: with an
  \<open>add_url_rule\<close> that refuses a rule with an unknown converter, as Werkzeug does, no
  settings make the program reach \<open>app.run\<close>.
\<close>

theorem start_up_never_runs:
  assumes "\<And>a root view. ''wildcard'' \<notin> set (app_converters a) \<Longrightarrow>
      \<exists>msg. add a (''/'' @ root @ ''/data<wildcard:path>'') view = Inl (LookupError msg)"
    and "''wildcard'' \<notin> set (app_converters (dv_app dv))"
  shows "\<exists>e. fst (start_up add g listing lib_init here args dv) = Inl e"
proof -
  have files: "import_files g gen_dir model_dir files dv = (r, dv') \<Longrightarrow> dv_app dv' = dv_app dv"
    for gen_dir model_dir files dv r dv'
    by (induction g gen_dir model_dir files dv arbitrary: r dv' rule: import_files.induct)
      (fastforce split: sum.splits prod.splits)+
  obtain r dv1 where imp: "import_data_models g listing here GENERATED_DIR_NAME (add_converters dv) = (r, dv1)"
    by fastforce
  then have "dv_app dv1 = dv_app dv"
    using files by (auto simp: import_data_models_def Let_def add_converters_def split: option.splits)
  with assms obtain msg where
    "add (dv_app dv1) (''/'' @ root_resource args @ ''/data<wildcard:path>'') ''_data_get'' = Inl (LookupError msg)"
    by metis
  with imp show ?thesis
    by (cases r) (auto simp: start_up_def register_data_models_def)
qed

text \<open>
  The top-level resource is registered under the bare root resource. With an
  \<open>add_url_rule\<close> that refuses rules without a leading slash, as Werkzeug does, a root resource such as the default
  \<open>restconf\<close> never lets the program reach \<open>app.run\<close>, whatever the applications.
\<close>

theorem start_up_needs_slash:
  assumes "\<And>a rule view. \<not> str_startswith rule ''/'' \<Longrightarrow> \<exists>msg. add a rule view = Inl (ValueError msg)"
    and "\<not> str_startswith (root_resource args) ''/''"
  shows "\<exists>e. fst (start_up add g listing lib_init here args dv) = Inl e"
proof -
  have top: "\<exists>e. fst (register_top_level_resource add (root_resource args) dv) = Inl e" for dv
    using assms(1) [OF assms(2), of "dv_app dv" "''_top_level_api_get''"]
    by (auto simp: register_top_level_resource_def)
  have step: "\<exists>e. fst (in_order (steps @ [register_top_level_resource add (root_resource args)]) dv) = Inl e"
    for steps dv
  proof (induction steps arbitrary: dv)
    case Nil
    from top [of dv] show ?case by (auto split: prod.splits)
  next
    case (Cons s steps)
    then show ?case by (cases "s dv"; cases "fst (s dv)") auto
  qed
  let ?init = "[register_data_models add g listing here GENERATED_DIR_NAME (root_resource args)] @
      (if disable_schema args then [] else [register_yang_library_version add lib_init (root_resource args)])"
  obtain e dv1 where "in_order (?init @ [register_top_level_resource add (root_resource args)]) (add_converters dv) = (Inl e, dv1)"
    using step [of ?init "add_converters dv"] by (metis prod.collapse)
  then show ?thesis
    unfolding start_up_def append_assoc by (simp del: in_order.simps append_Cons)
qed

subsection \<open>Flags, host metadata and the datastore class\<close>

text \<open>
  The function \<open>accept_patch\<close> returns a true value for all settings: it returns itself, as
  its definition replaces the flag of the command line.
\<close>

theorem accept_patch_always:
  "truth (accept_patch args)"
  by (simp add: accept_patch_def module_accept_patch_def truth_def)

text \<open>
  The metadata of the host have one link for the relation \<open>restconf\<close>, and it leads to the
  root resource of the settings.
\<close>

theorem host_meta_restconf:
  "filter (\<lambda>l. link_rel l = ''restconf'') (host_meta_links args) =
   [\<lparr>link_rel = ''restconf'', link_type = None, link_href = root_resource args\<rparr>]"
  by (simp add: host_meta_links_def)

text \<open>
  The time of the last change of a \<open>DataStore\<close> can be read only after an assignment to
  it; the assignment leaves \<open>lastModifiedTimestamp\<close> alone, which the setter is written to change.
\<close>

theorem data_store_last_modified:
  "store_last_modified (store_set_last_modified t self) = Inr t \<and>
   lastModifiedTimestamp (store_set_last_modified t self) = lastModifiedTimestamp self \<and>
   (own_last_modified self = None \<and> last_modified_attr self = None \<longleftrightarrow>
    (\<exists>e. store_last_modified self = Inl e))"
  by (auto simp: store_last_modified_def store_set_last_modified_def split: option.splits)

subsection \<open>A device with the toaster\<close>

text \<open>An \<open>add_url_rule\<close> that makes the two checks of Werkzeug's.\<close>

definition checked_add :: add_rule where
  "checked_add a rule view =
     (if \<not> str_startswith rule ''/'' then Inl (ValueError ''urls must start with a leading slash'')
      else if sublist ''<wildcard:'' rule \<and> ''wildcard'' \<notin> set (app_converters a)
      then Inl (LookupError ''the converter wildcard does not exist'')
      else Inr (a\<lparr>app_rules := app_rules a @ [(rule, view)]\<rparr>))"

definition sample_device :: device where
  "sample_device =
     \<lparr>dv_store = sample_state, dv_models = [], dv_paths = [], dv_library = None,
      dv_app = \<lparr>app_rules = [], app_converters = [''default'']\<rparr>,
      dv_main_app = \<lparr>app_rules = [], app_converters = [''default'']\<rparr>\<rparr>"

definition sample_listing :: "string \<Rightarrow> directory option" where
  "sample_listing d = Some [(''toaster.py'', True), (''toaster.XML'', True)]"

definition toaster_model :: yang_model where
  "toaster_model = \<lparr>ym_yin = toaster_yf\<lparr>yf_path := ''/dev/generated/toaster.XML''\<rparr>, ym_extmethods = Some toaster_dict,
     ym_class = InstanceWith ''toaster'' toaster_dict\<rparr>"

lemma sample_device_ok: "device_ok sample_device"
  using sample_state_ok by (simp add: device_ok_def models_in_def sample_device_def)

lemma sample_start:
  "dv_models (snd (start_up checked_add (toaster_generated None) sample_listing (Inr ()) ''/dev''
     default_settings sample_device)) = [toaster_model]"
  "config_at (dv_store (snd (start_up checked_add (toaster_generated None) sample_listing (Inr ()) ''/dev''
     default_settings sample_device))) 0"
  by code_simp+

theorem start_up_modifiable_witness:
  "\<exists>s. set_modified sample_env 0 None (dv_store (snd (start_up checked_add (toaster_generated None) sample_listing
     (Inr ()) ''/dev'' default_settings sample_device))) = Some (Inr (), s)"
  by (rule start_up_modifiable [OF sample_device_ok refl, of toaster_model _ _ _ _ _ _ toaster_dict "''/toaster''"])
    (simp_all add: sample_start toaster_model_def toaster_dict_def)

theorem library_never_announced_witness:
  "top_level_result (snd (start_up checked_add (toaster_generated None) sample_listing (Inr ()) ''/dev''
     default_settings sample_device)) = [''data'']"
  by (rule library_never_announced) (simp add: sample_device_def)

lemma checked_add_wildcard:
  assumes "''wildcard'' \<notin> set (app_converters a)"
  shows "\<exists>msg. checked_add a (''/'' @ root @ ''/data<wildcard:path>'') view = Inl (LookupError msg)"
proof -
  have "''/'' @ root @ ''/data<wildcard:path>'' = (''/'' @ root @ ''/data'') @ ''<wildcard:'' @ ''path>''" by simp
  then have "sublist ''<wildcard:'' (''/'' @ root @ ''/data<wildcard:path>'')"
    unfolding sublist_def by blast
  moreover have "str_startswith (''/'' @ root @ ''/data<wildcard:path>'') ''/''" by (simp add: str_startswith_def)
  ultimately show ?thesis using assms by (simp add: checked_add_def)
qed

theorem start_up_never_runs_witness:
  "\<exists>e. fst (start_up checked_add (toaster_generated None) sample_listing (Inr ()) ''/dev'' default_settings
     sample_device) = Inl e"
proof (rule start_up_never_runs)
  fix a root view
  assume "''wildcard'' \<notin> set (app_converters (a::app))"
  then show "\<exists>msg. checked_add a (''/'' @ root @ ''/data<wildcard:path>'') view = Inl (LookupError msg)"
    by (rule checked_add_wildcard)
qed (simp add: sample_device_def)

theorem start_up_needs_slash_witness:
  "\<exists>e. fst (start_up checked_add (toaster_generated None) sample_listing (Inr ()) ''/dev'' default_settings
     (sample_device\<lparr>dv_app := \<lparr>app_rules = [], app_converters = [''wildcard'']\<rparr>\<rparr>)) = Inl e"
  by (rule start_up_needs_slash)
    (simp_all add: checked_add_def default_settings_def DEFAULT_ROOT_RESOURCE_def str_startswith_def)

end
