(* ===== verification/ModelWalk.thy ===== *)
theory ModelWalk
  imports YinPaths YangModel
begin

section \<open>The walk over a class without its document\<close>

text \<open>
  \<open>YangModel._get_extmethods\<close>, the walk over the objects of a class that the walk over the YIN document
  has replaced. It has an entry for each chain of keys (\<open>model_extmethods_exact\<close>); the
  walk over the document never has a path that this one lacks (\<open>document_walk_subset\<close>).
\<close>

subsection \<open>Chains of keys\<close>

text \<open>\<open>leads v ks w\<close>: from \<open>v\<close>, the keys \<open>ks\<close> lead to the value \<open>w\<close>.\<close>

inductive leads :: "model_value \<Rightarrow> string list \<Rightarrow> model_value \<Rightarrow> bool" where
  leads_here: "(key, w) \<in> set items \<Longrightarrow> leads (ModelDict items) [key] w"
| leads_below: "(key, u) \<in> set items \<Longrightarrow> leads u ks w \<Longrightarrow> leads (ModelDict items) (key # ks) w"

inductive_cases leads_object: "leads (ModelObject leaf writeable) ks w"
inductive_cases leads_dict: "leads (ModelDict items) ks w"

text \<open>The value as the walk over the document sees it: objects are no dictionaries.\<close>

fun dictionaries :: "model_value \<Rightarrow> pyval" where
  "dictionaries (ModelObject leaf writeable) = VOther"
| "dictionaries (ModelDict items) = VDict (map (\<lambda>(key, v). (key, dictionaries v)) items)"

lemma leads_mono: "leads (ModelDict items) ks w \<Longrightarrow> set items \<subseteq> set items' \<Longrightarrow> leads (ModelDict items') ks w"
  by (erule leads_dict) (blast intro: leads.intros)+

lemma leads_keys: "leads v ks w \<Longrightarrow> keys_ok (dictionaries v) \<Longrightarrow> list_all (\<lambda>k. CHR ''/'' \<notin> set k) ks"
  by (induction rule: leads.induct) (force simp: list_all_iff)+

lemma leads_fun: "leads v ks w \<Longrightarrow> keys_ok (dictionaries v) \<Longrightarrow> leads v ks w' \<Longrightarrow> w' = w"
proof (induction arbitrary: w' rule: leads.induct)
  case (leads_here key w items)
  then have "distinct (map fst items)" by (simp add: comp_def case_prod_unfold)
  with leads_here.prems(2) leads_here.hyps show ?case
    by (auto elim!: leads_dict elim: leads.cases intro: eq_key_imp_eq_value)
next
  case (leads_below key u items ks w)
  then have d: "distinct (map fst items)" and ok: "keys_ok (dictionaries u)"
    by (auto simp: comp_def case_prod_unfold list_all_iff)
  from leads_below.prems(2) leads_below.hyps(2) obtain u' where "(key, u') \<in> set items" "leads u' ks w'"
    by (auto elim!: leads_dict elim: leads.cases)
  with d leads_below.hyps(1) leads_below.IH [OF ok] show ?case by (auto dest: eq_key_imp_eq_value)
qed

subsection \<open>The walk is exact\<close>

lemma model_walk_sound:
  "(p, c) \<in> set (model_extmethods v base) \<Longrightarrow>
   \<exists>ks w. p = path_of base ks \<and> leads v ks w \<and> value_config w = c"
  "(p, c) \<in> set (model_extmethods_loop items base ext) \<Longrightarrow>
   (p, c) \<in> set ext \<or> (\<exists>ks w. p = path_of base ks \<and> leads (ModelDict items) ks w \<and> value_config w = c)"
proof (induction v base and items base ext rule: model_extmethods_model_extmethods_loop.induct)
  case (4 key v rest base ext)
  let ?path = "base @ ''/'' @ key"
  have up: "leads (ModelDict ((key, v) # rest)) ks w" if "leads (ModelDict rest) ks w" for ks w
    using that by (rule leads_mono) auto
  have "(p, c) \<in> set (dict_update (dict_set ?path (value_config v) ext) (model_extmethods v ?path)) \<or>
      (\<exists>ks w. p = path_of base ks \<and> leads (ModelDict rest) ks w \<and> value_config w = c)"
    using "4.IH"(2) "4.prems" by simp
  then consider "(p, c) \<in> set ext" | "p = ?path" "c = value_config v"
    | "(p, c) \<in> set (model_extmethods v ?path)"
    | ks w where "p = path_of base ks" "leads (ModelDict rest) ks w" "value_config w = c"
    by (auto dest!: in_dict_update in_dict_set)
  then show ?case
  proof cases
    case 2
    then have "p = path_of base [key]" and "leads (ModelDict ((key, v) # rest)) [key] v"
      by (auto intro: leads_here)
    with 2 show ?thesis by blast
  next
    case 3
    from "4.IH"(1) [OF 3] obtain ks w where "p = path_of base (key # ks)" "leads v ks w" "value_config w = c" by auto
    then show ?thesis by (blast intro: leads_below list.set_intros(1))
  qed (use up in blast)+
qed auto

lemma model_walk_complete:
  "leads v ks w \<Longrightarrow> path_of base ks \<in> dict_keys (model_extmethods v base)"
  "dict_keys ext \<subseteq> dict_keys (model_extmethods_loop items base ext) \<and>
   (leads (ModelDict items) ks w \<longrightarrow> path_of base ks \<in> dict_keys (model_extmethods_loop items base ext))"
proof (induction v base and items base ext arbitrary: ks w and ks w
    rule: model_extmethods_model_extmethods_loop.induct)
  case (4 key v rest base ext)
  let ?path = "base @ ''/'' @ key"
  let ?ext = "dict_update (dict_set ?path (value_config v) ext) (model_extmethods v ?path)"
  let ?result = "model_extmethods_loop rest base ?ext"
  have keys: "insert ?path (dict_keys ext) \<union> dict_keys (model_extmethods v ?path) \<subseteq> dict_keys ?result"
    using "4.IH"(2) [of ks w] by (auto simp: dict_keys_update)
  have "path_of base ks \<in> dict_keys ?result" if "leads (ModelDict ((key, v) # rest)) ks w"
    using that
  proof cases
    case (leads_here k)
    with keys "4.IH"(2) [of ks w] show ?thesis by (auto intro: leads.leads_here)
  next
    case (leads_below k u ks')
    with keys "4.IH"(1) [of ks' w] "4.IH"(2) [of ks w] show ?thesis by (auto intro: leads.leads_below)
  qed
  with keys show ?case by auto
qed (auto elim: leads_object leads_dict)

text \<open>
  C35: the walk over a class alone returns exactly the chains of keys that lead down its dictionaries;
  the flag of a path is that of its value: a leaf says whether it can be written, all else can.
\<close>

theorem model_extmethods_exact:
  assumes "keys_ok (dictionaries v)"
  shows "(p, c) \<in> set (model_extmethods v base) \<longleftrightarrow>
    (\<exists>ks w. p = path_of base ks \<and> leads v ks w \<and> value_config w = c)"
proof
  assume "\<exists>ks w. p = path_of base ks \<and> leads v ks w \<and> value_config w = c"
  then obtain ks w where ks: "p = path_of base ks" "leads v ks w" "value_config w = c" by blast
  from model_walk_complete(1) [OF ks(2)] ks(1) obtain c' where c': "(p, c') \<in> set (model_extmethods v base)"
    by (force simp: dict_keys_def)
  from model_walk_sound(1) [OF this] obtain ks' w'
    where ks': "p = path_of base ks'" "leads v ks' w'" "value_config w' = c'" by blast
  with ks path_of_inj leads_keys assms have "ks' = ks" by metis
  with ks ks' c' leads_fun assms show "(p, c) \<in> set (model_extmethods v base)" by blast
qed (rule model_walk_sound(1))

theorem model_extmethods_exact_witness:
  "(''/a/b'', False) \<in> set (model_extmethods (ModelDict [(''a'', ModelDict [(''b'', ModelObject (Some True) (Some False))])]) '''')"
proof -
  let ?b = "ModelObject (Some True) (Some False)" and ?v = "ModelDict [(''a'', ModelDict [(''b'', ModelObject (Some True) (Some False))])]"
  have ok: "keys_ok (dictionaries ?v)" by simp
  have "leads ?v [''a'', ''b''] ?b" by (rule leads_below, simp, rule leads_here, simp)
  moreover have "''/a/b'' = path_of '''' [''a'', ''b'']" by simp
  ultimately show ?thesis using model_extmethods_exact [OF ok, of "''/a/b''" False "''''"] by fastforce
qed

subsection \<open>The walk over the document\<close>

lemma reaches_leads: "reaches yf u node i ks c \<Longrightarrow> u = dictionaries v \<Longrightarrow> \<exists>w. leads v ks w"
proof (induction arbitrary: v rule: reaches.induct)
  case (here key item items)
  then show ?case by (cases v) (auto intro: leads_here)
next
  case (below key item items yf node n ns i c ks c')
  from below.prems below.hyps(1) obtain kids u where v: "v = ModelDict kids"
    and u: "(key, u) \<in> set kids" "item = dictionaries u"
    by (cases v) auto
  from below.IH [OF u(2)] v u(1) show ?case by (auto intro: leads_below)
qed

text \<open>
  C36: every path of the walk over a document and the value of a class is a path of
  the walk over the class alone, whatever the document says.
\<close>

theorem document_walk_subset:
  assumes "heap_ok s" and "config_closed s"
    and "root_extmethods yf (dictionaries v) s = (Inr d, s')"
  shows "dict_keys d \<subseteq> dict_keys (model_extmethods v '''')"
proof
  fix p assume "p \<in> dict_keys d"
  then obtain c where "(p, c) \<in> set (dict_map (config_at s') d)" by (force simp: dict_keys_def dict_map_def)
  with path_flags_sound(1) [OF extmethods_flags [OF assms]]
  obtain ks where "p = path_of '''' ks" "reaches yf (dictionaries v) (yf_root yf) True ks c" by blast
  with reaches_leads model_walk_complete(1) show "p \<in> dict_keys (model_extmethods v '''')" by blast
qed

theorem document_walk_subset_witness:
  "{''/toaster'', ''/toaster/toasterManufacturer'', ''/toaster/toasterModelNumber''} \<subseteq>
   dict_keys (model_extmethods (ModelDict [(''toaster'', ModelDict
     [(''toasterManufacturer'', ModelObject (Some True) (Some False)),
      (''toasterModelNumber'', ModelObject (Some True) (Some False))])]) '''')"
  (is "_ \<subseteq> dict_keys (model_extmethods ?v _)")
proof -
  have "dictionaries ?v = toaster_value" by (simp add: toaster_value_def)
  with document_walk_subset [OF sample_state_ok, of toaster_yf ?v] toaster_result'
  have "dict_keys [(''/toaster'', 0 :: nat), (''/toaster/toasterManufacturer'', 1), (''/toaster/toasterModelNumber'', 2)]
      \<subseteq> dict_keys (model_extmethods ?v '''')" by metis
  then show ?thesis by (simp add: dict_keys_def)
qed

end
