(* ===== verification/CommandLine.thy ===== *)
theory CommandLine
  imports MockDevice
begin

section \<open>The command line of the mock device\<close>

text \<open>
  What \<open>parser.parse_args()\<close> of \<open>mockDevice.py\<close> makes of the arguments: the options that the
  program adds to its \<open>ArgumentParser\<close>, and of the module \<open>argparse\<close> of Python 2.7 what these options
  use. \<open>argparse\<close> first sorts all arguments into options and others (\<open>_parse_optional\<close>,
  \<open>_get_option_tuples\<close>), then takes the options from left to right with their
  values (\<open>consume_optional\<close>); messages go to the standard error and are left out. The theory
  \<open>CommandGrammar\<close> says exactly which command lines are accepted and with which settings.
\<close>

subsection \<open>The options\<close>

datatype action = Help | Verbose | RootResource | HttpPort | DisableSchema | DefaultXml | AcceptPatch

text \<open>The constructor of the parser adds \<open>-h\<close> and \<open>--help\<close>; the rest are the calls of \<open>add_argument\<close>.\<close>

definition option_string_actions :: "(string \<times> action) list" where
  "option_string_actions =
     [(''-h'', Help), (''--help'', Help),
      (''--verbose'', Verbose), (''-v'', Verbose),
      (''--root_resource'', RootResource), (''-r'', RootResource),
      (''--http_port'', HttpPort), (''-p'', HttpPort),
      (''--disable_schema'', DisableSchema), (''-s'', DisableSchema),
      (''--default_xml'', DefaultXml), (''-x'', DefaultXml),
      (''--accept_patch'', AcceptPatch), (''-P'', AcceptPatch)]"

text \<open>The action \<open>store\<close> takes one value, \<open>store_true\<close> and the help none.\<close>

definition takes_value :: "action \<Rightarrow> bool" where
  "takes_value a \<longleftrightarrow> a = RootResource \<or> a = HttpPort"

text \<open>\<open>_get_values\<close> removes the first \<open>--\<close>; then there must be one value left.\<close>

definition get_value :: "string list \<Rightarrow> string res" where
  "get_value values =
     (case remove1 ''--'' values of
        [v] \<Rightarrow> Inr v
      | _ \<Rightarrow> Inl (ValueError ''need more than 0 values to unpack''))"

definition take_action :: "action \<Rightarrow> string list \<Rightarrow> settings \<Rightarrow> settings res" where
  "take_action a values args =
     (case a of
        Help \<Rightarrow> Inl (SystemExit 0)
      | Verbose \<Rightarrow> Inr (args\<lparr>verbose := True\<rparr>)
      | RootResource \<Rightarrow> rbind (get_value values) (\<lambda>v. Inr (args\<lparr>root_resource := v\<rparr>))
      | HttpPort \<Rightarrow> rbind (get_value values) (\<lambda>v. Inr (args\<lparr>http_port := PortText v\<rparr>))
      | DisableSchema \<Rightarrow> Inr (args\<lparr>disable_schema := True\<rparr>)
      | DefaultXml \<Rightarrow> Inr (args\<lparr>default_xml := True\<rparr>)
      | AcceptPatch \<Rightarrow> Inr (args\<lparr>patch_option := True\<rparr>))"

subsection \<open>Sorting the arguments\<close>

text \<open>
  The letters of \<open>arg_strings_pattern\<close>: \<open>A\<close>, \<open>-\<close> and \<open>O\<close>, the last with the option tuple or
  without an action.
\<close>

datatype kind = Argument | Dashes | Option action string "string option" | UnknownOption

text \<open>The regular expression \<open>^-\d+$|^-\d*\.\d+$\<close>, whose \<open>$\<close> also matches before a last line feed.\<close>

definition negative_number :: "string \<Rightarrow> bool" where
  "negative_number s =
     (let t = (if s \<noteq> [] \<and> last s = CHR 0x0A then butlast s else s) in
      case t of
        [] \<Rightarrow> False
      | c # u \<Rightarrow>
          c = CHR ''-'' \<and>
          (u \<noteq> [] \<and> list_all is_digit u \<or>
           (case dropWhile is_digit u of
              [] \<Rightarrow> False
            | d # w \<Rightarrow> d = CHR ''.'' \<and> w \<noteq> [] \<and> list_all is_digit w)))"

definition get_option_tuples :: "string \<Rightarrow> (action \<times> string \<times> string option) list" where
  "get_option_tuples s =
     (if str_startswith s ''--'' then
        (let option_prefix = str_before (CHR ''='') s;
             explicit_arg = (if CHR ''='' \<in> set s then Some (str_after (CHR ''='') s) else None)
         in map (\<lambda>(n, a). (a, n, explicit_arg))
              (filter (\<lambda>(n, a). str_startswith n option_prefix) option_string_actions))
      else
        concat (map (\<lambda>(n, a).
            if n = take 2 s then [(a, n, Some (drop 2 s))]
            else if str_startswith n s then [(a, n, None)] else [])
          option_string_actions))"

definition parse_optional :: "string \<Rightarrow> kind res" where
  "parse_optional s =
     (if s = [] then Inr Argument
      else if hd s \<noteq> CHR ''-'' then Inr Argument
      else
     (case map_of option_string_actions s of
        Some a \<Rightarrow> Inr (Option a s None)
      | None \<Rightarrow>
          if length s = 1 then Inr Argument
          else
     (case (if CHR ''='' \<in> set s then map_of option_string_actions (str_before (CHR ''='') s) else None) of
        Some a \<Rightarrow> Inr (Option a (str_before (CHR ''='') s) (Some (str_after (CHR ''='') s)))
      | None \<Rightarrow>
     (case get_option_tuples s of
        [(a, n, e)] \<Rightarrow> Inr (Option a n e)
      | _ # _ # _ \<Rightarrow> Inl (SystemExit 2)
      | [] \<Rightarrow>
          if negative_number s then Inr Argument
          else if CHR '' '' \<in> set s then Inr Argument
          else Inr UnknownOption))))"

fun classify :: "string list \<Rightarrow> (string \<times> kind) list res" where
  "classify [] = Inr []"
| "classify (s # ss) =
     (if s = ''--'' then Inr ((s, Dashes) # map (\<lambda>t. (t, Argument)) ss)
      else rbind (parse_optional s) (\<lambda>k. rbind (classify ss) (\<lambda>ks. Inr ((s, k) # ks))))"

subsection \<open>Taking the options\<close>

text \<open>
  \<open>consume_optional\<close> up to its calls of \<open>take_action\<close>: the actions with their values and
  the number of arguments taken after the option. A short option without a value may have others after it in one
  argument; an empty rest (\<open>-v=\<close>) has no first character.
\<close>

definition is_short :: "string \<Rightarrow> bool" where
  "is_short n = (case n of _ # c # _ \<Rightarrow> c \<noteq> CHR ''-'' | _ \<Rightarrow> False)"

function option_actions ::
  "action \<Rightarrow> string \<Rightarrow> string option \<Rightarrow> (string \<times> kind) list \<Rightarrow> ((action \<times> string list) list \<times> nat) res" where
  "option_actions a n None rest =
     (if takes_value a then
        (case rest of
           (v, Argument) # _ \<Rightarrow> Inr ([(a, [v])], 1)
         | _ \<Rightarrow> Inl (SystemExit 2))
      else Inr ([(a, [])], 0))"
| "option_actions a n (Some e) rest =
     (if \<not> takes_value a \<and> is_short n then
        (case e of
           [] \<Rightarrow> Inl (IndexError ''string index out of range'')
         | c # cs \<Rightarrow>
             (case map_of option_string_actions [hd n, c] of
                None \<Rightarrow> Inl (SystemExit 2)
              | Some b \<Rightarrow>
                  rbind (option_actions b [hd n, c] (if cs = [] then None else Some cs) rest)
                    (\<lambda>(acts, k). Inr ((a, []) # acts, k))))
      else if takes_value a then Inr ([(a, [e])], 0)
      else Inl (SystemExit 2))"
  by pat_completeness auto
termination
  by (relation "measure (\<lambda>(a, n, e, rest). case e of None \<Rightarrow> 0 | Some e \<Rightarrow> length e)") auto

fun take_actions :: "(action \<times> string list) list \<Rightarrow> settings \<Rightarrow> settings res" where
  "take_actions [] args = Inr args"
| "take_actions ((a, values) # acts) args = rbind (take_action a values args) (take_actions acts)"

text \<open>The loop: the settings and the \<open>extras\<close>, the arguments that belong to no option.\<close>

function parse_known :: "(string \<times> kind) list \<Rightarrow> settings \<Rightarrow> (settings \<times> string list) res" where
  "parse_known [] args = Inr (args, [])"
| "parse_known ((s, Option a n e) # rest) args =
     rbind (option_actions a n e rest) (\<lambda>(acts, k).
     rbind (take_actions acts args) (parse_known (drop k rest)))"
| "parse_known ((s, Argument) # rest) args =
     rbind (parse_known rest args) (\<lambda>(args1, extras). Inr (args1, s # extras))"
| "parse_known ((s, Dashes) # rest) args =
     rbind (parse_known rest args) (\<lambda>(args1, extras). Inr (args1, s # extras))"
| "parse_known ((s, UnknownOption) # rest) args =
     rbind (parse_known rest args) (\<lambda>(args1, extras). Inr (args1, s # extras))"
  by pat_completeness auto
termination
  by (relation "measure (\<lambda>(ks, args). length ks)") (auto simp: less_Suc_eq_le)

definition parse_args :: "string list \<Rightarrow> settings res" where
  "parse_args argv =
     rbind (classify argv) (\<lambda>ks.
     rbind (parse_known ks default_settings) (\<lambda>(args, extras).
       if extras = [] then Inr args else Inl (SystemExit 2)))"

end
