(* ===== verification/Imports.thy ===== *)
theory Imports
  imports CommandLine
begin

section \<open>Importing the modules\<close>

text \<open>
  The import statements of the modules under \<open>tools/mockDevice\<close> and
  \<open>tools/restconf/message\<close>, and what Python 2 does with them. An import of a module that is
  not in \<open>sys.modules\<close> enters it there with an empty name space, runs its body, and
  takes the entry away again if the body raises. A module already in \<open>sys.modules\<close>, loaded or still
  loading, is used as it stands. \<open>from m import n\<close> raises \<open>ImportError\<close> when \<open>m\<close> has not bound \<open>n\<close>.

  A module body is its import statements and the names its other statements bind
  (\<open>Define\<close>), in order; \<open>Execute r ns\<close> is a statement that raises or binds \<open>ns\<close>, as \<open>r\<close> says; \<open>ImportModule m n\<close> imports \<open>m\<close> and binds \<open>n\<close>. Modules outside the directory (the standard library,
  Flask, pyangbind, \<dots>) are given by what they export: \<open>ext m = None\<close> for a module that is not
  installed, otherwise \<open>Some ns\<close> for the names that it has. The recursion takes fuel for the depth
  of nested imports; \<open>None\<close> is the lack of it, and more fuel never changes a result.
\<close>

datatype pystmt =
    FromImport string "string list"
  | ImportModule string string
  | TryImportAll string
  | Define "string list"
  | Execute "unit res" "string list"

type_synonym sysmodules = "(string, string list) pydict"
type_synonym library = "string \<Rightarrow> string list option"
type_synonym program = "(string \<times> pystmt list) list"

definition cannot_import :: "string \<Rightarrow> pyexc" where
  "cannot_import n = ImportError (''cannot import name '' @ n)"

definition no_module :: "string \<Rightarrow> pyexc" where
  "no_module m = ImportError (''No module named '' @ m)"

definition dict_del :: "'k \<Rightarrow> ('k, 'v) pydict \<Rightarrow> ('k, 'v) pydict" where
  "dict_del k d = filter (\<lambda>p. fst p \<noteq> k) d"

definition bound_names :: "sysmodules \<Rightarrow> string \<Rightarrow> string list" where
  "bound_names st m = (case dict_get st m of None \<Rightarrow> [] | Some ns \<Rightarrow> ns)"

definition bind_names :: "string \<Rightarrow> string list \<Rightarrow> sysmodules \<Rightarrow> sysmodules" where
  "bind_names m ns st = dict_set m (bound_names st m @ ns) st"

text \<open>The names of \<open>from m import ns\<close>, checked from the left.\<close>

fun missing_name :: "string list \<Rightarrow> string list \<Rightarrow> string option" where
  "missing_name have [] = None"
| "missing_name have (n # ns) = (if n \<in> set have then missing_name have ns else Some n)"

definition module_names :: "library \<Rightarrow> program \<Rightarrow> sysmodules \<Rightarrow> string \<Rightarrow> string list" where
  "module_names ext prog st m =
     (if map_of prog m = None then (case ext m of None \<Rightarrow> [] | Some ns \<Rightarrow> ns) else bound_names st m)"

function load_module :: "library \<Rightarrow> program \<Rightarrow> nat \<Rightarrow> string \<Rightarrow> sysmodules \<Rightarrow> (unit res \<times> sysmodules) option"
  and run_body :: "library \<Rightarrow> program \<Rightarrow> nat \<Rightarrow> string \<Rightarrow> pystmt list \<Rightarrow> sysmodules \<Rightarrow> (unit res \<times> sysmodules) option"
where
  "load_module ext prog fuel m st =
     (case map_of prog m of
        None \<Rightarrow> Some (if ext m = None then Inl (no_module m) else Inr (), st)
      | Some body \<Rightarrow>
          if dict_get st m \<noteq> None then Some (Inr (), st)
          else
            (case fuel of
               0 \<Rightarrow> None
             | Suc fuel' \<Rightarrow>
                 (case run_body ext prog fuel' m body (dict_set m [] st) of
                    None \<Rightarrow> None
                  | Some (Inl e, st') \<Rightarrow> Some (Inl e, dict_del m st')
                  | Some (Inr u, st') \<Rightarrow> Some (Inr u, st'))))"
| "run_body ext prog fuel cur [] st = Some (Inr (), st)"
| "run_body ext prog fuel cur (Define ns # rest) st =
     run_body ext prog fuel cur rest (bind_names cur ns st)"
| "run_body ext prog fuel cur (Execute outcome ns # rest) st =
     (case outcome of
        Inl e \<Rightarrow> Some (Inl e, st)
      | Inr u \<Rightarrow> run_body ext prog fuel cur rest (bind_names cur ns st))"
| "run_body ext prog fuel cur (ImportModule m n # rest) st =
     (case load_module ext prog fuel m st of
        None \<Rightarrow> None
      | Some (Inl e, st') \<Rightarrow> Some (Inl e, st')
      | Some (Inr u, st') \<Rightarrow> run_body ext prog fuel cur rest (bind_names cur [n] st'))"
| "run_body ext prog fuel cur (FromImport m ns # rest) st =
     (case load_module ext prog fuel m st of
        None \<Rightarrow> None
      | Some (Inl e, st') \<Rightarrow> Some (Inl e, st')
      | Some (Inr u, st') \<Rightarrow>
          (case missing_name (module_names ext prog st' m) ns of
             Some n \<Rightarrow> Some (Inl (cannot_import n), st')
           | None \<Rightarrow> run_body ext prog fuel cur rest (bind_names cur ns st')))"
| "run_body ext prog fuel cur (TryImportAll m # rest) st =
     (case load_module ext prog fuel m st of
        None \<Rightarrow> None
      | Some (Inl (ImportError msg), st') \<Rightarrow> run_body ext prog fuel cur rest st'
      | Some (Inl e, st') \<Rightarrow> Some (Inl e, st')
      | Some (Inr u, st') \<Rightarrow>
          run_body ext prog fuel cur rest (bind_names cur (module_names ext prog st' m) st'))"
  by pat_completeness auto
termination
  by (relation "inv_image (less_than <*lex*> less_than)
      (\<lambda>x. case x of
         Inl (ext, prog, fuel, m, st) \<Rightarrow> (fuel, 0)
       | Inr (ext, prog, fuel, cur, body, st) \<Rightarrow> (fuel, Suc (length body)))") auto

declare load_module.simps [simp del]

subsection \<open>The modules of the mock device\<close>

definition dataModels_body :: "pystmt list" where
  "dataModels_body =
     [FromImport ''flask'' [''Response'', ''request''],
      FromImport ''yangModel'' [''YangModel''],
      ImportModule ''os'' ''os'',
      FromImport ''mockDevice'' [''app''],
      FromImport ''datetime'' [''datetime''],
      FromImport ''uuid'' [''uuid4''],
      Define [''data_models'', ''_path_to_model'', ''datastore_lastModifiedTimestamp'', ''datastore_eTag'',
        ''update_datastore'', ''_import_data_models'', ''register_data_models'', ''_data_get'']]"

definition yangModel_body :: "pystmt list" where
  "yangModel_body = [FromImport ''yinFile'' [''YINFile''], ImportModule ''os'' ''os'', Define [''YangModel'']]"

definition yinFile_body :: "pystmt list" where
  "yinFile_body =
     [ImportModule ''xml.etree.ElementTree'' ''xml'',
      FromImport ''xml.etree.ElementTree'' [''QName''],
      ImportModule ''datetime'' ''datetime'',
      FromImport ''restconfConfigHelper'' [''RestconfConfigHelper''],
      FromImport ''restconfStatusHelper'' [''RestconfStatusHelper''],
      Define [''YINFile'']]"

definition restconfConfigHelper_body :: "pystmt list" where
  "restconfConfigHelper_body =
     [FromImport ''datetime'' [''datetime''],
      FromImport ''uuid'' [''uuid4''],
      FromImport ''restconfDataHelper'' [''RestconfDataHelper''],
      FromImport ''dataModels'' [''update_datastore''],
      Define [''RestconfConfigHelper'']]"

definition restconfStatusHelper_body :: "pystmt list" where
  "restconfStatusHelper_body =
     [FromImport ''datetime'' [''datetime''],
      FromImport ''uuid'' [''uuid4''],
      FromImport ''restconfDataHelper'' [''RestconfDataHelper''],
      Define [''RestconfStatusHelper'']]"

definition restconfDataHelper_body :: "pystmt list" where
  "restconfDataHelper_body = [Define [''RestconfDataHelper'']]"

definition apiResource_body :: "pystmt list" where
  "apiResource_body =
     [FromImport ''flask'' [''Response'', ''request''],
      FromImport ''mockDevice'' [''app'', ''operations''],
      FromImport ''dataModels'' [''data_models''],
      FromImport ''yangLibrary'' [''yang_library''],
      FromImport ''globals'' [''DEFAULT_ROOT_RESOURCE'', ''DEFAULT_HTTP_PORT'', ''GENERATED_DIR_NAME''],
      FromImport ''resource.datastore'' [''dataStore''],
      FromImport ''yangModel'' [''YangModel''],
      FromImport ''yangLibrary'' [''YangLibrary'', ''yang_library''],
      Define [''register_top_level_resource'', ''_top_level_api_get'']]"

definition yangLibrary_body :: "pystmt list" where
  "yangLibrary_body =
     [FromImport ''flask'' [''Response'', ''request''],
      FromImport ''ietf_yang_library'' [''ietf_yang_library''],
      FromImport ''mockDevice'' [''app''],
      FromImport ''dataModels'' [''data_models''],
      Define [''yang_library'', ''register_yang_library_version'', ''_yang_library_get'', ''YangLibrary'']]"

definition globals_body :: "pystmt list" where
  "globals_body = [Define [''DEFAULT_HTTP_PORT'', ''DEFAULT_ROOT_RESOURCE'', ''GENERATED_DIR_NAME'']]"

definition datastore_body :: "pystmt list" where
  "datastore_body =
     [FromImport ''flask'' [''Blueprint'', ''abort'', ''url_for''],
      FromImport ''jinja2'' [''TemplateNotFound''],
      ImportModule ''os.path'' ''os'',
      FromImport ''datetime'' [''datetime''],
      Define [''dataStore'', ''show'', ''DataStore'']]"

text \<open>
  \<open>mockDevice.py\<close> parses the command line of the process that imports it, with the result \<open>parsed\<close>,
  and registers the blueprint of the data store under \<open>__prefix\<close>. What Flask makes of such a
  prefix is the argument \<open>register\<close>: the root resource is part of it, and where Werkzeug reads a converter that it
  does not have in it, as in \<open><x:y>\<close>, the registration raises.
\<close>

definition data_prefix :: "settings \<Rightarrow> string" where
  "data_prefix args = ''/'' @ root_resource args @ ''/data''"

definition ended :: "'a res \<Rightarrow> unit res" where
  "ended r = rbind r (\<lambda>_. Inr ())"

definition mockDevice_body :: "settings res \<Rightarrow> (string \<Rightarrow> unit res) \<Rightarrow> pystmt list" where
  "mockDevice_body parsed register =
     [FromImport ''flask'' [''Flask'', ''Response''],
      FromImport ''werkzeug.routing'' [''BaseConverter''],
      FromImport ''xrd'' [''Element'', ''XRD'', ''Link''],
      FromImport ''globals'' [''DEFAULT_ROOT_RESOURCE'', ''DEFAULT_HTTP_PORT'', ''GENERATED_DIR_NAME''],
      FromImport ''resource.datastore'' [''dataStore''],
      TryImportAll ''generated'',
      ImportModule ''argparse'' ''argparse'',
      Define [''parser''],
      Execute (ended parsed) [''args''],
      Define [''app'', ''__prefix''],
      Execute (rbind parsed (\<lambda>args. register (data_prefix args))) [],
      Define [''_generated_dir'', ''operations'', ''notifications'',
        ''default_json'', ''accept_patch'', ''default_encoding_json'', ''default_encoding_xml'', ''index'',
        ''get_host_meta'', ''do_reset'', ''RegexConverter'', ''WildcardConverter'']]"

definition ietf_yang_library_body :: "pystmt list" where
  "ietf_yang_library_body =
     [FromImport ''operator'' [''attrgetter''],
      FromImport ''pyangbind.lib.yangtypes'' [''RestrictedPrecisionDecimalType'', ''RestrictedClassType'', ''TypedListType''],
      FromImport ''pyangbind.lib.yangtypes'' [''YANGBool'', ''YANGListType'', ''YANGDynClass'', ''ReferenceType''],
      FromImport ''pyangbind.lib.base'' [''PybindBase''],
      FromImport ''decimal'' [''Decimal''],
      ImportModule ''numpy'' ''np'',
      FromImport ''bitarray'' [''bitarray''],
      Define [''yc_deviation_ietf_yang_library__modules_state_module_deviation'',
        ''yc_submodule_ietf_yang_library__modules_state_module_submodules_submodule'',
        ''yc_submodules_ietf_yang_library__modules_state_module_submodules'',
        ''yc_module_ietf_yang_library__modules_state_module'',
        ''yc_modules_state_ietf_yang_library__modules_state'', ''ietf_yang_library'']]"

text \<open>The block under \<open>if __name__ == '__main__'\<close>, as far as its imports.\<close>

definition main_block :: "pystmt list" where
  "main_block =
     [FromImport ''dataModels'' [''register_data_models''],
      FromImport ''yangLibrary'' [''register_yang_library_version''],
      FromImport ''apiResource'' [''register_top_level_resource'']]"

definition mock_device_program :: "settings res \<Rightarrow> (string \<Rightarrow> unit res) \<Rightarrow> program" where
  "mock_device_program parsed register =
     [(''dataModels'', dataModels_body), (''yangModel'', yangModel_body), (''yinFile'', yinFile_body),
      (''restconfConfigHelper'', restconfConfigHelper_body), (''restconfStatusHelper'', restconfStatusHelper_body),
      (''restconfDataHelper'', restconfDataHelper_body), (''apiResource'', apiResource_body),
      (''yangLibrary'', yangLibrary_body), (''globals'', globals_body), (''resource.datastore'', datastore_body),
      (''mockDevice'', mockDevice_body parsed register), (''ietf_yang_library'', ietf_yang_library_body)]"

text \<open>
  The program is started with \<open>mockDevice.py\<close> as the main script: its body and the block run as
  the module \<open>__main__\<close>.
\<close>

definition main_program :: "settings res \<Rightarrow> (string \<Rightarrow> unit res) \<Rightarrow> program" where
  "main_program parsed register =
     (''__main__'', mockDevice_body parsed register @ main_block) # mock_device_program parsed register"

subsection \<open>The modules of the message library\<close>

definition restconfDataResource_body :: "pystmt list" where
  "restconfDataResource_body =
     [ImportModule ''string'' ''string'', ImportModule ''urllib'' ''urllib'',
      FromImport ''restconfListInstance'' [''RestconfListInstance''],
      Define [''RestconfDataResource'']]"

definition restconfListInstance_body :: "pystmt list" where
  "restconfListInstance_body =
     [ImportModule ''string'' ''string'', ImportModule ''sys'' ''sys'',
      FromImport ''restconfDataResource'' [''RestconfDataResource''],
      Define [''RestconfListInstance'']]"

definition restconfUrl_body :: "pystmt list" where
  "restconfUrl_body = [FromImport ''urlparse'' [''urlparse''], Define [''RestconfUrl'']]"

definition sub_url_body :: "string \<Rightarrow> pystmt list" where
  "sub_url_body cls = [FromImport ''urlparse'' [''urlparse''], FromImport ''restconfUrl'' [''RestconfUrl''], Define [cls]]"

definition message_program :: program where
  "message_program =
     [(''restconfDataResource'', restconfDataResource_body), (''restconfListInstance'', restconfListInstance_body),
      (''restconfUrl'', restconfUrl_body), (''restconfDataUrl'', sub_url_body ''RestconfDataUrl''),
      (''restconfOperationUrl'', sub_url_body ''RestconfOperationUrl''),
      (''restconfLibraryUrl'', sub_url_body ''RestconfLibraryUrl'')]"

subsection \<open>Running the imports\<close>

lemma load_ext: "map_of prog m = None \<Longrightarrow>
  load_module ext prog fuel m st = Some (if ext m = None then Inl (no_module m) else Inr (), st)"
  by (simp add: load_module.simps)

lemma load_cached: "map_of prog m = Some body \<Longrightarrow> dict_get st m = Some ns \<Longrightarrow>
  load_module ext prog fuel m st = Some (Inr (), st)"
  by (simp add: load_module.simps)

lemma load_new: "map_of prog m = Some body \<Longrightarrow> dict_get st m = None \<Longrightarrow>
  load_module ext prog (Suc n) m st =
    (case run_body ext prog n m body (dict_set m [] st) of
       None \<Rightarrow> None
     | Some (Inl e, st') \<Rightarrow> Some (Inl e, dict_del m st')
     | Some (Inr u, st') \<Rightarrow> Some (Inr u, st'))"
  by (simp add: load_module.simps)

lemmas run_simps = load_ext load_cached load_new bind_names_def bound_names_def dict_get_def module_names_def

subsection \<open>Imports always end\<close>

lemma keys_dict_del [simp]: "dict_keys (dict_del k d) = dict_keys d - {k}"
  by (auto simp: dict_keys_def dict_del_def)

lemma keys_bind_names [simp]: "dict_keys (bind_names m ns st) = insert m (dict_keys st)"
  unfolding bind_names_def by (rule pyd.keys_put)

lemma dict_get_None: "dict_get d k = None \<longleftrightarrow> k \<notin> dict_keys d"
  by (simp add: pyd.keys_get)

lemma load_keeps_loaded:
  "load_module ext prog fuel m st = Some (r, st') \<Longrightarrow> dict_keys st \<subseteq> dict_keys st'"
  "run_body ext prog fuel cur body st = Some (r, st') \<Longrightarrow> dict_keys st \<subseteq> dict_keys st'"
proof (induction ext prog fuel m st and ext prog fuel cur body st
    arbitrary: r st' and r st' rule: load_module_run_body.induct)
  case (1 ext prog fuel m st)
  show ?case
  proof (cases "map_of prog m = None \<or> dict_get st m \<noteq> None")
    case True
    with "1.prems" show ?thesis by (cases "map_of prog m") (auto simp: load_ext load_cached)
  next
    case False
    then obtain body where body: "map_of prog m = Some body" and new: "dict_get st m = None" by (cases "map_of prog m") auto
    with "1.prems" obtain n where n: "fuel = Suc n" by (cases fuel) (auto simp: load_module.simps)
    with "1.prems" body new obtain r1 st1
      where run: "run_body ext prog n m body (dict_set m [] st) = Some (r1, st1)"
        and st': "st' = st1 \<or> st' = dict_del m st1"
      by (auto simp: load_new split: option.splits sum.splits)
    from "1.IH" [OF body _ n run] new have "insert m (dict_keys st) \<subseteq> dict_keys st1"
      by (simp add: pyd.keys_put)
    with st' new show ?thesis by (auto simp: dict_get_None)
  qed
next
  case (3 ext prog fuel cur ns rest st)
  then show ?case by fastforce
next
  case (4 ext prog fuel cur outcome ns rest st)
  then show ?case by (cases outcome) fastforce+
next
  case (5 ext prog fuel cur m n rest st)
  then obtain r1 st1 where load: "load_module ext prog fuel m st = Some (r1, st1)"
    by (auto split: option.splits)
  from "5.IH"(1) [OF load] "5.IH"(2) [OF load] "5.prems" load show ?case
    by (cases r1) fastforce+
next
  case (6 ext prog fuel cur m ns rest st)
  then obtain r1 st1 where load: "load_module ext prog fuel m st = Some (r1, st1)"
    by (auto split: option.splits)
  from "6.IH"(1) [OF load] "6.IH"(2) [OF load] "6.prems" load show ?case
    by (cases r1; cases "missing_name (module_names ext prog st1 m) ns") fastforce+
next
  case (7 ext prog fuel cur m rest st)
  then obtain r1 st1 where load: "load_module ext prog fuel m st = Some (r1, st1)"
    by (auto split: option.splits)
  show ?case
  proof (cases r1)
    case (Inl e)
    with "7.IH"(1) [OF load] "7.IH"(2) [OF load] "7.prems" load show ?thesis
      by (cases e) fastforce+
  next
    case (Inr u)
    with "7.IH"(1) [OF load] "7.IH"(3) [OF load] "7.prems" load show ?thesis
      by fastforce
  qed
qed simp_all

definition unloaded :: "program \<Rightarrow> sysmodules \<Rightarrow> string set" where
  "unloaded prog st = fst ` set prog - dict_keys st"

lemma unloaded_antimono: "dict_keys st \<subseteq> dict_keys st' \<Longrightarrow> card (unloaded prog st') \<le> card (unloaded prog st)"
  by (rule card_mono) (auto simp: unloaded_def)

lemma load_has_fuel:
  "card (unloaded prog st) \<le> fuel \<Longrightarrow> load_module ext prog fuel m st \<noteq> None"
  "card (unloaded prog st) \<le> fuel \<Longrightarrow> run_body ext prog fuel cur body st \<noteq> None"
proof (induction ext prog fuel m st and ext prog fuel cur body st rule: load_module_run_body.induct)
  case (1 ext prog fuel m st)
  show ?case
  proof (cases "map_of prog m")
    case None
    then show ?thesis by (simp add: load_ext)
  next
    case (Some body)
    show ?thesis
    proof (cases "dict_get st m")
      case None
      with Some have m: "m \<in> unloaded prog st"
        by (force simp: unloaded_def dict_get_None dest: map_of_SomeD)
      have fin: "finite (unloaded prog st)" by (simp add: unloaded_def)
      have "unloaded prog (dict_set m [] st) = unloaded prog st - {m}"
        by (auto simp: unloaded_def pyd.keys_put)
      with m fin have card: "card (unloaded prog st) = Suc (card (unloaded prog (dict_set m [] st)))"
        by (metis card_Suc_Diff1)
      with "1.prems" obtain n where n: "fuel = Suc n" "card (unloaded prog (dict_set m [] st)) \<le> n"
        by (cases fuel) auto
      from "1.IH" [OF Some _ n(1) n(2)] None n(1) Some show ?thesis
        by (auto simp: load_new split: option.splits sum.splits)
    qed (use Some in \<open>simp add: load_cached\<close>)
  qed
next
  case (3 ext prog fuel cur ns rest st)
  then show ?case
    using unloaded_antimono [of st "bind_names cur ns st" prog] by (simp add: subset_insertI)
next
  case (4 ext prog fuel cur outcome ns rest st)
  then show ?case
    using unloaded_antimono [of st "bind_names cur ns st" prog] by (cases outcome) (auto simp: subset_insertI)
next
  case (5 ext prog fuel cur m n rest st)
  show ?case
  proof (cases "load_module ext prog fuel m st")
    case None
    with "5.IH"(1) "5.prems" show ?thesis by simp
  next
    case (Some p)
    obtain r st' where p: "p = (r, st')" by fastforce
    with Some load_keeps_loaded(1) have "card (unloaded prog (bind_names cur [n] st')) \<le> fuel"
      using "5.prems" unloaded_antimono [of st "bind_names cur [n] st'" prog] by fastforce
    with Some p "5.IH"(2) show ?thesis by (cases r) auto
  qed
next
  case (6 ext prog fuel cur m ns rest st)
  show ?case
  proof (cases "load_module ext prog fuel m st")
    case None
    with "6.IH"(1) "6.prems" show ?thesis by simp
  next
    case (Some p)
    obtain r st' where p: "p = (r, st')" by fastforce
    with Some load_keeps_loaded(1) have "card (unloaded prog (bind_names cur ns st')) \<le> fuel"
      using "6.prems" unloaded_antimono [of st "bind_names cur ns st'" prog] by fastforce
    with Some p "6.IH"(2) show ?thesis by (cases r) (auto split: option.splits)
  qed
next
  case (7 ext prog fuel cur m rest st)
  show ?case
  proof (cases "load_module ext prog fuel m st")
    case None
    with "7.IH"(1) "7.prems" show ?thesis by simp
  next
    case (Some p)
    obtain r st' where p: "p = (r, st')" by fastforce
    have "card (unloaded prog st') \<le> fuel" "card (unloaded prog (bind_names cur ns st')) \<le> fuel" for ns
      using "7.prems" Some p load_keeps_loaded(1) unloaded_antimono [of st st' prog]
        unloaded_antimono [of st "bind_names cur ns st'" prog] by fastforce+
    with Some p "7.IH"(2,3) show ?thesis
      by (cases r) (auto split: pyexc.splits)
  qed
qed simp

lemma card_unloaded: "card (unloaded prog st) \<le> length prog"
proof -
  have "card (unloaded prog st) \<le> card (fst ` set prog)"
    by (rule card_mono) (auto simp: unloaded_def)
  also have "\<dots> \<le> length prog" by (metis card_length length_map set_map)
  finally show ?thesis .
qed

text \<open>
  An import always ends, with a result or an exception: fuel for one nested load
  per module of the program is enough, whatever the modules import and whichever are loaded already.
\<close>

theorem load_module_ends:
  "\<exists>r st'. load_module ext prog (length prog) m st = Some (r, st')"
  using load_has_fuel(1) [OF card_unloaded] by fastforce

lemma load_more_fuel:
  "load_module ext prog fuel m st = Some r \<Longrightarrow> load_module ext prog (fuel + k) m st = Some r"
  "run_body ext prog fuel cur body st = Some r \<Longrightarrow> run_body ext prog (fuel + k) cur body st = Some r"
proof (induction ext prog fuel m st and ext prog fuel cur body st
    arbitrary: r and r rule: load_module_run_body.induct)
  case (1 ext prog fuel m st)
  show ?case
  proof (cases "map_of prog m = None \<or> dict_get st m \<noteq> None")
    case True
    with "1.prems" show ?thesis by (cases "map_of prog m") (auto simp: load_ext load_cached)
  next
    case False
    then obtain body where body: "map_of prog m = Some body" and new: "dict_get st m = None"
      by (cases "map_of prog m") auto
    with "1.prems" obtain n where n: "fuel = Suc n" by (cases fuel) (auto simp: load_module.simps)
    with "1.prems" body new obtain p where run: "run_body ext prog n m body (dict_set m [] st) = Some p"
      by (auto simp: load_new split: option.splits)
    from "1.IH" [OF body _ n run] new "1.prems" body n run show ?thesis
      by (simp add: load_new)
  qed
next
  case (4 ext prog fuel cur outcome ns rest st)
  then show ?case by (cases outcome) auto
next
  case (5 ext prog fuel cur m n rest st)
  then obtain r1 st1 where load: "load_module ext prog fuel m st = Some (r1, st1)"
    by (auto split: option.splits)
  from "5.IH"(1) [OF load] "5.IH"(2) [OF load] "5.prems" load show ?case
    by (cases r1) auto
next
  case (6 ext prog fuel cur m ns rest st)
  then obtain r1 st1 where load: "load_module ext prog fuel m st = Some (r1, st1)"
    by (auto split: option.splits)
  from "6.IH"(1) [OF load] "6.IH"(2) [OF load] "6.prems" load show ?case
    by (cases r1; cases "missing_name (module_names ext prog st1 m) ns") auto
next
  case (7 ext prog fuel cur m rest st)
  then obtain r1 st1 where load: "load_module ext prog fuel m st = Some (r1, st1)"
    by (auto split: option.splits)
  show ?case
  proof (cases r1)
    case (Inl e)
    with "7.IH"(1) [OF load] "7.IH"(2) [OF load] "7.prems" load show ?thesis
      by (cases e) auto
  next
    case (Inr u)
    with "7.IH"(1) [OF load] "7.IH"(3) [OF load] "7.prems" load show ?thesis
      by auto
  qed
qed simp_all

end
