(* ===== verification/ImportCycles.thy ===== *)
theory ImportCycles
  imports Imports
begin

section \<open>Circular imports\<close>

text \<open>
  Modules that wait for each other's names. Each module of a deadlock asks, by \<open>from m import n\<close>,
  another one for a name that \<open>m\<close> binds only after its own request, so none of them gets further,
  whatever is loaded besides and in whatever order the imports are tried. The theorem is
  proved once for lists of modules with the names they never come to bind (\<open>deadlock\<close>) and applied to
  six modules of the mock device and two of the message library.
\<close>

subsection \<open>Deadlocks\<close>

type_synonym waiting = "(string \<times> string list) list"

text \<open>\<open>from m import ns\<close> asks a waiting module for one of the names that it does not bind.\<close>

definition asks :: "waiting \<Rightarrow> string \<Rightarrow> string list \<Rightarrow> bool" where
  "asks ws m ns \<longleftrightarrow> (case map_of ws m of None \<Rightarrow> False | Some own \<Rightarrow> list_ex (\<lambda>n. n \<in> set own) ns)"

text \<open>The body asks a waiting module before it binds any name of \<open>own\<close>.\<close>

fun blocked :: "waiting \<Rightarrow> string list \<Rightarrow> pystmt list \<Rightarrow> bool" where
  "blocked ws own [] = False"
| "blocked ws own (FromImport m ns # rest) =
     (asks ws m ns \<or> list_all (\<lambda>n. n \<notin> set own) ns \<and> blocked ws own rest)"
| "blocked ws own (ImportModule m n # rest) = (n \<notin> set own \<and> blocked ws own rest)"
| "blocked ws own (TryImportAll m # rest) = (own = [] \<and> blocked ws own rest)"
| "blocked ws own (Define ns # rest) = (list_all (\<lambda>n. n \<notin> set own) ns \<and> blocked ws own rest)"
| "blocked ws own (Execute outcome ns # rest) = (list_all (\<lambda>n. n \<notin> set own) ns \<and> blocked ws own rest)"

definition deadlock :: "program \<Rightarrow> waiting \<Rightarrow> bool" where
  "deadlock prog ws \<longleftrightarrow>
     list_all (\<lambda>(m, own). (case map_of prog m of None \<Rightarrow> False | Some body \<Rightarrow> blocked ws own body)) ws"

text \<open>The waiting modules that are being loaded have not bound these names.\<close>

definition still_waiting :: "waiting \<Rightarrow> sysmodules \<Rightarrow> bool" where
  "still_waiting ws st \<longleftrightarrow> (\<forall>m own. map_of ws m = Some own \<longrightarrow> set own \<inter> set (bound_names st m) = {})"

definition present :: "waiting \<Rightarrow> sysmodules \<Rightarrow> string set" where
  "present ws st = fst ` set ws \<inter> dict_keys st"

definition no_progress :: "waiting \<Rightarrow> sysmodules \<Rightarrow> sysmodules \<Rightarrow> bool" where
  "no_progress ws st st' \<longleftrightarrow> still_waiting ws st' \<and> present ws st' = present ws st"

lemma deadlockD:
  assumes "deadlock prog ws" and "map_of ws m = Some own"
  obtains body where "map_of prog m = Some body" and "blocked ws own body"
proof -
  from assms map_of_SomeD [of ws m own] have "case map_of prog m of None \<Rightarrow> False | Some body \<Rightarrow> blocked ws own body"
    by (auto simp: deadlock_def list_all_iff)
  with that show thesis by (cases "map_of prog m") simp_all
qed

lemma missing_name_asked: "list_ex (\<lambda>n. n \<in> set own) ns \<Longrightarrow> set own \<inter> set have = {} \<Longrightarrow> missing_name have ns \<noteq> None"
  by (induction ns) auto

lemma bound_names_put [simp]: "bound_names (dict_set m ns st) m' = (if m' = m then ns else bound_names st m')"
  by (simp add: bound_names_def dict_get_set)

lemma bound_names_bind [simp]:
  "bound_names (bind_names m ns st) m' = (if m' = m then bound_names st m @ ns else bound_names st m')"
  by (simp add: bind_names_def)

lemma bound_names_del [simp]: "bound_names (dict_del m st) m' = (if m' = m then [] else bound_names st m')"
  by (induction st) (auto simp: bound_names_def dict_get_def dict_del_def)

lemma still_waiting_bind:
  assumes "still_waiting ws st" and "\<And>own. map_of ws cur = Some own \<Longrightarrow> list_all (\<lambda>n. n \<notin> set own) ns"
  shows "still_waiting ws (bind_names cur ns st)"
  using assms by (fastforce simp: still_waiting_def list_all_iff)

lemma present_bind: "cur \<in> dict_keys st \<Longrightarrow> present ws (bind_names cur ns st) = present ws st"
  by (auto simp: present_def)

text \<open>
  No import makes progress on a deadlock, and the import of a module of it fails: shown together with
  the same for bodies, which keep their module waiting as long as they run.
\<close>

definition waits :: "waiting \<Rightarrow> string \<Rightarrow> pystmt list \<Rightarrow> bool" where
  "waits ws cur body \<longleftrightarrow> (\<forall>own. map_of ws cur = Some own \<longrightarrow> blocked ws own body)"

lemma asks_present:
  assumes "deadlock prog ws" and "asks ws m ns" and "still_waiting ws st"
    and "load_module ext prog fuel m st0 = Some (Inr u, st)"
  shows "missing_name (module_names ext prog st m) ns \<noteq> None"
proof -
  from assms(2) obtain own where own: "map_of ws m = Some own" "list_ex (\<lambda>n. n \<in> set own) ns"
    by (auto simp: asks_def split: option.splits)
  from deadlockD [OF assms(1) own(1)] have "map_of prog m \<noteq> None" by auto
  with assms(3) own(1) have "set own \<inter> set (module_names ext prog st m) = {}"
    by (auto simp: still_waiting_def module_names_def)
  with own(2) show ?thesis by (rule missing_name_asked)
qed

lemma load_new_waits:
  assumes "deadlock prog ws" and "map_of prog m = Some body"
  shows "waits ws m body"
  using assms by (auto simp: waits_def elim: deadlockD)

lemma waits_bind:
  assumes "still_waiting ws st" and "cur \<in> dict_keys st"
    and "\<And>own. map_of ws cur = Some own \<Longrightarrow> list_all (\<lambda>n. n \<notin> set own) ns"
  shows "no_progress ws st (bind_names cur ns st)" and "cur \<in> dict_keys (bind_names cur ns st)"
  using assms still_waiting_bind present_bind by (auto simp: no_progress_def)

lemma no_progress_trans: "no_progress ws st st1 \<Longrightarrow> no_progress ws st1 st2 \<Longrightarrow> no_progress ws st st2"
  by (simp add: no_progress_def)

lemma no_progress_waiting: "no_progress ws st st' \<Longrightarrow> still_waiting ws st'"
  by (simp add: no_progress_def)

lemma waiting_own: "m \<in> fst ` set ws \<Longrightarrow> \<exists>own. map_of ws m = Some own"
  by (metis map_of_eq_None_iff not_None_eq)

lemma deadlock_member: "deadlock prog ws \<Longrightarrow> m \<in> fst ` set ws \<Longrightarrow> map_of prog m \<noteq> None"
  using waiting_own deadlockD by (metis option.distinct(1))

lemma no_progress_refl: "still_waiting ws st \<Longrightarrow> no_progress ws st st"
  by (simp add: no_progress_def)

lemma waits_rest:
  "waits ws cur (Define ns # rest) \<Longrightarrow> waits ws cur rest"
  "waits ws cur (Execute outcome ns # rest) \<Longrightarrow> waits ws cur rest"
  "waits ws cur (ImportModule m n # rest) \<Longrightarrow> waits ws cur rest"
  "waits ws cur (TryImportAll m # rest) \<Longrightarrow> waits ws cur rest"
  "waits ws cur (FromImport m ns # rest) \<Longrightarrow> \<not> asks ws m ns \<Longrightarrow> waits ws cur rest"
  by (auto simp: waits_def)

lemma waits_unbound:
  "waits ws cur (Define ns # rest) \<Longrightarrow> map_of ws cur = Some own \<Longrightarrow> list_all (\<lambda>n. n \<notin> set own) ns"
  "waits ws cur (Execute outcome ns # rest) \<Longrightarrow> map_of ws cur = Some own \<Longrightarrow> list_all (\<lambda>n. n \<notin> set own) ns"
  "waits ws cur (ImportModule m n # rest) \<Longrightarrow> map_of ws cur = Some own \<Longrightarrow> list_all (\<lambda>n. n \<notin> set own) [n]"
  "waits ws cur (TryImportAll m # rest) \<Longrightarrow> map_of ws cur = Some own \<Longrightarrow> list_all (\<lambda>n. n \<notin> set own) ns"
  "waits ws cur (FromImport m ns # rest) \<Longrightarrow> \<not> asks ws m ns \<Longrightarrow> map_of ws cur = Some own \<Longrightarrow>
   list_all (\<lambda>n. n \<notin> set own) ns"
  by (auto simp: waits_def list_all_iff)

lemma blocked_rest:
  "blocked ws own (s # rest) \<Longrightarrow> (\<And>m ns. s = FromImport m ns \<Longrightarrow> \<not> asks ws m ns) \<Longrightarrow> blocked ws own rest"
  by (cases s) auto

lemma load_without_progress:
  assumes "no_progress ws (dict_set m [] st) st1" and "m \<notin> dict_keys st"
  shows "no_progress ws st (dict_del m st1)" and "m \<notin> fst ` set ws \<Longrightarrow> no_progress ws st st1"
  using assms by (auto simp: no_progress_def present_def still_waiting_def pyd.keys_put)

lemma deadlock_steps:
  "load_module ext prog fuel m st = Some (r, st') \<Longrightarrow> deadlock prog ws \<Longrightarrow> still_waiting ws st \<Longrightarrow>
   no_progress ws st st' \<and> (m \<in> fst ` set ws \<longrightarrow> m \<notin> dict_keys st \<longrightarrow> (\<exists>e. r = Inl e))"
  "run_body ext prog fuel cur body st = Some (r, st') \<Longrightarrow> deadlock prog ws \<Longrightarrow> still_waiting ws st \<Longrightarrow>
   cur \<in> dict_keys st \<Longrightarrow> waits ws cur body \<Longrightarrow>
   no_progress ws st st' \<and> (\<forall>own. blocked ws own body \<longrightarrow> (\<exists>e. r = Inl e))"
proof (induction ext prog fuel m st and ext prog fuel cur body st
    arbitrary: r st' and r st' rule: load_module_run_body.induct)
  case (1 ext prog fuel m st)
  note refl = no_progress_refl [OF "1.prems"(3)]
  show ?case
  proof (cases "map_of prog m = None \<or> dict_get st m \<noteq> None")
    case True
    then have "m \<in> fst ` set ws \<longrightarrow> m \<in> dict_keys st"
      using deadlock_member [OF "1.prems"(2)] dict_get_None by metis
    moreover from True "1.prems"(1) have "st' = st"
      by (cases "map_of prog m") (auto simp: load_ext load_cached)
    ultimately show ?thesis using refl by simp
  next
    case False
    then obtain body where body: "map_of prog m = Some body" and new: "dict_get st m = None"
      by (cases "map_of prog m") auto
    with "1.prems" obtain n where n: "fuel = Suc n" by (cases fuel) (auto simp: load_module.simps)
    with "1.prems"(1) body new obtain r1 st1
      where run: "run_body ext prog n m body (dict_set m [] st) = Some (r1, st1)"
        and r: "r = r1" and st': "st' = (if isl r1 then dict_del m st1 else st1)"
      by (auto simp: load_new split: option.splits sum.splits)
    have waits: "waits ws m body" by (rule load_new_waits [OF "1.prems"(2) body])
    have "still_waiting ws (dict_set m [] st)" using "1.prems"(3) by (auto simp: still_waiting_def)
    with "1.IH" [OF body _ n run "1.prems"(2)] new waits
    have IH: "no_progress ws (dict_set m [] st) st1" "\<forall>own. blocked ws own body \<longrightarrow> (\<exists>e. r1 = Inl e)"
      by (auto simp: pyd.keys_put)
    have fails: "\<exists>e. r1 = Inl e" if "m \<in> fst ` set ws"
    proof -
      from waiting_own [OF that] obtain own where "map_of ws m = Some own" ..
      with waits have "blocked ws own body" by (simp add: waits_def)
      with IH(2) show ?thesis by blast
    qed
    have "m \<notin> dict_keys st" using new by (simp add: dict_get_None)
    note keep = load_without_progress [OF IH(1) this]
    show ?thesis
    proof (cases r1)
      case (Inl e)
      with keep(1) r st' show ?thesis by simp
    next
      case (Inr u)
      with fails have "m \<notin> fst ` set ws" by auto
      with keep(2) Inr r st' show ?thesis by simp
    qed
  qed
next
  case (3 ext prog fuel cur ns rest st)
  note bind = waits_bind [OF "3.prems"(3,4) waits_unbound(1) [OF "3.prems"(5)]]
  from "3.IH" [OF _ "3.prems"(2) no_progress_waiting [OF bind(1)] bind(2) waits_rest(1) [OF "3.prems"(5)]]
    "3.prems"(1) no_progress_trans [OF bind(1)]
  show ?case by auto
next
  case (4 ext prog fuel cur outcome ns rest st)
  note bind = waits_bind [OF "4.prems"(3,4) waits_unbound(2) [OF "4.prems"(5)]]
  from "4.IH" [OF _ _ "4.prems"(2) no_progress_waiting [OF bind(1)] bind(2) waits_rest(2) [OF "4.prems"(5)]]
    "4.prems"(1) no_progress_trans [OF bind(1)] no_progress_refl [OF "4.prems"(3)]
  show ?case by (cases outcome) auto
next
  case (5 ext prog fuel cur m n rest st)
  then obtain r1 st1 where load: "load_module ext prog fuel m st = Some (r1, st1)"
    by (auto split: option.splits)
  with "5.IH"(1) [OF load "5.prems"(2,3)] load_keeps_loaded(1) [OF load] "5.prems"(4)
  have st1: "no_progress ws st st1" and cur: "cur \<in> dict_keys st1" by auto
  note bind = waits_bind [OF no_progress_waiting [OF st1] cur waits_unbound(3) [OF "5.prems"(5)]]
  from "5.IH"(2) [OF load _ _ _ "5.prems"(2) no_progress_waiting [OF bind(1)] bind(2) waits_rest(3) [OF "5.prems"(5)]]
    "5.prems"(1) no_progress_trans [OF no_progress_trans [OF st1 bind(1)]] st1 load
  show ?case by (cases r1) auto
next
  case (6 ext prog fuel cur m ns rest st)
  then obtain r1 st1 where load: "load_module ext prog fuel m st = Some (r1, st1)"
    by (auto split: option.splits)
  with "6.IH"(1) [OF load "6.prems"(2,3)] load_keeps_loaded(1) [OF load] "6.prems"(4)
  have st1: "no_progress ws st st1" and cur: "cur \<in> dict_keys st1" by auto
  show ?case
  proof (cases "isl r1 \<or> missing_name (module_names ext prog st1 m) ns \<noteq> None")
    case True
    with "6.prems"(1) load st1 show ?thesis by (cases r1) auto
  next
    case False
    then obtain u where r1: "r1 = Inr u" and names: "missing_name (module_names ext prog st1 m) ns = None"
      by (cases r1) auto
    have asks: "\<not> asks ws m ns"
      using asks_present [OF "6.prems"(2) _ no_progress_waiting [OF st1]] load r1 names by blast
    note bind = waits_bind [OF no_progress_waiting [OF st1] cur waits_unbound(5) [OF "6.prems"(5) asks]]
    from "6.IH"(2) [OF load _ _ names _ "6.prems"(2) no_progress_waiting [OF bind(1)] bind(2) waits_rest(5) [OF "6.prems"(5) asks]]
      "6.prems"(1) no_progress_trans [OF no_progress_trans [OF st1 bind(1)]] load r1 names asks
    show ?thesis by auto
  qed
next
  case (7 ext prog fuel cur m rest st)
  then obtain r1 st1 where load: "load_module ext prog fuel m st = Some (r1, st1)"
    by (auto split: option.splits)
  with "7.IH"(1) [OF load "7.prems"(2,3)] load_keeps_loaded(1) [OF load] "7.prems"(4)
  have st1: "no_progress ws st st1" and cur: "cur \<in> dict_keys st1" by auto
  note rest = waits_rest(4) [OF "7.prems"(5)]
  show ?case
  proof (cases r1)
    case (Inl e)
    from "7.IH"(2) [OF load _ Inl _ _ "7.prems"(2) no_progress_waiting [OF st1] cur rest]
      "7.prems"(1) no_progress_trans [OF st1] st1 load Inl
    show ?thesis by (cases e) auto
  next
    case (Inr u)
    note bind = waits_bind [OF no_progress_waiting [OF st1] cur waits_unbound(4) [OF "7.prems"(5)]]
    from "7.IH"(3) [OF load _ Inr _ "7.prems"(2) no_progress_waiting [OF bind(1)] bind(2) rest]
      "7.prems"(1) no_progress_trans [OF no_progress_trans [OF st1 bind(1)]] load Inr
    show ?thesis by auto
  qed
qed (simp add: no_progress_refl)

subsection \<open>The errors of an import\<close>

text \<open>
  A body raises an \<open>ImportError\<close>, or one of \<open>E\<close> from a statement \<open>Execute\<close>, as far as it gets: \<open>S\<close>
  has the modules that it imports before it asks a waiting one.
\<close>

fun raises_only :: "waiting \<Rightarrow> string set \<Rightarrow> pyexc set \<Rightarrow> pystmt list \<Rightarrow> bool" where
  "raises_only ws S E [] = True"
| "raises_only ws S E (FromImport m ns # rest) = (m \<in> S \<and> (asks ws m ns \<or> raises_only ws S E rest))"
| "raises_only ws S E (ImportModule m n # rest) = (m \<in> S \<and> raises_only ws S E rest)"
| "raises_only ws S E (TryImportAll m # rest) = (m \<in> S \<and> raises_only ws S E rest)"
| "raises_only ws S E (Define ns # rest) = raises_only ws S E rest"
| "raises_only ws S E (Execute outcome ns # rest) =
     ((case outcome of Inl e \<Rightarrow> e \<in> E | Inr u \<Rightarrow> True) \<and> raises_only ws S E rest)"

definition only_raise :: "program \<Rightarrow> waiting \<Rightarrow> string set \<Rightarrow> pyexc set \<Rightarrow> bool" where
  "only_raise prog ws S E \<longleftrightarrow> list_all (\<lambda>(m, body). m \<in> S \<longrightarrow> raises_only ws S E body) prog"

definition import_error :: "pyexc \<Rightarrow> bool" where
  "import_error e \<longleftrightarrow> (case e of ImportError msg \<Rightarrow> True | _ \<Rightarrow> False)"

lemma import_error_simps [simp]: "import_error (no_module m)" "import_error (cannot_import n)"
  by (simp_all add: import_error_def no_module_def cannot_import_def)

lemma load_errors:
  "load_module ext prog fuel m st = Some (Inl e, st') \<Longrightarrow> deadlock prog ws \<Longrightarrow> only_raise prog ws S E \<Longrightarrow>
   still_waiting ws st \<Longrightarrow> m \<in> S \<Longrightarrow> import_error e \<or> e \<in> E"
  "run_body ext prog fuel cur body st = Some (Inl e, st') \<Longrightarrow> deadlock prog ws \<Longrightarrow> only_raise prog ws S E \<Longrightarrow>
   still_waiting ws st \<Longrightarrow> cur \<in> dict_keys st \<Longrightarrow> waits ws cur body \<Longrightarrow> raises_only ws S E body \<Longrightarrow>
   import_error e \<or> e \<in> E"
proof (induction ext prog fuel m st and ext prog fuel cur body st
    arbitrary: e st' and e st' rule: load_module_run_body.induct)
  case (1 ext prog fuel m st)
  show ?case
  proof (cases "map_of prog m = None \<or> dict_get st m \<noteq> None")
    case True
    with "1.prems"(1) show ?thesis
      by (cases "map_of prog m") (auto simp: load_ext load_cached split: if_splits)
  next
    case False
    then obtain body where body: "map_of prog m = Some body" and new: "dict_get st m = None"
      by (cases "map_of prog m") auto
    with "1.prems" obtain n where n: "fuel = Suc n" by (cases fuel) (auto simp: load_module.simps)
    with "1.prems"(1) body new obtain st1
      where run: "run_body ext prog n m body (dict_set m [] st) = Some (Inl e, st1)"
      by (auto simp: load_new split: option.splits sum.splits)
    have waits: "waits ws m body" by (rule load_new_waits [OF "1.prems"(2) body])
    have still: "still_waiting ws (dict_set m [] st)" using "1.prems"(4) by (auto simp: still_waiting_def)
    have "raises_only ws S E body"
      using "1.prems"(3,5) map_of_SomeD [OF body] by (auto simp: only_raise_def list_all_iff)
    from "1.IH" [OF body _ n run "1.prems"(2,3) still _ waits this] new show ?thesis
      by (simp add: pyd.keys_put)
  qed
next
  case (3 ext prog fuel cur ns rest st)
  note bind = waits_bind [OF "3.prems"(4,5) waits_unbound(1) [OF "3.prems"(6)]]
  from "3.IH" [OF _ "3.prems"(2,3) no_progress_waiting [OF bind(1)] bind(2) waits_rest(1) [OF "3.prems"(6)]] "3.prems"(1,7)
  show ?case by simp
next
  case (4 ext prog fuel cur outcome ns rest st)
  note bind = waits_bind [OF "4.prems"(4,5) waits_unbound(2) [OF "4.prems"(6)]]
  from "4.IH" [OF _ _ "4.prems"(2,3) no_progress_waiting [OF bind(1)] bind(2) waits_rest(2) [OF "4.prems"(6)]] "4.prems"(1,7)
  show ?case by (cases outcome) simp_all
next
  case (5 ext prog fuel cur m n rest st)
  then obtain r1 st1 where load: "load_module ext prog fuel m st = Some (r1, st1)"
    by (auto split: option.splits)
  with deadlock_steps(1) [OF load "5.prems"(2,4)] load_keeps_loaded(1) [OF load] "5.prems"(5)
  have st1: "no_progress ws st st1" and cur: "cur \<in> dict_keys st1" by auto
  show ?case
  proof (cases r1)
    case (Inl e1)
    with "5.IH"(1) [OF _ "5.prems"(2,3,4)] "5.prems"(1,7) load show ?thesis by simp
  next
    case (Inr u)
    note bind = waits_bind [OF no_progress_waiting [OF st1] cur waits_unbound(3) [OF "5.prems"(6)]]
    from "5.IH"(2) [OF load _ Inr _ "5.prems"(2,3) no_progress_waiting [OF bind(1)] bind(2) waits_rest(3) [OF "5.prems"(6)]]
      "5.prems"(1,7) load Inr
    show ?thesis by simp
  qed
next
  case (6 ext prog fuel cur m ns rest st)
  then obtain r1 st1 where load: "load_module ext prog fuel m st = Some (r1, st1)"
    by (auto split: option.splits)
  with deadlock_steps(1) [OF load "6.prems"(2,4)] load_keeps_loaded(1) [OF load] "6.prems"(5)
  have st1: "no_progress ws st st1" and cur: "cur \<in> dict_keys st1" by auto
  show ?case
  proof (cases r1)
    case (Inl e1)
    with "6.IH"(1) [OF _ "6.prems"(2,3,4)] "6.prems"(1,7) load show ?thesis by simp
  next
    case (Inr u)
    show ?thesis
    proof (cases "missing_name (module_names ext prog st1 m) ns")
      case None
      have asks: "\<not> asks ws m ns"
        using asks_present [OF "6.prems"(2) _ no_progress_waiting [OF st1]] load Inr None by blast
      note bind = waits_bind [OF no_progress_waiting [OF st1] cur waits_unbound(5) [OF "6.prems"(6) asks]]
      from "6.IH"(2) [OF load _ Inr None _ "6.prems"(2,3) no_progress_waiting [OF bind(1)] bind(2) waits_rest(5) [OF "6.prems"(6) asks]]
        "6.prems"(1,7) load Inr None asks
      show ?thesis by simp
    qed (use "6.prems"(1) load Inr in auto)
  qed
next
  case (7 ext prog fuel cur m rest st)
  then obtain r1 st1 where load: "load_module ext prog fuel m st = Some (r1, st1)"
    by (auto split: option.splits)
  with deadlock_steps(1) [OF load "7.prems"(2,4)] load_keeps_loaded(1) [OF load] "7.prems"(5)
  have st1: "no_progress ws st st1" and cur: "cur \<in> dict_keys st1" by auto
  note rest = waits_rest(4) [OF "7.prems"(6)]
  show ?case
  proof (cases r1)
    case (Inl e1)
    from "7.IH"(1) [OF _ "7.prems"(2,3,4)] "7.prems"(7) load Inl have "import_error e1 \<or> e1 \<in> E" by simp
    with "7.IH"(2) [OF load _ Inl _ _ "7.prems"(2,3) no_progress_waiting [OF st1] cur rest] "7.prems"(1,7) load Inl
    show ?thesis by (cases e1) (simp_all add: import_error_def)
  next
    case (Inr u)
    note bind = waits_bind [OF no_progress_waiting [OF st1] cur waits_unbound(4) [OF "7.prems"(6)]]
    from "7.IH"(3) [OF load _ Inr _ "7.prems"(2,3) no_progress_waiting [OF bind(1)] bind(2) rest] "7.prems"(1,7) load Inr
    show ?thesis by simp
  qed
qed simp_all

subsection \<open>Sequences of imports\<close>

text \<open>A program that tries to import one module after the other and catches what they raise.\<close>

fun import_attempts :: "library \<Rightarrow> program \<Rightarrow> string list \<Rightarrow> sysmodules \<Rightarrow> sysmodules" where
  "import_attempts ext prog [] st = st"
| "import_attempts ext prog (m # ms) st =
     (case load_module ext prog (length prog) m st of
        None \<Rightarrow> st
      | Some (r, st') \<Rightarrow> import_attempts ext prog ms st')"

definition never_loaded :: "string list \<Rightarrow> sysmodules \<Rightarrow> bool" where
  "never_loaded ms st \<longleftrightarrow> list_all (\<lambda>m. dict_get st m = None) ms"

lemma never_loaded_present:
  "never_loaded (map fst ws) st \<longleftrightarrow> present ws st = {}"
  "never_loaded (map fst ws) st \<Longrightarrow> still_waiting ws st"
proof -
  show "never_loaded (map fst ws) st \<longleftrightarrow> present ws st = {}"
    by (auto simp: never_loaded_def present_def list_all_iff dict_get_None)
  show "still_waiting ws st" if "never_loaded (map fst ws) st"
    unfolding still_waiting_def
  proof (intro allI impI)
    fix m own
    assume "map_of ws m = Some own"
    with that have "dict_get st m = None"
      by (force simp: never_loaded_def list_all_iff dest: map_of_SomeD)
    then show "set own \<inter> set (bound_names st m) = {}" by (simp add: bound_names_def)
  qed
qed

lemma deadlock_attempts:
  assumes "deadlock prog ws" and "never_loaded (map fst ws) st"
  shows "never_loaded (map fst ws) (import_attempts ext prog ms st)"
  using assms(2)
proof (induction ms arbitrary: st)
  case (Cons m ms)
  obtain r st' where load: "load_module ext prog (length prog) m st = Some (r, st')"
    using load_module_ends by blast
  with deadlock_steps(1) [OF load assms(1)] Cons.prems have "never_loaded (map fst ws) st'"
    by (simp add: never_loaded_present no_progress_def)
  from Cons.IH [OF this] load show ?case by simp
qed simp

lemma deadlock_import:
  assumes "deadlock prog ws" and "never_loaded (map fst ws) st" and "m \<in> fst ` set ws"
    and "only_raise prog ws S E" and "m \<in> S"
  shows "\<exists>e st'. load_module ext prog (length prog) m st = Some (Inl e, st') \<and> (import_error e \<or> e \<in> E)"
proof -
  obtain r st' where load: "load_module ext prog (length prog) m st = Some (r, st')"
    using load_module_ends by blast
  have still: "still_waiting ws st" by (rule never_loaded_present(2) [OF assms(2)])
  have "m \<notin> dict_keys st"
    using assms(2,3) by (force simp: never_loaded_def list_all_iff dict_get_None)
  with deadlock_steps(1) [OF load assms(1) still] assms(3) obtain e where "r = Inl e" by blast
  with load load_errors(1) [OF _ assms(1,4) still assms(5)] show ?thesis by blast
qed

subsection \<open>The mock device\<close>

definition device_waiting :: waiting where
  "device_waiting =
     [(''dataModels'', [''update_datastore'', ''data_models'', ''register_data_models'']),
      (''yangModel'', [''YangModel'']), (''yinFile'', [''YINFile'']),
      (''restconfConfigHelper'', [''RestconfConfigHelper'']),
      (''yangLibrary'', [''yang_library'']), (''apiResource'', [''register_top_level_resource''])]"

lemmas device_bodies =
  mock_device_program_def main_program_def dataModels_body_def yangModel_body_def yinFile_body_def
  restconfConfigHelper_body_def restconfStatusHelper_body_def restconfDataHelper_body_def
  apiResource_body_def yangLibrary_body_def globals_body_def datastore_body_def mockDevice_body_def
  ietf_yang_library_body_def main_block_def

lemmas deadlock_simps = deadlock_def device_waiting_def asks_def

lemma device_deadlock: "deadlock (mock_device_program parsed register) device_waiting"
  by (simp add: device_bodies deadlock_simps)

lemma main_deadlock: "deadlock (main_program parsed register) ((''__main__'', []) # device_waiting)"
  by (simp add: device_bodies deadlock_simps)

text \<open>The exceptions with which \<open>mockDevice.py\<close> refuses a command line or a root resource.\<close>

fun start_errors :: "settings res \<Rightarrow> (string \<Rightarrow> unit res) \<Rightarrow> pyexc set" where
  "start_errors (Inl e) register = {e}"
| "start_errors (Inr args) register = (case register (data_prefix args) of Inl e \<Rightarrow> {e} | Inr u \<Rightarrow> {})"

lemma start_outcomes:
  "(case ended parsed of Inl e \<Rightarrow> e \<in> start_errors parsed register | Inr u \<Rightarrow> True)"
  "(case rbind parsed (\<lambda>args. register (data_prefix args)) of Inl e \<Rightarrow> e \<in> start_errors parsed register | Inr u \<Rightarrow> True)"
  by (cases parsed; auto simp: ended_def split: sum.splits)+

lemma device_errors:
  "only_raise (mock_device_program parsed register) device_waiting UNIV (start_errors parsed register)"
  "only_raise (main_program parsed register) ((''__main__'', []) # device_waiting) UNIV (start_errors parsed register)"
  by (simp_all add: only_raise_def device_bodies start_outcomes)

definition circle_imports :: "string set" where
  "circle_imports =
     {''flask'', ''yangModel'', ''yinFile'', ''xml.etree.ElementTree'', ''datetime'', ''restconfConfigHelper'', ''uuid'',
      ''restconfDataHelper'', ''dataModels''}"

lemma circle_errors:
  "only_raise (mock_device_program parsed register) device_waiting circle_imports {}"
  by (simp add: only_raise_def device_bodies circle_imports_def asks_def device_waiting_def)

definition device_modules :: "string list" where
  "device_modules = [''dataModels'', ''yangModel'', ''yinFile'', ''restconfConfigHelper'', ''yangLibrary'', ''apiResource'']"

lemma device_modules: "map fst device_waiting = device_modules" "fst ` set device_waiting = set device_modules"
  by (simp_all add: device_waiting_def device_modules_def)

definition import_fails :: "(pyexc \<Rightarrow> bool) \<Rightarrow> (unit res \<times> sysmodules) option \<Rightarrow> bool" where
  "import_fails P r = (case r of Some (Inl e, st) \<Rightarrow> P e | _ \<Rightarrow> False)"

lemma import_fails_iff: "import_fails P r \<longleftrightarrow> (\<exists>e st. r = Some (Inl e, st) \<and> P e)"
  by (auto simp: import_fails_def split: option.splits sum.splits)

text \<open>
  C6: six modules of the mock device cannot be imported by a test or another program, since they
  are on the circle of imports or import from it: from any state of \<open>sys.modules\<close> without them and after any sequence of imports, with
  the errors caught, none of them is in \<open>sys.modules\<close>, and the next import of it raises again. It is an
  \<open>ImportError\<close>; for \<open>yangLibrary\<close> and \<open>apiResource\<close>, which import \<open>mockDevice\<close> first, it may also be
  the exception with which \<open>mockDevice.py\<close> refuses the command line of the importing process, or
  with which Flask refuses its root resource.
\<close>

theorem device_modules_never_import:
  assumes "never_loaded device_modules st"
  shows "let prog = mock_device_program (parse_args argv) register; st' = import_attempts ext prog ms st
    in never_loaded device_modules st' \<and>
       list_all (\<lambda>m. import_fails import_error (load_module ext prog (length prog) m st'))
         [''dataModels'', ''yangModel'', ''yinFile'', ''restconfConfigHelper''] \<and>
       list_all (\<lambda>m. import_fails (\<lambda>e. import_error e \<or> e \<in> start_errors (parse_args argv) register)
           (load_module ext prog (length prog) m st'))
         [''yangLibrary'', ''apiResource'']"
proof -
  let ?prog = "mock_device_program (parse_args argv) register"
  have after: "never_loaded (map fst device_waiting) (import_attempts ext ?prog ms st)"
    by (rule deadlock_attempts [OF device_deadlock]) (simp add: assms device_modules)
  note fails = deadlock_import [OF device_deadlock after]
  have "list_all (\<lambda>m. import_fails import_error (load_module ext ?prog (length ?prog) m (import_attempts ext ?prog ms st)))
      [''dataModels'', ''yangModel'', ''yinFile'', ''restconfConfigHelper'']"
    using fails [OF _ circle_errors] by (simp add: import_fails_iff device_modules device_modules_def circle_imports_def)
  moreover have "list_all (\<lambda>m. import_fails (\<lambda>e. import_error e \<or> e \<in> start_errors (parse_args argv) register)
      (load_module ext ?prog (length ?prog) m (import_attempts ext ?prog ms st))) [''yangLibrary'', ''apiResource'']"
    using fails [OF _ device_errors(1)] by (simp add: import_fails_iff device_modules device_modules_def)
  ultimately show ?thesis using after by (simp add: Let_def device_modules)
qed

lemma never_loaded_Nil [simp]: "never_loaded ms []"
  by (simp add: never_loaded_def dict_get_def list_all_iff)

text \<open>
  A test runner started with \<open>-v\<close>, all libraries installed, that imports \<open>mockDevice\<close> and then tries the rest.
\<close>

theorem device_modules_never_import_witness:
  "let prog = mock_device_program (parse_args [''-v'']) (\<lambda>prefix. Inr ());
       ext = (\<lambda>m. Some [''Flask'', ''Response'', ''request'', ''BaseConverter'', ''Element'', ''XRD'', ''Link'', ''Blueprint'',
         ''abort'', ''url_for'', ''TemplateNotFound'', ''datetime'', ''uuid4'', ''QName'']);
       st' = import_attempts ext prog [''mockDevice'', ''dataModels'', ''yangLibrary''] []
   in never_loaded device_modules st' \<and>
      list_all (\<lambda>m. import_fails import_error (load_module ext prog (length prog) m st'))
        [''dataModels'', ''yangModel'', ''yinFile'', ''restconfConfigHelper'']"
  using device_modules_never_import [OF never_loaded_Nil] unfolding Let_def by blast

subsection \<open>The message library\<close>

definition message_waiting :: waiting where
  "message_waiting =
     [(''restconfDataResource'', [''RestconfDataResource'']), (''restconfListInstance'', [''RestconfListInstance''])]"

lemmas message_bodies =
  message_program_def restconfDataResource_body_def restconfListInstance_body_def restconfUrl_body_def sub_url_body_def

lemma message_deadlock: "deadlock message_program message_waiting"
  by (simp add: deadlock_def message_waiting_def message_bodies asks_def)

lemma message_errors: "only_raise message_program message_waiting UNIV {}"
  by (simp add: only_raise_def message_bodies)

text \<open>
  C33: the modules of data resources and of list instances cannot be imported, in any sequence of
  imports: each needs a name of the other one first.
\<close>

theorem message_modules_never_import:
  assumes "never_loaded [''restconfDataResource'', ''restconfListInstance''] st"
  shows "let st' = import_attempts ext message_program ms st
    in list_all (\<lambda>m. dict_get st' m = None \<and>
         import_fails import_error (load_module ext message_program (length message_program) m st'))
       [''restconfDataResource'', ''restconfListInstance'']"
proof -
  have after: "never_loaded (map fst message_waiting) (import_attempts ext message_program ms st)"
    by (rule deadlock_attempts [OF message_deadlock]) (use assms in \<open>simp add: message_waiting_def\<close>)
  from deadlock_import [OF message_deadlock after _ message_errors] after show ?thesis
    by (simp add: import_fails_iff message_waiting_def never_loaded_def Let_def)
qed

text \<open>After the modules of the URLs, which can be imported.\<close>

theorem message_modules_never_import_witness:
  "list_all (\<lambda>m. dict_get (import_attempts (\<lambda>m. Some [''urlparse'']) message_program [''restconfDataUrl'', ''restconfListInstance''] []) m = None)
     [''restconfDataResource'', ''restconfListInstance'']"
  using message_modules_never_import [OF never_loaded_Nil, of "\<lambda>m. Some [''urlparse'']" "[''restconfDataUrl'', ''restconfListInstance'']"]
  by (simp add: Let_def)

text \<open>
  The modules of the RESTCONF URLs can be imported, where the standard library has
  \<open>urlparse\<close>; so the imports that \<open>create\<close> makes when it is called succeed.
\<close>

lemma url_modules_import:
  assumes "ext ''urlparse'' = Some ns" and "''urlparse'' \<in> set ns"
  shows "list_all (\<lambda>m. \<exists>st. load_module ext message_program (length message_program) m [] = Some (Inr (), st))
    [''restconfUrl'', ''restconfDataUrl'', ''restconfOperationUrl'', ''restconfLibraryUrl'']"
  using assms by (simp add: message_bodies run_simps eval_nat_numeral)

end
