(* ===== verification/CommandGrammar.thy ===== *)
theory CommandGrammar
  imports CommandLine
begin

section \<open>Which command lines the mock device accepts\<close>

text \<open>
  The grammar of command lines (\<open>command_line\<close>) and the proof that \<open>parse_args\<close> accepts just
  these, with the settings one expects (\<open>parse_args_grammar\<close>); then what follows for
  settings that are written out as a command line.
\<close>

subsection \<open>The grammar of command lines\<close>





definition letters :: "string \<Rightarrow> action list \<Rightarrow> bool" where
  "letters cs as \<longleftrightarrow> list_all2 (\<lambda>c a. map_of option_string_actions [CHR ''-'', c] = Some a \<and> \<not> takes_value a) cs as"





subsection \<open>How one argument is read\<close>

definition other_kind :: "string \<Rightarrow> kind" where
  "other_kind s = (if negative_number s \<or> CHR '' '' \<in> set s then Argument else UnknownOption)"











lemma dash_no_name [simp]: "map_of option_string_actions ''-'' = None"
  by (simp add: option_string_actions_def)







subsection \<open>How the options are taken\<close>







lemma letters_Nil [simp]: "letters [] as \<longleftrightarrow> as = []"
  by (simp add: letters_def)

lemma is_short_name [simp]: "is_short [CHR ''-'', c] \<longleftrightarrow> c \<noteq> CHR ''-''"
  by (simp add: is_short_def)


























lemma other_kind_no_option [simp]: "other_kind s \<noteq> Option a n e"
  by (simp add: other_kind_def)








subsection \<open>Settings as command lines\<close>








end
