(* ===== verification/MainScript.thy ===== *)
theory MainScript
  imports ImportCycles CommandGrammar
begin

section \<open>Running the script\<close>

text \<open>
  \<open>mockDevice.py\<close> as the main script with the arguments \<open>argv\<close>: its body and the main block run as the module
  \<open>__main__\<close>. The modules that the main block imports run the body again as the module \<open>mockDevice\<close>,
  with the same arguments. \<open>register\<close> is what comes of
  \<open>app.register_blueprint(dataStore, url_prefix=__prefix)\<close>, by the prefix.
\<close>

definition run_script :: "library \<Rightarrow> (string \<Rightarrow> unit res) \<Rightarrow> string list \<Rightarrow> unit res option" where
  "run_script ext register argv =
     (let prog = main_program (parse_args argv) register
      in map_option fst (load_module ext prog (length prog) ''__main__'' []))"

text \<open>
  C5: the script never gets to serve requests: whichever libraries are installed and whatever the
  command line is, it ends in an \<open>ImportError\<close>, in the exception with which the command line is refused,
  or in the one with which Flask refuses to register the blueprint under the root resource.
\<close>

theorem script_never_serves:
  "\<exists>e. run_script ext register argv = Some (Inl e) \<and>
     (import_error e \<or> parse_args argv = Inl e \<or>
      (\<exists>args. parse_args argv = Inr args \<and> register (data_prefix args) = Inl e))"
proof -
  let ?prog = "main_program (parse_args argv) register"
  have "\<exists>e st. load_module ext ?prog (length ?prog) ''__main__'' [] = Some (Inl e, st) \<and>
      (import_error e \<or> e \<in> start_errors (parse_args argv) register)"
    by (rule deadlock_import [OF main_deadlock never_loaded_Nil _ device_errors(2)]) simp_all
  then show ?thesis
    by (cases "parse_args argv") (auto simp: run_script_def Let_def split: sum.splits)
qed

end
