(* ===== verification/Documents.thy ===== *)
theory Documents
  imports YinPaths
begin

section \<open>The YIN documents of the repository\<close>

text \<open>
  The documents \<open>toaster.xml\<close>, \<open>example_jukebox.xml\<close> and \<open>ietf_interfaces.xml\<close> of
  \<open>modules/generated-code\<close>, as the XML parser gives them: every element with its tag, its attributes and
  its children, without text. The namespace, which the files declare for all elements, is put before the tags
  by \<open>in_namespace\<close>; the walk gives the same helpers with and without it (\<open>path_flags_namespace\<close>).
\<close>

definition yin_ns :: string where
  "yin_ns = ''urn:ietf:params:xml:ns:yang:yin:1''"

fun in_namespace :: "string \<Rightarrow> element \<Rightarrow> element" where
  "in_namespace ns (Element t attributes kids) = Element (qname ns t) attributes (map (in_namespace ns) kids)"

definition toaster_document :: element where
  "toaster_document =
    Element ''module'' [(''name'', ''toaster'')]
     [Element ''namespace'' [(''uri'', ''http://netconfcentral.org/ns/toaster'')] [],
      Element ''prefix'' [(''value'', ''toast'')] [],
      Element ''organization'' []
       [Element ''text'' [] []],
      Element ''contact'' []
       [Element ''text'' [] []],
      Element ''description'' []
       [Element ''text'' [] []],
      Element ''revision'' [(''date'', ''2009-11-20'')]
       [Element ''description'' []
         [Element ''text'' [] []]],
      Element ''identity'' [(''name'', ''toast-type'')]
       [Element ''description'' []
         [Element ''text'' [] []]],
      Element ''identity'' [(''name'', ''white-bread'')]
       [Element ''description'' []
         [Element ''text'' [] []],
        Element ''base'' [(''name'', ''toast:toast-type'')] []],
      Element ''identity'' [(''name'', ''wheat-bread'')]
       [Element ''description'' []
         [Element ''text'' [] []],
        Element ''base'' [(''name'', ''toast-type'')] []],
      Element ''identity'' [(''name'', ''wonder-bread'')]
       [Element ''description'' []
         [Element ''text'' [] []],
        Element ''base'' [(''name'', ''toast-type'')] []],
      Element ''identity'' [(''name'', ''frozen-waffle'')]
       [Element ''description'' []
         [Element ''text'' [] []],
        Element ''base'' [(''name'', ''toast-type'')] []],
      Element ''identity'' [(''name'', ''frozen-bagel'')]
       [Element ''description'' []
         [Element ''text'' [] []],
        Element ''base'' [(''name'', ''toast-type'')] []],
      Element ''identity'' [(''name'', ''hash-brown'')]
       [Element ''description'' []
         [Element ''text'' [] []],
        Element ''base'' [(''name'', ''toast-type'')] []],
      Element ''typedef'' [(''name'', ''DisplayString'')]
       [Element ''description'' []
         [Element ''text'' [] []],
        Element ''reference'' []
         [Element ''text'' [] []],
        Element ''type'' [(''name'', ''string'')]
         [Element ''length'' [(''value'', ''0 .. 255'')] []]],
      Element ''rpc'' [(''name'', ''make-toast'')]
       [Element ''description'' []
         [Element ''text'' [] []],
        Element ''input'' []
         [Element ''leaf'' [(''name'', ''toasterDoneness'')]
           [Element ''type'' [(''name'', ''uint32'')]
             [Element ''range'' [(''value'', ''1 .. 10'')] []],
            Element ''default'' [(''value'', ''5'')] [],
            Element ''description'' []
             [Element ''text'' [] []]],
          Element ''leaf'' [(''name'', ''toasterToastType'')]
           [Element ''type'' [(''name'', ''identityref'')]
             [Element ''base'' [(''name'', ''toast:toast-type'')] []],
            Element ''default'' [(''value'', ''toast:wheat-bread'')] [],
            Element ''description'' []
             [Element ''text'' [] []]]]],
      Element ''rpc'' [(''name'', ''cancel-toast'')]
       [Element ''description'' []
         [Element ''text'' [] []]],
      Element ''notification'' [(''name'', ''toastDone'')]
       [Element ''description'' []
         [Element ''text'' [] []],
        Element ''leaf'' [(''name'', ''toastStatus'')]
         [Element ''description'' []
           [Element ''text'' [] []],
          Element ''type'' [(''name'', ''enumeration'')]
           [Element ''enum'' [(''name'', ''done'')]
             [Element ''description'' []
               [Element ''text'' [] []]],
            Element ''enum'' [(''name'', ''cancelled'')]
             [Element ''description'' []
               [Element ''text'' [] []]],
            Element ''enum'' [(''name'', ''error'')]
             [Element ''description'' []
               [Element ''text'' [] []]]]]],
      Element ''container'' [(''name'', ''toaster'')]
       [Element ''presence'' [(''value'', ''Indicates the toaster service is available'')] [],
        Element ''description'' []
         [Element ''text'' [] []],
        Element ''leaf'' [(''name'', ''toasterManufacturer'')]
         [Element ''type'' [(''name'', ''DisplayString'')] [],
          Element ''config'' [(''value'', ''false'')] [],
          Element ''mandatory'' [(''value'', ''true'')] [],
          Element ''description'' []
           [Element ''text'' [] []]],
        Element ''leaf'' [(''name'', ''toasterModelNumber'')]
         [Element ''type'' [(''name'', ''DisplayString'')] [],
          Element ''config'' [(''value'', ''false'')] [],
          Element ''mandatory'' [(''value'', ''true'')] [],
          Element ''description'' []
           [Element ''text'' [] []]],
        Element ''leaf'' [(''name'', ''toasterStatus'')]
         [Element ''type'' [(''name'', ''enumeration'')]
           [Element ''enum'' [(''name'', ''up'')]
             [Element ''value'' [(''value'', ''1'')] [],
              Element ''description'' []
               [Element ''text'' [] []]],
            Element ''enum'' [(''name'', ''down'')]
             [Element ''value'' [(''value'', ''2'')] [],
              Element ''description'' []
               [Element ''text'' [] []]]],
          Element ''config'' [(''value'', ''false'')] [],
          Element ''mandatory'' [(''value'', ''true'')] [],
          Element ''description'' []
           [Element ''text'' [] []]]]]"

definition example_jukebox_document :: element where
  "example_jukebox_document =
    Element ''module'' [(''name'', ''example-jukebox'')]
     [Element ''namespace'' [(''uri'', ''http://example.com/ns/example-jukebox'')] [],
      Element ''prefix'' [(''value'', ''jbox'')] [],
      Element ''organization'' []
       [Element ''text'' [] []],
      Element ''contact'' []
       [Element ''text'' [] []],
      Element ''description'' []
       [Element ''text'' [] []],
      Element ''revision'' [(''date'', ''2015-04-04'')]
       [Element ''description'' []
         [Element ''text'' [] []],
        Element ''reference'' []
         [Element ''text'' [] []]],
      Element ''identity'' [(''name'', ''genre'')]
       [Element ''description'' []
         [Element ''text'' [] []]],
      Element ''identity'' [(''name'', ''alternative'')]
       [Element ''base'' [(''name'', ''genre'')] [],
        Element ''description'' []
         [Element ''text'' [] []]],
      Element ''identity'' [(''name'', ''blues'')]
       [Element ''base'' [(''name'', ''genre'')] [],
        Element ''description'' []
         [Element ''text'' [] []]],
      Element ''identity'' [(''name'', ''country'')]
       [Element ''base'' [(''name'', ''genre'')] [],
        Element ''description'' []
         [Element ''text'' [] []]],
      Element ''identity'' [(''name'', ''jazz'')]
       [Element ''base'' [(''name'', ''genre'')] [],
        Element ''description'' []
         [Element ''text'' [] []]],
      Element ''identity'' [(''name'', ''pop'')]
       [Element ''base'' [(''name'', ''genre'')] [],
        Element ''description'' []
         [Element ''text'' [] []]],
      Element ''identity'' [(''name'', ''rock'')]
       [Element ''base'' [(''name'', ''genre'')] [],
        Element ''description'' []
         [Element ''text'' [] []]],
      Element ''rpc'' [(''name'', ''play'')]
       [Element ''description'' []
         [Element ''text'' [] []],
        Element ''input'' []
         [Element ''leaf'' [(''name'', ''playlist'')]
           [Element ''type'' [(''name'', ''string'')] [],
            Element ''mandatory'' [(''value'', ''true'')] [],
            Element ''description'' []
             [Element ''text'' [] []]],
          Element ''leaf'' [(''name'', ''song-number'')]
           [Element ''type'' [(''name'', ''uint32'')] [],
            Element ''mandatory'' [(''value'', ''true'')] [],
            Element ''description'' []
             [Element ''text'' [] []]]]],
      Element ''container'' [(''name'', ''jukebox'')]
       [Element ''presence'' [(''value'', (''An empty container indicates that the jukebox'' @ [CHR 0x0A] @ ''service is available''))] [],
        Element ''description'' []
         [Element ''text'' [] []],
        Element ''container'' [(''name'', ''library'')]
         [Element ''description'' []
           [Element ''text'' [] []],
          Element ''list'' [(''name'', ''artist'')]
           [Element ''key'' [(''value'', ''name'')] [],
            Element ''description'' []
             [Element ''text'' [] []],
            Element ''leaf'' [(''name'', ''name'')]
             [Element ''type'' [(''name'', ''string'')]
               [Element ''length'' [(''value'', ''1 .. max'')] []],
              Element ''description'' []
               [Element ''text'' [] []]],
            Element ''list'' [(''name'', ''album'')]
             [Element ''key'' [(''value'', ''name'')] [],
              Element ''description'' []
               [Element ''text'' [] []],
              Element ''leaf'' [(''name'', ''name'')]
               [Element ''type'' [(''name'', ''string'')]
                 [Element ''length'' [(''value'', ''1 .. max'')] []],
                Element ''description'' []
                 [Element ''text'' [] []]],
              Element ''leaf'' [(''name'', ''genre'')]
               [Element ''type'' [(''name'', ''identityref'')]
                 [Element ''base'' [(''name'', ''genre'')] []],
                Element ''description'' []
                 [Element ''text'' [] []]],
              Element ''leaf'' [(''name'', ''year'')]
               [Element ''type'' [(''name'', ''uint16'')]
                 [Element ''range'' [(''value'', ''1900 .. max'')] []],
                Element ''description'' []
                 [Element ''text'' [] []]],
              Element ''container'' [(''name'', ''admin'')]
               [Element ''description'' []
                 [Element ''text'' [] []],
                Element ''leaf'' [(''name'', ''label'')]
                 [Element ''type'' [(''name'', ''string'')] [],
                  Element ''description'' []
                   [Element ''text'' [] []]],
                Element ''leaf'' [(''name'', ''catalogue-number'')]
                 [Element ''type'' [(''name'', ''string'')] [],
                  Element ''description'' []
                   [Element ''text'' [] []]]],
              Element ''list'' [(''name'', ''song'')]
               [Element ''key'' [(''value'', ''name'')] [],
                Element ''description'' []
                 [Element ''text'' [] []],
                Element ''leaf'' [(''name'', ''name'')]
                 [Element ''type'' [(''name'', ''string'')]
                   [Element ''length'' [(''value'', ''1 .. max'')] []],
                  Element ''description'' []
                   [Element ''text'' [] []]],
                Element ''leaf'' [(''name'', ''location'')]
                 [Element ''type'' [(''name'', ''string'')] [],
                  Element ''mandatory'' [(''value'', ''true'')] [],
                  Element ''description'' []
                   [Element ''text'' [] []]],
                Element ''leaf'' [(''name'', ''format'')]
                 [Element ''type'' [(''name'', ''string'')] [],
                  Element ''description'' []
                   [Element ''text'' [] []]],
                Element ''leaf'' [(''name'', ''length'')]
                 [Element ''type'' [(''name'', ''uint32'')] [],
                  Element ''units'' [(''name'', ''seconds'')] [],
                  Element ''description'' []
                   [Element ''text'' [] []]]]]],
          Element ''leaf'' [(''name'', ''artist-count'')]
           [Element ''type'' [(''name'', ''uint32'')] [],
            Element ''units'' [(''name'', ''songs'')] [],
            Element ''config'' [(''value'', ''false'')] [],
            Element ''description'' []
             [Element ''text'' [] []]],
          Element ''leaf'' [(''name'', ''album-count'')]
           [Element ''type'' [(''name'', ''uint32'')] [],
            Element ''units'' [(''name'', ''albums'')] [],
            Element ''config'' [(''value'', ''false'')] [],
            Element ''description'' []
             [Element ''text'' [] []]],
          Element ''leaf'' [(''name'', ''song-count'')]
           [Element ''type'' [(''name'', ''uint32'')] [],
            Element ''units'' [(''name'', ''songs'')] [],
            Element ''config'' [(''value'', ''false'')] [],
            Element ''description'' []
             [Element ''text'' [] []]]],
        Element ''list'' [(''name'', ''playlist'')]
         [Element ''key'' [(''value'', ''name'')] [],
          Element ''description'' []
           [Element ''text'' [] []],
          Element ''leaf'' [(''name'', ''name'')]
           [Element ''type'' [(''name'', ''string'')] [],
            Element ''description'' []
             [Element ''text'' [] []]],
          Element ''leaf'' [(''name'', ''description'')]
           [Element ''type'' [(''name'', ''string'')] [],
            Element ''description'' []
             [Element ''text'' [] []]],
          Element ''list'' [(''name'', ''song'')]
           [Element ''key'' [(''value'', ''index'')] [],
            Element ''ordered-by'' [(''value'', ''user'')] [],
            Element ''description'' []
             [Element ''text'' [] []],
            Element ''leaf'' [(''name'', ''index'')]
             [Element ''type'' [(''name'', ''uint32'')] [],
              Element ''description'' []
               [Element ''text'' [] []]],
            Element ''leaf'' [(''name'', ''id'')]
             [Element ''type'' [(''name'', ''leafref'')]
               [Element ''path'' [(''value'', ''/jbox:jukebox/jbox:library/jbox:artist/jbox:album/jbox:song/jbox:name'')] []],
              Element ''mandatory'' [(''value'', ''true'')] [],
              Element ''description'' []
               [Element ''text'' [] []]]]],
        Element ''container'' [(''name'', ''player'')]
         [Element ''description'' []
           [Element ''text'' [] []],
          Element ''leaf'' [(''name'', ''gap'')]
           [Element ''type'' [(''name'', ''decimal64'')]
             [Element ''fraction-digits'' [(''value'', ''1'')] [],
              Element ''range'' [(''value'', ''0.0 .. 2.0'')] []],
            Element ''units'' [(''name'', ''tenths of seconds'')] [],
            Element ''description'' []
             [Element ''text'' [] []]]]]]"

definition ietf_interfaces_document :: element where
  "ietf_interfaces_document =
    Element ''module'' [(''name'', ''ietf-interfaces'')]
     [Element ''yang-version'' [(''value'', ''1'')] [],
      Element ''namespace'' [(''uri'', ''urn:ietf:params:xml:ns:yang:ietf-interfaces'')] [],
      Element ''prefix'' [(''value'', ''if'')] [],
      Element ''import'' [(''module'', ''ietf-yang-types'')]
       [Element ''prefix'' [(''value'', ''yang'')] []],
      Element ''organization'' []
       [Element ''text'' [] []],
      Element ''contact'' []
       [Element ''text'' [] []],
      Element ''description'' []
       [Element ''text'' [] []],
      Element ''revision'' [(''date'', ''2014-05-08'')]
       [Element ''description'' []
         [Element ''text'' [] []],
        Element ''reference'' []
         [Element ''text'' [] []]],
      Element ''feature'' [(''name'', ''arbitrary-names'')]
       [Element ''description'' []
         [Element ''text'' [] []]],
      Element ''feature'' [(''name'', ''pre-provisioning'')]
       [Element ''description'' []
         [Element ''text'' [] []]],
      Element ''feature'' [(''name'', ''if-mib'')]
       [Element ''description'' []
         [Element ''text'' [] []],
        Element ''reference'' []
         [Element ''text'' [] []]],
      Element ''identity'' [(''name'', ''interface-type'')]
       [Element ''description'' []
         [Element ''text'' [] []]],
      Element ''typedef'' [(''name'', ''interface-ref'')]
       [Element ''type'' [(''name'', ''leafref'')]
         [Element ''path'' [(''value'', ''/if:interfaces/if:interface/if:name'')] []],
        Element ''description'' []
         [Element ''text'' [] []]],
      Element ''typedef'' [(''name'', ''interface-state-ref'')]
       [Element ''type'' [(''name'', ''leafref'')]
         [Element ''path'' [(''value'', ''/if:interfaces-state/if:interface/if:name'')] []],
        Element ''description'' []
         [Element ''text'' [] []]],
      Element ''container'' [(''name'', ''interfaces'')]
       [Element ''description'' []
         [Element ''text'' [] []],
        Element ''list'' [(''name'', ''interface'')]
         [Element ''key'' [(''value'', ''name'')] [],
          Element ''description'' []
           [Element ''text'' [] []],
          Element ''leaf'' [(''name'', ''name'')]
           [Element ''type'' [(''name'', ''string'')] [],
            Element ''description'' []
             [Element ''text'' [] []]],
          Element ''leaf'' [(''name'', ''description'')]
           [Element ''type'' [(''name'', ''string'')] [],
            Element ''description'' []
             [Element ''text'' [] []],
            Element ''reference'' []
             [Element ''text'' [] []]],
          Element ''leaf'' [(''name'', ''type'')]
           [Element ''type'' [(''name'', ''identityref'')]
             [Element ''base'' [(''name'', ''interface-type'')] []],
            Element ''mandatory'' [(''value'', ''true'')] [],
            Element ''description'' []
             [Element ''text'' [] []],
            Element ''reference'' []
             [Element ''text'' [] []]],
          Element ''leaf'' [(''name'', ''enabled'')]
           [Element ''type'' [(''name'', ''boolean'')] [],
            Element ''default'' [(''value'', ''true'')] [],
            Element ''description'' []
             [Element ''text'' [] []],
            Element ''reference'' []
             [Element ''text'' [] []]],
          Element ''leaf'' [(''name'', ''link-up-down-trap-enable'')]
           [Element ''if-feature'' [(''name'', ''if-mib'')] [],
            Element ''type'' [(''name'', ''enumeration'')]
             [Element ''enum'' [(''name'', ''enabled'')]
               [Element ''value'' [(''value'', ''1'')] []],
              Element ''enum'' [(''name'', ''disabled'')]
               [Element ''value'' [(''value'', ''2'')] []]],
            Element ''description'' []
             [Element ''text'' [] []],
            Element ''reference'' []
             [Element ''text'' [] []]]]],
      Element ''container'' [(''name'', ''interfaces-state'')]
       [Element ''config'' [(''value'', ''false'')] [],
        Element ''description'' []
         [Element ''text'' [] []],
        Element ''list'' [(''name'', ''interface'')]
         [Element ''key'' [(''value'', ''name'')] [],
          Element ''description'' []
           [Element ''text'' [] []],
          Element ''leaf'' [(''name'', ''name'')]
           [Element ''type'' [(''name'', ''string'')] [],
            Element ''description'' []
             [Element ''text'' [] []],
            Element ''reference'' []
             [Element ''text'' [] []]],
          Element ''leaf'' [(''name'', ''type'')]
           [Element ''type'' [(''name'', ''identityref'')]
             [Element ''base'' [(''name'', ''interface-type'')] []],
            Element ''mandatory'' [(''value'', ''true'')] [],
            Element ''description'' []
             [Element ''text'' [] []],
            Element ''reference'' []
             [Element ''text'' [] []]],
          Element ''leaf'' [(''name'', ''admin-status'')]
           [Element ''if-feature'' [(''name'', ''if-mib'')] [],
            Element ''type'' [(''name'', ''enumeration'')]
             [Element ''enum'' [(''name'', ''up'')]
               [Element ''value'' [(''value'', ''1'')] [],
                Element ''description'' []
                 [Element ''text'' [] []]],
              Element ''enum'' [(''name'', ''down'')]
               [Element ''value'' [(''value'', ''2'')] [],
                Element ''description'' []
                 [Element ''text'' [] []]],
              Element ''enum'' [(''name'', ''testing'')]
               [Element ''value'' [(''value'', ''3'')] [],
                Element ''description'' []
                 [Element ''text'' [] []]]],
            Element ''mandatory'' [(''value'', ''true'')] [],
            Element ''description'' []
             [Element ''text'' [] []],
            Element ''reference'' []
             [Element ''text'' [] []]],
          Element ''leaf'' [(''name'', ''oper-status'')]
           [Element ''type'' [(''name'', ''enumeration'')]
             [Element ''enum'' [(''name'', ''up'')]
               [Element ''value'' [(''value'', ''1'')] [],
                Element ''description'' []
                 [Element ''text'' [] []]],
              Element ''enum'' [(''name'', ''down'')]
               [Element ''value'' [(''value'', ''2'')] [],
                Element ''description'' []
                 [Element ''text'' [] []]],
              Element ''enum'' [(''name'', ''testing'')]
               [Element ''value'' [(''value'', ''3'')] [],
                Element ''description'' []
                 [Element ''text'' [] []]],
              Element ''enum'' [(''name'', ''unknown'')]
               [Element ''value'' [(''value'', ''4'')] [],
                Element ''description'' []
                 [Element ''text'' [] []]],
              Element ''enum'' [(''name'', ''dormant'')]
               [Element ''value'' [(''value'', ''5'')] [],
                Element ''description'' []
                 [Element ''text'' [] []]],
              Element ''enum'' [(''name'', ''not-present'')]
               [Element ''value'' [(''value'', ''6'')] [],
                Element ''description'' []
                 [Element ''text'' [] []]],
              Element ''enum'' [(''name'', ''lower-layer-down'')]
               [Element ''value'' [(''value'', ''7'')] [],
                Element ''description'' []
                 [Element ''text'' [] []]]],
            Element ''mandatory'' [(''value'', ''true'')] [],
            Element ''description'' []
             [Element ''text'' [] []],
            Element ''reference'' []
             [Element ''text'' [] []]],
          Element ''leaf'' [(''name'', ''last-change'')]
           [Element ''type'' [(''name'', ''yang:date-and-time'')] [],
            Element ''description'' []
             [Element ''text'' [] []],
            Element ''reference'' []
             [Element ''text'' [] []]],
          Element ''leaf'' [(''name'', ''if-index'')]
           [Element ''if-feature'' [(''name'', ''if-mib'')] [],
            Element ''type'' [(''name'', ''int32'')]
             [Element ''range'' [(''value'', ''1..2147483647'')] []],
            Element ''mandatory'' [(''value'', ''true'')] [],
            Element ''description'' []
             [Element ''text'' [] []],
            Element ''reference'' []
             [Element ''text'' [] []]],
          Element ''leaf'' [(''name'', ''phys-address'')]
           [Element ''type'' [(''name'', ''yang:phys-address'')] [],
            Element ''description'' []
             [Element ''text'' [] []],
            Element ''reference'' []
             [Element ''text'' [] []]],
          Element ''leaf-list'' [(''name'', ''higher-layer-if'')]
           [Element ''type'' [(''name'', ''interface-state-ref'')] [],
            Element ''description'' []
             [Element ''text'' [] []],
            Element ''reference'' []
             [Element ''text'' [] []]],
          Element ''leaf-list'' [(''name'', ''lower-layer-if'')]
           [Element ''type'' [(''name'', ''interface-state-ref'')] [],
            Element ''description'' []
             [Element ''text'' [] []],
            Element ''reference'' []
             [Element ''text'' [] []]],
          Element ''leaf'' [(''name'', ''speed'')]
           [Element ''type'' [(''name'', ''yang:gauge64'')] [],
            Element ''units'' [(''name'', ''bits/second'')] [],
            Element ''description'' []
             [Element ''text'' [] []],
            Element ''reference'' []
             [Element ''text'' [] []]],
          Element ''container'' [(''name'', ''statistics'')]
           [Element ''description'' []
             [Element ''text'' [] []],
            Element ''leaf'' [(''name'', ''discontinuity-time'')]
             [Element ''type'' [(''name'', ''yang:date-and-time'')] [],
              Element ''mandatory'' [(''value'', ''true'')] [],
              Element ''description'' []
               [Element ''text'' [] []]],
            Element ''leaf'' [(''name'', ''in-octets'')]
             [Element ''type'' [(''name'', ''yang:counter64'')] [],
              Element ''description'' []
               [Element ''text'' [] []],
              Element ''reference'' []
               [Element ''text'' [] []]],
            Element ''leaf'' [(''name'', ''in-unicast-pkts'')]
             [Element ''type'' [(''name'', ''yang:counter64'')] [],
              Element ''description'' []
               [Element ''text'' [] []],
              Element ''reference'' []
               [Element ''text'' [] []]],
            Element ''leaf'' [(''name'', ''in-broadcast-pkts'')]
             [Element ''type'' [(''name'', ''yang:counter64'')] [],
              Element ''description'' []
               [Element ''text'' [] []],
              Element ''reference'' []
               [Element ''text'' [] []]],
            Element ''leaf'' [(''name'', ''in-multicast-pkts'')]
             [Element ''type'' [(''name'', ''yang:counter64'')] [],
              Element ''description'' []
               [Element ''text'' [] []],
              Element ''reference'' []
               [Element ''text'' [] []]],
            Element ''leaf'' [(''name'', ''in-discards'')]
             [Element ''type'' [(''name'', ''yang:counter32'')] [],
              Element ''description'' []
               [Element ''text'' [] []],
              Element ''reference'' []
               [Element ''text'' [] []]],
            Element ''leaf'' [(''name'', ''in-errors'')]
             [Element ''type'' [(''name'', ''yang:counter32'')] [],
              Element ''description'' []
               [Element ''text'' [] []],
              Element ''reference'' []
               [Element ''text'' [] []]],
            Element ''leaf'' [(''name'', ''in-unknown-protos'')]
             [Element ''type'' [(''name'', ''yang:counter32'')] [],
              Element ''description'' []
               [Element ''text'' [] []],
              Element ''reference'' []
               [Element ''text'' [] []]],
            Element ''leaf'' [(''name'', ''out-octets'')]
             [Element ''type'' [(''name'', ''yang:counter64'')] [],
              Element ''description'' []
               [Element ''text'' [] []],
              Element ''reference'' []
               [Element ''text'' [] []]],
            Element ''leaf'' [(''name'', ''out-unicast-pkts'')]
             [Element ''type'' [(''name'', ''yang:counter64'')] [],
              Element ''description'' []
               [Element ''text'' [] []],
              Element ''reference'' []
               [Element ''text'' [] []]],
            Element ''leaf'' [(''name'', ''out-broadcast-pkts'')]
             [Element ''type'' [(''name'', ''yang:counter64'')] [],
              Element ''description'' []
               [Element ''text'' [] []],
              Element ''reference'' []
               [Element ''text'' [] []]],
            Element ''leaf'' [(''name'', ''out-multicast-pkts'')]
             [Element ''type'' [(''name'', ''yang:counter64'')] [],
              Element ''description'' []
               [Element ''text'' [] []],
              Element ''reference'' []
               [Element ''text'' [] []]],
            Element ''leaf'' [(''name'', ''out-discards'')]
             [Element ''type'' [(''name'', ''yang:counter32'')] [],
              Element ''description'' []
               [Element ''text'' [] []],
              Element ''reference'' []
               [Element ''text'' [] []]],
            Element ''leaf'' [(''name'', ''out-errors'')]
             [Element ''type'' [(''name'', ''yang:counter32'')] [],
              Element ''description'' []
               [Element ''text'' [] []],
              Element ''reference'' []
               [Element ''text'' [] []]]]]]]"

subsection \<open>Namespaces\<close>

lemma tag_in_namespace [simp]: "tag (in_namespace ns n) = qname ns (tag n)"
  by (cases n) simp

lemma children_in_namespace [simp]: "children (in_namespace ns n) = map (in_namespace ns) (children n)"
  by (cases n) simp

lemma el_attr_in_namespace [simp]: "el_attr (in_namespace ns n) = el_attr n"
  by (cases n) (simp add: el_attr_def fun_eq_iff)

lemma qname_inj [simp]: "qname ns a = qname ns b \<longleftrightarrow> a = b"
proof -
  have "qname ns c \<noteq> ns" if "c \<noteq> []" for c
  proof
    assume "qname ns c = ns"
    then have "length (qname ns c) = length ns" by simp
    with that show False by (simp add: qname_def)
  qed
  from this [of a] this [of b] show ?thesis by (auto simp: qname_def)
qed

text \<open>The YIN file of a document with and without its namespace.\<close>

definition yin_of :: "string \<Rightarrow> string option \<Rightarrow> element \<Rightarrow> yinfile" where
  "yin_of path ns doc =
     \<lparr>yf_path = path, yf_root = (case ns of None \<Rightarrow> doc | Some u \<Rightarrow> in_namespace u doc), yf_namespace = ns,
      yf_keywords = map (with_namespace ns) important_keywords\<rparr>"

lemma yin_of_simps [simp]:
  "yf_root (yin_of p (Some ns) d) = in_namespace ns d" "yf_root (yin_of p None d) = d"
  "yf_namespace (yin_of p u d) = u" "yf_keywords (yin_of p u d) = map (with_namespace u) important_keywords"
  by (simp_all add: yin_of_def)

lemma with_namespace_simps [simp]: "with_namespace (Some ns) n = qname ns n" "with_namespace None n = n"
  by (simp_all add: with_namespace_def)

lemma YINFile_in_namespace:
  assumes "CHR ''}'' \<notin> set ns" and "tag d \<noteq> []"
  shows "YINFile p (in_namespace ns d) = Inr (yin_of p (Some ns) d)"
proof -
  have "qname ns (tag d) = CHR ''{'' # ns @ CHR ''}'' # tag d" using assms(2) by (simp add: qname_def)
  moreover have "str_before (CHR ''}'') (ns @ CHR ''}'' # tag d) = ns"
    using assms(1) by (simp add: str_before_def takeWhile_append)
  ultimately show ?thesis by (simp add: YINFile_def yin_of_def Let_def)
qed

lemma nodes_for_namespace:
  "nodes_for (yin_of q (Some ns) e) (in_namespace ns n) key = map (in_namespace ns) (nodes_for (yin_of p None d) n key)"
  by (simp add: nodes_for_def find_with_attr_def filter_map comp_def image_iff)

lemma own_config_namespace: "own_config (yin_of q (Some ns) e) (in_namespace ns n) = own_config (yin_of p None d) n"
  by (simp add: own_config_def find_first_def find_all_def get_name_with_namespace_def filter_map comp_def
      split: list.splits option.splits)

text \<open>The walk does not depend on the namespace of the document.\<close>

lemma path_flags_namespace:
  "path_flags (yin_of p None d) v n base i = path_flags (yin_of q (Some ns) e) v (in_namespace ns n) base i"
  "path_flags_loop (yin_of p None d) items n base i flags =
     path_flags_loop (yin_of q (Some ns) e) items (in_namespace ns n) base i flags"
proof (induction "yin_of p None d" v n base i and "yin_of p None d" items n base i flags
    rule: path_flags_path_flags_loop.induct)
  case (4 key item rest node base i flags)
  note nodes = nodes_for_namespace [of q ns e node key p d]
  show ?case
  proof (cases "nodes_for (yin_of p None d) node key")
    case Nil
    with 4 nodes show ?thesis by simp
  next
    case (Cons n ns')
    have "node_config (yin_of q (Some ns) e) i (in_namespace ns n) = node_config (yin_of p None d) i n"
      by (simp add: node_config_def own_config_namespace [of q ns e n p d])
    with Cons 4 nodes show ?thesis
      by (cases "node_config (yin_of p None d) i n";
          cases "path_flags (yin_of p None d) item n (base @ ''/'' @ key) (projr (node_config (yin_of p None d) i n))") simp_all
  qed
qed simp_all

end
