(* ===== verification/Bindings.thy ===== *)
theory Bindings
  imports Contracts
begin

section \<open>Generated bindings of YANG modules\<close>

text \<open>
  The classes that pyangbind has generated from YANG modules (\<open>modules/generated-code/*.py\<close>,
  \<open>tools/mockDevice/ietf_yang_library.py\<close>) all have one shape: a constructor that makes one object per
  member with the defaults and can then copy from another object, a method \<open>_path\<close>, and three methods and a
  property for each member. The shape is modelled here once, over a description of the members
  (\<open>member\<close>) and of the class (\<open>pb_class\<close>); \<open>ToasterBinding\<close>, \<open>YangLibraryBinding\<close>,
  \<open>JukeboxBinding\<close> and \<open>InterfacesBinding\<close> hold the descriptions of the generated classes.

  pyangbind itself is not in the repository: \<open>YANGDynClass\<close>, the method \<open>_set\<close> that it adds
  to some objects, and the iteration order of a dictionary are the fields of \<open>pybind\<close>.
\<close>

subsection \<open>Descriptions\<close>

text \<open>The argument \<open>base\<close> of \<open>YANGDynClass\<close>.\<close>

datatype rarg = RText string | RList "string list"

datatype karg = KText string | KInt int

datatype yang_base =
    Klass string
  | RestrictedClassType yang_base "(string \<times> rarg) list"
  | RestrictedDictKey yang_base "(string \<times> (string \<times> karg) list) list"
  | UnionOf "yang_base list"
  | TypedListType yang_base
  | YANGListType string string string bool

datatype member_kind = LeafKind bool | ContainerKind string

record member =
  m_name :: string
  m_base :: yang_base
  m_kind :: member_kind
  m_default :: "(string \<times> string) option"
  m_yang_name :: string
  m_register_paths :: bool
  m_keyval :: bool
  m_namespace :: string
  m_module :: string
  m_yang_type :: string
  m_defined_type :: string

record pb_class =
  pb_name :: string
  pb_slots :: "string list"
  pb_yang_name :: string
  pb_generated_by :: string
  pb_path :: "string list"
  pb_members :: "member list"
  pb_properties :: "(string \<times> bool) list"
  pb_elements :: "string list"

subsection \<open>The call of \<open>YANGDynClass\<close> as text\<close>

text \<open>
  The setters of the generated code hold the call of \<open>YANGDynClass\<close> once more as a text,
  for the error that they raise. It is the member printed, with wider gaps in the
  bases of enumerations.
\<close>

definition in_quotes :: "string \<Rightarrow> string" where
  "in_quotes s = [CHR 0x22] @ s @ [CHR 0x22]"

definition comma_list :: "string list \<Rightarrow> string" where
  "comma_list ws = (case ws of [] \<Rightarrow> [] | w # rest \<Rightarrow> w @ concat (map (\<lambda>v. '', '' @ v) rest))"

fun rarg_text :: "rarg \<Rightarrow> string" where
  "rarg_text (RText s) = ''u'' @ quoted s"
| "rarg_text (RList ss) = ''['' @ comma_list (map (\<lambda>s. ''u'' @ quoted s) ss) @ '']''"

fun karg_text :: "karg \<Rightarrow> string" where
  "karg_text (KText s) = ''u'' @ quoted s"
| "karg_text (KInt n) = int_str n"

definition dict_text :: "('a \<Rightarrow> string) \<Rightarrow> ('b \<Rightarrow> string) \<Rightarrow> ('a \<times> 'b) list \<Rightarrow> string" where
  "dict_text key val items = ''{'' @ comma_list (map (\<lambda>(k, v). key k @ '': '' @ val v) items) @ ''}''"

fun base_text :: "string \<Rightarrow> yang_base \<Rightarrow> string" where
  "base_text gap (Klass n) = n"
| "base_text gap (RestrictedClassType b d) =
     ''RestrictedClassType(base_type='' @ base_text gap b @ '', restriction_dict='' @ dict_text quoted rarg_text d @ '')''"
| "base_text gap (RestrictedDictKey b items) =
     ''RestrictedClassType(base_type='' @ base_text gap b @ '','' @ gap @ ''restriction_type='' @ in_quotes ''dict_key'' @
     '','' @ gap @ ''restriction_arg='' @ dict_text (\<lambda>k. ''u'' @ quoted k) (dict_text quoted karg_text) items @ '',)''"
| "base_text gap (UnionOf bs) = ''['' @ concat (map (\<lambda>b. base_text gap b @ '','') bs) @ '']''"
| "base_text gap (TypedListType b) = ''TypedListType(allowed_type='' @ base_text gap b @ '')''"
| "base_text gap (YANGListType keys n y user) =
     ''YANGListType('' @ in_quotes keys @ '','' @ n @ '', yang_name='' @ in_quotes y @
     '', parent=self, is_container='' @ quoted ''list'' @ '', user_ordered='' @ bool_text user @
     '', path_helper=self._path_helper, yang_keys='' @ quoted keys @ '')''"

definition kind_text :: "member_kind \<Rightarrow> string" where
  "kind_text k = (case k of LeafKind b \<Rightarrow> ''is_leaf='' @ bool_text b | ContainerKind c \<Rightarrow> ''is_container='' @ quoted c)"

definition default_text :: "string \<times> string \<Rightarrow> string" where
  "default_text d = '', default='' @ fst d @ ''('' @ (if str_startswith (fst d) ''np.'' then snd d else in_quotes (snd d)) @ '')''"

definition generated_type :: "member \<Rightarrow> string" where
  "generated_type m =
     ''YANGDynClass(base='' @
     base_text (if m_yang_type m = ''enumeration'' then replicate 37 CHR '' '' else '' '') (m_base m) @
     (case m_default m of None \<Rightarrow> [] | Some d \<Rightarrow> default_text d) @ '', '' @ kind_text (m_kind m) @
     '', yang_name='' @ in_quotes (m_yang_name m) @
     '', parent=self, path_helper=self._path_helper, extmethods=self._extmethods, register_paths='' @
     bool_text (m_register_paths m) @ (if m_keyval m then '', is_keyval=True'' else []) @
     '', namespace='' @ quoted (m_namespace m) @ '', defining_module='' @ quoted (m_module m) @
     '', yang_type='' @ quoted (m_yang_type m) @ '')''"

subsection \<open>Objects\<close>

text \<open>
  \<open>_extmethods\<close>: \<open>None\<close>, \<open>False\<close>, a dictionary of helpers, or another value. The attribute
  \<open>_parent\<close>: not there, \<open>None\<close>, or an object with its \<open>_extmethods\<close> (\<open>ExtNone\<close> when it has none)
  and its \<open>_path()\<close>.
\<close>

datatype ext = ExtNone | ExtFalse | ExtDict "(string, nat) pydict" | ExtOther

datatype parent_attr = NoParent | NullParent | ParentObject ext "string list"

record 'v pb_object =
  o_class :: pb_class
  o_parent :: parent_attr
  o_ext :: ext
  o_values :: "(string, 'v) pydict"

record ('a, 'v) pybind =
  dyn :: "'v pb_object \<Rightarrow> member \<Rightarrow> 'a option \<Rightarrow> 'v res"
  set_hook :: "'v pb_object \<Rightarrow> (unit res \<times> 'v pb_object) option"
  key_order :: "string list \<Rightarrow> string list"

definition resolve_extmethods :: "parent_attr \<Rightarrow> ext \<Rightarrow> ext" where
  "resolve_extmethods parent kw =
     (case kw of
        ExtFalse \<Rightarrow> ExtFalse
      | ExtDict d \<Rightarrow> ExtDict d
      | _ \<Rightarrow>
          (case parent of
             NoParent \<Rightarrow> ExtFalse
           | NullParent \<Rightarrow> ExtNone
           | ParentObject e p \<Rightarrow> e))"

text \<open>\<open>_get_x\<close>, \<open>_unset_x\<close> and \<open>_set_x\<close>; the latter with the test for the keys of list entries.\<close>

definition put_value :: "string \<Rightarrow> 'v \<Rightarrow> 'v pb_object \<Rightarrow> 'v pb_object" where
  "put_value n t ob = ob\<lparr>o_values := dict_set n t (o_values ob)\<rparr>"

definition get_member :: "'v pb_object \<Rightarrow> member \<Rightarrow> 'v res" where
  "get_member ob m =
     (case dict_get (o_values ob) (m_name m) of
        None \<Rightarrow> Inl (AttributeError (m_name m))
      | Some t \<Rightarrow> Inr t)"

definition unset_member :: "('a, 'v) pybind \<Rightarrow> 'v pb_object \<Rightarrow> member \<Rightarrow> unit res \<times> 'v pb_object" where
  "unset_member lib ob m =
     (case dyn lib ob m None of
        Inl e \<Rightarrow> (Inl e, ob)
      | Inr t \<Rightarrow> (Inr (), put_value (m_name m) t ob))"

definition key_protected :: "'v pb_object \<Rightarrow> member \<Rightarrow> bool \<Rightarrow> bool" where
  "key_protected ob m load \<longleftrightarrow>
     m_keyval m \<and> \<not> load \<and> (case o_parent ob of ParentObject e p \<Rightarrow> True | _ \<Rightarrow> False)"

definition key_error :: pyexc where
  "key_error = AttributeError ''Cannot set keys directly when within an instantiated list''"

definition type_error :: "member \<Rightarrow> pyexc" where
  "type_error m =
     ValueErrorOf
       [(''error-string'', m_name m @ '' must be of a type compatible with '' @ m_yang_type m),
        (''defined-type'', m_defined_type m),
        (''generated-type'', generated_type m)]"

definition set_member ::
  "('a, 'v) pybind \<Rightarrow> 'v pb_object \<Rightarrow> member \<Rightarrow> 'a \<Rightarrow> bool \<Rightarrow> unit res \<times> 'v pb_object" where
  "set_member lib ob m v load =
     (if key_protected ob m load then (Inl key_error, ob)
      else
        (case dyn lib ob m (Some v) of
           Inl (TypeError s) \<Rightarrow> (Inl (type_error m), ob)
         | Inl (ValueError s) \<Rightarrow> (Inl (type_error m), ob)
         | Inl (ValueErrorOf d) \<Rightarrow> (Inl (type_error m), ob)
         | Inl e \<Rightarrow> (Inl e, ob)
         | Inr t \<Rightarrow>
             (let ob1 = put_value (m_name m) t ob in
              case set_hook lib ob1 of None \<Rightarrow> (Inr (), ob1) | Some r \<Rightarrow> r)))"

text \<open>
  An assignment to the property: without a setter it raises. \<open>pb_properties\<close> holds for each property
  whether it has one.
\<close>

definition assign_member ::
  "('a, 'v) pybind \<Rightarrow> 'v pb_object \<Rightarrow> member \<Rightarrow> 'a \<Rightarrow> unit res \<times> 'v pb_object" where
  "assign_member lib ob m v =
     (if dict_get (pb_properties (o_class ob)) (m_name m) = Some True then set_member lib ob m v False
      else (Inl (AttributeError (quoted (m_name m) @ '' cannot be set'')), ob))"

subsection \<open>The constructor\<close>

fun init_members :: "('a, 'v) pybind \<Rightarrow> member list \<Rightarrow> 'v pb_object \<Rightarrow> unit res \<times> 'v pb_object" where
  "init_members lib [] ob = (Inr (), ob)"
| "init_members lib (m # ms) ob =
     (case dyn lib ob m None of
        Inl e \<Rightarrow> (Inl e, ob)
      | Inr t \<Rightarrow> init_members lib ms (put_value (m_name m) t ob))"

definition member_named :: "pb_class \<Rightarrow> string \<Rightarrow> member option" where
  "member_named cls e = find (\<lambda>m. m_name m = e) (pb_members cls)"

fun copy_members ::
  "('a, 'v) pybind \<Rightarrow> string list \<Rightarrow> (string \<Rightarrow> 'a option) \<Rightarrow> bool \<Rightarrow> 'v pb_object \<Rightarrow> unit res \<times> 'v pb_object" where
  "copy_members lib [] src load ob = (Inr (), ob)"
| "copy_members lib (e # es) src load ob =
     (case member_named (o_class ob) e of
        None \<Rightarrow> (Inl (AttributeError (''_set_'' @ e)), ob)
      | Some m \<Rightarrow>
          (case src e of
             None \<Rightarrow> (Inl (AttributeError e), ob)
           | Some v \<Rightarrow>
               (case set_member lib ob m v load of
                  (Inl x, ob1) \<Rightarrow> (Inl x, ob1)
                | (Inr u, ob1) \<Rightarrow> copy_members lib es src load ob1)))"

text \<open>
  \<open>__init__(*args, extmethods=..., load=...)\<close>. An argument is given by its attributes; \<open>load\<close> is
  \<open>None\<close> when it is not passed, and the setters then use their default \<open>False\<close>.
\<close>

definition new_object :: "pb_class \<Rightarrow> parent_attr \<Rightarrow> ext \<Rightarrow> 'v pb_object" where
  "new_object cls parent kw =
     \<lparr>o_class = cls, o_parent = parent, o_ext = resolve_extmethods parent kw, o_values = []\<rparr>"

definition pb_init ::
  "('a, 'v) pybind \<Rightarrow> pb_class \<Rightarrow> parent_attr \<Rightarrow> ext \<Rightarrow> (string \<Rightarrow> 'a option) list \<Rightarrow> bool option \<Rightarrow>
   'v pb_object res" where
  "pb_init lib cls parent kw args load =
     (case init_members lib (pb_members cls) (new_object cls parent kw) of
        (Inl e, ob) \<Rightarrow> Inl e
      | (Inr u, ob) \<Rightarrow>
          (case args of
             [] \<Rightarrow> Inr ob
           | src # others \<Rightarrow>
               if others \<noteq> [] then Inl (TypeError ''cannot create a YANG container with >1 argument'')
               else if \<not> list_all (\<lambda>e. src e \<noteq> None) (key_order lib (pb_elements cls))
               then Inl (ValueError ''Supplied object did not have the correct attributes'')
               else
                 (case copy_members lib (key_order lib (pb_elements cls)) src (load = Some True) ob of
                    (Inl e, ob1) \<Rightarrow> Inl e
                  | (Inr u, ob1) \<Rightarrow> Inr ob1)))"

text \<open>\<open>_path\<close>.\<close>

definition object_path :: "'v pb_object \<Rightarrow> string list res" where
  "object_path ob =
     (case o_parent ob of
        NoParent \<Rightarrow> Inr (pb_path (o_class ob))
      | NullParent \<Rightarrow> Inl (AttributeError ''object has no attribute _path'')
      | ParentObject e p \<Rightarrow> Inr (p @ [pb_yang_name (o_class ob)]))"

end
