(* ===== verification/BindingFacts.thy ===== *)
theory BindingFacts
  imports Bindings "HOL-Library.Multiset"
begin

section \<open>What the generated bindings guarantee\<close>

text \<open>
  Properties of all generated classes, from the definitions in \<open>Bindings\<close>. Two hypotheses on
  pyangbind recur: \<open>header_only\<close>, what \<open>YANGDynClass\<close> makes of a member and a value does not
  depend on the values of the other members; and \<open>hook_keeps\<close>, the method \<open>_set\<close>, which objects
  made by \<open>YANGDynClass\<close> have and the root of a module has not, returns and leaves the object's class, parent, helpers and
  values as they are: it marks the object, and those that hold it, as changed. (It would unset the other members of a
  choice; no member of the generated classes belongs to one.)
\<close>

definition same_header :: "'v pb_object \<Rightarrow> 'v pb_object \<Rightarrow> bool" where
  "same_header ob ob' \<longleftrightarrow> o_class ob = o_class ob' \<and> o_parent ob = o_parent ob' \<and> o_ext ob = o_ext ob'"

definition header_only :: "('a, 'v) pybind \<Rightarrow> bool" where
  "header_only lib \<longleftrightarrow> (\<forall>ob ob' m v. same_header ob ob' \<longrightarrow> dyn lib ob m v = dyn lib ob' m v)"

definition hook_keeps :: "('a, 'v) pybind \<Rightarrow> bool" where
  "hook_keeps lib \<longleftrightarrow> (\<forall>ob. set_hook lib ob = None \<or> set_hook lib ob = Some (Inr (), ob))"

definition members_ok :: "pb_class \<Rightarrow> bool" where
  "members_ok cls \<longleftrightarrow>
     distinct (map m_name (pb_members cls)) \<and> distinct (pb_elements cls) \<and>
     set (pb_elements cls) = set (map m_name (pb_members cls))"

lemma same_header_refl [simp]: "same_header ob ob"
  by (simp add: same_header_def)

lemma put_value_header [simp]:
  "o_class (put_value n t ob) = o_class ob" "o_parent (put_value n t ob) = o_parent ob"
  "o_ext (put_value n t ob) = o_ext ob" "o_values (put_value n t ob) = dict_set n t (o_values ob)"
  by (simp_all add: put_value_def)

lemma same_header_put [simp]: "same_header (put_value n t ob) ob' = same_header ob ob'"
  by (simp add: same_header_def)

lemma header_onlyD: "header_only lib \<Longrightarrow> same_header ob ob' \<Longrightarrow> dyn lib ob m v = dyn lib ob' m v"
  by (simp add: header_only_def)

subsection \<open>Setting and unsetting a member\<close>

lemma set_member_eq:
  assumes "hook_keeps lib"
  shows "set_member lib ob m v load =
    (if key_protected ob m load then (Inl key_error, ob)
     else case dyn lib ob m (Some v) of
         Inl (TypeError s) \<Rightarrow> (Inl (type_error m), ob)
       | Inl (ValueError s) \<Rightarrow> (Inl (type_error m), ob)
       | Inl (ValueErrorOf d) \<Rightarrow> (Inl (type_error m), ob)
       | Inl e \<Rightarrow> (Inl e, ob)
       | Inr t \<Rightarrow> (Inr (), put_value (m_name m) t ob))"
proof -
  have "(case set_hook lib ob1 of None \<Rightarrow> (Inr (), ob1) | Some r \<Rightarrow> r) = (Inr (), ob1)" for ob1
    using assms [unfolded hook_keeps_def, rule_format, of ob1] by auto
  then show ?thesis unfolding set_member_def Let_def by (simp split: sum.split pyexc.split)
qed

text \<open>
  A setter that raises leaves the object as it was. It raises an \<open>AttributeError\<close> for
  the key of a list entry unless \<open>load\<close> is given, and turns the \<open>TypeError\<close> or \<open>ValueError\<close> of \<open>YANGDynClass\<close>
  into a \<open>ValueError\<close> that names the member and its type; any other exception goes through.
\<close>

lemma set_member_error:
  assumes "hook_keeps lib" and "set_member lib ob m v load = (Inl e, ob')"
  shows "ob' = ob \<and>
    (if key_protected ob m load then e = key_error
     else \<exists>e'. dyn lib ob m (Some v) = Inl e' \<and>
       e = (case e' of TypeError s \<Rightarrow> type_error m | ValueError s \<Rightarrow> type_error m
          | ValueErrorOf d \<Rightarrow> type_error m | _ \<Rightarrow> e'))"
  using assms
  by (auto simp: set_member_eq split: if_splits sum.splits pyexc.splits)

lemma set_member_ok:
  assumes "hook_keeps lib"
  shows "set_member lib ob m v load = (Inr (), ob') \<longleftrightarrow>
    \<not> key_protected ob m load \<and> (\<exists>t. dyn lib ob m (Some v) = Inr t \<and> ob' = put_value (m_name m) t ob)"
  using assms
  by (auto simp: set_member_eq split: if_splits sum.splits pyexc.splits)

lemma dict_set_set [simp]: "dict_set k v (dict_set k w d) = dict_set k v d"
  by (induction d) auto

lemma dict_set_same: "dict_get d k = Some v \<Longrightarrow> dict_set k v d = d"
  by (induction d) (auto simp: dict_get_def split: if_splits)

text \<open>
  C25: after a setter has succeeded, the getter gives what \<open>YANGDynClass\<close> made of the value,
  every other member is as before, and \<open>_unset\<close> brings back the object if the member had its default.
\<close>

theorem set_get_unset:
  assumes "hook_keeps lib" and "header_only lib" and "set_member lib ob m v load = (Inr (), ob')"
    and "dyn lib ob m None = Inr t0"
  shows "(\<exists>t. dyn lib ob m (Some v) = Inr t \<and> get_member ob' m = Inr t) \<and>
    list_all (\<lambda>m'. m_name m' = m_name m \<or> get_member ob' m' = get_member ob m') (pb_members (o_class ob)) \<and>
    (get_member ob m \<noteq> Inr t0 \<or> unset_member lib ob' m = (Inr (), ob))"
proof -
  from set_member_ok [OF assms(1)] assms(3) obtain t where t: "dyn lib ob m (Some v) = Inr t"
    and ob': "ob' = put_value (m_name m) t ob"
    by blast
  have "dyn lib ob' m None = Inr t0"
    using header_onlyD [OF assms(2), of ob' ob m None] assms(4) by (simp add: ob')
  moreover have "put_value (m_name m) t0 ob' = ob" if "get_member ob m = Inr t0"
    using that by (simp add: ob' put_value_def get_member_def dict_set_same split: option.splits)
  ultimately show ?thesis
    using t by (auto simp: ob' get_member_def dict_get_set unset_member_def list_all_iff)
qed

subsection \<open>Sequences of assignments\<close>

lemma find_append: "find P (xs @ ys) = (case find P xs of None \<Rightarrow> find P ys | Some x \<Rightarrow> Some x)"
  by (induction xs) auto

text \<open>A client that assigns to properties one after the other and carries on when an assignment raises.\<close>

fun assign_all :: "('a, 'v) pybind \<Rightarrow> (member \<times> 'a) list \<Rightarrow> 'v pb_object \<Rightarrow> 'v pb_object" where
  "assign_all lib [] ob = ob"
| "assign_all lib ((m, v) # rest) ob = assign_all lib rest (snd (assign_member lib ob m v))"

definition assignable :: "('a, 'v) pybind \<Rightarrow> 'v pb_object \<Rightarrow> member \<Rightarrow> 'a \<Rightarrow> bool" where
  "assignable lib ob m v \<longleftrightarrow>
     dict_get (pb_properties (o_class ob)) (m_name m) = Some True \<and> \<not> key_protected ob m False \<and>
     \<not> Option.is_none (case dyn lib ob m (Some v) of Inl e \<Rightarrow> None | Inr t \<Rightarrow> Some t)"

lemma assignableE:
  assumes "assignable lib ob m v"
  obtains t where "dyn lib ob m (Some v) = Inr t"
  using assms by (auto simp: assignable_def split: sum.splits)

lemma assign_member_cases:
  assumes "hook_keeps lib"
  shows "snd (assign_member lib ob m v) =
    (if assignable lib ob m v then put_value (m_name m) (projr (dyn lib ob m (Some v))) ob else ob)"
proof (cases "dict_get (pb_properties (o_class ob)) (m_name m) = Some True")
  case True
  show ?thesis
  proof (cases "set_member lib ob m v False")
    case (Pair r ob')
    with True set_member_ok [OF assms, of ob m v False ob'] set_member_error [OF assms, of ob m v False _ ob']
    show ?thesis by (cases r) (auto simp: assign_member_def assignable_def split: sum.splits if_splits)
  qed
qed (simp add: assign_member_def assignable_def)

lemma assignable_header:
  assumes "header_only lib" and "same_header ob ob'"
  shows "assignable lib ob m v = assignable lib ob' m v"
proof -
  have "o_class ob = o_class ob'" "o_parent ob = o_parent ob'" using assms(2) by (auto simp: same_header_def)
  then show ?thesis using header_onlyD [OF assms] by (simp add: assignable_def key_protected_def)
qed

text \<open>
  C23: after any sequence of assignments, failing ones included, the object has the class, the parent and the helpers
  it had, and each member has what \<open>YANGDynClass\<close> made of the value last assigned to it
  with success, or what it had before. An assignment succeeds just when the property has a setter, the member
  is no key of a list entry, and \<open>YANGDynClass\<close> accepts the value.
\<close>

theorem assignments_last_wins:
  assumes "hook_keeps lib" and "header_only lib"
  shows "same_header (assign_all lib kvs ob) ob \<and>
    get_member (assign_all lib kvs ob) m =
      (case find (\<lambda>(m', v). m_name m' = m_name m \<and> assignable lib ob m' v) (rev kvs) of
         None \<Rightarrow> get_member ob m
       | Some (m', v) \<Rightarrow> dyn lib ob m' (Some v))"
proof (induction kvs arbitrary: ob)
  case Nil
  then show ?case by simp
next
  case (Cons p kvs)
  obtain m1 v1 where p: "p = (m1, v1)" by (cases p)
  let ?ob1 = "snd (assign_member lib ob m1 v1)"
  have h: "same_header ?ob1 ob" by (simp add: assign_member_cases [OF assms(1)])
  have dyn: "dyn lib ?ob1 m' v' = dyn lib ob m' v'" for m' v' by (rule header_onlyD [OF assms(2) h])
  have get: "get_member ?ob1 m =
      (if m_name m1 = m_name m \<and> assignable lib ob m1 v1 then dyn lib ob m1 (Some v1) else get_member ob m)"
    by (auto simp: assign_member_cases [OF assms(1)] get_member_def dict_get_set elim: assignableE)
  from Cons.IH [of ?ob1] h show ?case
    by (auto simp: p dyn get assignable_header [OF assms(2) h] find_append same_header_def
        split: option.split)
qed

subsection \<open>Construction\<close>

lemma init_members_header:
  "init_members lib ms ob = (r, ob') \<Longrightarrow> same_header ob' ob"
  by (induction ms arbitrary: ob) (auto split: sum.splits simp: same_header_def)

lemma init_members_values:
  assumes "header_only lib" 
  shows "init_members lib ms ob = (Inr (), ob') \<Longrightarrow> distinct (map m_name ms) \<Longrightarrow>
    (\<forall>m \<in> set ms. \<exists>t. dyn lib ob m None = Inr t \<and> get_member ob' m = Inr t) \<and>
    (\<forall>n. n \<notin> m_name ` set ms \<longrightarrow> dict_get (o_values ob') n = dict_get (o_values ob) n)"
proof (induction ms arbitrary: ob)
  case Nil
  then show ?case by simp
next
  case (Cons m ms)
  then obtain t where t: "dyn lib ob m None = Inr t"
    and rest: "init_members lib ms (put_value (m_name m) t ob) = (Inr (), ob')"
    by (auto split: sum.splits)
  from Cons.IH [OF rest] Cons.prems(2)
  have IH: "\<forall>m' \<in> set ms. \<exists>t'. dyn lib (put_value (m_name m) t ob) m' None = Inr t' \<and> get_member ob' m' = Inr t'"
    "\<forall>n. n \<notin> m_name ` set ms \<longrightarrow> dict_get (o_values ob') n = dict_get (dict_set (m_name m) t (o_values ob)) n"
    by simp_all
  have "dyn lib (put_value (m_name m) t ob) m' None = dyn lib ob m' None" for m'
    by (rule header_onlyD [OF assms]) simp
  moreover have "get_member ob' m = Inr t"
    using IH(2) Cons.prems(2) by (simp add: get_member_def dict_get_set)
  ultimately show ?case using IH t by (simp add: dict_get_set)
qed

lemma copy_members_header:
  assumes "hook_keeps lib"
  shows "copy_members lib es src load ob = (Inr (), ob') \<Longrightarrow> same_header ob' ob"
proof (induction es arbitrary: ob)
  case (Cons e es)
  then obtain m v ob1 where "set_member lib ob m v load = (Inr (), ob1)"
    and "copy_members lib es src load ob1 = (Inr (), ob')"
    by (auto split: option.splits sum.splits prod.splits)
  with Cons.IH [of ob1] set_member_ok [OF assms, of ob m v load ob1] show ?case
    by (auto simp: same_header_def)
qed simp

text \<open>What copying leaves: the values of the copied members are replaced where they stand.\<close>

definition copied :: "('a, 'v) pybind \<Rightarrow> (string \<Rightarrow> 'a option) \<Rightarrow> 'v pb_object \<Rightarrow> string \<Rightarrow> 'v res" where
  "copied lib src ob e =
     (case (member_named (o_class ob) e, src e) of
        (Some m, Some v) \<Rightarrow> dyn lib ob m (Some v)
      | _ \<Rightarrow> Inl (AttributeError e))"

definition copyable :: "('a, 'v) pybind \<Rightarrow> (string \<Rightarrow> 'a option) \<Rightarrow> bool \<Rightarrow> 'v pb_object \<Rightarrow> string \<Rightarrow> bool" where
  "copyable lib src load ob e \<longleftrightarrow>
     (\<exists>t. copied lib src ob e = Inr t) \<and>
     (\<exists>m. member_named (o_class ob) e = Some m \<and> \<not> key_protected ob m load)"

definition overlay :: "('a, 'v) pybind \<Rightarrow> (string \<Rightarrow> 'a option) \<Rightarrow> string set \<Rightarrow> 'v pb_object \<Rightarrow> (string \<times> 'v) \<Rightarrow> string \<times> 'v" where
  "overlay lib src E ob p = (if fst p \<in> E then (fst p, projr (copied lib src ob (fst p))) else p)"

lemma dict_set_map: "dict_ok d \<Longrightarrow> k \<in> dict_keys d \<Longrightarrow> dict_set k v d = map (\<lambda>p. if fst p = k then (k, v) else p) d"
proof (induction d)
  case Nil
  then show ?case by (simp add: dict_keys_def)
next
  case (Cons p d)
  obtain k' v' where p: "p = (k', v')" by (cases p)
  show ?case
  proof (cases "k = k'")
    case True
    with Cons.prems(1) p have "map (\<lambda>p. if fst p = k then (k, v) else p) d = d"
      by (intro map_idI) (auto simp: dict_ok_def)
    with True p show ?thesis by simp
  next
    case False
    with Cons p show ?thesis by (simp add: dict_ok_def dict_keys_def)
  qed
qed

lemma header_copied:
  assumes "header_only lib" and "same_header ob ob'"
  shows "copied lib src ob e = copied lib src ob' e" and "copyable lib src load ob e = copyable lib src load ob' e"
    and "overlay lib src E ob = overlay lib src E ob'" and "key_protected ob m load = key_protected ob' m load"
proof -
  have h: "o_class ob = o_class ob'" "o_parent ob = o_parent ob'" using assms(2) by (auto simp: same_header_def)
  show c: "copied lib src ob e = copied lib src ob' e" for e
    using header_onlyD [OF assms] h by (auto simp: copied_def split: option.split)
  show k: "key_protected ob m load = key_protected ob' m load" for m by (simp add: key_protected_def h)
  show "copyable lib src load ob e = copyable lib src load ob' e" by (simp add: copyable_def c k h)
  show "overlay lib src E ob = overlay lib src E ob'" by (rule ext) (simp add: overlay_def c)
qed

lemma copy_step:
  assumes "hook_keeps lib"
  shows "copy_members lib (e # es) src load ob = (Inr (), ob') \<longleftrightarrow>
    copyable lib src load ob e \<and>
    copy_members lib es src load (put_value e (projr (copied lib src ob e)) ob) = (Inr (), ob')"
proof -
  have name: "member_named (o_class ob) e = Some m \<Longrightarrow> m_name m = e" for m
    by (auto simp: member_named_def find_Some_iff)
  show ?thesis
    using assms name
    by (auto simp: copyable_def copied_def set_member_eq
        split: option.splits sum.splits pyexc.splits if_splits)
qed

lemma copy_members_iff:
  assumes "hook_keeps lib" and "header_only lib"
  shows "distinct es \<Longrightarrow> set es \<subseteq> dict_keys (o_values ob) \<Longrightarrow> dict_ok (o_values ob) \<Longrightarrow>
    copy_members lib es src load ob = (Inr (), ob') \<longleftrightarrow>
    list_all (copyable lib src load ob) es \<and>
    ob' = ob\<lparr>o_values := map (overlay lib src (set es) ob) (o_values ob)\<rparr>"
proof (induction es arbitrary: ob)
  case Nil
  have "map (overlay lib src {} ob) (o_values ob) = o_values ob"
    by (rule map_idI) (simp add: overlay_def)
  then show ?case by auto
next
  case (Cons e es)
  let ?t = "projr (copied lib src ob e)"
  let ?ob1 = "put_value e ?t ob"
  have h: "same_header ?ob1 ob" by simp
  note hdr = header_copied [OF assms(2) h]
  have vals: "map (overlay lib src (set es) ob) (dict_set e ?t (o_values ob)) =
      map (overlay lib src (set (e # es)) ob) (o_values ob)"
    using Cons.prems by (auto simp: dict_set_map overlay_def)
  have "copy_members lib es src load ?ob1 = (Inr (), ob') \<longleftrightarrow>
      list_all (copyable lib src load ?ob1) es \<and>
      ob' = ?ob1\<lparr>o_values := map (overlay lib src (set es) ?ob1) (o_values ?ob1)\<rparr>"
    using Cons.prems by (intro Cons.IH) (auto simp: pyd.keys_put)
  then show ?case
    using copy_step [OF assms(1), of e es src load ob ob']
    by (simp add: hdr vals list_all_iff) (auto simp: put_value_def hdr)
qed

lemma init_members_keys:
  "init_members lib ms ob = (Inr (), ob') \<Longrightarrow> dict_ok (o_values ob) \<Longrightarrow>
   dict_ok (o_values ob') \<and> dict_keys (o_values ob') = m_name ` set ms \<union> dict_keys (o_values ob)"
proof (induction ms arbitrary: ob)
  case (Cons m ms)
  then obtain t where "init_members lib ms (put_value (m_name m) t ob) = (Inr (), ob')"
    by (auto split: sum.splits)
  with Cons.IH [of "put_value (m_name m) t ob"] Cons.prems(2) show ?case by (auto simp: pyd.keys_put)
qed simp

lemma new_object_simps [simp]:
  "o_class (new_object cls parent kw) = cls" "o_parent (new_object cls parent kw) = parent"
  "o_ext (new_object cls parent kw) = resolve_extmethods parent kw" "o_values (new_object cls parent kw) = []"
  by (simp_all add: new_object_def)

text \<open>The object with the defaults, when it can be made.\<close>

lemma init_start:
  assumes "init_members lib (pb_members cls) (new_object cls parent kw) = (Inr (), ob)"
  shows "o_class ob = cls" and "o_parent ob = parent" and "o_ext ob = resolve_extmethods parent kw"
    and "dict_ok (o_values ob)" and "dict_keys (o_values ob) = m_name ` set (pb_members cls)"
  using init_members_header [OF assms] init_members_keys [OF assms]
  by (auto simp: same_header_def dict_keys_def)

text \<open>
  The object a constructor returns is of its class, has the helpers that the keyword or
  the parent gives it, and a value for exactly the members of the class, whatever the arguments.
\<close>

theorem pb_init_object:
  assumes "hook_keeps lib" and "pb_init lib cls parent kw args load = Inr ob"
  shows "o_class ob = cls \<and> o_parent ob = parent \<and> o_ext ob = resolve_extmethods parent kw \<and>
    dict_keys (o_values ob) = m_name ` set (pb_members cls)"
proof -
  have keys: "copy_members lib es src l o1 = (Inr (), o2) \<Longrightarrow> m_name ` set (pb_members (o_class o1)) \<subseteq> dict_keys (o_values o1) \<Longrightarrow>
      dict_keys (o_values o2) = dict_keys (o_values o1)" for es src l o1 o2
  proof (induction es arbitrary: o1)
    case (Cons e es)
    have "member_named (o_class o1) e = Some m \<Longrightarrow> e \<in> m_name ` set (pb_members (o_class o1))" for m
      by (auto simp: member_named_def find_Some_iff)
    then have e: "e \<in> dict_keys (o_values o1)"
      using Cons.prems copy_step [OF assms(1), of e es src l o1 o2] by (auto simp: copyable_def)
    with Cons.IH [of "put_value e (projr (copied lib src o1 e)) o1"] Cons.prems
      copy_step [OF assms(1), of e es src l o1 o2]
    show ?case by (simp add: pyd.keys_put insert_absorb)
  qed simp
  from assms(2) obtain ob0
    where init: "init_members lib (pb_members cls) (new_object cls parent kw) = (Inr (), ob0)"
      and ob: "ob = ob0 \<or> (\<exists>es src l. copy_members lib es src l ob0 = (Inr (), ob))"
    by (auto simp: pb_init_def split: sum.splits prod.splits list.splits if_splits)
  note start = init_start [OF init]
  from ob have "same_header ob ob0 \<and> dict_keys (o_values ob) = dict_keys (o_values ob0)"
    using copy_members_header [OF assms(1)] keys start(1,5) by fastforce
  with start show ?thesis by (simp add: same_header_def)
qed

lemma find_distinct: "distinct (map f xs) \<Longrightarrow> x \<in> set xs \<Longrightarrow> find (\<lambda>y. f y = f x) xs = Some x"
  by (induction xs) auto

text \<open>
  C24: an object copied from another one has for each member what \<open>YANGDynClass\<close> makes of
  the other's attribute.
\<close>

theorem pb_init_copies:
  assumes "hook_keeps lib" and "header_only lib" and "members_ok cls"
    and "mset (key_order lib (pb_elements cls)) = mset (pb_elements cls)"
    and "pb_init lib cls parent kw [src] load = Inr ob" and "m \<in> set (pb_members cls)"
  shows "\<exists>v t. src (m_name m) = Some v \<and> dyn lib ob m (Some v) = Inr t \<and> get_member ob m = Inr t"
proof -
  let ?es = "key_order lib (pb_elements cls)"
  from assms(5) obtain ob0
    where init: "init_members lib (pb_members cls) (new_object cls parent kw) = (Inr (), ob0)"
      and copy: "copy_members lib ?es src (load = Some True) ob0 = (Inr (), ob)"
    by (auto simp: pb_init_def split: sum.splits prod.splits if_splits)
  note start = init_start [OF init]
  have es: "distinct ?es" "set ?es = m_name ` set (pb_members cls)"
    using assms(3) mset_eq_imp_distinct_iff [OF assms(4)] mset_eq_setD [OF assms(4)]
    by (simp_all add: members_ok_def)
  from copy copy_members_iff [OF assms(1,2) es(1), of ob0] start(4,5) es(2)
  have ok: "list_all (copyable lib src (load = Some True) ob0) ?es"
    and ob: "ob = ob0\<lparr>o_values := map (overlay lib src (set ?es) ob0) (o_values ob0)\<rparr>"
    by auto
  have m: "m_name m \<in> set ?es" "m_name m \<in> dict_keys (o_values ob0)" using es(2) assms(6) start(5) by auto
  have named: "member_named cls (m_name m) = Some m"
    using assms(3,6) by (simp add: member_named_def members_ok_def find_distinct)
  from ok m(1) obtain t where t: "copied lib src ob0 (m_name m) = Inr t"
    by (auto simp: copyable_def list_all_iff)
  with named start(1) obtain v where v: "src (m_name m) = Some v" "dyn lib ob0 m (Some v) = Inr t"
    by (auto simp: copied_def split: option.splits)
  have "dyn lib ob m (Some v) = dyn lib ob0 m (Some v)"
    by (rule header_onlyD [OF assms(2)]) (simp add: ob same_header_def)
  moreover have "map_of (map (overlay lib src (set ?es) ob0) d) (m_name m) = Some t"
    if "m_name m \<in> dict_keys d" for d
    using that t m(1) by (induction d) (auto simp: overlay_def dict_keys_def)
  ultimately show ?thesis
    using v m(2) by (simp add: ob get_member_def dict_get_def)
qed

lemma key_order_simps [simp]:
  "set_member (lib\<lparr>key_order := f\<rparr>) ob m v l = set_member lib ob m v l"
  "init_members (lib\<lparr>key_order := f\<rparr>) ms ob = init_members lib ms ob"
  "copy_members (lib\<lparr>key_order := f\<rparr>) es src l ob = copy_members lib es src l ob"
proof -
  show s: "set_member (lib\<lparr>key_order := f\<rparr>) ob m v l = set_member lib ob m v l" for ob m v
    by (simp add: set_member_def Let_def split: sum.split pyexc.split)
  show "init_members (lib\<lparr>key_order := f\<rparr>) ms ob = init_members lib ms ob"
    by (induction ms arbitrary: ob) (auto split: sum.split)
  show "copy_members (lib\<lparr>key_order := f\<rparr>) es src l ob = copy_members lib es src l ob"
    by (induction es arbitrary: ob) (auto simp: s split: option.split sum.split prod.split)
qed

text \<open>
  C7: the order in which Python visits the elements does not matter to what a constructor
  returns: it succeeds in one order if and only if it does in any other, with the same object.
\<close>

theorem pb_init_any_order:
  assumes "hook_keeps lib" and "header_only lib" and "members_ok cls"
    and "mset (f (pb_elements cls)) = mset (pb_elements cls)"
    and "mset (g (pb_elements cls)) = mset (pb_elements cls)"
  shows "pb_init (lib\<lparr>key_order := f\<rparr>) cls parent kw args load = Inr ob \<longleftrightarrow>
    pb_init (lib\<lparr>key_order := g\<rparr>) cls parent kw args load = Inr ob"
proof (cases "\<exists>src. args = [src]")
  case False
  then show ?thesis by (auto simp: pb_init_def split: sum.splits prod.splits list.splits)
next
  case True
  then obtain src where args: "args = [src]" by blast
  let ?E = "m_name ` set (pb_members cls)" and ?l = "load = Some True"
  have perm: "distinct es \<and> set es = ?E" if "mset es = mset (pb_elements cls)" for es
    using assms(3) mset_eq_imp_distinct_iff [OF that] mset_eq_setD [OF that] by (simp add: members_ok_def)
  have char: "pb_init (lib\<lparr>key_order := h\<rparr>) cls parent kw args load = Inr ob \<longleftrightarrow>
      (\<exists>ob0. init_members lib (pb_members cls) (new_object cls parent kw) = (Inr (), ob0) \<and>
        (\<forall>e \<in> ?E. src e \<noteq> None \<and> copyable lib src ?l ob0 e) \<and>
        ob = ob0\<lparr>o_values := map (overlay lib src ?E ob0) (o_values ob0)\<rparr>)"
    if "mset (h (pb_elements cls)) = mset (pb_elements cls)" for h
  proof (cases "init_members lib (pb_members cls) (new_object cls parent kw)")
    case (Pair r ob0)
    show ?thesis
    proof (cases r)
      case (Inr u)
      with Pair have init: "init_members lib (pb_members cls) (new_object cls parent kw) = (Inr (), ob0)" by simp
      note iff = copy_members_iff [OF assms(1,2), of "h (pb_elements cls)" ob0 src ?l]
      have copy: "copy_members lib (h (pb_elements cls)) src ?l ob0 = (Inr (), ob1) \<longleftrightarrow>
          (\<forall>e \<in> ?E. copyable lib src ?l ob0 e) \<and> ob1 = ob0\<lparr>o_values := map (overlay lib src ?E ob0) (o_values ob0)\<rparr>" for ob1
        using iff [of ob1] perm [OF that] init_start(4,5) [OF init] by (simp add: list_all_iff)
      have all: "list_all (\<lambda>e. src e \<noteq> None) (h (pb_elements cls)) \<longleftrightarrow> (\<forall>e \<in> ?E. src e \<noteq> None)"
        using perm [OF that] by (simp add: list_all_iff)
      show ?thesis
        using init copy all
        by (cases "copy_members lib (h (pb_elements cls)) src ?l ob0")
          (auto simp: pb_init_def args split: sum.splits)
    qed (use Pair in \<open>simp add: pb_init_def\<close>)
  qed
  show ?thesis using char [of f] char [of g] assms(4,5) by simp
qed

text \<open>
  The keys of list entries are protected: an entry of a list, an object with a parent, cannot be made
  by copying unless \<open>load\<close> is given as true, if its class has a key among its elements.
\<close>

theorem list_entry_needs_load:
  assumes "hook_keeps lib" and "members_ok cls" and "k \<in> set (pb_members cls)" and "m_keyval k"
    and "mset (key_order lib (pb_elements cls)) = mset (pb_elements cls)" and "load \<noteq> Some True"
  shows "\<exists>e. pb_init lib cls (ParentObject pe pp) kw (src # others) load = Inl e"
proof -
  have stuck: "fst (copy_members lib es src False ob) \<noteq> Inr ()"
    if "m_name k \<in> set es" and "o_class ob = cls" and "o_parent ob = ParentObject pe pp" for es ob
    using that
  proof (induction es arbitrary: ob)
    case (Cons e es)
    show ?case
    proof
      assume "fst (copy_members lib (e # es) src False ob) = Inr ()"
      then obtain ob' where run: "copy_members lib (e # es) src False ob = (Inr (), ob')" by (metis prod.collapse)
      with copy_step [OF assms(1)] have step: "copyable lib src False ob e"
        "copy_members lib es src False (put_value e (projr (copied lib src ob e)) ob) = (Inr (), ob')" by blast+
      have "member_named cls (m_name k) = Some k"
        using assms(2,3) by (simp add: member_named_def members_ok_def find_distinct)
      then have "e \<noteq> m_name k"
        using step(1) Cons.prems assms(4) by (auto simp: copyable_def key_protected_def)
      with Cons.IH [of "put_value e (projr (copied lib src ob e)) ob"] step(2) Cons.prems show False by simp
    qed
  qed simp
  have k: "m_name k \<in> set (key_order lib (pb_elements cls))"
    using mset_eq_setD [OF assms(5)] assms(2,3) by (simp add: members_ok_def)
  show ?thesis
  proof (cases "init_members lib (pb_members cls) (new_object cls (ParentObject pe pp) kw)")
    case (Pair r ob0)
    show ?thesis
    proof (cases r)
      case (Inr u)
      with Pair have "init_members lib (pb_members cls) (new_object cls (ParentObject pe pp) kw) = (Inr (), ob0)" by simp
      from init_start [OF this] stuck [OF k, of ob0] Pair Inr assms(6) show ?thesis
        by (auto simp: pb_init_def split: sum.split prod.split)
    qed (use Pair in \<open>simp add: pb_init_def\<close>)
  qed
qed

end
