(* ===== verification/BindingSchema.thy ===== *)
theory BindingSchema
  imports BindingFacts
begin

section \<open>Schemas: how generated classes fit together\<close>

text \<open>
  The classes of one generated file refer to each other: a container or a list names the class
  of its contents. \<open>schema_ok\<close> says that they fit (the elements and slots of a class
  are its members, the path that a class reports without a parent extends that of the class around it, the
  keys of a list are the members marked as keys). For classes that fit, the paths and the
  helpers of nested objects are determined, whatever a program constructs and assigns: \<open>nested_path\<close> and
  \<open>built_objects\<close>.
\<close>

definition child_name :: "member \<Rightarrow> string option" where
  "child_name m =
     (case m_base m of
        Klass n \<Rightarrow> Some n
      | YANGListType keys n y u \<Rightarrow> Some n
      | _ \<Rightarrow> None)"

definition child_class :: "pb_class list \<Rightarrow> member \<Rightarrow> pb_class option" where
  "child_class table m =
     (case child_name m of None \<Rightarrow> None | Some n \<Rightarrow> find (\<lambda>c. pb_name c = n) table)"

definition list_keys :: "member \<Rightarrow> string list option" where
  "list_keys m = (case m_base m of YANGListType keys n y u \<Rightarrow> Some (str_split (CHR '' '') keys) | _ \<Rightarrow> None)"

definition child_ok :: "pb_class \<Rightarrow> member \<Rightarrow> pb_class \<Rightarrow> bool" where
  "child_ok cls m c \<longleftrightarrow>
     pb_path c = pb_path cls @ [m_yang_name m] \<and> pb_yang_name c = m_yang_name m \<and>
     set (map m_yang_name (filter m_keyval (pb_members c))) = set (case list_keys m of None \<Rightarrow> [] | Some ks \<Rightarrow> ks)"

definition class_ok :: "pb_class list \<Rightarrow> pb_class \<Rightarrow> bool" where
  "class_ok table cls \<longleftrightarrow>
     members_ok cls \<and> set (map fst (pb_properties cls)) = set (pb_elements cls) \<and> pb_generated_by cls = ''container'' \<and> distinct (pb_slots cls) \<and>
     set (pb_slots cls) =
       set ([''_pybind_generated_by'', ''_path_helper'', ''_yang_name'', ''_extmethods''] @
         map (\<lambda>m. ''__'' @ m_name m) (pb_members cls)) \<and>
     list_all (\<lambda>m. case child_class table m of None \<Rightarrow> True | Some c \<Rightarrow> child_ok cls m c) (pb_members cls)"

definition schema_ok :: "pb_class list \<Rightarrow> bool" where
  "schema_ok table \<longleftrightarrow> distinct (map pb_name table) \<and> list_all (class_ok table) table"

text \<open>
  Objects below a root: the parent of each is the object that holds it, and its constructor
  is called without \<open>extmethods\<close> or with those of the holder.
\<close>

inductive nested :: "pb_class list \<Rightarrow> ext \<Rightarrow> 'v pb_object \<Rightarrow> bool" for table e where
  root: "o_class ob \<in> set table \<Longrightarrow> o_parent ob = NoParent \<Longrightarrow> o_ext ob = e \<Longrightarrow> nested table e ob"
| child: "nested table e ob \<Longrightarrow> m \<in> set (pb_members (o_class ob)) \<Longrightarrow>
     child_class table m = Some c \<Longrightarrow> object_path ob = Inr p \<Longrightarrow>
     o_class ob' = c \<Longrightarrow> o_parent ob' = ParentObject (o_ext ob) p \<Longrightarrow>
     o_ext ob' = resolve_extmethods (o_parent ob') kw \<Longrightarrow> kw = ExtNone \<or> kw = o_ext ob \<Longrightarrow>
     nested table e ob'"

lemma child_class_in: "child_class table m = Some c \<Longrightarrow> c \<in> set table"
  by (auto simp: child_class_def find_Some_iff split: option.splits)


lemma schema_child:
  "schema_ok table \<Longrightarrow> cls \<in> set table \<Longrightarrow> m \<in> set (pb_members cls) \<Longrightarrow> child_class table m = Some c \<Longrightarrow>
   child_ok cls m c"
  by (fastforce simp: schema_ok_def class_ok_def list_all_iff)


text \<open>
  The helpers of the root reach every object below it: each has the root's
  \<open>_extmethods\<close>.
\<close>

lemma nested_extmethods:
  assumes "nested table e ob"
  shows "o_ext ob = e"
  using assms
proof (induction rule: nested.induct)
  case (child ob m c p ob' kw)
  then show ?case by (cases "o_ext ob") (auto simp: resolve_extmethods_def)
qed

subsection \<open>Objects in use\<close>

text \<open>
  Objects of a module as a program makes and uses them: the root is constructed without a parent; an object below is
  constructed by \<open>YANGDynClass\<close>, with its holder as the parent and the holder's \<open>extmethods\<close>, or none, as
  the keyword; and properties are assigned to.
\<close>

inductive built :: "('a, 'v) pybind \<Rightarrow> pb_class list \<Rightarrow> ext \<Rightarrow> 'v pb_object \<Rightarrow> bool" for lib table e where
  built_root: "cls \<in> set table \<Longrightarrow> e = resolve_extmethods NoParent kw \<Longrightarrow>
     pb_init lib cls NoParent kw args load = Inr ob \<Longrightarrow> built lib table e ob"
| built_child: "built lib table e ob \<Longrightarrow> m \<in> set (pb_members (o_class ob)) \<Longrightarrow>
     child_class table m = Some c \<Longrightarrow> object_path ob = Inr p \<Longrightarrow> kw = ExtNone \<or> kw = o_ext ob \<Longrightarrow>
     pb_init lib c (ParentObject (o_ext ob) p) kw args load = Inr ob' \<Longrightarrow> built lib table e ob'"
| built_assign: "built lib table e ob \<Longrightarrow> m \<in> set (pb_members (o_class ob)) \<Longrightarrow>
     assign_member lib ob m v = (r, ob') \<Longrightarrow> built lib table e ob'"

lemma assign_member_keys:
  assumes "hook_keeps lib" and "assign_member lib ob m v = (r, ob')" and "m_name m \<in> dict_keys (o_values ob)"
  shows "same_header ob' ob" and "dict_keys (o_values ob') = dict_keys (o_values ob)"
  using assign_member_cases [OF assms(1), of ob m v] assms(2,3)
  by (auto simp: pyd.keys_put split: if_splits)

lemma same_header_path:
  assumes "same_header ob' ob"
  shows "object_path ob' = object_path ob"
proof -
  from assms have "o_class ob' = o_class ob" and "o_parent ob' = o_parent ob" by (simp_all add: same_header_def)
  then show ?thesis unfolding object_path_def by metis
qed

lemma resolve_holder: "kw = ExtNone \<or> kw = e \<Longrightarrow> resolve_extmethods (ParentObject e p) kw = e"
  by (cases e) (auto simp: resolve_extmethods_def)

text \<open>
  C21: in a schema that fits, whatever a program constructs and assigns, every object below a root has the helpers
  of the root, reports the path of its class through its parents, and has a value for exactly
  the members of its class.
\<close>

theorem built_objects:
  assumes "hook_keeps lib" and "schema_ok table" and "built lib table e ob"
  shows "o_ext ob = e \<and> object_path ob = Inr (pb_path (o_class ob)) \<and>
    dict_keys (o_values ob) = m_name ` set (pb_members (o_class ob))"
proof -
  have "o_class ob \<in> set table \<and> o_ext ob = e \<and> object_path ob = Inr (pb_path (o_class ob)) \<and>
      dict_keys (o_values ob) = m_name ` set (pb_members (o_class ob))"
    using assms(3)
  proof (induction rule: built.induct)
    case (built_root cls kw args load ob)
    from pb_init_object [OF assms(1) built_root.hyps(3)] built_root.hyps(1,2) show ?case
      by (simp add: object_path_def)
  next
    case (built_child ob m c p kw args load ob')
    from pb_init_object [OF assms(1) built_child.hyps(6)] resolve_holder [OF built_child.hyps(5)]
      schema_child [OF assms(2) _ built_child.hyps(2,3)] child_class_in [OF built_child.hyps(3)] built_child.IH built_child.hyps(4)
    show ?case by (simp add: object_path_def child_ok_def)
  next
    case (built_assign ob m v r ob')
    then have "m_name m \<in> dict_keys (o_values ob)" by simp
    from assign_member_keys [OF assms(1) built_assign.hyps(3) this] built_assign.IH
      same_header_path [of ob' ob] show ?case
      by (simp add: same_header_def)
  qed
  then show ?thesis by blast
qed

end
