(* ===== verification/ToasterBinding.thy ===== *)
theory ToasterBinding
  imports BindingSchema
begin

section \<open>The binding of the module toaster\<close>

text \<open>
  The classes of \<open>modules/generated-code/toaster.py\<close>: for each class its members, as its constructor, its setters and
  its \<open>_unset\<close> methods describe them in the same words, its properties (\<open>True\<close> for one with a
  setter) and \<open>_pyangbind_elements\<close>, and then the class. A class with the
  body \<open>pass\<close> has no members and no methods of its own and is left out.
\<close>

definition yc_toaster_toaster__toaster_toasterManufacturer :: member where
  "yc_toaster_toaster__toaster_toasterManufacturer =
     \<lparr>
      m_name = ''toasterManufacturer'',
      m_base = RestrictedClassType (Klass ''unicode'') [(''length'', RList [''0 .. 255''])],
      m_kind = LeafKind True,
      m_default = None,
      m_yang_name = ''toasterManufacturer'',
      m_register_paths = True,
      m_keyval = False,
      m_namespace = ''http://netconfcentral.org/ns/toaster'',
      m_module = ''toaster'',
      m_yang_type = ''DisplayString'',
      m_defined_type = ''toaster:DisplayString''\<rparr>"

definition yc_toaster_toaster__toaster_toasterModelNumber :: member where
  "yc_toaster_toaster__toaster_toasterModelNumber =
     \<lparr>
      m_name = ''toasterModelNumber'',
      m_base = RestrictedClassType (Klass ''unicode'') [(''length'', RList [''0 .. 255''])],
      m_kind = LeafKind True,
      m_default = None,
      m_yang_name = ''toasterModelNumber'',
      m_register_paths = True,
      m_keyval = False,
      m_namespace = ''http://netconfcentral.org/ns/toaster'',
      m_module = ''toaster'',
      m_yang_type = ''DisplayString'',
      m_defined_type = ''toaster:DisplayString''\<rparr>"

definition yc_toaster_toaster__toaster_toasterStatus :: member where
  "yc_toaster_toaster__toaster_toasterStatus =
     \<lparr>
      m_name = ''toasterStatus'',
      m_base = RestrictedDictKey (Klass ''unicode'') [(''down'', [(''value'', KInt 2)]), (''up'', [(''value'', KInt
        1)])],
      m_kind = LeafKind True,
      m_default = None,
      m_yang_name = ''toasterStatus'',
      m_register_paths = True,
      m_keyval = False,
      m_namespace = ''http://netconfcentral.org/ns/toaster'',
      m_module = ''toaster'',
      m_yang_type = ''enumeration'',
      m_defined_type = ''toaster:enumeration''\<rparr>"

definition yc_toaster_toaster__toaster_properties :: "(string \<times> bool) list" where
  "yc_toaster_toaster__toaster_properties =
     [(''toasterManufacturer'', False), (''toasterModelNumber'', False), (''toasterStatus'', False)]"

definition yc_toaster_toaster__toaster_elements :: "string list" where
  "yc_toaster_toaster__toaster_elements =
     [''toasterManufacturer'', ''toasterModelNumber'', ''toasterStatus'']"

definition yc_toaster_toaster__toaster :: pb_class where
  "yc_toaster_toaster__toaster =
     \<lparr>
      pb_name = ''yc_toaster_toaster__toaster'',
      pb_slots = [''_pybind_generated_by'', ''_path_helper'', ''_yang_name'', ''_extmethods'',
        ''__toasterManufacturer'', ''__toasterModelNumber'', ''__toasterStatus''],
      pb_yang_name = ''toaster'',
      pb_generated_by = ''container'',
      pb_path = [''toaster''],
      pb_members = [yc_toaster_toaster__toaster_toasterManufacturer, yc_toaster_toaster__toaster_toasterModelNumber,
        yc_toaster_toaster__toaster_toasterStatus],
      pb_properties = yc_toaster_toaster__toaster_properties,
      pb_elements = yc_toaster_toaster__toaster_elements\<rparr>"

definition toaster_toaster :: member where
  "toaster_toaster =
     \<lparr>
      m_name = ''toaster'',
      m_base = Klass ''yc_toaster_toaster__toaster'',
      m_kind = ContainerKind ''container'',
      m_default = None,
      m_yang_name = ''toaster'',
      m_register_paths = True,
      m_keyval = False,
      m_namespace = ''http://netconfcentral.org/ns/toaster'',
      m_module = ''toaster'',
      m_yang_type = ''container'',
      m_defined_type = ''container''\<rparr>"

definition toaster_properties :: "(string \<times> bool) list" where
  "toaster_properties =
     [(''toaster'', True)]"

definition toaster_elements :: "string list" where
  "toaster_elements =
     [''toaster'']"

definition toaster :: pb_class where
  "toaster =
     \<lparr>
      pb_name = ''toaster'',
      pb_slots = [''_pybind_generated_by'', ''_path_helper'', ''_yang_name'', ''_extmethods'', ''__toaster''],
      pb_yang_name = ''toaster'',
      pb_generated_by = ''container'',
      pb_path = [],
      pb_members = [toaster_toaster],
      pb_properties = toaster_properties,
      pb_elements = toaster_elements\<rparr>"

definition yc_input_toaster__toaster_rpc_make_toast_input_toasterToastType :: member where
  "yc_input_toaster__toaster_rpc_make_toast_input_toasterToastType =
     \<lparr>
      m_name = ''toasterToastType'',
      m_base = RestrictedDictKey (Klass ''unicode'') [(''white-bread'', [(''@module'', KText ''toaster''),
        (''@namespace'', KText ''http://netconfcentral.org/ns/toaster'')]), (''toast:wheat-bread'', [(''@module'',
        KText ''toaster''), (''@namespace'', KText ''http://netconfcentral.org/ns/toaster'')]), (''frozen-bagel'',
        [(''@module'', KText ''toaster''), (''@namespace'', KText ''http://netconfcentral.org/ns/toaster'')]),
        (''wonder-bread'', [(''@module'', KText ''toaster''), (''@namespace'', KText
        ''http://netconfcentral.org/ns/toaster'')]), (''toast:frozen-bagel'', [(''@module'', KText ''toaster''),
        (''@namespace'', KText ''http://netconfcentral.org/ns/toaster'')]), (''toast:hash-brown'', [(''@module'',
        KText ''toaster''), (''@namespace'', KText ''http://netconfcentral.org/ns/toaster'')]),
        (''toast:wonder-bread'', [(''@module'', KText ''toaster''), (''@namespace'', KText
        ''http://netconfcentral.org/ns/toaster'')]), (''toast:white-bread'', [(''@module'', KText ''toaster''),
        (''@namespace'', KText ''http://netconfcentral.org/ns/toaster'')]), (''hash-brown'', [(''@module'', KText
        ''toaster''), (''@namespace'', KText ''http://netconfcentral.org/ns/toaster'')]), (''frozen-waffle'',
        [(''@module'', KText ''toaster''), (''@namespace'', KText ''http://netconfcentral.org/ns/toaster'')]),
        (''toast:frozen-waffle'', [(''@module'', KText ''toaster''), (''@namespace'', KText
        ''http://netconfcentral.org/ns/toaster'')]), (''wheat-bread'', [(''@module'', KText ''toaster''),
        (''@namespace'', KText ''http://netconfcentral.org/ns/toaster'')])],
      m_kind = LeafKind True,
      m_default = Some (''unicode'', ''toast:wheat-bread''),
      m_yang_name = ''toasterToastType'',
      m_register_paths = False,
      m_keyval = False,
      m_namespace = ''http://netconfcentral.org/ns/toaster'',
      m_module = ''toaster'',
      m_yang_type = ''identityref'',
      m_defined_type = ''toaster:identityref''\<rparr>"

definition yc_input_toaster__toaster_rpc_make_toast_input_toasterDoneness :: member where
  "yc_input_toaster__toaster_rpc_make_toast_input_toasterDoneness =
     \<lparr>
      m_name = ''toasterDoneness'',
      m_base = RestrictedClassType (Klass ''np.uint32'') [(''range'', RList [''1 .. 10''])],
      m_kind = LeafKind True,
      m_default = Some (''np.uint32'', ''5''),
      m_yang_name = ''toasterDoneness'',
      m_register_paths = False,
      m_keyval = False,
      m_namespace = ''http://netconfcentral.org/ns/toaster'',
      m_module = ''toaster'',
      m_yang_type = ''uint32'',
      m_defined_type = ''uint32''\<rparr>"

definition yc_input_toaster__toaster_rpc_make_toast_input_properties :: "(string \<times> bool) list" where
  "yc_input_toaster__toaster_rpc_make_toast_input_properties =
     [(''toasterDoneness'', True), (''toasterToastType'', True)]"

definition yc_input_toaster__toaster_rpc_make_toast_input_elements :: "string list" where
  "yc_input_toaster__toaster_rpc_make_toast_input_elements =
     [''toasterDoneness'', ''toasterToastType'']"

definition yc_input_toaster__toaster_rpc_make_toast_input :: pb_class where
  "yc_input_toaster__toaster_rpc_make_toast_input =
     \<lparr>
      pb_name = ''yc_input_toaster__toaster_rpc_make_toast_input'',
      pb_slots = [''_pybind_generated_by'', ''_path_helper'', ''_yang_name'', ''_extmethods'', ''__toasterDoneness'',
        ''__toasterToastType''],
      pb_yang_name = ''input'',
      pb_generated_by = ''container'',
      pb_path = [''toaster_rpc'', ''make-toast'', ''input''],
      pb_members = [yc_input_toaster__toaster_rpc_make_toast_input_toasterToastType,
        yc_input_toaster__toaster_rpc_make_toast_input_toasterDoneness],
      pb_properties = yc_input_toaster__toaster_rpc_make_toast_input_properties,
      pb_elements = yc_input_toaster__toaster_rpc_make_toast_input_elements\<rparr>"

definition yc_make_toast_toaster__toaster_rpc_make_toast_input :: member where
  "yc_make_toast_toaster__toaster_rpc_make_toast_input =
     \<lparr>
      m_name = ''input'',
      m_base = Klass ''yc_input_toaster__toaster_rpc_make_toast_input'',
      m_kind = LeafKind True,
      m_default = None,
      m_yang_name = ''input'',
      m_register_paths = False,
      m_keyval = False,
      m_namespace = ''http://netconfcentral.org/ns/toaster'',
      m_module = ''toaster'',
      m_yang_type = ''input'',
      m_defined_type = ''toaster:input''\<rparr>"

definition yc_make_toast_toaster__toaster_rpc_make_toast_properties :: "(string \<times> bool) list" where
  "yc_make_toast_toaster__toaster_rpc_make_toast_properties =
     [(''input'', True)]"

definition yc_make_toast_toaster__toaster_rpc_make_toast_elements :: "string list" where
  "yc_make_toast_toaster__toaster_rpc_make_toast_elements =
     [''input'']"

definition yc_make_toast_toaster__toaster_rpc_make_toast :: pb_class where
  "yc_make_toast_toaster__toaster_rpc_make_toast =
     \<lparr>
      pb_name = ''yc_make_toast_toaster__toaster_rpc_make_toast'',
      pb_slots = [''_pybind_generated_by'', ''_path_helper'', ''_yang_name'', ''_extmethods'', ''__input''],
      pb_yang_name = ''make-toast'',
      pb_generated_by = ''container'',
      pb_path = [''toaster_rpc'', ''make-toast''],
      pb_members = [yc_make_toast_toaster__toaster_rpc_make_toast_input],
      pb_properties = yc_make_toast_toaster__toaster_rpc_make_toast_properties,
      pb_elements = yc_make_toast_toaster__toaster_rpc_make_toast_elements\<rparr>"

definition yc_toaster_toaster__toaster_rpc_make_toast :: member where
  "yc_toaster_toaster__toaster_rpc_make_toast =
     \<lparr>
      m_name = ''make_toast'',
      m_base = Klass ''yc_make_toast_toaster__toaster_rpc_make_toast'',
      m_kind = LeafKind True,
      m_default = None,
      m_yang_name = ''make-toast'',
      m_register_paths = False,
      m_keyval = False,
      m_namespace = ''http://netconfcentral.org/ns/toaster'',
      m_module = ''toaster'',
      m_yang_type = ''rpc'',
      m_defined_type = ''rpc''\<rparr>"

definition yc_toaster_toaster__toaster_rpc_cancel_toast :: member where
  "yc_toaster_toaster__toaster_rpc_cancel_toast =
     \<lparr>
      m_name = ''cancel_toast'',
      m_base = Klass ''yc_cancel_toast_toaster__toaster_rpc_cancel_toast'',
      m_kind = LeafKind True,
      m_default = None,
      m_yang_name = ''cancel-toast'',
      m_register_paths = False,
      m_keyval = False,
      m_namespace = ''http://netconfcentral.org/ns/toaster'',
      m_module = ''toaster'',
      m_yang_type = ''rpc'',
      m_defined_type = ''rpc''\<rparr>"

definition yc_toaster_toaster__toaster_rpc_properties :: "(string \<times> bool) list" where
  "yc_toaster_toaster__toaster_rpc_properties =
     [(''make_toast'', True), (''cancel_toast'', True)]"

definition yc_toaster_toaster__toaster_rpc_elements :: "string list" where
  "yc_toaster_toaster__toaster_rpc_elements =
     [''make_toast'', ''cancel_toast'']"

definition yc_toaster_toaster__toaster_rpc :: pb_class where
  "yc_toaster_toaster__toaster_rpc =
     \<lparr>
      pb_name = ''yc_toaster_toaster__toaster_rpc'',
      pb_slots = [''_pybind_generated_by'', ''_path_helper'', ''_yang_name'', ''_extmethods'', ''__make_toast'',
        ''__cancel_toast''],
      pb_yang_name = ''toaster'',
      pb_generated_by = ''container'',
      pb_path = [''toaster_rpc''],
      pb_members = [yc_toaster_toaster__toaster_rpc_make_toast, yc_toaster_toaster__toaster_rpc_cancel_toast],
      pb_properties = yc_toaster_toaster__toaster_rpc_properties,
      pb_elements = yc_toaster_toaster__toaster_rpc_elements\<rparr>"

definition toaster_classes :: "pb_class list" where
  "toaster_classes =
     [yc_toaster_toaster__toaster, toaster, yc_input_toaster__toaster_rpc_make_toast_input,
       yc_make_toast_toaster__toaster_rpc_make_toast, yc_toaster_toaster__toaster_rpc]"

lemmas toaster_defs =
  yc_toaster_toaster__toaster_toasterManufacturer_def
  yc_toaster_toaster__toaster_toasterModelNumber_def
  yc_toaster_toaster__toaster_toasterStatus_def
  yc_toaster_toaster__toaster_properties_def
  yc_toaster_toaster__toaster_elements_def
  yc_toaster_toaster__toaster_def
  toaster_toaster_def
  toaster_properties_def
  toaster_elements_def
  toaster_def
  yc_input_toaster__toaster_rpc_make_toast_input_toasterToastType_def
  yc_input_toaster__toaster_rpc_make_toast_input_toasterDoneness_def
  yc_input_toaster__toaster_rpc_make_toast_input_properties_def
  yc_input_toaster__toaster_rpc_make_toast_input_elements_def
  yc_input_toaster__toaster_rpc_make_toast_input_def
  yc_make_toast_toaster__toaster_rpc_make_toast_input_def
  yc_make_toast_toaster__toaster_rpc_make_toast_properties_def
  yc_make_toast_toaster__toaster_rpc_make_toast_elements_def
  yc_make_toast_toaster__toaster_rpc_make_toast_def
  yc_toaster_toaster__toaster_rpc_make_toast_def
  yc_toaster_toaster__toaster_rpc_cancel_toast_def
  yc_toaster_toaster__toaster_rpc_properties_def
  yc_toaster_toaster__toaster_rpc_elements_def
  yc_toaster_toaster__toaster_rpc_def
  toaster_classes_def

lemma toaster_schema: "schema_ok toaster_classes"
  by code_simp

end
