(* ===== verification/YangLibraryBinding.thy ===== *)
theory YangLibraryBinding
  imports BindingSchema
begin

section \<open>The binding of the module ietf-yang-library\<close>

text \<open>
  The classes of \<open>tools/mockDevice/ietf_yang_library.py\<close>: for each class its members, as its constructor, its setters and
  its \<open>_unset\<close> methods describe them in the same words, its properties (\<open>True\<close> for one with a
  setter) and \<open>_pyangbind_elements\<close>, and then the class. A class with the
  body \<open>pass\<close> has no members and no methods of its own and is left out.
\<close>

definition yc_deviation_ietf_yang_library__modules_state_module_deviation_name :: member where
  "yc_deviation_ietf_yang_library__modules_state_module_deviation_name =
     \<lparr>
      m_name = ''name'',
      m_base = RestrictedClassType (Klass ''unicode'') [(''pattern'', RText (''[a-zA-Z_][a-zA-Z0-9'' @ [CHR 0x5C] @
        ''-_.]*'')), (''length'', RList [''1..max''])],
      m_kind = LeafKind True,
      m_default = None,
      m_yang_name = ''name'',
      m_register_paths = True,
      m_keyval = True,
      m_namespace = ''urn:ietf:params:xml:ns:yang:ietf-yang-library'',
      m_module = ''ietf-yang-library'',
      m_yang_type = ''yang:yang-identifier'',
      m_defined_type = ''yang:yang-identifier''\<rparr>"

definition yc_deviation_ietf_yang_library__modules_state_module_deviation_revision :: member where
  "yc_deviation_ietf_yang_library__modules_state_module_deviation_revision =
     \<lparr>
      m_name = ''revision'',
      m_base = UnionOf [RestrictedClassType (Klass ''unicode'') [(''pattern'', RText ([CHR 0x5C] @ ''d{4}-'' @ [CHR
        0x5C] @ ''d{2}-'' @ [CHR 0x5C] @ ''d{2}''))], RestrictedClassType (Klass ''unicode'') [(''length'', RList
        [''0''])]],
      m_kind = LeafKind True,
      m_default = None,
      m_yang_name = ''revision'',
      m_register_paths = True,
      m_keyval = True,
      m_namespace = ''urn:ietf:params:xml:ns:yang:ietf-yang-library'',
      m_module = ''ietf-yang-library'',
      m_yang_type = ''union'',
      m_defined_type = ''ietf-yang-library:union''\<rparr>"

definition yc_deviation_ietf_yang_library__modules_state_module_deviation_properties :: "(string \<times> bool) list" where
  "yc_deviation_ietf_yang_library__modules_state_module_deviation_properties =
     [(''name'', False), (''revision'', False)]"

definition yc_deviation_ietf_yang_library__modules_state_module_deviation_elements :: "string list" where
  "yc_deviation_ietf_yang_library__modules_state_module_deviation_elements =
     [''name'', ''revision'']"

definition yc_deviation_ietf_yang_library__modules_state_module_deviation :: pb_class where
  "yc_deviation_ietf_yang_library__modules_state_module_deviation =
     \<lparr>
      pb_name = ''yc_deviation_ietf_yang_library__modules_state_module_deviation'',
      pb_slots = [''_pybind_generated_by'', ''_path_helper'', ''_yang_name'', ''_extmethods'', ''__name'',
        ''__revision''],
      pb_yang_name = ''deviation'',
      pb_generated_by = ''container'',
      pb_path = [''modules-state'', ''module'', ''deviation''],
      pb_members = [yc_deviation_ietf_yang_library__modules_state_module_deviation_name,
        yc_deviation_ietf_yang_library__modules_state_module_deviation_revision],
      pb_properties = yc_deviation_ietf_yang_library__modules_state_module_deviation_properties,
      pb_elements = yc_deviation_ietf_yang_library__modules_state_module_deviation_elements\<rparr>"

definition yc_submodule_ietf_yang_library__modules_state_module_submodules_submodule_schema :: member where
  "yc_submodule_ietf_yang_library__modules_state_module_submodules_submodule_schema =
     \<lparr>
      m_name = ''schema'',
      m_base = Klass ''unicode'',
      m_kind = LeafKind True,
      m_default = None,
      m_yang_name = ''schema'',
      m_register_paths = True,
      m_keyval = False,
      m_namespace = ''urn:ietf:params:xml:ns:yang:ietf-yang-library'',
      m_module = ''ietf-yang-library'',
      m_yang_type = ''inet:uri'',
      m_defined_type = ''inet:uri''\<rparr>"

definition yc_submodule_ietf_yang_library__modules_state_module_submodules_submodule_name :: member where
  "yc_submodule_ietf_yang_library__modules_state_module_submodules_submodule_name =
     \<lparr>
      m_name = ''name'',
      m_base = RestrictedClassType (Klass ''unicode'') [(''pattern'', RText (''[a-zA-Z_][a-zA-Z0-9'' @ [CHR 0x5C] @
        ''-_.]*'')), (''length'', RList [''1..max''])],
      m_kind = LeafKind True,
      m_default = None,
      m_yang_name = ''name'',
      m_register_paths = True,
      m_keyval = True,
      m_namespace = ''urn:ietf:params:xml:ns:yang:ietf-yang-library'',
      m_module = ''ietf-yang-library'',
      m_yang_type = ''yang:yang-identifier'',
      m_defined_type = ''yang:yang-identifier''\<rparr>"

definition yc_submodule_ietf_yang_library__modules_state_module_submodules_submodule_revision :: member where
  "yc_submodule_ietf_yang_library__modules_state_module_submodules_submodule_revision =
     \<lparr>
      m_name = ''revision'',
      m_base = UnionOf [RestrictedClassType (Klass ''unicode'') [(''pattern'', RText ([CHR 0x5C] @ ''d{4}-'' @ [CHR
        0x5C] @ ''d{2}-'' @ [CHR 0x5C] @ ''d{2}''))], RestrictedClassType (Klass ''unicode'') [(''length'', RList
        [''0''])]],
      m_kind = LeafKind True,
      m_default = None,
      m_yang_name = ''revision'',
      m_register_paths = True,
      m_keyval = True,
      m_namespace = ''urn:ietf:params:xml:ns:yang:ietf-yang-library'',
      m_module = ''ietf-yang-library'',
      m_yang_type = ''union'',
      m_defined_type = ''ietf-yang-library:union''\<rparr>"

definition yc_submodule_ietf_yang_library__modules_state_module_submodules_submodule_properties :: "(string \<times> bool) list" where
  "yc_submodule_ietf_yang_library__modules_state_module_submodules_submodule_properties =
     [(''name'', False), (''revision'', False), (''schema'', False)]"

definition yc_submodule_ietf_yang_library__modules_state_module_submodules_submodule_elements :: "string list" where
  "yc_submodule_ietf_yang_library__modules_state_module_submodules_submodule_elements =
     [''name'', ''revision'', ''schema'']"

definition yc_submodule_ietf_yang_library__modules_state_module_submodules_submodule :: pb_class where
  "yc_submodule_ietf_yang_library__modules_state_module_submodules_submodule =
     \<lparr>
      pb_name = ''yc_submodule_ietf_yang_library__modules_state_module_submodules_submodule'',
      pb_slots = [''_pybind_generated_by'', ''_path_helper'', ''_yang_name'', ''_extmethods'', ''__name'',
        ''__revision'', ''__schema''],
      pb_yang_name = ''submodule'',
      pb_generated_by = ''container'',
      pb_path = [''modules-state'', ''module'', ''submodules'', ''submodule''],
      pb_members = [yc_submodule_ietf_yang_library__modules_state_module_submodules_submodule_schema,
        yc_submodule_ietf_yang_library__modules_state_module_submodules_submodule_name,
        yc_submodule_ietf_yang_library__modules_state_module_submodules_submodule_revision],
      pb_properties = yc_submodule_ietf_yang_library__modules_state_module_submodules_submodule_properties,
      pb_elements = yc_submodule_ietf_yang_library__modules_state_module_submodules_submodule_elements\<rparr>"

definition yc_submodules_ietf_yang_library__modules_state_module_submodules_submodule :: member where
  "yc_submodules_ietf_yang_library__modules_state_module_submodules_submodule =
     \<lparr>
      m_name = ''submodule'',
      m_base = YANGListType ''name revision''
        ''yc_submodule_ietf_yang_library__modules_state_module_submodules_submodule'' ''submodule'' False,
      m_kind = ContainerKind ''list'',
      m_default = None,
      m_yang_name = ''submodule'',
      m_register_paths = True,
      m_keyval = False,
      m_namespace = ''urn:ietf:params:xml:ns:yang:ietf-yang-library'',
      m_module = ''ietf-yang-library'',
      m_yang_type = ''list'',
      m_defined_type = ''list''\<rparr>"

definition yc_submodules_ietf_yang_library__modules_state_module_submodules_properties :: "(string \<times> bool) list" where
  "yc_submodules_ietf_yang_library__modules_state_module_submodules_properties =
     [(''submodule'', False)]"

definition yc_submodules_ietf_yang_library__modules_state_module_submodules_elements :: "string list" where
  "yc_submodules_ietf_yang_library__modules_state_module_submodules_elements =
     [''submodule'']"

definition yc_submodules_ietf_yang_library__modules_state_module_submodules :: pb_class where
  "yc_submodules_ietf_yang_library__modules_state_module_submodules =
     \<lparr>
      pb_name = ''yc_submodules_ietf_yang_library__modules_state_module_submodules'',
      pb_slots = [''_pybind_generated_by'', ''_path_helper'', ''_yang_name'', ''_extmethods'', ''__submodule''],
      pb_yang_name = ''submodules'',
      pb_generated_by = ''container'',
      pb_path = [''modules-state'', ''module'', ''submodules''],
      pb_members = [yc_submodules_ietf_yang_library__modules_state_module_submodules_submodule],
      pb_properties = yc_submodules_ietf_yang_library__modules_state_module_submodules_properties,
      pb_elements = yc_submodules_ietf_yang_library__modules_state_module_submodules_elements\<rparr>"

definition yc_module_ietf_yang_library__modules_state_module_deviation :: member where
  "yc_module_ietf_yang_library__modules_state_module_deviation =
     \<lparr>
      m_name = ''deviation'',
      m_base = YANGListType ''name revision'' ''yc_deviation_ietf_yang_library__modules_state_module_deviation''
        ''deviation'' False,
      m_kind = ContainerKind ''list'',
      m_default = None,
      m_yang_name = ''deviation'',
      m_register_paths = True,
      m_keyval = False,
      m_namespace = ''urn:ietf:params:xml:ns:yang:ietf-yang-library'',
      m_module = ''ietf-yang-library'',
      m_yang_type = ''list'',
      m_defined_type = ''list''\<rparr>"

definition yc_module_ietf_yang_library__modules_state_module_name :: member where
  "yc_module_ietf_yang_library__modules_state_module_name =
     \<lparr>
      m_name = ''name'',
      m_base = RestrictedClassType (Klass ''unicode'') [(''pattern'', RText (''[a-zA-Z_][a-zA-Z0-9'' @ [CHR 0x5C] @
        ''-_.]*'')), (''length'', RList [''1..max''])],
      m_kind = LeafKind True,
      m_default = None,
      m_yang_name = ''name'',
      m_register_paths = True,
      m_keyval = True,
      m_namespace = ''urn:ietf:params:xml:ns:yang:ietf-yang-library'',
      m_module = ''ietf-yang-library'',
      m_yang_type = ''yang:yang-identifier'',
      m_defined_type = ''yang:yang-identifier''\<rparr>"

definition yc_module_ietf_yang_library__modules_state_module_submodules :: member where
  "yc_module_ietf_yang_library__modules_state_module_submodules =
     \<lparr>
      m_name = ''submodules'',
      m_base = Klass ''yc_submodules_ietf_yang_library__modules_state_module_submodules'',
      m_kind = ContainerKind ''container'',
      m_default = None,
      m_yang_name = ''submodules'',
      m_register_paths = True,
      m_keyval = False,
      m_namespace = ''urn:ietf:params:xml:ns:yang:ietf-yang-library'',
      m_module = ''ietf-yang-library'',
      m_yang_type = ''container'',
      m_defined_type = ''container''\<rparr>"

definition yc_module_ietf_yang_library__modules_state_module_conformance_type :: member where
  "yc_module_ietf_yang_library__modules_state_module_conformance_type =
     \<lparr>
      m_name = ''conformance_type'',
      m_base = RestrictedDictKey (Klass ''unicode'') [(''import'', []), (''implement'', [])],
      m_kind = LeafKind True,
      m_default = None,
      m_yang_name = ''conformance-type'',
      m_register_paths = True,
      m_keyval = False,
      m_namespace = ''urn:ietf:params:xml:ns:yang:ietf-yang-library'',
      m_module = ''ietf-yang-library'',
      m_yang_type = ''enumeration'',
      m_defined_type = ''ietf-yang-library:enumeration''\<rparr>"

definition yc_module_ietf_yang_library__modules_state_module_namespace :: member where
  "yc_module_ietf_yang_library__modules_state_module_namespace =
     \<lparr>
      m_name = ''namespace'',
      m_base = Klass ''unicode'',
      m_kind = LeafKind True,
      m_default = None,
      m_yang_name = ''namespace'',
      m_register_paths = True,
      m_keyval = False,
      m_namespace = ''urn:ietf:params:xml:ns:yang:ietf-yang-library'',
      m_module = ''ietf-yang-library'',
      m_yang_type = ''inet:uri'',
      m_defined_type = ''inet:uri''\<rparr>"

definition yc_module_ietf_yang_library__modules_state_module_feature :: member where
  "yc_module_ietf_yang_library__modules_state_module_feature =
     \<lparr>
      m_name = ''feature'',
      m_base = TypedListType (RestrictedClassType (Klass ''unicode'') [(''pattern'', RText (''[a-zA-Z_][a-zA-Z0-9'' @
        [CHR 0x5C] @ ''-_.]*'')), (''length'', RList [''1..max''])]),
      m_kind = LeafKind False,
      m_default = None,
      m_yang_name = ''feature'',
      m_register_paths = True,
      m_keyval = False,
      m_namespace = ''urn:ietf:params:xml:ns:yang:ietf-yang-library'',
      m_module = ''ietf-yang-library'',
      m_yang_type = ''yang:yang-identifier'',
      m_defined_type = ''yang:yang-identifier''\<rparr>"

definition yc_module_ietf_yang_library__modules_state_module_revision :: member where
  "yc_module_ietf_yang_library__modules_state_module_revision =
     \<lparr>
      m_name = ''revision'',
      m_base = UnionOf [RestrictedClassType (Klass ''unicode'') [(''pattern'', RText ([CHR 0x5C] @ ''d{4}-'' @ [CHR
        0x5C] @ ''d{2}-'' @ [CHR 0x5C] @ ''d{2}''))], RestrictedClassType (Klass ''unicode'') [(''length'', RList
        [''0''])]],
      m_kind = LeafKind True,
      m_default = None,
      m_yang_name = ''revision'',
      m_register_paths = True,
      m_keyval = True,
      m_namespace = ''urn:ietf:params:xml:ns:yang:ietf-yang-library'',
      m_module = ''ietf-yang-library'',
      m_yang_type = ''union'',
      m_defined_type = ''ietf-yang-library:union''\<rparr>"

definition yc_module_ietf_yang_library__modules_state_module_schema :: member where
  "yc_module_ietf_yang_library__modules_state_module_schema =
     \<lparr>
      m_name = ''schema'',
      m_base = Klass ''unicode'',
      m_kind = LeafKind True,
      m_default = None,
      m_yang_name = ''schema'',
      m_register_paths = True,
      m_keyval = False,
      m_namespace = ''urn:ietf:params:xml:ns:yang:ietf-yang-library'',
      m_module = ''ietf-yang-library'',
      m_yang_type = ''inet:uri'',
      m_defined_type = ''inet:uri''\<rparr>"

definition yc_module_ietf_yang_library__modules_state_module_properties :: "(string \<times> bool) list" where
  "yc_module_ietf_yang_library__modules_state_module_properties =
     [(''name'', False), (''revision'', False), (''schema'', False), (''namespace'', False), (''feature'', False),
       (''deviation'', False), (''conformance_type'', False), (''submodules'', False)]"

definition yc_module_ietf_yang_library__modules_state_module_elements :: "string list" where
  "yc_module_ietf_yang_library__modules_state_module_elements =
     [''name'', ''revision'', ''schema'', ''namespace'', ''feature'', ''deviation'', ''conformance_type'',
       ''submodules'']"

definition yc_module_ietf_yang_library__modules_state_module :: pb_class where
  "yc_module_ietf_yang_library__modules_state_module =
     \<lparr>
      pb_name = ''yc_module_ietf_yang_library__modules_state_module'',
      pb_slots = [''_pybind_generated_by'', ''_path_helper'', ''_yang_name'', ''_extmethods'', ''__name'',
        ''__revision'', ''__schema'', ''__namespace'', ''__feature'', ''__deviation'', ''__conformance_type'',
        ''__submodules''],
      pb_yang_name = ''module'',
      pb_generated_by = ''container'',
      pb_path = [''modules-state'', ''module''],
      pb_members = [yc_module_ietf_yang_library__modules_state_module_deviation,
        yc_module_ietf_yang_library__modules_state_module_name,
        yc_module_ietf_yang_library__modules_state_module_submodules,
        yc_module_ietf_yang_library__modules_state_module_conformance_type,
        yc_module_ietf_yang_library__modules_state_module_namespace,
        yc_module_ietf_yang_library__modules_state_module_feature,
        yc_module_ietf_yang_library__modules_state_module_revision,
        yc_module_ietf_yang_library__modules_state_module_schema],
      pb_properties = yc_module_ietf_yang_library__modules_state_module_properties,
      pb_elements = yc_module_ietf_yang_library__modules_state_module_elements\<rparr>"

definition yc_modules_state_ietf_yang_library__modules_state_module :: member where
  "yc_modules_state_ietf_yang_library__modules_state_module =
     \<lparr>
      m_name = ''module'',
      m_base = YANGListType ''name revision'' ''yc_module_ietf_yang_library__modules_state_module'' ''module'' False,
      m_kind = ContainerKind ''list'',
      m_default = None,
      m_yang_name = ''module'',
      m_register_paths = True,
      m_keyval = False,
      m_namespace = ''urn:ietf:params:xml:ns:yang:ietf-yang-library'',
      m_module = ''ietf-yang-library'',
      m_yang_type = ''list'',
      m_defined_type = ''list''\<rparr>"

definition yc_modules_state_ietf_yang_library__modules_state_module_set_id :: member where
  "yc_modules_state_ietf_yang_library__modules_state_module_set_id =
     \<lparr>
      m_name = ''module_set_id'',
      m_base = Klass ''unicode'',
      m_kind = LeafKind True,
      m_default = None,
      m_yang_name = ''module-set-id'',
      m_register_paths = True,
      m_keyval = False,
      m_namespace = ''urn:ietf:params:xml:ns:yang:ietf-yang-library'',
      m_module = ''ietf-yang-library'',
      m_yang_type = ''string'',
      m_defined_type = ''string''\<rparr>"

definition yc_modules_state_ietf_yang_library__modules_state_properties :: "(string \<times> bool) list" where
  "yc_modules_state_ietf_yang_library__modules_state_properties =
     [(''module_set_id'', False), (''module'', False)]"

definition yc_modules_state_ietf_yang_library__modules_state_elements :: "string list" where
  "yc_modules_state_ietf_yang_library__modules_state_elements =
     [''module_set_id'', ''module'']"

definition yc_modules_state_ietf_yang_library__modules_state :: pb_class where
  "yc_modules_state_ietf_yang_library__modules_state =
     \<lparr>
      pb_name = ''yc_modules_state_ietf_yang_library__modules_state'',
      pb_slots = [''_pybind_generated_by'', ''_path_helper'', ''_yang_name'', ''_extmethods'', ''__module_set_id'',
        ''__module''],
      pb_yang_name = ''modules-state'',
      pb_generated_by = ''container'',
      pb_path = [''modules-state''],
      pb_members = [yc_modules_state_ietf_yang_library__modules_state_module,
        yc_modules_state_ietf_yang_library__modules_state_module_set_id],
      pb_properties = yc_modules_state_ietf_yang_library__modules_state_properties,
      pb_elements = yc_modules_state_ietf_yang_library__modules_state_elements\<rparr>"

definition ietf_yang_library_modules_state :: member where
  "ietf_yang_library_modules_state =
     \<lparr>
      m_name = ''modules_state'',
      m_base = Klass ''yc_modules_state_ietf_yang_library__modules_state'',
      m_kind = ContainerKind ''container'',
      m_default = None,
      m_yang_name = ''modules-state'',
      m_register_paths = True,
      m_keyval = False,
      m_namespace = ''urn:ietf:params:xml:ns:yang:ietf-yang-library'',
      m_module = ''ietf-yang-library'',
      m_yang_type = ''container'',
      m_defined_type = ''container''\<rparr>"

definition ietf_yang_library_properties :: "(string \<times> bool) list" where
  "ietf_yang_library_properties =
     [(''modules_state'', True)]"

definition ietf_yang_library_elements :: "string list" where
  "ietf_yang_library_elements =
     [''modules_state'']"

definition ietf_yang_library :: pb_class where
  "ietf_yang_library =
     \<lparr>
      pb_name = ''ietf_yang_library'',
      pb_slots = [''_pybind_generated_by'', ''_path_helper'', ''_yang_name'', ''_extmethods'', ''__modules_state''],
      pb_yang_name = ''ietf-yang-library'',
      pb_generated_by = ''container'',
      pb_path = [],
      pb_members = [ietf_yang_library_modules_state],
      pb_properties = ietf_yang_library_properties,
      pb_elements = ietf_yang_library_elements\<rparr>"

definition ietf_yang_library_classes :: "pb_class list" where
  "ietf_yang_library_classes =
     [yc_deviation_ietf_yang_library__modules_state_module_deviation,
       yc_submodule_ietf_yang_library__modules_state_module_submodules_submodule,
       yc_submodules_ietf_yang_library__modules_state_module_submodules,
       yc_module_ietf_yang_library__modules_state_module, yc_modules_state_ietf_yang_library__modules_state,
       ietf_yang_library]"

lemmas ietf_yang_library_defs =
  yc_deviation_ietf_yang_library__modules_state_module_deviation_name_def
  yc_deviation_ietf_yang_library__modules_state_module_deviation_revision_def
  yc_deviation_ietf_yang_library__modules_state_module_deviation_properties_def
  yc_deviation_ietf_yang_library__modules_state_module_deviation_elements_def
  yc_deviation_ietf_yang_library__modules_state_module_deviation_def
  yc_submodule_ietf_yang_library__modules_state_module_submodules_submodule_schema_def
  yc_submodule_ietf_yang_library__modules_state_module_submodules_submodule_name_def
  yc_submodule_ietf_yang_library__modules_state_module_submodules_submodule_revision_def
  yc_submodule_ietf_yang_library__modules_state_module_submodules_submodule_properties_def
  yc_submodule_ietf_yang_library__modules_state_module_submodules_submodule_elements_def
  yc_submodule_ietf_yang_library__modules_state_module_submodules_submodule_def
  yc_submodules_ietf_yang_library__modules_state_module_submodules_submodule_def
  yc_submodules_ietf_yang_library__modules_state_module_submodules_properties_def
  yc_submodules_ietf_yang_library__modules_state_module_submodules_elements_def
  yc_submodules_ietf_yang_library__modules_state_module_submodules_def
  yc_module_ietf_yang_library__modules_state_module_deviation_def
  yc_module_ietf_yang_library__modules_state_module_name_def
  yc_module_ietf_yang_library__modules_state_module_submodules_def
  yc_module_ietf_yang_library__modules_state_module_conformance_type_def
  yc_module_ietf_yang_library__modules_state_module_namespace_def
  yc_module_ietf_yang_library__modules_state_module_feature_def
  yc_module_ietf_yang_library__modules_state_module_revision_def
  yc_module_ietf_yang_library__modules_state_module_schema_def
  yc_module_ietf_yang_library__modules_state_module_properties_def
  yc_module_ietf_yang_library__modules_state_module_elements_def
  yc_module_ietf_yang_library__modules_state_module_def
  yc_modules_state_ietf_yang_library__modules_state_module_def
  yc_modules_state_ietf_yang_library__modules_state_module_set_id_def
  yc_modules_state_ietf_yang_library__modules_state_properties_def
  yc_modules_state_ietf_yang_library__modules_state_elements_def
  yc_modules_state_ietf_yang_library__modules_state_def
  ietf_yang_library_modules_state_def
  ietf_yang_library_properties_def
  ietf_yang_library_elements_def
  ietf_yang_library_def
  ietf_yang_library_classes_def

lemma ietf_yang_library_schema: "schema_ok ietf_yang_library_classes"
  by code_simp

end
