(* ===== verification/JukeboxBinding.thy ===== *)
theory JukeboxBinding
  imports BindingSchema
begin

section \<open>The binding of the module example-jukebox\<close>

text \<open>
  The classes of \<open>modules/generated-code/example_jukebox.py\<close>: for each class its members, as its constructor, its setters and
  its \<open>_unset\<close> methods describe them in the same words, its properties (\<open>True\<close> for one with a
  setter) and \<open>_pyangbind_elements\<close>, and then the class. A class with the
  body \<open>pass\<close> has no members and no methods of its own and is left out.
\<close>

definition yc_admin_example_jukebox__jukebox_library_artist_album_admin_catalogue_number :: member where
  "yc_admin_example_jukebox__jukebox_library_artist_album_admin_catalogue_number =
     \<lparr>
      m_name = ''catalogue_number'',
      m_base = Klass ''unicode'',
      m_kind = LeafKind True,
      m_default = None,
      m_yang_name = ''catalogue-number'',
      m_register_paths = True,
      m_keyval = False,
      m_namespace = ''http://example.com/ns/example-jukebox'',
      m_module = ''example-jukebox'',
      m_yang_type = ''string'',
      m_defined_type = ''string''\<rparr>"

definition yc_admin_example_jukebox__jukebox_library_artist_album_admin_label :: member where
  "yc_admin_example_jukebox__jukebox_library_artist_album_admin_label =
     \<lparr>
      m_name = ''label'',
      m_base = Klass ''unicode'',
      m_kind = LeafKind True,
      m_default = None,
      m_yang_name = ''label'',
      m_register_paths = True,
      m_keyval = False,
      m_namespace = ''http://example.com/ns/example-jukebox'',
      m_module = ''example-jukebox'',
      m_yang_type = ''string'',
      m_defined_type = ''string''\<rparr>"

definition yc_admin_example_jukebox__jukebox_library_artist_album_admin_properties :: "(string \<times> bool) list" where
  "yc_admin_example_jukebox__jukebox_library_artist_album_admin_properties =
     [(''label'', True), (''catalogue_number'', True)]"

definition yc_admin_example_jukebox__jukebox_library_artist_album_admin_elements :: "string list" where
  "yc_admin_example_jukebox__jukebox_library_artist_album_admin_elements =
     [''label'', ''catalogue_number'']"

definition yc_admin_example_jukebox__jukebox_library_artist_album_admin :: pb_class where
  "yc_admin_example_jukebox__jukebox_library_artist_album_admin =
     \<lparr>
      pb_name = ''yc_admin_example_jukebox__jukebox_library_artist_album_admin'',
      pb_slots = [''_pybind_generated_by'', ''_path_helper'', ''_yang_name'', ''_extmethods'', ''__label'',
        ''__catalogue_number''],
      pb_yang_name = ''admin'',
      pb_generated_by = ''container'',
      pb_path = [''jukebox'', ''library'', ''artist'', ''album'', ''admin''],
      pb_members = [yc_admin_example_jukebox__jukebox_library_artist_album_admin_catalogue_number,
        yc_admin_example_jukebox__jukebox_library_artist_album_admin_label],
      pb_properties = yc_admin_example_jukebox__jukebox_library_artist_album_admin_properties,
      pb_elements = yc_admin_example_jukebox__jukebox_library_artist_album_admin_elements\<rparr>"

definition yc_song_example_jukebox__jukebox_library_artist_album_song_length :: member where
  "yc_song_example_jukebox__jukebox_library_artist_album_song_length =
     \<lparr>
      m_name = ''length'',
      m_base = Klass ''np.uint32'',
      m_kind = LeafKind True,
      m_default = None,
      m_yang_name = ''length'',
      m_register_paths = True,
      m_keyval = False,
      m_namespace = ''http://example.com/ns/example-jukebox'',
      m_module = ''example-jukebox'',
      m_yang_type = ''uint32'',
      m_defined_type = ''uint32''\<rparr>"

definition yc_song_example_jukebox__jukebox_library_artist_album_song_format :: member where
  "yc_song_example_jukebox__jukebox_library_artist_album_song_format =
     \<lparr>
      m_name = ''format'',
      m_base = Klass ''unicode'',
      m_kind = LeafKind True,
      m_default = None,
      m_yang_name = ''format'',
      m_register_paths = True,
      m_keyval = False,
      m_namespace = ''http://example.com/ns/example-jukebox'',
      m_module = ''example-jukebox'',
      m_yang_type = ''string'',
      m_defined_type = ''string''\<rparr>"

definition yc_song_example_jukebox__jukebox_library_artist_album_song_name :: member where
  "yc_song_example_jukebox__jukebox_library_artist_album_song_name =
     \<lparr>
      m_name = ''name'',
      m_base = RestrictedClassType (Klass ''unicode'') [(''length'', RList [''1 .. max''])],
      m_kind = LeafKind True,
      m_default = None,
      m_yang_name = ''name'',
      m_register_paths = True,
      m_keyval = True,
      m_namespace = ''http://example.com/ns/example-jukebox'',
      m_module = ''example-jukebox'',
      m_yang_type = ''string'',
      m_defined_type = ''string''\<rparr>"

definition yc_song_example_jukebox__jukebox_library_artist_album_song_location :: member where
  "yc_song_example_jukebox__jukebox_library_artist_album_song_location =
     \<lparr>
      m_name = ''location'',
      m_base = Klass ''unicode'',
      m_kind = LeafKind True,
      m_default = None,
      m_yang_name = ''location'',
      m_register_paths = True,
      m_keyval = False,
      m_namespace = ''http://example.com/ns/example-jukebox'',
      m_module = ''example-jukebox'',
      m_yang_type = ''string'',
      m_defined_type = ''string''\<rparr>"

definition yc_song_example_jukebox__jukebox_library_artist_album_song_properties :: "(string \<times> bool) list" where
  "yc_song_example_jukebox__jukebox_library_artist_album_song_properties =
     [(''name'', True), (''location'', True), (''format'', True), (''length'', True)]"

definition yc_song_example_jukebox__jukebox_library_artist_album_song_elements :: "string list" where
  "yc_song_example_jukebox__jukebox_library_artist_album_song_elements =
     [''name'', ''location'', ''format'', ''length'']"

definition yc_song_example_jukebox__jukebox_library_artist_album_song :: pb_class where
  "yc_song_example_jukebox__jukebox_library_artist_album_song =
     \<lparr>
      pb_name = ''yc_song_example_jukebox__jukebox_library_artist_album_song'',
      pb_slots = [''_pybind_generated_by'', ''_path_helper'', ''_yang_name'', ''_extmethods'', ''__name'',
        ''__location'', ''__format'', ''__length''],
      pb_yang_name = ''song'',
      pb_generated_by = ''container'',
      pb_path = [''jukebox'', ''library'', ''artist'', ''album'', ''song''],
      pb_members = [yc_song_example_jukebox__jukebox_library_artist_album_song_length,
        yc_song_example_jukebox__jukebox_library_artist_album_song_format,
        yc_song_example_jukebox__jukebox_library_artist_album_song_name,
        yc_song_example_jukebox__jukebox_library_artist_album_song_location],
      pb_properties = yc_song_example_jukebox__jukebox_library_artist_album_song_properties,
      pb_elements = yc_song_example_jukebox__jukebox_library_artist_album_song_elements\<rparr>"

definition yc_album_example_jukebox__jukebox_library_artist_album_genre :: member where
  "yc_album_example_jukebox__jukebox_library_artist_album_genre =
     \<lparr>
      m_name = ''genre'',
      m_base = RestrictedDictKey (Klass ''unicode'') [(''blues'', [(''@module'', KText ''example-jukebox''),
        (''@namespace'', KText ''http://example.com/ns/example-jukebox'')]), (''jbox:rock'', [(''@module'', KText
        ''example-jukebox''), (''@namespace'', KText ''http://example.com/ns/example-jukebox'')]), (''jbox:pop'',
        [(''@module'', KText ''example-jukebox''), (''@namespace'', KText
        ''http://example.com/ns/example-jukebox'')]), (''country'', [(''@module'', KText ''example-jukebox''),
        (''@namespace'', KText ''http://example.com/ns/example-jukebox'')]), (''jazz'', [(''@module'', KText
        ''example-jukebox''), (''@namespace'', KText ''http://example.com/ns/example-jukebox'')]), (''pop'',
        [(''@module'', KText ''example-jukebox''), (''@namespace'', KText
        ''http://example.com/ns/example-jukebox'')]), (''jbox:jazz'', [(''@module'', KText ''example-jukebox''),
        (''@namespace'', KText ''http://example.com/ns/example-jukebox'')]), (''jbox:country'', [(''@module'', KText
        ''example-jukebox''), (''@namespace'', KText ''http://example.com/ns/example-jukebox'')]), (''rock'',
        [(''@module'', KText ''example-jukebox''), (''@namespace'', KText
        ''http://example.com/ns/example-jukebox'')]), (''jbox:alternative'', [(''@module'', KText
        ''example-jukebox''), (''@namespace'', KText ''http://example.com/ns/example-jukebox'')]), (''alternative'',
        [(''@module'', KText ''example-jukebox''), (''@namespace'', KText
        ''http://example.com/ns/example-jukebox'')]), (''jbox:blues'', [(''@module'', KText ''example-jukebox''),
        (''@namespace'', KText ''http://example.com/ns/example-jukebox'')])],
      m_kind = LeafKind True,
      m_default = None,
      m_yang_name = ''genre'',
      m_register_paths = True,
      m_keyval = False,
      m_namespace = ''http://example.com/ns/example-jukebox'',
      m_module = ''example-jukebox'',
      m_yang_type = ''identityref'',
      m_defined_type = ''example-jukebox:identityref''\<rparr>"

definition yc_album_example_jukebox__jukebox_library_artist_album_admin :: member where
  "yc_album_example_jukebox__jukebox_library_artist_album_admin =
     \<lparr>
      m_name = ''admin'',
      m_base = Klass ''yc_admin_example_jukebox__jukebox_library_artist_album_admin'',
      m_kind = ContainerKind ''container'',
      m_default = None,
      m_yang_name = ''admin'',
      m_register_paths = True,
      m_keyval = False,
      m_namespace = ''http://example.com/ns/example-jukebox'',
      m_module = ''example-jukebox'',
      m_yang_type = ''container'',
      m_defined_type = ''container''\<rparr>"

definition yc_album_example_jukebox__jukebox_library_artist_album_song :: member where
  "yc_album_example_jukebox__jukebox_library_artist_album_song =
     \<lparr>
      m_name = ''song'',
      m_base = YANGListType ''name'' ''yc_song_example_jukebox__jukebox_library_artist_album_song'' ''song'' False,
      m_kind = ContainerKind ''list'',
      m_default = None,
      m_yang_name = ''song'',
      m_register_paths = True,
      m_keyval = False,
      m_namespace = ''http://example.com/ns/example-jukebox'',
      m_module = ''example-jukebox'',
      m_yang_type = ''list'',
      m_defined_type = ''list''\<rparr>"

definition yc_album_example_jukebox__jukebox_library_artist_album_name :: member where
  "yc_album_example_jukebox__jukebox_library_artist_album_name =
     \<lparr>
      m_name = ''name'',
      m_base = RestrictedClassType (Klass ''unicode'') [(''length'', RList [''1 .. max''])],
      m_kind = LeafKind True,
      m_default = None,
      m_yang_name = ''name'',
      m_register_paths = True,
      m_keyval = True,
      m_namespace = ''http://example.com/ns/example-jukebox'',
      m_module = ''example-jukebox'',
      m_yang_type = ''string'',
      m_defined_type = ''string''\<rparr>"

definition yc_album_example_jukebox__jukebox_library_artist_album_year :: member where
  "yc_album_example_jukebox__jukebox_library_artist_album_year =
     \<lparr>
      m_name = ''year'',
      m_base = RestrictedClassType (Klass ''np.uint16'') [(''range'', RList [''1900 .. max''])],
      m_kind = LeafKind True,
      m_default = None,
      m_yang_name = ''year'',
      m_register_paths = True,
      m_keyval = False,
      m_namespace = ''http://example.com/ns/example-jukebox'',
      m_module = ''example-jukebox'',
      m_yang_type = ''uint16'',
      m_defined_type = ''uint16''\<rparr>"

definition yc_album_example_jukebox__jukebox_library_artist_album_properties :: "(string \<times> bool) list" where
  "yc_album_example_jukebox__jukebox_library_artist_album_properties =
     [(''name'', True), (''genre'', True), (''year'', True), (''admin'', True), (''song'', True)]"

definition yc_album_example_jukebox__jukebox_library_artist_album_elements :: "string list" where
  "yc_album_example_jukebox__jukebox_library_artist_album_elements =
     [''name'', ''genre'', ''year'', ''admin'', ''song'']"

definition yc_album_example_jukebox__jukebox_library_artist_album :: pb_class where
  "yc_album_example_jukebox__jukebox_library_artist_album =
     \<lparr>
      pb_name = ''yc_album_example_jukebox__jukebox_library_artist_album'',
      pb_slots = [''_pybind_generated_by'', ''_path_helper'', ''_yang_name'', ''_extmethods'', ''__name'',
        ''__genre'', ''__year'', ''__admin'', ''__song''],
      pb_yang_name = ''album'',
      pb_generated_by = ''container'',
      pb_path = [''jukebox'', ''library'', ''artist'', ''album''],
      pb_members = [yc_album_example_jukebox__jukebox_library_artist_album_genre,
        yc_album_example_jukebox__jukebox_library_artist_album_admin,
        yc_album_example_jukebox__jukebox_library_artist_album_song,
        yc_album_example_jukebox__jukebox_library_artist_album_name,
        yc_album_example_jukebox__jukebox_library_artist_album_year],
      pb_properties = yc_album_example_jukebox__jukebox_library_artist_album_properties,
      pb_elements = yc_album_example_jukebox__jukebox_library_artist_album_elements\<rparr>"

definition yc_artist_example_jukebox__jukebox_library_artist_album :: member where
  "yc_artist_example_jukebox__jukebox_library_artist_album =
     \<lparr>
      m_name = ''album'',
      m_base = YANGListType ''name'' ''yc_album_example_jukebox__jukebox_library_artist_album'' ''album'' False,
      m_kind = ContainerKind ''list'',
      m_default = None,
      m_yang_name = ''album'',
      m_register_paths = True,
      m_keyval = False,
      m_namespace = ''http://example.com/ns/example-jukebox'',
      m_module = ''example-jukebox'',
      m_yang_type = ''list'',
      m_defined_type = ''list''\<rparr>"

definition yc_artist_example_jukebox__jukebox_library_artist_name :: member where
  "yc_artist_example_jukebox__jukebox_library_artist_name =
     \<lparr>
      m_name = ''name'',
      m_base = RestrictedClassType (Klass ''unicode'') [(''length'', RList [''1 .. max''])],
      m_kind = LeafKind True,
      m_default = None,
      m_yang_name = ''name'',
      m_register_paths = True,
      m_keyval = True,
      m_namespace = ''http://example.com/ns/example-jukebox'',
      m_module = ''example-jukebox'',
      m_yang_type = ''string'',
      m_defined_type = ''string''\<rparr>"

definition yc_artist_example_jukebox__jukebox_library_artist_properties :: "(string \<times> bool) list" where
  "yc_artist_example_jukebox__jukebox_library_artist_properties =
     [(''name'', True), (''album'', True)]"

definition yc_artist_example_jukebox__jukebox_library_artist_elements :: "string list" where
  "yc_artist_example_jukebox__jukebox_library_artist_elements =
     [''name'', ''album'']"

definition yc_artist_example_jukebox__jukebox_library_artist :: pb_class where
  "yc_artist_example_jukebox__jukebox_library_artist =
     \<lparr>
      pb_name = ''yc_artist_example_jukebox__jukebox_library_artist'',
      pb_slots = [''_pybind_generated_by'', ''_path_helper'', ''_yang_name'', ''_extmethods'', ''__name'',
        ''__album''],
      pb_yang_name = ''artist'',
      pb_generated_by = ''container'',
      pb_path = [''jukebox'', ''library'', ''artist''],
      pb_members = [yc_artist_example_jukebox__jukebox_library_artist_album,
        yc_artist_example_jukebox__jukebox_library_artist_name],
      pb_properties = yc_artist_example_jukebox__jukebox_library_artist_properties,
      pb_elements = yc_artist_example_jukebox__jukebox_library_artist_elements\<rparr>"

definition yc_library_example_jukebox__jukebox_library_song_count :: member where
  "yc_library_example_jukebox__jukebox_library_song_count =
     \<lparr>
      m_name = ''song_count'',
      m_base = Klass ''np.uint32'',
      m_kind = LeafKind True,
      m_default = None,
      m_yang_name = ''song-count'',
      m_register_paths = True,
      m_keyval = False,
      m_namespace = ''http://example.com/ns/example-jukebox'',
      m_module = ''example-jukebox'',
      m_yang_type = ''uint32'',
      m_defined_type = ''uint32''\<rparr>"

definition yc_library_example_jukebox__jukebox_library_artist_count :: member where
  "yc_library_example_jukebox__jukebox_library_artist_count =
     \<lparr>
      m_name = ''artist_count'',
      m_base = Klass ''np.uint32'',
      m_kind = LeafKind True,
      m_default = None,
      m_yang_name = ''artist-count'',
      m_register_paths = True,
      m_keyval = False,
      m_namespace = ''http://example.com/ns/example-jukebox'',
      m_module = ''example-jukebox'',
      m_yang_type = ''uint32'',
      m_defined_type = ''uint32''\<rparr>"

definition yc_library_example_jukebox__jukebox_library_album_count :: member where
  "yc_library_example_jukebox__jukebox_library_album_count =
     \<lparr>
      m_name = ''album_count'',
      m_base = Klass ''np.uint32'',
      m_kind = LeafKind True,
      m_default = None,
      m_yang_name = ''album-count'',
      m_register_paths = True,
      m_keyval = False,
      m_namespace = ''http://example.com/ns/example-jukebox'',
      m_module = ''example-jukebox'',
      m_yang_type = ''uint32'',
      m_defined_type = ''uint32''\<rparr>"

definition yc_library_example_jukebox__jukebox_library_artist :: member where
  "yc_library_example_jukebox__jukebox_library_artist =
     \<lparr>
      m_name = ''artist'',
      m_base = YANGListType ''name'' ''yc_artist_example_jukebox__jukebox_library_artist'' ''artist'' False,
      m_kind = ContainerKind ''list'',
      m_default = None,
      m_yang_name = ''artist'',
      m_register_paths = True,
      m_keyval = False,
      m_namespace = ''http://example.com/ns/example-jukebox'',
      m_module = ''example-jukebox'',
      m_yang_type = ''list'',
      m_defined_type = ''list''\<rparr>"

definition yc_library_example_jukebox__jukebox_library_properties :: "(string \<times> bool) list" where
  "yc_library_example_jukebox__jukebox_library_properties =
     [(''artist'', True), (''artist_count'', False), (''album_count'', False), (''song_count'', False)]"

definition yc_library_example_jukebox__jukebox_library_elements :: "string list" where
  "yc_library_example_jukebox__jukebox_library_elements =
     [''artist'', ''artist_count'', ''album_count'', ''song_count'']"

definition yc_library_example_jukebox__jukebox_library :: pb_class where
  "yc_library_example_jukebox__jukebox_library =
     \<lparr>
      pb_name = ''yc_library_example_jukebox__jukebox_library'',
      pb_slots = [''_pybind_generated_by'', ''_path_helper'', ''_yang_name'', ''_extmethods'', ''__artist'',
        ''__artist_count'', ''__album_count'', ''__song_count''],
      pb_yang_name = ''library'',
      pb_generated_by = ''container'',
      pb_path = [''jukebox'', ''library''],
      pb_members = [yc_library_example_jukebox__jukebox_library_song_count,
        yc_library_example_jukebox__jukebox_library_artist_count,
        yc_library_example_jukebox__jukebox_library_album_count, yc_library_example_jukebox__jukebox_library_artist],
      pb_properties = yc_library_example_jukebox__jukebox_library_properties,
      pb_elements = yc_library_example_jukebox__jukebox_library_elements\<rparr>"

definition yc_song_example_jukebox__jukebox_playlist_song_index :: member where
  "yc_song_example_jukebox__jukebox_playlist_song_index =
     \<lparr>
      m_name = ''index'',
      m_base = Klass ''np.uint32'',
      m_kind = LeafKind True,
      m_default = None,
      m_yang_name = ''index'',
      m_register_paths = True,
      m_keyval = True,
      m_namespace = ''http://example.com/ns/example-jukebox'',
      m_module = ''example-jukebox'',
      m_yang_type = ''uint32'',
      m_defined_type = ''uint32''\<rparr>"

definition yc_song_example_jukebox__jukebox_playlist_song_id :: member where
  "yc_song_example_jukebox__jukebox_playlist_song_id =
     \<lparr>
      m_name = ''id'',
      m_base = Klass ''unicode'',
      m_kind = LeafKind True,
      m_default = None,
      m_yang_name = ''id'',
      m_register_paths = True,
      m_keyval = False,
      m_namespace = ''http://example.com/ns/example-jukebox'',
      m_module = ''example-jukebox'',
      m_yang_type = ''leafref'',
      m_defined_type = ''leafref''\<rparr>"

definition yc_song_example_jukebox__jukebox_playlist_song_properties :: "(string \<times> bool) list" where
  "yc_song_example_jukebox__jukebox_playlist_song_properties =
     [(''index'', True), (''id'', True)]"

definition yc_song_example_jukebox__jukebox_playlist_song_elements :: "string list" where
  "yc_song_example_jukebox__jukebox_playlist_song_elements =
     [''index'', ''id'']"

definition yc_song_example_jukebox__jukebox_playlist_song :: pb_class where
  "yc_song_example_jukebox__jukebox_playlist_song =
     \<lparr>
      pb_name = ''yc_song_example_jukebox__jukebox_playlist_song'',
      pb_slots = [''_pybind_generated_by'', ''_path_helper'', ''_yang_name'', ''_extmethods'', ''__index'', ''__id''],
      pb_yang_name = ''song'',
      pb_generated_by = ''container'',
      pb_path = [''jukebox'', ''playlist'', ''song''],
      pb_members = [yc_song_example_jukebox__jukebox_playlist_song_index,
        yc_song_example_jukebox__jukebox_playlist_song_id],
      pb_properties = yc_song_example_jukebox__jukebox_playlist_song_properties,
      pb_elements = yc_song_example_jukebox__jukebox_playlist_song_elements\<rparr>"

definition yc_playlist_example_jukebox__jukebox_playlist_song :: member where
  "yc_playlist_example_jukebox__jukebox_playlist_song =
     \<lparr>
      m_name = ''song'',
      m_base = YANGListType ''index'' ''yc_song_example_jukebox__jukebox_playlist_song'' ''song'' True,
      m_kind = ContainerKind ''list'',
      m_default = None,
      m_yang_name = ''song'',
      m_register_paths = True,
      m_keyval = False,
      m_namespace = ''http://example.com/ns/example-jukebox'',
      m_module = ''example-jukebox'',
      m_yang_type = ''list'',
      m_defined_type = ''list''\<rparr>"

definition yc_playlist_example_jukebox__jukebox_playlist_name :: member where
  "yc_playlist_example_jukebox__jukebox_playlist_name =
     \<lparr>
      m_name = ''name'',
      m_base = Klass ''unicode'',
      m_kind = LeafKind True,
      m_default = None,
      m_yang_name = ''name'',
      m_register_paths = True,
      m_keyval = True,
      m_namespace = ''http://example.com/ns/example-jukebox'',
      m_module = ''example-jukebox'',
      m_yang_type = ''string'',
      m_defined_type = ''string''\<rparr>"

definition yc_playlist_example_jukebox__jukebox_playlist_description :: member where
  "yc_playlist_example_jukebox__jukebox_playlist_description =
     \<lparr>
      m_name = ''description'',
      m_base = Klass ''unicode'',
      m_kind = LeafKind True,
      m_default = None,
      m_yang_name = ''description'',
      m_register_paths = True,
      m_keyval = False,
      m_namespace = ''http://example.com/ns/example-jukebox'',
      m_module = ''example-jukebox'',
      m_yang_type = ''string'',
      m_defined_type = ''string''\<rparr>"

definition yc_playlist_example_jukebox__jukebox_playlist_properties :: "(string \<times> bool) list" where
  "yc_playlist_example_jukebox__jukebox_playlist_properties =
     [(''name'', True), (''description'', True), (''song'', True)]"

definition yc_playlist_example_jukebox__jukebox_playlist_elements :: "string list" where
  "yc_playlist_example_jukebox__jukebox_playlist_elements =
     [''name'', ''description'', ''song'']"

definition yc_playlist_example_jukebox__jukebox_playlist :: pb_class where
  "yc_playlist_example_jukebox__jukebox_playlist =
     \<lparr>
      pb_name = ''yc_playlist_example_jukebox__jukebox_playlist'',
      pb_slots = [''_pybind_generated_by'', ''_path_helper'', ''_yang_name'', ''_extmethods'', ''__name'',
        ''__description'', ''__song''],
      pb_yang_name = ''playlist'',
      pb_generated_by = ''container'',
      pb_path = [''jukebox'', ''playlist''],
      pb_members = [yc_playlist_example_jukebox__jukebox_playlist_song,
        yc_playlist_example_jukebox__jukebox_playlist_name,
        yc_playlist_example_jukebox__jukebox_playlist_description],
      pb_properties = yc_playlist_example_jukebox__jukebox_playlist_properties,
      pb_elements = yc_playlist_example_jukebox__jukebox_playlist_elements\<rparr>"

definition yc_player_example_jukebox__jukebox_player_gap :: member where
  "yc_player_example_jukebox__jukebox_player_gap =
     \<lparr>
      m_name = ''gap'',
      m_base = RestrictedClassType (Klass ''Decimal'') [(''range'', RList [''0.0 .. 2.0''])],
      m_kind = LeafKind True,
      m_default = None,
      m_yang_name = ''gap'',
      m_register_paths = True,
      m_keyval = False,
      m_namespace = ''http://example.com/ns/example-jukebox'',
      m_module = ''example-jukebox'',
      m_yang_type = ''decimal64'',
      m_defined_type = ''decimal64''\<rparr>"

definition yc_player_example_jukebox__jukebox_player_properties :: "(string \<times> bool) list" where
  "yc_player_example_jukebox__jukebox_player_properties =
     [(''gap'', True)]"

definition yc_player_example_jukebox__jukebox_player_elements :: "string list" where
  "yc_player_example_jukebox__jukebox_player_elements =
     [''gap'']"

definition yc_player_example_jukebox__jukebox_player :: pb_class where
  "yc_player_example_jukebox__jukebox_player =
     \<lparr>
      pb_name = ''yc_player_example_jukebox__jukebox_player'',
      pb_slots = [''_pybind_generated_by'', ''_path_helper'', ''_yang_name'', ''_extmethods'', ''__gap''],
      pb_yang_name = ''player'',
      pb_generated_by = ''container'',
      pb_path = [''jukebox'', ''player''],
      pb_members = [yc_player_example_jukebox__jukebox_player_gap],
      pb_properties = yc_player_example_jukebox__jukebox_player_properties,
      pb_elements = yc_player_example_jukebox__jukebox_player_elements\<rparr>"

definition yc_jukebox_example_jukebox__jukebox_player :: member where
  "yc_jukebox_example_jukebox__jukebox_player =
     \<lparr>
      m_name = ''player'',
      m_base = Klass ''yc_player_example_jukebox__jukebox_player'',
      m_kind = ContainerKind ''container'',
      m_default = None,
      m_yang_name = ''player'',
      m_register_paths = True,
      m_keyval = False,
      m_namespace = ''http://example.com/ns/example-jukebox'',
      m_module = ''example-jukebox'',
      m_yang_type = ''container'',
      m_defined_type = ''container''\<rparr>"

definition yc_jukebox_example_jukebox__jukebox_playlist :: member where
  "yc_jukebox_example_jukebox__jukebox_playlist =
     \<lparr>
      m_name = ''playlist'',
      m_base = YANGListType ''name'' ''yc_playlist_example_jukebox__jukebox_playlist'' ''playlist'' False,
      m_kind = ContainerKind ''list'',
      m_default = None,
      m_yang_name = ''playlist'',
      m_register_paths = True,
      m_keyval = False,
      m_namespace = ''http://example.com/ns/example-jukebox'',
      m_module = ''example-jukebox'',
      m_yang_type = ''list'',
      m_defined_type = ''list''\<rparr>"

definition yc_jukebox_example_jukebox__jukebox_library :: member where
  "yc_jukebox_example_jukebox__jukebox_library =
     \<lparr>
      m_name = ''library'',
      m_base = Klass ''yc_library_example_jukebox__jukebox_library'',
      m_kind = ContainerKind ''container'',
      m_default = None,
      m_yang_name = ''library'',
      m_register_paths = True,
      m_keyval = False,
      m_namespace = ''http://example.com/ns/example-jukebox'',
      m_module = ''example-jukebox'',
      m_yang_type = ''container'',
      m_defined_type = ''container''\<rparr>"

definition yc_jukebox_example_jukebox__jukebox_properties :: "(string \<times> bool) list" where
  "yc_jukebox_example_jukebox__jukebox_properties =
     [(''library'', True), (''playlist'', True), (''player'', True)]"

definition yc_jukebox_example_jukebox__jukebox_elements :: "string list" where
  "yc_jukebox_example_jukebox__jukebox_elements =
     [''library'', ''playlist'', ''player'']"

definition yc_jukebox_example_jukebox__jukebox :: pb_class where
  "yc_jukebox_example_jukebox__jukebox =
     \<lparr>
      pb_name = ''yc_jukebox_example_jukebox__jukebox'',
      pb_slots = [''_pybind_generated_by'', ''_path_helper'', ''_yang_name'', ''_extmethods'', ''__library'',
        ''__playlist'', ''__player''],
      pb_yang_name = ''jukebox'',
      pb_generated_by = ''container'',
      pb_path = [''jukebox''],
      pb_members = [yc_jukebox_example_jukebox__jukebox_player, yc_jukebox_example_jukebox__jukebox_playlist,
        yc_jukebox_example_jukebox__jukebox_library],
      pb_properties = yc_jukebox_example_jukebox__jukebox_properties,
      pb_elements = yc_jukebox_example_jukebox__jukebox_elements\<rparr>"

definition example_jukebox_jukebox :: member where
  "example_jukebox_jukebox =
     \<lparr>
      m_name = ''jukebox'',
      m_base = Klass ''yc_jukebox_example_jukebox__jukebox'',
      m_kind = ContainerKind ''container'',
      m_default = None,
      m_yang_name = ''jukebox'',
      m_register_paths = True,
      m_keyval = False,
      m_namespace = ''http://example.com/ns/example-jukebox'',
      m_module = ''example-jukebox'',
      m_yang_type = ''container'',
      m_defined_type = ''container''\<rparr>"

definition example_jukebox_properties :: "(string \<times> bool) list" where
  "example_jukebox_properties =
     [(''jukebox'', True)]"

definition example_jukebox_elements :: "string list" where
  "example_jukebox_elements =
     [''jukebox'']"

definition example_jukebox :: pb_class where
  "example_jukebox =
     \<lparr>
      pb_name = ''example_jukebox'',
      pb_slots = [''_pybind_generated_by'', ''_path_helper'', ''_yang_name'', ''_extmethods'', ''__jukebox''],
      pb_yang_name = ''example-jukebox'',
      pb_generated_by = ''container'',
      pb_path = [],
      pb_members = [example_jukebox_jukebox],
      pb_properties = example_jukebox_properties,
      pb_elements = example_jukebox_elements\<rparr>"

definition yc_input_example_jukebox__example_jukebox_rpc_play_input_playlist :: member where
  "yc_input_example_jukebox__example_jukebox_rpc_play_input_playlist =
     \<lparr>
      m_name = ''playlist'',
      m_base = Klass ''unicode'',
      m_kind = LeafKind True,
      m_default = None,
      m_yang_name = ''playlist'',
      m_register_paths = False,
      m_keyval = False,
      m_namespace = ''http://example.com/ns/example-jukebox'',
      m_module = ''example-jukebox'',
      m_yang_type = ''string'',
      m_defined_type = ''string''\<rparr>"

definition yc_input_example_jukebox__example_jukebox_rpc_play_input_song_number :: member where
  "yc_input_example_jukebox__example_jukebox_rpc_play_input_song_number =
     \<lparr>
      m_name = ''song_number'',
      m_base = Klass ''np.uint32'',
      m_kind = LeafKind True,
      m_default = None,
      m_yang_name = ''song-number'',
      m_register_paths = False,
      m_keyval = False,
      m_namespace = ''http://example.com/ns/example-jukebox'',
      m_module = ''example-jukebox'',
      m_yang_type = ''uint32'',
      m_defined_type = ''uint32''\<rparr>"

definition yc_input_example_jukebox__example_jukebox_rpc_play_input_properties :: "(string \<times> bool) list" where
  "yc_input_example_jukebox__example_jukebox_rpc_play_input_properties =
     [(''playlist'', True), (''song_number'', True)]"

definition yc_input_example_jukebox__example_jukebox_rpc_play_input_elements :: "string list" where
  "yc_input_example_jukebox__example_jukebox_rpc_play_input_elements =
     [''playlist'', ''song_number'']"

definition yc_input_example_jukebox__example_jukebox_rpc_play_input :: pb_class where
  "yc_input_example_jukebox__example_jukebox_rpc_play_input =
     \<lparr>
      pb_name = ''yc_input_example_jukebox__example_jukebox_rpc_play_input'',
      pb_slots = [''_pybind_generated_by'', ''_path_helper'', ''_yang_name'', ''_extmethods'', ''__playlist'',
        ''__song_number''],
      pb_yang_name = ''input'',
      pb_generated_by = ''container'',
      pb_path = [''example_jukebox_rpc'', ''play'', ''input''],
      pb_members = [yc_input_example_jukebox__example_jukebox_rpc_play_input_playlist,
        yc_input_example_jukebox__example_jukebox_rpc_play_input_song_number],
      pb_properties = yc_input_example_jukebox__example_jukebox_rpc_play_input_properties,
      pb_elements = yc_input_example_jukebox__example_jukebox_rpc_play_input_elements\<rparr>"

definition yc_play_example_jukebox__example_jukebox_rpc_play_input :: member where
  "yc_play_example_jukebox__example_jukebox_rpc_play_input =
     \<lparr>
      m_name = ''input'',
      m_base = Klass ''yc_input_example_jukebox__example_jukebox_rpc_play_input'',
      m_kind = LeafKind True,
      m_default = None,
      m_yang_name = ''input'',
      m_register_paths = False,
      m_keyval = False,
      m_namespace = ''http://example.com/ns/example-jukebox'',
      m_module = ''example-jukebox'',
      m_yang_type = ''input'',
      m_defined_type = ''example-jukebox:input''\<rparr>"

definition yc_play_example_jukebox__example_jukebox_rpc_play_properties :: "(string \<times> bool) list" where
  "yc_play_example_jukebox__example_jukebox_rpc_play_properties =
     [(''input'', True)]"

definition yc_play_example_jukebox__example_jukebox_rpc_play_elements :: "string list" where
  "yc_play_example_jukebox__example_jukebox_rpc_play_elements =
     [''input'']"

definition yc_play_example_jukebox__example_jukebox_rpc_play :: pb_class where
  "yc_play_example_jukebox__example_jukebox_rpc_play =
     \<lparr>
      pb_name = ''yc_play_example_jukebox__example_jukebox_rpc_play'',
      pb_slots = [''_pybind_generated_by'', ''_path_helper'', ''_yang_name'', ''_extmethods'', ''__input''],
      pb_yang_name = ''play'',
      pb_generated_by = ''container'',
      pb_path = [''example_jukebox_rpc'', ''play''],
      pb_members = [yc_play_example_jukebox__example_jukebox_rpc_play_input],
      pb_properties = yc_play_example_jukebox__example_jukebox_rpc_play_properties,
      pb_elements = yc_play_example_jukebox__example_jukebox_rpc_play_elements\<rparr>"

definition yc_example_jukebox_example_jukebox__example_jukebox_rpc_play :: member where
  "yc_example_jukebox_example_jukebox__example_jukebox_rpc_play =
     \<lparr>
      m_name = ''play'',
      m_base = Klass ''yc_play_example_jukebox__example_jukebox_rpc_play'',
      m_kind = LeafKind True,
      m_default = None,
      m_yang_name = ''play'',
      m_register_paths = False,
      m_keyval = False,
      m_namespace = ''http://example.com/ns/example-jukebox'',
      m_module = ''example-jukebox'',
      m_yang_type = ''rpc'',
      m_defined_type = ''rpc''\<rparr>"

definition yc_example_jukebox_example_jukebox__example_jukebox_rpc_properties :: "(string \<times> bool) list" where
  "yc_example_jukebox_example_jukebox__example_jukebox_rpc_properties =
     [(''play'', True)]"

definition yc_example_jukebox_example_jukebox__example_jukebox_rpc_elements :: "string list" where
  "yc_example_jukebox_example_jukebox__example_jukebox_rpc_elements =
     [''play'']"

definition yc_example_jukebox_example_jukebox__example_jukebox_rpc :: pb_class where
  "yc_example_jukebox_example_jukebox__example_jukebox_rpc =
     \<lparr>
      pb_name = ''yc_example_jukebox_example_jukebox__example_jukebox_rpc'',
      pb_slots = [''_pybind_generated_by'', ''_path_helper'', ''_yang_name'', ''_extmethods'', ''__play''],
      pb_yang_name = ''example-jukebox'',
      pb_generated_by = ''container'',
      pb_path = [''example_jukebox_rpc''],
      pb_members = [yc_example_jukebox_example_jukebox__example_jukebox_rpc_play],
      pb_properties = yc_example_jukebox_example_jukebox__example_jukebox_rpc_properties,
      pb_elements = yc_example_jukebox_example_jukebox__example_jukebox_rpc_elements\<rparr>"

definition example_jukebox_classes :: "pb_class list" where
  "example_jukebox_classes =
     [yc_admin_example_jukebox__jukebox_library_artist_album_admin,
       yc_song_example_jukebox__jukebox_library_artist_album_song,
       yc_album_example_jukebox__jukebox_library_artist_album, yc_artist_example_jukebox__jukebox_library_artist,
       yc_library_example_jukebox__jukebox_library, yc_song_example_jukebox__jukebox_playlist_song,
       yc_playlist_example_jukebox__jukebox_playlist, yc_player_example_jukebox__jukebox_player,
       yc_jukebox_example_jukebox__jukebox, example_jukebox,
       yc_input_example_jukebox__example_jukebox_rpc_play_input, yc_play_example_jukebox__example_jukebox_rpc_play,
       yc_example_jukebox_example_jukebox__example_jukebox_rpc]"

lemmas example_jukebox_defs =
  yc_admin_example_jukebox__jukebox_library_artist_album_admin_catalogue_number_def
  yc_admin_example_jukebox__jukebox_library_artist_album_admin_label_def
  yc_admin_example_jukebox__jukebox_library_artist_album_admin_properties_def
  yc_admin_example_jukebox__jukebox_library_artist_album_admin_elements_def
  yc_admin_example_jukebox__jukebox_library_artist_album_admin_def
  yc_song_example_jukebox__jukebox_library_artist_album_song_length_def
  yc_song_example_jukebox__jukebox_library_artist_album_song_format_def
  yc_song_example_jukebox__jukebox_library_artist_album_song_name_def
  yc_song_example_jukebox__jukebox_library_artist_album_song_location_def
  yc_song_example_jukebox__jukebox_library_artist_album_song_properties_def
  yc_song_example_jukebox__jukebox_library_artist_album_song_elements_def
  yc_song_example_jukebox__jukebox_library_artist_album_song_def
  yc_album_example_jukebox__jukebox_library_artist_album_genre_def
  yc_album_example_jukebox__jukebox_library_artist_album_admin_def
  yc_album_example_jukebox__jukebox_library_artist_album_song_def
  yc_album_example_jukebox__jukebox_library_artist_album_name_def
  yc_album_example_jukebox__jukebox_library_artist_album_year_def
  yc_album_example_jukebox__jukebox_library_artist_album_properties_def
  yc_album_example_jukebox__jukebox_library_artist_album_elements_def
  yc_album_example_jukebox__jukebox_library_artist_album_def
  yc_artist_example_jukebox__jukebox_library_artist_album_def
  yc_artist_example_jukebox__jukebox_library_artist_name_def
  yc_artist_example_jukebox__jukebox_library_artist_properties_def
  yc_artist_example_jukebox__jukebox_library_artist_elements_def
  yc_artist_example_jukebox__jukebox_library_artist_def
  yc_library_example_jukebox__jukebox_library_song_count_def
  yc_library_example_jukebox__jukebox_library_artist_count_def
  yc_library_example_jukebox__jukebox_library_album_count_def
  yc_library_example_jukebox__jukebox_library_artist_def
  yc_library_example_jukebox__jukebox_library_properties_def
  yc_library_example_jukebox__jukebox_library_elements_def
  yc_library_example_jukebox__jukebox_library_def
  yc_song_example_jukebox__jukebox_playlist_song_index_def
  yc_song_example_jukebox__jukebox_playlist_song_id_def
  yc_song_example_jukebox__jukebox_playlist_song_properties_def
  yc_song_example_jukebox__jukebox_playlist_song_elements_def
  yc_song_example_jukebox__jukebox_playlist_song_def
  yc_playlist_example_jukebox__jukebox_playlist_song_def
  yc_playlist_example_jukebox__jukebox_playlist_name_def
  yc_playlist_example_jukebox__jukebox_playlist_description_def
  yc_playlist_example_jukebox__jukebox_playlist_properties_def
  yc_playlist_example_jukebox__jukebox_playlist_elements_def
  yc_playlist_example_jukebox__jukebox_playlist_def
  yc_player_example_jukebox__jukebox_player_gap_def
  yc_player_example_jukebox__jukebox_player_properties_def
  yc_player_example_jukebox__jukebox_player_elements_def
  yc_player_example_jukebox__jukebox_player_def
  yc_jukebox_example_jukebox__jukebox_player_def
  yc_jukebox_example_jukebox__jukebox_playlist_def
  yc_jukebox_example_jukebox__jukebox_library_def
  yc_jukebox_example_jukebox__jukebox_properties_def
  yc_jukebox_example_jukebox__jukebox_elements_def
  yc_jukebox_example_jukebox__jukebox_def
  example_jukebox_jukebox_def
  example_jukebox_properties_def
  example_jukebox_elements_def
  example_jukebox_def
  yc_input_example_jukebox__example_jukebox_rpc_play_input_playlist_def
  yc_input_example_jukebox__example_jukebox_rpc_play_input_song_number_def
  yc_input_example_jukebox__example_jukebox_rpc_play_input_properties_def
  yc_input_example_jukebox__example_jukebox_rpc_play_input_elements_def
  yc_input_example_jukebox__example_jukebox_rpc_play_input_def
  yc_play_example_jukebox__example_jukebox_rpc_play_input_def
  yc_play_example_jukebox__example_jukebox_rpc_play_properties_def
  yc_play_example_jukebox__example_jukebox_rpc_play_elements_def
  yc_play_example_jukebox__example_jukebox_rpc_play_def
  yc_example_jukebox_example_jukebox__example_jukebox_rpc_play_def
  yc_example_jukebox_example_jukebox__example_jukebox_rpc_properties_def
  yc_example_jukebox_example_jukebox__example_jukebox_rpc_elements_def
  yc_example_jukebox_example_jukebox__example_jukebox_rpc_def
  example_jukebox_classes_def

lemma example_jukebox_schema: "schema_ok example_jukebox_classes"
  by code_simp

end
