(* ===== verification/InterfacesBinding.thy ===== *)
theory InterfacesBinding
  imports BindingSchema
begin

section \<open>The binding of the module ietf-interfaces\<close>

text \<open>
  The classes of \<open>modules/generated-code/ietf_interfaces.py\<close>: for each class its members, as its constructor, its setters and
  its \<open>_unset\<close> methods describe them in the same words, its properties (\<open>True\<close> for one with a
  setter) and \<open>_pyangbind_elements\<close>, and then the class. A class with the
  body \<open>pass\<close> has no members and no methods of its own and is left out.
\<close>

definition yc_interface_ietf_interfaces__interfaces_interface_enabled :: member where
  "yc_interface_ietf_interfaces__interfaces_interface_enabled =
     \<lparr>
      m_name = ''enabled'',
      m_base = Klass ''YANGBool'',
      m_kind = LeafKind True,
      m_default = Some (''YANGBool'', ''true''),
      m_yang_name = ''enabled'',
      m_register_paths = True,
      m_keyval = False,
      m_namespace = ''urn:ietf:params:xml:ns:yang:ietf-interfaces'',
      m_module = ''ietf-interfaces'',
      m_yang_type = ''boolean'',
      m_defined_type = ''boolean''\<rparr>"

definition yc_interface_ietf_interfaces__interfaces_interface_link_up_down_trap_enable :: member where
  "yc_interface_ietf_interfaces__interfaces_interface_link_up_down_trap_enable =
     \<lparr>
      m_name = ''link_up_down_trap_enable'',
      m_base = RestrictedDictKey (Klass ''unicode'') [(''disabled'', [(''value'', KInt 2)]), (''enabled'',
        [(''value'', KInt 1)])],
      m_kind = LeafKind True,
      m_default = None,
      m_yang_name = ''link-up-down-trap-enable'',
      m_register_paths = True,
      m_keyval = False,
      m_namespace = ''urn:ietf:params:xml:ns:yang:ietf-interfaces'',
      m_module = ''ietf-interfaces'',
      m_yang_type = ''enumeration'',
      m_defined_type = ''ietf-interfaces:enumeration''\<rparr>"

definition yc_interface_ietf_interfaces__interfaces_interface_type :: member where
  "yc_interface_ietf_interfaces__interfaces_interface_type =
     \<lparr>
      m_name = ''type'',
      m_base = RestrictedDictKey (Klass ''unicode'') [],
      m_kind = LeafKind True,
      m_default = None,
      m_yang_name = ''type'',
      m_register_paths = True,
      m_keyval = False,
      m_namespace = ''urn:ietf:params:xml:ns:yang:ietf-interfaces'',
      m_module = ''ietf-interfaces'',
      m_yang_type = ''identityref'',
      m_defined_type = ''ietf-interfaces:identityref''\<rparr>"

definition yc_interface_ietf_interfaces__interfaces_interface_name :: member where
  "yc_interface_ietf_interfaces__interfaces_interface_name =
     \<lparr>
      m_name = ''name'',
      m_base = Klass ''unicode'',
      m_kind = LeafKind True,
      m_default = None,
      m_yang_name = ''name'',
      m_register_paths = True,
      m_keyval = True,
      m_namespace = ''urn:ietf:params:xml:ns:yang:ietf-interfaces'',
      m_module = ''ietf-interfaces'',
      m_yang_type = ''string'',
      m_defined_type = ''string''\<rparr>"

definition yc_interface_ietf_interfaces__interfaces_interface_description :: member where
  "yc_interface_ietf_interfaces__interfaces_interface_description =
     \<lparr>
      m_name = ''description'',
      m_base = Klass ''unicode'',
      m_kind = LeafKind True,
      m_default = None,
      m_yang_name = ''description'',
      m_register_paths = True,
      m_keyval = False,
      m_namespace = ''urn:ietf:params:xml:ns:yang:ietf-interfaces'',
      m_module = ''ietf-interfaces'',
      m_yang_type = ''string'',
      m_defined_type = ''string''\<rparr>"

definition yc_interface_ietf_interfaces__interfaces_interface_properties :: "(string \<times> bool) list" where
  "yc_interface_ietf_interfaces__interfaces_interface_properties =
     [(''name'', True), (''description'', True), (''type'', True), (''enabled'', True),
       (''link_up_down_trap_enable'', True)]"

definition yc_interface_ietf_interfaces__interfaces_interface_elements :: "string list" where
  "yc_interface_ietf_interfaces__interfaces_interface_elements =
     [''name'', ''description'', ''type'', ''enabled'', ''link_up_down_trap_enable'']"

definition yc_interface_ietf_interfaces__interfaces_interface :: pb_class where
  "yc_interface_ietf_interfaces__interfaces_interface =
     \<lparr>
      pb_name = ''yc_interface_ietf_interfaces__interfaces_interface'',
      pb_slots = [''_pybind_generated_by'', ''_path_helper'', ''_yang_name'', ''_extmethods'', ''__name'',
        ''__description'', ''__type'', ''__enabled'', ''__link_up_down_trap_enable''],
      pb_yang_name = ''interface'',
      pb_generated_by = ''container'',
      pb_path = [''interfaces'', ''interface''],
      pb_members = [yc_interface_ietf_interfaces__interfaces_interface_enabled,
        yc_interface_ietf_interfaces__interfaces_interface_link_up_down_trap_enable,
        yc_interface_ietf_interfaces__interfaces_interface_type,
        yc_interface_ietf_interfaces__interfaces_interface_name,
        yc_interface_ietf_interfaces__interfaces_interface_description],
      pb_properties = yc_interface_ietf_interfaces__interfaces_interface_properties,
      pb_elements = yc_interface_ietf_interfaces__interfaces_interface_elements\<rparr>"

definition yc_interfaces_ietf_interfaces__interfaces_interface :: member where
  "yc_interfaces_ietf_interfaces__interfaces_interface =
     \<lparr>
      m_name = ''interface'',
      m_base = YANGListType ''name'' ''yc_interface_ietf_interfaces__interfaces_interface'' ''interface'' False,
      m_kind = ContainerKind ''list'',
      m_default = None,
      m_yang_name = ''interface'',
      m_register_paths = True,
      m_keyval = False,
      m_namespace = ''urn:ietf:params:xml:ns:yang:ietf-interfaces'',
      m_module = ''ietf-interfaces'',
      m_yang_type = ''list'',
      m_defined_type = ''list''\<rparr>"

definition yc_interfaces_ietf_interfaces__interfaces_properties :: "(string \<times> bool) list" where
  "yc_interfaces_ietf_interfaces__interfaces_properties =
     [(''interface'', True)]"

definition yc_interfaces_ietf_interfaces__interfaces_elements :: "string list" where
  "yc_interfaces_ietf_interfaces__interfaces_elements =
     [''interface'']"

definition yc_interfaces_ietf_interfaces__interfaces :: pb_class where
  "yc_interfaces_ietf_interfaces__interfaces =
     \<lparr>
      pb_name = ''yc_interfaces_ietf_interfaces__interfaces'',
      pb_slots = [''_pybind_generated_by'', ''_path_helper'', ''_yang_name'', ''_extmethods'', ''__interface''],
      pb_yang_name = ''interfaces'',
      pb_generated_by = ''container'',
      pb_path = [''interfaces''],
      pb_members = [yc_interfaces_ietf_interfaces__interfaces_interface],
      pb_properties = yc_interfaces_ietf_interfaces__interfaces_properties,
      pb_elements = yc_interfaces_ietf_interfaces__interfaces_elements\<rparr>"

definition yc_statistics_ietf_interfaces__interfaces_state_interface_statistics_discontinuity_time :: member where
  "yc_statistics_ietf_interfaces__interfaces_state_interface_statistics_discontinuity_time =
     \<lparr>
      m_name = ''discontinuity_time'',
      m_base = RestrictedClassType (Klass ''unicode'') [(''pattern'', RText ([CHR 0x5C] @ ''d{4}-'' @ [CHR 0x5C] @
        ''d{2}-'' @ [CHR 0x5C] @ ''d{2}T'' @ [CHR 0x5C] @ ''d{2}:'' @ [CHR 0x5C] @ ''d{2}:'' @ [CHR 0x5C] @ ''d{2}(''
        @ [CHR 0x5C] @ ''.'' @ [CHR 0x5C] @ ''d+)?(Z|['' @ [CHR 0x5C] @ ''+'' @ [CHR 0x5C] @ ''-]'' @ [CHR 0x5C] @
        ''d{2}:'' @ [CHR 0x5C] @ ''d{2})''))],
      m_kind = LeafKind True,
      m_default = None,
      m_yang_name = ''discontinuity-time'',
      m_register_paths = True,
      m_keyval = False,
      m_namespace = ''urn:ietf:params:xml:ns:yang:ietf-interfaces'',
      m_module = ''ietf-interfaces'',
      m_yang_type = ''yang:date-and-time'',
      m_defined_type = ''yang:date-and-time''\<rparr>"

definition yc_statistics_ietf_interfaces__interfaces_state_interface_statistics_in_octets :: member where
  "yc_statistics_ietf_interfaces__interfaces_state_interface_statistics_in_octets =
     \<lparr>
      m_name = ''in_octets'',
      m_base = Klass ''np.uint64'',
      m_kind = LeafKind True,
      m_default = None,
      m_yang_name = ''in-octets'',
      m_register_paths = True,
      m_keyval = False,
      m_namespace = ''urn:ietf:params:xml:ns:yang:ietf-interfaces'',
      m_module = ''ietf-interfaces'',
      m_yang_type = ''yang:counter64'',
      m_defined_type = ''yang:counter64''\<rparr>"

definition yc_statistics_ietf_interfaces__interfaces_state_interface_statistics_in_discards :: member where
  "yc_statistics_ietf_interfaces__interfaces_state_interface_statistics_in_discards =
     \<lparr>
      m_name = ''in_discards'',
      m_base = Klass ''np.uint32'',
      m_kind = LeafKind True,
      m_default = None,
      m_yang_name = ''in-discards'',
      m_register_paths = True,
      m_keyval = False,
      m_namespace = ''urn:ietf:params:xml:ns:yang:ietf-interfaces'',
      m_module = ''ietf-interfaces'',
      m_yang_type = ''yang:counter32'',
      m_defined_type = ''yang:counter32''\<rparr>"

definition yc_statistics_ietf_interfaces__interfaces_state_interface_statistics_out_errors :: member where
  "yc_statistics_ietf_interfaces__interfaces_state_interface_statistics_out_errors =
     \<lparr>
      m_name = ''out_errors'',
      m_base = Klass ''np.uint32'',
      m_kind = LeafKind True,
      m_default = None,
      m_yang_name = ''out-errors'',
      m_register_paths = True,
      m_keyval = False,
      m_namespace = ''urn:ietf:params:xml:ns:yang:ietf-interfaces'',
      m_module = ''ietf-interfaces'',
      m_yang_type = ''yang:counter32'',
      m_defined_type = ''yang:counter32''\<rparr>"

definition yc_statistics_ietf_interfaces__interfaces_state_interface_statistics_out_broadcast_pkts :: member where
  "yc_statistics_ietf_interfaces__interfaces_state_interface_statistics_out_broadcast_pkts =
     \<lparr>
      m_name = ''out_broadcast_pkts'',
      m_base = Klass ''np.uint64'',
      m_kind = LeafKind True,
      m_default = None,
      m_yang_name = ''out-broadcast-pkts'',
      m_register_paths = True,
      m_keyval = False,
      m_namespace = ''urn:ietf:params:xml:ns:yang:ietf-interfaces'',
      m_module = ''ietf-interfaces'',
      m_yang_type = ''yang:counter64'',
      m_defined_type = ''yang:counter64''\<rparr>"

definition yc_statistics_ietf_interfaces__interfaces_state_interface_statistics_in_broadcast_pkts :: member where
  "yc_statistics_ietf_interfaces__interfaces_state_interface_statistics_in_broadcast_pkts =
     \<lparr>
      m_name = ''in_broadcast_pkts'',
      m_base = Klass ''np.uint64'',
      m_kind = LeafKind True,
      m_default = None,
      m_yang_name = ''in-broadcast-pkts'',
      m_register_paths = True,
      m_keyval = False,
      m_namespace = ''urn:ietf:params:xml:ns:yang:ietf-interfaces'',
      m_module = ''ietf-interfaces'',
      m_yang_type = ''yang:counter64'',
      m_defined_type = ''yang:counter64''\<rparr>"

definition yc_statistics_ietf_interfaces__interfaces_state_interface_statistics_in_errors :: member where
  "yc_statistics_ietf_interfaces__interfaces_state_interface_statistics_in_errors =
     \<lparr>
      m_name = ''in_errors'',
      m_base = Klass ''np.uint32'',
      m_kind = LeafKind True,
      m_default = None,
      m_yang_name = ''in-errors'',
      m_register_paths = True,
      m_keyval = False,
      m_namespace = ''urn:ietf:params:xml:ns:yang:ietf-interfaces'',
      m_module = ''ietf-interfaces'',
      m_yang_type = ''yang:counter32'',
      m_defined_type = ''yang:counter32''\<rparr>"

definition yc_statistics_ietf_interfaces__interfaces_state_interface_statistics_out_unicast_pkts :: member where
  "yc_statistics_ietf_interfaces__interfaces_state_interface_statistics_out_unicast_pkts =
     \<lparr>
      m_name = ''out_unicast_pkts'',
      m_base = Klass ''np.uint64'',
      m_kind = LeafKind True,
      m_default = None,
      m_yang_name = ''out-unicast-pkts'',
      m_register_paths = True,
      m_keyval = False,
      m_namespace = ''urn:ietf:params:xml:ns:yang:ietf-interfaces'',
      m_module = ''ietf-interfaces'',
      m_yang_type = ''yang:counter64'',
      m_defined_type = ''yang:counter64''\<rparr>"

definition yc_statistics_ietf_interfaces__interfaces_state_interface_statistics_in_multicast_pkts :: member where
  "yc_statistics_ietf_interfaces__interfaces_state_interface_statistics_in_multicast_pkts =
     \<lparr>
      m_name = ''in_multicast_pkts'',
      m_base = Klass ''np.uint64'',
      m_kind = LeafKind True,
      m_default = None,
      m_yang_name = ''in-multicast-pkts'',
      m_register_paths = True,
      m_keyval = False,
      m_namespace = ''urn:ietf:params:xml:ns:yang:ietf-interfaces'',
      m_module = ''ietf-interfaces'',
      m_yang_type = ''yang:counter64'',
      m_defined_type = ''yang:counter64''\<rparr>"

definition yc_statistics_ietf_interfaces__interfaces_state_interface_statistics_in_unicast_pkts :: member where
  "yc_statistics_ietf_interfaces__interfaces_state_interface_statistics_in_unicast_pkts =
     \<lparr>
      m_name = ''in_unicast_pkts'',
      m_base = Klass ''np.uint64'',
      m_kind = LeafKind True,
      m_default = None,
      m_yang_name = ''in-unicast-pkts'',
      m_register_paths = True,
      m_keyval = False,
      m_namespace = ''urn:ietf:params:xml:ns:yang:ietf-interfaces'',
      m_module = ''ietf-interfaces'',
      m_yang_type = ''yang:counter64'',
      m_defined_type = ''yang:counter64''\<rparr>"

definition yc_statistics_ietf_interfaces__interfaces_state_interface_statistics_in_unknown_protos :: member where
  "yc_statistics_ietf_interfaces__interfaces_state_interface_statistics_in_unknown_protos =
     \<lparr>
      m_name = ''in_unknown_protos'',
      m_base = Klass ''np.uint32'',
      m_kind = LeafKind True,
      m_default = None,
      m_yang_name = ''in-unknown-protos'',
      m_register_paths = True,
      m_keyval = False,
      m_namespace = ''urn:ietf:params:xml:ns:yang:ietf-interfaces'',
      m_module = ''ietf-interfaces'',
      m_yang_type = ''yang:counter32'',
      m_defined_type = ''yang:counter32''\<rparr>"

definition yc_statistics_ietf_interfaces__interfaces_state_interface_statistics_out_discards :: member where
  "yc_statistics_ietf_interfaces__interfaces_state_interface_statistics_out_discards =
     \<lparr>
      m_name = ''out_discards'',
      m_base = Klass ''np.uint32'',
      m_kind = LeafKind True,
      m_default = None,
      m_yang_name = ''out-discards'',
      m_register_paths = True,
      m_keyval = False,
      m_namespace = ''urn:ietf:params:xml:ns:yang:ietf-interfaces'',
      m_module = ''ietf-interfaces'',
      m_yang_type = ''yang:counter32'',
      m_defined_type = ''yang:counter32''\<rparr>"

definition yc_statistics_ietf_interfaces__interfaces_state_interface_statistics_out_multicast_pkts :: member where
  "yc_statistics_ietf_interfaces__interfaces_state_interface_statistics_out_multicast_pkts =
     \<lparr>
      m_name = ''out_multicast_pkts'',
      m_base = Klass ''np.uint64'',
      m_kind = LeafKind True,
      m_default = None,
      m_yang_name = ''out-multicast-pkts'',
      m_register_paths = True,
      m_keyval = False,
      m_namespace = ''urn:ietf:params:xml:ns:yang:ietf-interfaces'',
      m_module = ''ietf-interfaces'',
      m_yang_type = ''yang:counter64'',
      m_defined_type = ''yang:counter64''\<rparr>"

definition yc_statistics_ietf_interfaces__interfaces_state_interface_statistics_out_octets :: member where
  "yc_statistics_ietf_interfaces__interfaces_state_interface_statistics_out_octets =
     \<lparr>
      m_name = ''out_octets'',
      m_base = Klass ''np.uint64'',
      m_kind = LeafKind True,
      m_default = None,
      m_yang_name = ''out-octets'',
      m_register_paths = True,
      m_keyval = False,
      m_namespace = ''urn:ietf:params:xml:ns:yang:ietf-interfaces'',
      m_module = ''ietf-interfaces'',
      m_yang_type = ''yang:counter64'',
      m_defined_type = ''yang:counter64''\<rparr>"

definition yc_statistics_ietf_interfaces__interfaces_state_interface_statistics_properties :: "(string \<times> bool) list" where
  "yc_statistics_ietf_interfaces__interfaces_state_interface_statistics_properties =
     [(''discontinuity_time'', False), (''in_octets'', False), (''in_unicast_pkts'', False), (''in_broadcast_pkts'',
       False), (''in_multicast_pkts'', False), (''in_discards'', False), (''in_errors'', False),
       (''in_unknown_protos'', False), (''out_octets'', False), (''out_unicast_pkts'', False),
       (''out_broadcast_pkts'', False), (''out_multicast_pkts'', False), (''out_discards'', False), (''out_errors'',
       False)]"

definition yc_statistics_ietf_interfaces__interfaces_state_interface_statistics_elements :: "string list" where
  "yc_statistics_ietf_interfaces__interfaces_state_interface_statistics_elements =
     [''discontinuity_time'', ''in_octets'', ''in_unicast_pkts'', ''in_broadcast_pkts'', ''in_multicast_pkts'',
       ''in_discards'', ''in_errors'', ''in_unknown_protos'', ''out_octets'', ''out_unicast_pkts'',
       ''out_broadcast_pkts'', ''out_multicast_pkts'', ''out_discards'', ''out_errors'']"

definition yc_statistics_ietf_interfaces__interfaces_state_interface_statistics :: pb_class where
  "yc_statistics_ietf_interfaces__interfaces_state_interface_statistics =
     \<lparr>
      pb_name = ''yc_statistics_ietf_interfaces__interfaces_state_interface_statistics'',
      pb_slots = [''_pybind_generated_by'', ''_path_helper'', ''_yang_name'', ''_extmethods'',
        ''__discontinuity_time'', ''__in_octets'', ''__in_unicast_pkts'', ''__in_broadcast_pkts'',
        ''__in_multicast_pkts'', ''__in_discards'', ''__in_errors'', ''__in_unknown_protos'', ''__out_octets'',
        ''__out_unicast_pkts'', ''__out_broadcast_pkts'', ''__out_multicast_pkts'', ''__out_discards'',
        ''__out_errors''],
      pb_yang_name = ''statistics'',
      pb_generated_by = ''container'',
      pb_path = [''interfaces-state'', ''interface'', ''statistics''],
      pb_members = [yc_statistics_ietf_interfaces__interfaces_state_interface_statistics_discontinuity_time,
        yc_statistics_ietf_interfaces__interfaces_state_interface_statistics_in_octets,
        yc_statistics_ietf_interfaces__interfaces_state_interface_statistics_in_discards,
        yc_statistics_ietf_interfaces__interfaces_state_interface_statistics_out_errors,
        yc_statistics_ietf_interfaces__interfaces_state_interface_statistics_out_broadcast_pkts,
        yc_statistics_ietf_interfaces__interfaces_state_interface_statistics_in_broadcast_pkts,
        yc_statistics_ietf_interfaces__interfaces_state_interface_statistics_in_errors,
        yc_statistics_ietf_interfaces__interfaces_state_interface_statistics_out_unicast_pkts,
        yc_statistics_ietf_interfaces__interfaces_state_interface_statistics_in_multicast_pkts,
        yc_statistics_ietf_interfaces__interfaces_state_interface_statistics_in_unicast_pkts,
        yc_statistics_ietf_interfaces__interfaces_state_interface_statistics_in_unknown_protos,
        yc_statistics_ietf_interfaces__interfaces_state_interface_statistics_out_discards,
        yc_statistics_ietf_interfaces__interfaces_state_interface_statistics_out_multicast_pkts,
        yc_statistics_ietf_interfaces__interfaces_state_interface_statistics_out_octets],
      pb_properties = yc_statistics_ietf_interfaces__interfaces_state_interface_statistics_properties,
      pb_elements = yc_statistics_ietf_interfaces__interfaces_state_interface_statistics_elements\<rparr>"

definition yc_interface_ietf_interfaces__interfaces_state_interface_statistics :: member where
  "yc_interface_ietf_interfaces__interfaces_state_interface_statistics =
     \<lparr>
      m_name = ''statistics'',
      m_base = Klass ''yc_statistics_ietf_interfaces__interfaces_state_interface_statistics'',
      m_kind = ContainerKind ''container'',
      m_default = None,
      m_yang_name = ''statistics'',
      m_register_paths = True,
      m_keyval = False,
      m_namespace = ''urn:ietf:params:xml:ns:yang:ietf-interfaces'',
      m_module = ''ietf-interfaces'',
      m_yang_type = ''container'',
      m_defined_type = ''container''\<rparr>"

definition yc_interface_ietf_interfaces__interfaces_state_interface_if_index :: member where
  "yc_interface_ietf_interfaces__interfaces_state_interface_if_index =
     \<lparr>
      m_name = ''if_index'',
      m_base = RestrictedClassType (Klass ''np.int32'') [(''range'', RList [''1..2147483647''])],
      m_kind = LeafKind True,
      m_default = None,
      m_yang_name = ''if-index'',
      m_register_paths = True,
      m_keyval = False,
      m_namespace = ''urn:ietf:params:xml:ns:yang:ietf-interfaces'',
      m_module = ''ietf-interfaces'',
      m_yang_type = ''int32'',
      m_defined_type = ''int32''\<rparr>"

definition yc_interface_ietf_interfaces__interfaces_state_interface_name :: member where
  "yc_interface_ietf_interfaces__interfaces_state_interface_name =
     \<lparr>
      m_name = ''name'',
      m_base = Klass ''unicode'',
      m_kind = LeafKind True,
      m_default = None,
      m_yang_name = ''name'',
      m_register_paths = True,
      m_keyval = True,
      m_namespace = ''urn:ietf:params:xml:ns:yang:ietf-interfaces'',
      m_module = ''ietf-interfaces'',
      m_yang_type = ''string'',
      m_defined_type = ''string''\<rparr>"

definition yc_interface_ietf_interfaces__interfaces_state_interface_higher_layer_if :: member where
  "yc_interface_ietf_interfaces__interfaces_state_interface_higher_layer_if =
     \<lparr>
      m_name = ''higher_layer_if'',
      m_base = TypedListType (Klass ''unicode''),
      m_kind = LeafKind False,
      m_default = None,
      m_yang_name = ''higher-layer-if'',
      m_register_paths = True,
      m_keyval = False,
      m_namespace = ''urn:ietf:params:xml:ns:yang:ietf-interfaces'',
      m_module = ''ietf-interfaces'',
      m_yang_type = ''interface-state-ref'',
      m_defined_type = ''ietf-interfaces:interface-state-ref''\<rparr>"

definition yc_interface_ietf_interfaces__interfaces_state_interface_type :: member where
  "yc_interface_ietf_interfaces__interfaces_state_interface_type =
     \<lparr>
      m_name = ''type'',
      m_base = RestrictedDictKey (Klass ''unicode'') [],
      m_kind = LeafKind True,
      m_default = None,
      m_yang_name = ''type'',
      m_register_paths = True,
      m_keyval = False,
      m_namespace = ''urn:ietf:params:xml:ns:yang:ietf-interfaces'',
      m_module = ''ietf-interfaces'',
      m_yang_type = ''identityref'',
      m_defined_type = ''ietf-interfaces:identityref''\<rparr>"

definition yc_interface_ietf_interfaces__interfaces_state_interface_admin_status :: member where
  "yc_interface_ietf_interfaces__interfaces_state_interface_admin_status =
     \<lparr>
      m_name = ''admin_status'',
      m_base = RestrictedDictKey (Klass ''unicode'') [(''down'', [(''value'', KInt 2)]), (''testing'', [(''value'',
        KInt 3)]), (''up'', [(''value'', KInt 1)])],
      m_kind = LeafKind True,
      m_default = None,
      m_yang_name = ''admin-status'',
      m_register_paths = True,
      m_keyval = False,
      m_namespace = ''urn:ietf:params:xml:ns:yang:ietf-interfaces'',
      m_module = ''ietf-interfaces'',
      m_yang_type = ''enumeration'',
      m_defined_type = ''ietf-interfaces:enumeration''\<rparr>"

definition yc_interface_ietf_interfaces__interfaces_state_interface_oper_status :: member where
  "yc_interface_ietf_interfaces__interfaces_state_interface_oper_status =
     \<lparr>
      m_name = ''oper_status'',
      m_base = RestrictedDictKey (Klass ''unicode'') [(''dormant'', [(''value'', KInt 5)]), (''lower-layer-down'',
        [(''value'', KInt 7)]), (''unknown'', [(''value'', KInt 4)]), (''testing'', [(''value'', KInt 3)]), (''up'',
        [(''value'', KInt 1)]), (''down'', [(''value'', KInt 2)]), (''not-present'', [(''value'', KInt 6)])],
      m_kind = LeafKind True,
      m_default = None,
      m_yang_name = ''oper-status'',
      m_register_paths = True,
      m_keyval = False,
      m_namespace = ''urn:ietf:params:xml:ns:yang:ietf-interfaces'',
      m_module = ''ietf-interfaces'',
      m_yang_type = ''enumeration'',
      m_defined_type = ''ietf-interfaces:enumeration''\<rparr>"

definition yc_interface_ietf_interfaces__interfaces_state_interface_lower_layer_if :: member where
  "yc_interface_ietf_interfaces__interfaces_state_interface_lower_layer_if =
     \<lparr>
      m_name = ''lower_layer_if'',
      m_base = TypedListType (Klass ''unicode''),
      m_kind = LeafKind False,
      m_default = None,
      m_yang_name = ''lower-layer-if'',
      m_register_paths = True,
      m_keyval = False,
      m_namespace = ''urn:ietf:params:xml:ns:yang:ietf-interfaces'',
      m_module = ''ietf-interfaces'',
      m_yang_type = ''interface-state-ref'',
      m_defined_type = ''ietf-interfaces:interface-state-ref''\<rparr>"

definition yc_interface_ietf_interfaces__interfaces_state_interface_last_change :: member where
  "yc_interface_ietf_interfaces__interfaces_state_interface_last_change =
     \<lparr>
      m_name = ''last_change'',
      m_base = RestrictedClassType (Klass ''unicode'') [(''pattern'', RText ([CHR 0x5C] @ ''d{4}-'' @ [CHR 0x5C] @
        ''d{2}-'' @ [CHR 0x5C] @ ''d{2}T'' @ [CHR 0x5C] @ ''d{2}:'' @ [CHR 0x5C] @ ''d{2}:'' @ [CHR 0x5C] @ ''d{2}(''
        @ [CHR 0x5C] @ ''.'' @ [CHR 0x5C] @ ''d+)?(Z|['' @ [CHR 0x5C] @ ''+'' @ [CHR 0x5C] @ ''-]'' @ [CHR 0x5C] @
        ''d{2}:'' @ [CHR 0x5C] @ ''d{2})''))],
      m_kind = LeafKind True,
      m_default = None,
      m_yang_name = ''last-change'',
      m_register_paths = True,
      m_keyval = False,
      m_namespace = ''urn:ietf:params:xml:ns:yang:ietf-interfaces'',
      m_module = ''ietf-interfaces'',
      m_yang_type = ''yang:date-and-time'',
      m_defined_type = ''yang:date-and-time''\<rparr>"

definition yc_interface_ietf_interfaces__interfaces_state_interface_speed :: member where
  "yc_interface_ietf_interfaces__interfaces_state_interface_speed =
     \<lparr>
      m_name = ''speed'',
      m_base = Klass ''np.uint64'',
      m_kind = LeafKind True,
      m_default = None,
      m_yang_name = ''speed'',
      m_register_paths = True,
      m_keyval = False,
      m_namespace = ''urn:ietf:params:xml:ns:yang:ietf-interfaces'',
      m_module = ''ietf-interfaces'',
      m_yang_type = ''yang:gauge64'',
      m_defined_type = ''yang:gauge64''\<rparr>"

definition yc_interface_ietf_interfaces__interfaces_state_interface_phys_address :: member where
  "yc_interface_ietf_interfaces__interfaces_state_interface_phys_address =
     \<lparr>
      m_name = ''phys_address'',
      m_base = RestrictedClassType (Klass ''unicode'') [(''pattern'', RText ''([0-9a-fA-F]{2}(:[0-9a-fA-F]{2})*)?'')],
      m_kind = LeafKind True,
      m_default = None,
      m_yang_name = ''phys-address'',
      m_register_paths = True,
      m_keyval = False,
      m_namespace = ''urn:ietf:params:xml:ns:yang:ietf-interfaces'',
      m_module = ''ietf-interfaces'',
      m_yang_type = ''yang:phys-address'',
      m_defined_type = ''yang:phys-address''\<rparr>"

definition yc_interface_ietf_interfaces__interfaces_state_interface_properties :: "(string \<times> bool) list" where
  "yc_interface_ietf_interfaces__interfaces_state_interface_properties =
     [(''name'', False), (''type'', False), (''admin_status'', False), (''oper_status'', False), (''last_change'',
       False), (''if_index'', False), (''phys_address'', False), (''higher_layer_if'', False), (''lower_layer_if'',
       False), (''speed'', False), (''statistics'', False)]"

definition yc_interface_ietf_interfaces__interfaces_state_interface_elements :: "string list" where
  "yc_interface_ietf_interfaces__interfaces_state_interface_elements =
     [''name'', ''type'', ''admin_status'', ''oper_status'', ''last_change'', ''if_index'', ''phys_address'',
       ''higher_layer_if'', ''lower_layer_if'', ''speed'', ''statistics'']"

definition yc_interface_ietf_interfaces__interfaces_state_interface :: pb_class where
  "yc_interface_ietf_interfaces__interfaces_state_interface =
     \<lparr>
      pb_name = ''yc_interface_ietf_interfaces__interfaces_state_interface'',
      pb_slots = [''_pybind_generated_by'', ''_path_helper'', ''_yang_name'', ''_extmethods'', ''__name'',
        ''__type'', ''__admin_status'', ''__oper_status'', ''__last_change'', ''__if_index'', ''__phys_address'',
        ''__higher_layer_if'', ''__lower_layer_if'', ''__speed'', ''__statistics''],
      pb_yang_name = ''interface'',
      pb_generated_by = ''container'',
      pb_path = [''interfaces-state'', ''interface''],
      pb_members = [yc_interface_ietf_interfaces__interfaces_state_interface_statistics,
        yc_interface_ietf_interfaces__interfaces_state_interface_if_index,
        yc_interface_ietf_interfaces__interfaces_state_interface_name,
        yc_interface_ietf_interfaces__interfaces_state_interface_higher_layer_if,
        yc_interface_ietf_interfaces__interfaces_state_interface_type,
        yc_interface_ietf_interfaces__interfaces_state_interface_admin_status,
        yc_interface_ietf_interfaces__interfaces_state_interface_oper_status,
        yc_interface_ietf_interfaces__interfaces_state_interface_lower_layer_if,
        yc_interface_ietf_interfaces__interfaces_state_interface_last_change,
        yc_interface_ietf_interfaces__interfaces_state_interface_speed,
        yc_interface_ietf_interfaces__interfaces_state_interface_phys_address],
      pb_properties = yc_interface_ietf_interfaces__interfaces_state_interface_properties,
      pb_elements = yc_interface_ietf_interfaces__interfaces_state_interface_elements\<rparr>"

definition yc_interfaces_state_ietf_interfaces__interfaces_state_interface :: member where
  "yc_interfaces_state_ietf_interfaces__interfaces_state_interface =
     \<lparr>
      m_name = ''interface'',
      m_base = YANGListType ''name'' ''yc_interface_ietf_interfaces__interfaces_state_interface'' ''interface'' False,
      m_kind = ContainerKind ''list'',
      m_default = None,
      m_yang_name = ''interface'',
      m_register_paths = True,
      m_keyval = False,
      m_namespace = ''urn:ietf:params:xml:ns:yang:ietf-interfaces'',
      m_module = ''ietf-interfaces'',
      m_yang_type = ''list'',
      m_defined_type = ''list''\<rparr>"

definition yc_interfaces_state_ietf_interfaces__interfaces_state_properties :: "(string \<times> bool) list" where
  "yc_interfaces_state_ietf_interfaces__interfaces_state_properties =
     [(''interface'', False)]"

definition yc_interfaces_state_ietf_interfaces__interfaces_state_elements :: "string list" where
  "yc_interfaces_state_ietf_interfaces__interfaces_state_elements =
     [''interface'']"

definition yc_interfaces_state_ietf_interfaces__interfaces_state :: pb_class where
  "yc_interfaces_state_ietf_interfaces__interfaces_state =
     \<lparr>
      pb_name = ''yc_interfaces_state_ietf_interfaces__interfaces_state'',
      pb_slots = [''_pybind_generated_by'', ''_path_helper'', ''_yang_name'', ''_extmethods'', ''__interface''],
      pb_yang_name = ''interfaces-state'',
      pb_generated_by = ''container'',
      pb_path = [''interfaces-state''],
      pb_members = [yc_interfaces_state_ietf_interfaces__interfaces_state_interface],
      pb_properties = yc_interfaces_state_ietf_interfaces__interfaces_state_properties,
      pb_elements = yc_interfaces_state_ietf_interfaces__interfaces_state_elements\<rparr>"

definition ietf_interfaces_interfaces :: member where
  "ietf_interfaces_interfaces =
     \<lparr>
      m_name = ''interfaces'',
      m_base = Klass ''yc_interfaces_ietf_interfaces__interfaces'',
      m_kind = ContainerKind ''container'',
      m_default = None,
      m_yang_name = ''interfaces'',
      m_register_paths = True,
      m_keyval = False,
      m_namespace = ''urn:ietf:params:xml:ns:yang:ietf-interfaces'',
      m_module = ''ietf-interfaces'',
      m_yang_type = ''container'',
      m_defined_type = ''container''\<rparr>"

definition ietf_interfaces_interfaces_state :: member where
  "ietf_interfaces_interfaces_state =
     \<lparr>
      m_name = ''interfaces_state'',
      m_base = Klass ''yc_interfaces_state_ietf_interfaces__interfaces_state'',
      m_kind = ContainerKind ''container'',
      m_default = None,
      m_yang_name = ''interfaces-state'',
      m_register_paths = True,
      m_keyval = False,
      m_namespace = ''urn:ietf:params:xml:ns:yang:ietf-interfaces'',
      m_module = ''ietf-interfaces'',
      m_yang_type = ''container'',
      m_defined_type = ''container''\<rparr>"

definition ietf_interfaces_properties :: "(string \<times> bool) list" where
  "ietf_interfaces_properties =
     [(''interfaces'', True), (''interfaces_state'', True)]"

definition ietf_interfaces_elements :: "string list" where
  "ietf_interfaces_elements =
     [''interfaces'', ''interfaces_state'']"

definition ietf_interfaces :: pb_class where
  "ietf_interfaces =
     \<lparr>
      pb_name = ''ietf_interfaces'',
      pb_slots = [''_pybind_generated_by'', ''_path_helper'', ''_yang_name'', ''_extmethods'', ''__interfaces'',
        ''__interfaces_state''],
      pb_yang_name = ''ietf-interfaces'',
      pb_generated_by = ''container'',
      pb_path = [],
      pb_members = [ietf_interfaces_interfaces, ietf_interfaces_interfaces_state],
      pb_properties = ietf_interfaces_properties,
      pb_elements = ietf_interfaces_elements\<rparr>"

definition ietf_interfaces_classes :: "pb_class list" where
  "ietf_interfaces_classes =
     [yc_interface_ietf_interfaces__interfaces_interface, yc_interfaces_ietf_interfaces__interfaces,
       yc_statistics_ietf_interfaces__interfaces_state_interface_statistics,
       yc_interface_ietf_interfaces__interfaces_state_interface,
       yc_interfaces_state_ietf_interfaces__interfaces_state, ietf_interfaces]"

lemmas ietf_interfaces_defs =
  yc_interface_ietf_interfaces__interfaces_interface_enabled_def
  yc_interface_ietf_interfaces__interfaces_interface_link_up_down_trap_enable_def
  yc_interface_ietf_interfaces__interfaces_interface_type_def
  yc_interface_ietf_interfaces__interfaces_interface_name_def
  yc_interface_ietf_interfaces__interfaces_interface_description_def
  yc_interface_ietf_interfaces__interfaces_interface_properties_def
  yc_interface_ietf_interfaces__interfaces_interface_elements_def
  yc_interface_ietf_interfaces__interfaces_interface_def
  yc_interfaces_ietf_interfaces__interfaces_interface_def
  yc_interfaces_ietf_interfaces__interfaces_properties_def
  yc_interfaces_ietf_interfaces__interfaces_elements_def
  yc_interfaces_ietf_interfaces__interfaces_def
  yc_statistics_ietf_interfaces__interfaces_state_interface_statistics_discontinuity_time_def
  yc_statistics_ietf_interfaces__interfaces_state_interface_statistics_in_octets_def
  yc_statistics_ietf_interfaces__interfaces_state_interface_statistics_in_discards_def
  yc_statistics_ietf_interfaces__interfaces_state_interface_statistics_out_errors_def
  yc_statistics_ietf_interfaces__interfaces_state_interface_statistics_out_broadcast_pkts_def
  yc_statistics_ietf_interfaces__interfaces_state_interface_statistics_in_broadcast_pkts_def
  yc_statistics_ietf_interfaces__interfaces_state_interface_statistics_in_errors_def
  yc_statistics_ietf_interfaces__interfaces_state_interface_statistics_out_unicast_pkts_def
  yc_statistics_ietf_interfaces__interfaces_state_interface_statistics_in_multicast_pkts_def
  yc_statistics_ietf_interfaces__interfaces_state_interface_statistics_in_unicast_pkts_def
  yc_statistics_ietf_interfaces__interfaces_state_interface_statistics_in_unknown_protos_def
  yc_statistics_ietf_interfaces__interfaces_state_interface_statistics_out_discards_def
  yc_statistics_ietf_interfaces__interfaces_state_interface_statistics_out_multicast_pkts_def
  yc_statistics_ietf_interfaces__interfaces_state_interface_statistics_out_octets_def
  yc_statistics_ietf_interfaces__interfaces_state_interface_statistics_properties_def
  yc_statistics_ietf_interfaces__interfaces_state_interface_statistics_elements_def
  yc_statistics_ietf_interfaces__interfaces_state_interface_statistics_def
  yc_interface_ietf_interfaces__interfaces_state_interface_statistics_def
  yc_interface_ietf_interfaces__interfaces_state_interface_if_index_def
  yc_interface_ietf_interfaces__interfaces_state_interface_name_def
  yc_interface_ietf_interfaces__interfaces_state_interface_higher_layer_if_def
  yc_interface_ietf_interfaces__interfaces_state_interface_type_def
  yc_interface_ietf_interfaces__interfaces_state_interface_admin_status_def
  yc_interface_ietf_interfaces__interfaces_state_interface_oper_status_def
  yc_interface_ietf_interfaces__interfaces_state_interface_lower_layer_if_def
  yc_interface_ietf_interfaces__interfaces_state_interface_last_change_def
  yc_interface_ietf_interfaces__interfaces_state_interface_speed_def
  yc_interface_ietf_interfaces__interfaces_state_interface_phys_address_def
  yc_interface_ietf_interfaces__interfaces_state_interface_properties_def
  yc_interface_ietf_interfaces__interfaces_state_interface_elements_def
  yc_interface_ietf_interfaces__interfaces_state_interface_def
  yc_interfaces_state_ietf_interfaces__interfaces_state_interface_def
  yc_interfaces_state_ietf_interfaces__interfaces_state_properties_def
  yc_interfaces_state_ietf_interfaces__interfaces_state_elements_def
  yc_interfaces_state_ietf_interfaces__interfaces_state_def
  ietf_interfaces_interfaces_def
  ietf_interfaces_interfaces_state_def
  ietf_interfaces_properties_def
  ietf_interfaces_elements_def
  ietf_interfaces_def
  ietf_interfaces_classes_def

lemma ietf_interfaces_schema: "schema_ok ietf_interfaces_classes"
  by code_simp

end
