(* ===== verification/GeneratedBindings.thy ===== *)
theory GeneratedBindings
  imports ToasterBinding YangLibraryBinding JukeboxBinding InterfacesBinding
begin

section \<open>The generated modules\<close>

text \<open>
  What holds for the classes of the four generated files, and applications of the properties of
  \<open>BindingFacts\<close> and \<open>BindingSchema\<close> to some of them, with a \<open>YANGDynClass\<close> that keeps every text
  but one.
\<close>

text \<open>
  The classes of all four generated modules fit together: elements, slots and members
  agree, the paths of the classes follow their nesting, and the keys of each list are the
  members of its entries that are marked as keys.
\<close>

lemma generated_schemas:
  "list_all schema_ok [toaster_classes, ietf_yang_library_classes, example_jukebox_classes, ietf_interfaces_classes]"
  by (simp add: toaster_schema ietf_yang_library_schema example_jukebox_schema ietf_interfaces_schema)

lemma yang_library_settable:
  "list_all (\<lambda>c. list_all (\<lambda>m. dict_get (pb_properties c) (m_name m) \<noteq> Some True) (pb_members c))
     (butlast ietf_yang_library_classes)"
  by code_simp

text \<open>
  The YANG library is read-only: below its root no member of any class can be assigned, the
  assignment raises an \<open>AttributeError\<close> and changes nothing.
\<close>

theorem yang_library_read_only:
  assumes "o_class ob \<in> set (butlast ietf_yang_library_classes)" and "m \<in> set (pb_members (o_class ob))"
  shows "\<exists>msg. assign_member lib ob m v = (Inl (AttributeError msg), ob)"
proof -
  from assms yang_library_settable have "dict_get (pb_properties (o_class ob)) (m_name m) \<noteq> Some True"
    unfolding list_all_iff by blast
  then show ?thesis by (simp add: assign_member_def)
qed

definition text_lib :: "(string, string) pybind" where
  "text_lib =
     \<lparr>dyn = (\<lambda>ob m v. case v of
          None \<Rightarrow> Inr ''default''
        | Some s \<Rightarrow> if s = ''bad'' then Inl (ValueError s) else Inr s),
      set_hook = (\<lambda>ob. case o_parent ob of ParentObject e p \<Rightarrow> Some (Inr (), ob) | _ \<Rightarrow> None),
      key_order = rev\<rparr>"

lemma text_lib_ok: "hook_keeps text_lib" "header_only text_lib"
  by (auto simp: hook_keeps_def header_only_def same_header_def text_lib_def split: parent_attr.split)

definition deviation :: pb_class where
  "deviation = yc_deviation_ietf_yang_library__modules_state_module_deviation"

definition deviation_name :: member where
  "deviation_name = yc_deviation_ietf_yang_library__modules_state_module_deviation_name"

definition deviation_object :: "parent_attr \<Rightarrow> string pb_object" where
  "deviation_object parent =
     \<lparr>o_class = deviation, o_parent = parent, o_ext = ExtFalse,
      o_values = [(''name'', ''default''), (''revision'', ''default'')]\<rparr>"

lemma deviation_ok: "members_ok deviation" "deviation_name \<in> set (pb_members deviation)"
  by code_simp+

text \<open>The dictionary that a setter raises, printed.\<close>

lemma type_error_sample:
  "type_error deviation_name = ValueErrorOf
     [(''error-string'', ''name must be of a type compatible with yang:yang-identifier''),
      (''defined-type'', ''yang:yang-identifier''),
      (''generated-type'',
       ''YANGDynClass(base=RestrictedClassType(base_type=unicode, restriction_dict={'' @ quoted ''pattern'' @ '': u'' @
       quoted (''[a-zA-Z_][a-zA-Z0-9'' @ [CHR 0x5C] @ ''-_.]*'') @ '', '' @ quoted ''length'' @ '': [u'' @ quoted ''1..max'' @
       '']}), is_leaf=True, yang_name='' @ in_quotes ''name'' @ '', parent=self, path_helper=self._path_helper, '' @
       ''extmethods=self._extmethods, register_paths=True, is_keyval=True, namespace='' @
       quoted ''urn:ietf:params:xml:ns:yang:ietf-yang-library'' @ '', defining_module='' @ quoted ''ietf-yang-library'' @
       '', yang_type='' @ quoted ''yang:yang-identifier'' @ '')'')]"
  by code_simp

text \<open>An entry of the list of playlists: its description is set, its key is not.\<close>

definition playlist_entry :: "string pb_object" where
  "playlist_entry =
     \<lparr>o_class = yc_playlist_example_jukebox__jukebox_playlist, o_parent = ParentObject ExtFalse [], o_ext = ExtFalse,
      o_values = [(''name'', ''party''), (''description'', ''default''), (''song'', ''default'')]\<rparr>"

definition playlist_assignments :: "(member \<times> string) list" where
  "playlist_assignments =
     [(yc_playlist_example_jukebox__jukebox_playlist_description, ''loud''),
      (yc_playlist_example_jukebox__jukebox_playlist_description, ''bad''),
      (yc_playlist_example_jukebox__jukebox_playlist_name, ''other'')]"

theorem assignments_last_wins_witness:
  "get_member (assign_all text_lib playlist_assignments playlist_entry)
     yc_playlist_example_jukebox__jukebox_playlist_description = Inr ''loud'' \<and>
   same_header (assign_all text_lib playlist_assignments playlist_entry) playlist_entry"
proof -
  have "(case find (\<lambda>(m', v). m_name m' = m_name yc_playlist_example_jukebox__jukebox_playlist_description \<and>
        assignable text_lib playlist_entry m' v) (rev playlist_assignments) of
      None \<Rightarrow> get_member playlist_entry yc_playlist_example_jukebox__jukebox_playlist_description
    | Some (m', v) \<Rightarrow> dyn text_lib playlist_entry m' (Some v)) = Inr ''loud''"
    by code_simp
  then show ?thesis using assignments_last_wins [OF text_lib_ok] by metis
qed

theorem set_get_unset_witness:
  "get_member (snd (set_member text_lib (deviation_object NoParent) deviation_name ''x'' False)) deviation_name = Inr ''x'' \<and>
   unset_member text_lib (snd (set_member text_lib (deviation_object NoParent) deviation_name ''x'' False)) deviation_name =
     (Inr (), deviation_object NoParent)"
proof -
  have *: "set_member text_lib (deviation_object NoParent) deviation_name ''x'' False =
      (Inr (), snd (set_member text_lib (deviation_object NoParent) deviation_name ''x'' False))"
    "dyn text_lib (deviation_object NoParent) deviation_name None = Inr ''default''"
    "dyn text_lib (deviation_object NoParent) deviation_name (Some ''x'') = Inr ''x''"
    "get_member (deviation_object NoParent) deviation_name = Inr ''default''"
    by code_simp+
  from set_get_unset [OF text_lib_ok *(1,2)] *(3,4) show ?thesis by auto
qed

definition source :: "string \<Rightarrow> string option" where
  "source e = (if e = ''name'' then Some ''ietf-yang-types'' else if e = ''revision'' then Some ''2013-07-15'' else None)"

definition deviation_copy :: "string pb_object" where
  "deviation_copy = (deviation_object NoParent)\<lparr>o_values := [(''name'', ''ietf-yang-types''), (''revision'', ''2013-07-15'')]\<rparr>"

lemma deviation_init: "pb_init text_lib deviation NoParent ExtNone [source] None = Inr deviation_copy"
  by code_simp

lemma deviation_order: "mset (key_order text_lib (pb_elements deviation)) = mset (pb_elements deviation)"
  by (simp add: text_lib_def)

theorem pb_init_object_witness:
  "dict_keys (o_values deviation_copy) = m_name ` set (pb_members deviation)"
  using pb_init_object [OF text_lib_ok(1) deviation_init] by blast

theorem pb_init_copies_witness:
  "\<exists>v t. source (m_name deviation_name) = Some v \<and> dyn text_lib deviation_copy deviation_name (Some v) = Inr t \<and>
     get_member deviation_copy deviation_name = Inr t"
  by (rule pb_init_copies [OF text_lib_ok deviation_ok(1) deviation_order deviation_init deviation_ok(2)])

theorem pb_init_any_order_witness:
  "pb_init (text_lib\<lparr>key_order := rev\<rparr>) deviation NoParent ExtNone [source] None = Inr deviation_copy \<longleftrightarrow>
   pb_init (text_lib\<lparr>key_order := \<lambda>es. es\<rparr>) deviation NoParent ExtNone [source] None = Inr deviation_copy"
  by (rule pb_init_any_order [OF text_lib_ok deviation_ok(1)]) simp_all

theorem list_entry_needs_load_witness:
  "\<exists>e. pb_init text_lib deviation (ParentObject ExtFalse [''modules-state'']) ExtNone [source] None = Inl e"
proof -
  have "m_keyval deviation_name" by code_simp
  from list_entry_needs_load [OF text_lib_ok(1) deviation_ok this deviation_order] show ?thesis by simp
qed

definition toaster_object :: "string pb_object" where
  "toaster_object = \<lparr>o_class = toaster, o_parent = NoParent, o_ext = ExtDict [(''/toaster'', 0)],
     o_values = [(''toaster'', ''default'')]\<rparr>"

definition toaster_child :: "string pb_object" where
  "toaster_child =
     \<lparr>o_class = yc_toaster_toaster__toaster, o_parent = ParentObject (ExtDict [(''/toaster'', 0)]) [],
      o_ext = ExtDict [(''/toaster'', 0)],
      o_values = [(''toasterManufacturer'', ''default''), (''toasterModelNumber'', ''default''), (''toasterStatus'', ''default'')]\<rparr>"



lemma toaster_made:
  "pb_init text_lib toaster NoParent (ExtDict [(''/toaster'', 0)]) [] None = Inr toaster_object"
  "pb_init text_lib yc_toaster_toaster__toaster (ParentObject (o_ext toaster_object) []) ExtNone [] None = Inr toaster_child"
  by code_simp+

lemma toaster_built: "built text_lib toaster_classes (ExtDict [(''/toaster'', 0)]) toaster_child"
proof (rule built_child [OF _ _ _ _ _ toaster_made(2), where m = toaster_toaster])
  show "built text_lib toaster_classes (ExtDict [(''/toaster'', 0)]) toaster_object"
    by (rule built_root [OF _ _ toaster_made(1)]) (simp_all add: toaster_classes_def resolve_extmethods_def)
  show "toaster_toaster \<in> set (pb_members (o_class toaster_object))" by code_simp
  show "child_class toaster_classes toaster_toaster = Some yc_toaster_toaster__toaster" by code_simp
  show "object_path toaster_object = Inr []" by code_simp
qed simp

theorem built_objects_witness:
  "object_path toaster_child = Inr [''toaster''] \<and> o_ext toaster_child = ExtDict [(''/toaster'', 0)]"
  using built_objects [OF text_lib_ok(1) toaster_schema toaster_built]
  by (simp add: toaster_child_def yc_toaster_toaster__toaster_def)

end
