(* ===== verification/RepositoryModels.thy ===== *)
theory RepositoryModels
  imports Documents GeneratedBindings YangModel
begin

section \<open>The models of the repository, end to end\<close>

text \<open>
  What the loader of the device makes of the YIN documents and the generated classes that the
  repository holds. The value of a class, which pyangbind's method \<open>get\<close> reports, is a
  dictionary with the YANG names of the members as keys, in an order that is not fixed; the value of a container is the
  dictionary of its class, a list of a fresh object has no entries, and the rest are no
  dictionaries. \<open>class_value\<close> is this value in the order of the members; \<open>same_value\<close> is equality up to
  the order of dictionaries, at every level.
\<close>

subsection \<open>Values of fresh objects\<close>

fun class_value :: "pb_class list \<Rightarrow> nat \<Rightarrow> pb_class \<Rightarrow> pyval" where
  "class_value table 0 cls = VOther"
| "class_value table (Suc n) cls =
     VDict (map (\<lambda>m. (m_yang_name m,
         case m_base m of
           YANGListType keys name y u \<Rightarrow> VDict []
         | _ \<Rightarrow> (case child_class table m of None \<Rightarrow> VOther | Some c \<Rightarrow> class_value table n c)))
       (pb_members cls))"

fun same_value :: "pyval \<Rightarrow> pyval \<Rightarrow> bool" where
  "same_value VOther w \<longleftrightarrow> w = VOther"
| "same_value (VDict items) w \<longleftrightarrow>
     (case w of
        VOther \<Rightarrow> False
      | VDict items' \<Rightarrow>
          distinct (map fst items) \<and> set (map fst items) = set (map fst items') \<and>
          list_all (\<lambda>(k, v). list_all (\<lambda>(k', v'). k' = k \<longrightarrow> same_value v v') items') items)"

text \<open>The depth of the classes is bounded: each contained class has a longer path.\<close>

lemma child_path: "schema_ok table \<Longrightarrow> cls \<in> set table \<Longrightarrow> m \<in> set (pb_members cls) \<Longrightarrow> child_class table m = Some c \<Longrightarrow>
  length (pb_path c) = Suc (length (pb_path cls))"
  using schema_child [of table cls m c] by (simp add: child_ok_def)

definition max_path :: "pb_class list \<Rightarrow> nat" where
  "max_path table = foldr (\<lambda>c. max (length (pb_path c))) table 0"

lemma max_path_le: "c \<in> set table \<Longrightarrow> length (pb_path c) \<le> max_path table"
  by (induction table) (auto simp: max_path_def)

lemma class_value_fuel:
  assumes "schema_ok table"
  shows "cls \<in> set table \<Longrightarrow> max_path table - length (pb_path cls) < n \<Longrightarrow> n \<le> n' \<Longrightarrow>
    class_value table n' cls = class_value table n cls"
proof (induction n arbitrary: n' cls)
  case 0
  then show ?case by simp
next
  case (Suc n)
  then obtain k where k: "n' = Suc k" "n \<le> k" by (cases n') auto
  have "class_value table k c = class_value table n c"
    if m: "m \<in> set (pb_members cls)" "child_class table m = Some c" for m c
  proof (rule Suc.IH [OF child_class_in [OF m(2)] _ k(2)])
    from child_path [OF assms Suc.prems(1) m] max_path_le [OF child_class_in [OF m(2)]] Suc.prems(2)
    show "max_path table - length (pb_path c) < n" by simp
  qed
  then show ?case
    unfolding k(1) by (auto simp: map_eq_conv split: yang_base.split option.split)
qed

subsection \<open>The order of the dictionaries does not matter\<close>

lemma same_value_items:
  assumes "same_value (VDict items) (VDict items')"
  shows "(k, v) \<in> set items \<Longrightarrow> \<exists>v'. (k, v') \<in> set items' \<and> same_value v v'"
    and "(k, v') \<in> set items' \<Longrightarrow> \<exists>v. (k, v) \<in> set items \<and> same_value v v'"
proof -
  have same: "same_value u u'" if "(k, u) \<in> set items" "(k, u') \<in> set items'" for k u u'
    using assms that by (fastforce simp: list_all_iff)
  have keys: "fst ` set items = fst ` set items'" using assms by simp
  show "\<exists>v'. (k, v') \<in> set items' \<and> same_value v v'" if v: "(k, v) \<in> set items"
  proof -
    from v have "k \<in> fst ` set items'" unfolding keys [symmetric] by force
    then obtain v' where "(k, v') \<in> set items'" by fastforce
    with same [OF v] show ?thesis by blast
  qed
  show "\<exists>v. (k, v) \<in> set items \<and> same_value v v'" if v': "(k, v') \<in> set items'"
  proof -
    from v' have "k \<in> fst ` set items" unfolding keys by force
    then obtain v where "(k, v) \<in> set items" by fastforce
    with same [OF _ v'] show ?thesis by blast
  qed
qed

lemma same_value_reaches_1:
  "reaches yf v node i ks c \<Longrightarrow> same_value v w \<Longrightarrow> reaches yf w node i ks c"
proof (induction arbitrary: w rule: reaches.induct)
  case (here key item items yf node n ns inherited c)
  then obtain items' where w: "w = VDict items'" by (cases w) auto
  from same_value_items(1) [OF here.prems [unfolded w] here.hyps(1)] here.hyps reaches.here show ?case
    unfolding w by blast
next
  case (below key item items yf node n ns inherited c ks c')
  then obtain items' where w: "w = VDict items'" by (cases w) auto
  from same_value_items(1) [OF below.prems [unfolded w] below.hyps(1)] below.hyps(2,3) below.IH reaches.below show ?case
    unfolding w by blast
qed

lemma same_value_reaches_2:
  "reaches yf w node i ks c \<Longrightarrow> same_value v w \<Longrightarrow> reaches yf v node i ks c"
proof (induction arbitrary: v rule: reaches.induct)
  case (here key item items yf node n ns inherited c)
  then obtain items' where v: "v = VDict items'" by (cases v) auto
  from same_value_items(2) [OF here.prems [unfolded v] here.hyps(1)] here.hyps reaches.here show ?case
    unfolding v by blast
next
  case (below key item items yf node n ns inherited c ks c')
  then obtain items' where v: "v = VDict items'" by (cases v) auto
  from same_value_items(2) [OF below.prems [unfolded v] below.hyps(1)] below.hyps(2,3) below.IH reaches.below show ?case
    unfolding v by blast
qed

lemma same_value_keys_ok: "same_value v w \<Longrightarrow> keys_ok w \<Longrightarrow> keys_ok v"
proof (induction v w rule: same_value.induct)
  case (2 items w)
  then obtain items' where w: "w = VDict items'" by (cases w) auto
  have "CHR ''/'' \<notin> set k \<and> keys_ok u" if u: "(k, u) \<in> set items" for k u
  proof -
    from same_value_items(1) [OF "2.prems"(1) [unfolded w] u] obtain u' where u': "(k, u') \<in> set items'" "same_value u u'"
      by blast
    with "2.prems"(2) w have "CHR ''/'' \<notin> set k" "keys_ok u'" by (auto simp: list_all_iff)
    with "2.IH" [OF w u refl u'(1) refl refl u'(2)] show ?thesis by simp
  qed
  with "2.prems"(1) w show ?case by (auto simp: list_all_iff)
qed simp

subsection \<open>Documents whose walk cannot fail\<close>

fun configs_ok :: "yinfile \<Rightarrow> element \<Rightarrow> bool" where
  "configs_ok yf (Element t attributes kids) \<longleftrightarrow>
     list_all (\<lambda>n. (case own_config yf n of Inl e \<Rightarrow> False | Inr b \<Rightarrow> True) \<and> configs_ok yf n) kids"

lemma configs_ok_node:
  assumes "configs_ok yf node" and "n \<in> set (nodes_for yf node key)"
  shows "configs_ok yf n" and "\<exists>b. node_config yf i n = Inr b"
proof -
  obtain t attributes kids where node: "node = Element t attributes kids" by (cases node)
  from assms(2) have "n \<in> set kids" by (simp add: nodes_for_def find_with_attr_def node)
  with assms(1) have "(case own_config yf n of Inl e \<Rightarrow> False | Inr b \<Rightarrow> True) \<and> configs_ok yf n"
    by (simp add: node list_all_iff)
  then obtain b where "own_config yf n = Inr b" and kids: "configs_ok yf n" by (cases "own_config yf n") simp_all
  then have "node_config yf i n = Inr (i \<and> b)" by (simp add: node_config_def)
  with kids show "configs_ok yf n" and "\<exists>b. node_config yf i n = Inr b" by blast+
qed

lemma path_flags_returns:
  "configs_ok yf node \<Longrightarrow> \<exists>d. path_flags yf v node base i = Inr d"
  "configs_ok yf node \<Longrightarrow> \<exists>d. path_flags_loop yf items node base i flags = Inr d"
proof (induction yf v node base i and yf items node base i flags rule: path_flags_path_flags_loop.induct)
  case (4 yf key item rest node base i flags)
  show ?case
  proof (cases "nodes_for yf node key")
    case Nil
    with 4 show ?thesis by simp
  next
    case (Cons n ns)
    then have n: "n \<in> set (nodes_for yf node key)" by simp
    from configs_ok_node(2) [OF "4.prems" n] obtain c where c: "node_config yf i n = Inr c" by blast
    from "4.IH"(2) [OF Cons configs_ok_node(1) [OF "4.prems" n]] obtain sub
      where "path_flags yf item n (base @ ''/'' @ key) c = Inr sub" by blast
    with Cons c "4.IH"(3) [OF Cons "4.prems"] show ?thesis by simp
  qed
qed auto

text \<open>The paths and flags of the helpers, for a value that is known up to the order of its dictionaries.\<close>

lemma walk_same_value:
  assumes "heap_ok s" and "config_closed s" and "configs_ok yf (yf_root yf)"
    and "same_value v w" and "keys_ok w" and "path_flags yf w (yf_root yf) '''' True = Inr flags"
    and "root_extmethods yf v s = (r, s')"
  shows "\<exists>d. r = Inr d \<and> (\<lambda>(p, h). (p, config_at s' h)) ` set d = set flags"
proof -
  from path_flags_returns(1) [OF assms(3)] obtain fl where fl: "path_flags yf v (yf_root yf) '''' True = Inr fl" by blast
  with root_extmethods_walk(1) [OF assms(1,2,7)] obtain d where d: "r = Inr d" "fl = dict_map (config_at s') d"
    by (cases r) (auto simp: flags_of_def)
  have same: "reaches yf v n i ks c \<longleftrightarrow> reaches yf w n i ks c" for n i ks c
    using same_value_reaches_1 [OF _ assms(4)] same_value_reaches_2 [OF _ assms(4)] by (rule iffI)
  have "(p, c) \<in> set fl \<longleftrightarrow> (p, c) \<in> set flags" for p c
    by (simp add: path_flags_exact [OF fl same_value_keys_ok [OF assms(4,5)]] path_flags_exact [OF assms(6,5)] same)
  then have "set fl = set flags" by auto
  with d(1) show ?thesis by (simp add: d(2) dict_map_def)
qed

subsection \<open>The three models\<close>

record repository_model =
  rm_document :: element
  rm_classes :: "pb_class list"
  rm_class :: pb_class
  rm_helpers :: "(string \<times> bool) list"

text \<open>Each document with its classes, the class of its module, and the helpers that it gets.\<close>

definition repository_models :: "repository_model list" where
  "repository_models =
     [\<lparr>rm_document = toaster_document, rm_classes = toaster_classes, rm_class = toaster,
       rm_helpers =
         [(''/toaster'', True), (''/toaster/toasterManufacturer'', False),
          (''/toaster/toasterModelNumber'', False), (''/toaster/toasterStatus'', False)]\<rparr>,
      \<lparr>rm_document = example_jukebox_document, rm_classes = example_jukebox_classes, rm_class = example_jukebox,
       rm_helpers =
         [(''/jukebox'', True), (''/jukebox/player'', True), (''/jukebox/player/gap'', True),
          (''/jukebox/playlist'', True), (''/jukebox/library'', True), (''/jukebox/library/song-count'', False),
          (''/jukebox/library/artist-count'', False), (''/jukebox/library/album-count'', False),
          (''/jukebox/library/artist'', True)]\<rparr>,
      \<lparr>rm_document = ietf_interfaces_document, rm_classes = ietf_interfaces_classes, rm_class = ietf_interfaces,
       rm_helpers =
         [(''/interfaces'', True), (''/interfaces/interface'', True), (''/interfaces-state'', False),
          (''/interfaces-state/interface'', False)]\<rparr>]"

abbreviation fresh_value :: "repository_model \<Rightarrow> pyval" where
  "fresh_value rm \<equiv> class_value (rm_classes rm) (Suc (max_path (rm_classes rm))) (rm_class rm)"

lemma configs_ok_namespace:
  "configs_ok (yin_of q (Some ns) e) (in_namespace ns n) = configs_ok (yin_of p None d) n"
  by (induction n) (simp add: list_all_iff own_config_namespace [where p = p and d = d])

text \<open>What can be computed of each of them, without the namespace.\<close>

lemma repository_flags:
  "list_all (\<lambda>rm. path_flags (yin_of '''' None (rm_document rm)) (fresh_value rm) (rm_document rm) '''' True = Inr (rm_helpers rm))
     repository_models"
  by code_simp

lemma repository_configs: "list_all (\<lambda>rm. configs_ok (yin_of '''' None (rm_document rm)) (rm_document rm)) repository_models"
  by code_simp

lemma repository_keys: "list_all (\<lambda>rm. keys_ok (fresh_value rm)) repository_models"
  by code_simp

lemma repository_packages:
  "list_all (\<lambda>rm. tag (rm_document rm) \<noteq> [] \<and> rm_helpers rm \<noteq> [] \<and>
     package_name (yin_of '''' None (rm_document rm)) = Inr (pb_name (rm_class rm))) repository_models"
  by code_simp

lemma package_name_yin_of: "package_name (yin_of p (Some ns) d) = package_name (yin_of q None d)"
  by (simp add: package_name_def yin_module_name_def)

text \<open>
  C11: the loader works for the models that the repository holds: from \<open>toaster.xml\<close>,
  \<open>example_jukebox.xml\<close> and \<open>ietf_interfaces.xml\<close> with their generated classes it makes a model that holds an
  instance of the class with helpers for exactly these paths, with these being configurable; whatever order
  the dictionaries of \<open>get\<close> have.
\<close>

theorem repository_model_loads:
  assumes "rm \<in> set repository_models" and "heap_ok s" and "config_closed s"
    and "parse_yin g (path_join p f) = Inr (in_namespace yin_ns (rm_document rm))"
    and "import_package g (dir @ ''.'' @ pb_name (rm_class rm)) = Inr ()"
    and "find_class g (dir @ ''.'' @ pb_name (rm_class rm)) (pb_name (rm_class rm)) = Inr ()"
    and "class_get g (pb_name (rm_class rm)) = Inr v" and "same_value v (fresh_value rm)"
    and "\<And>d. class_with g (pb_name (rm_class rm)) d = Inr ()"
  shows "\<exists>m d s'. YangModel g p f dir s = (Inr m, s') \<and> ym_extmethods m = Some d \<and>
    ym_class m = InstanceWith (pb_name (rm_class rm)) d \<and>
    (\<lambda>(q, h). (q, config_at s' h)) ` set d = set (rm_helpers rm)"
proof -
  let ?doc = "rm_document rm" and ?c = "pb_name (rm_class rm)"
  let ?yf = "yin_of (path_join p f) (Some yin_ns) ?doc"
  from assms(1) repository_flags repository_configs repository_keys repository_packages have facts:
    "path_flags (yin_of '''' None ?doc) (fresh_value rm) ?doc '''' True = Inr (rm_helpers rm)"
    "configs_ok (yin_of '''' None ?doc) ?doc" "keys_ok (fresh_value rm)"
    "tag ?doc \<noteq> []" "rm_helpers rm \<noteq> []" "package_name (yin_of '''' None ?doc) = Inr ?c"
    by (auto simp only: list_all_iff)
  obtain r s' where walk: "root_extmethods ?yf v s = (r, s')" by fastforce
  have "\<exists>d. r = Inr d \<and> (\<lambda>(q, h). (q, config_at s' h)) ` set d = set (rm_helpers rm)"
  proof (rule walk_same_value [OF assms(2,3) _ assms(8) facts(3) _ walk])
    show "configs_ok ?yf (yf_root ?yf)" using facts(2) by (simp add: configs_ok_namespace [where p = "''''" and d = ?doc])
    show "path_flags ?yf (fresh_value rm) (yf_root ?yf) '''' True = Inr (rm_helpers rm)"
      using facts(1) path_flags_namespace(1) [of "''''" ?doc "fresh_value rm" ?doc] by simp
  qed
  then obtain d where d: "r = Inr d" "(\<lambda>(q, h). (q, config_at s' h)) ` set d = set (rm_helpers rm)" by blast
  with facts(5) have "d \<noteq> []" by auto
  have "YINFile (path_join p f) (in_namespace yin_ns ?doc) = Inr ?yf"
    by (rule YINFile_in_namespace) (simp_all add: yin_ns_def facts(4))
  then have "YangModel g p f dir s = (Inr \<lparr>ym_yin = ?yf, ym_extmethods = Some d, ym_class = InstanceWith ?c d\<rparr>, s')"
    using assms(4-7,9) facts(6) package_name_yin_of [of "path_join p f" yin_ns ?doc "''''"] walk d(1) \<open>d \<noteq> []\<close>
    by (simp add: YangModel_def import_models_def import_class_def)
  with d(2) show ?thesis by auto
qed

definition repository_generated :: "repository_model \<Rightarrow> generated" where
  "repository_generated rm =
     \<lparr>parse_yin = (\<lambda>f. Inr (in_namespace yin_ns (rm_document rm))), import_package = (\<lambda>p. Inr ()),
      find_class = (\<lambda>p c. Inr ()), class_get = (\<lambda>c. Inr (fresh_value rm)), class_with = (\<lambda>c d. Inr ())\<rparr>"

lemma same_value_refl: "keys_ok v \<Longrightarrow> same_value v v"
proof (induction v)
  case (VDict items)
  have "same_value u u'" if "(k, u) \<in> set items" "(k, u') \<in> set items" for k u u'
  proof -
    from VDict.prems that have "u' = u" by (auto dest: eq_key_imp_eq_value)
    with VDict.IH [of "(k, u)" u] VDict.prems that show ?thesis by (auto simp: list_all_iff)
  qed
  with VDict.prems show ?case by (auto simp: list_all_iff)
qed simp

theorem repository_model_loads_witness:
  "\<exists>m d s'. YangModel (repository_generated (repository_models ! 1)) ''generated'' ''example_jukebox.xml'' ''generated'' sample_state = (Inr m, s') \<and>
     ym_extmethods m = Some d \<and> ym_class m = InstanceWith ''example_jukebox'' d \<and>
     (\<lambda>(q, h). (q, config_at s' h)) ` set d = set (rm_helpers (repository_models ! 1))"
proof -
  let ?rm = "repository_models ! 1"
  have rm: "?rm \<in> set repository_models" and name: "pb_name (rm_class ?rm) = ''example_jukebox''"
    by (simp_all add: repository_models_def example_jukebox_def)
  have "same_value (fresh_value ?rm) (fresh_value ?rm)"
    using repository_keys rm by (intro same_value_refl) (auto simp only: list_all_iff)
  from repository_model_loads [OF rm sample_state_ok, of "repository_generated ?rm" "''generated''" "''example_jukebox.xml''" "''generated''", OF _ _ _ _ this] show ?thesis
    unfolding name by (simp only: repository_generated_def generated.simps)
qed

subsection \<open>Entries of lists\<close>

text \<open>
  \<open>inside_list table cls ks\<close>: the YANG names \<open>ks\<close> lead from an object of the class down to a list and
  then into its entries, at any depth.
\<close>

fun inside_list :: "pb_class list \<Rightarrow> pb_class \<Rightarrow> string list \<Rightarrow> bool" where
  "inside_list table cls [] = False"
| "inside_list table cls (k # ks) =
     (case find (\<lambda>m. m_yang_name m = k) (pb_members cls) of
        None \<Rightarrow> False
      | Some m \<Rightarrow>
          if list_keys m \<noteq> None then ks \<noteq> []
          else (case child_class table m of None \<Rightarrow> False | Some c \<Rightarrow> inside_list table c ks))"

lemma reaches_class_value:
  "reaches yf v node i ks c \<Longrightarrow> v = class_value table n cls \<Longrightarrow> keys_ok v \<Longrightarrow> \<not> inside_list table cls ks"
proof (induction arbitrary: n cls rule: reaches.induct)
  case (here key item items yf node m ms inherited c)
  then show ?case by (auto split: option.splits)
next
  case (below key item items yf node y ys inherited c ks c')
  then obtain n' where n: "n = Suc n'" by (cases n) auto
  from below.hyps(4) have item: "item \<noteq> VOther" "item \<noteq> VDict []"
    by (auto elim: reaches_other reaches_dict)
  from below.prems(1) below.hyps(1) obtain m where m: "m \<in> set (pb_members cls)" "key = m_yang_name m"
    and val: "item = (case m_base m of
           YANGListType keys name y u \<Rightarrow> VDict []
         | _ \<Rightarrow> (case child_class table m of None \<Rightarrow> VOther | Some c \<Rightarrow> class_value table n' c))"
    by (auto simp: n)
  from below.prems have d: "distinct (map m_yang_name (pb_members cls))"
    by (auto simp: n comp_def)
  have found: "m' = m" if "find (\<lambda>m. m_yang_name m = key) (pb_members cls) = Some m'" for m'
    using that d m by (auto simp: find_Some_iff distinct_map inj_on_def)
  from val item have no_list: "list_keys m = None" by (auto simp: list_keys_def split: yang_base.splits)
  have "\<not> inside_list table c1 ks" if "child_class table m = Some c1" for c1
  proof (rule below.IH)
    show "item = class_value table n' c1" using val item that by (auto split: yang_base.splits)
    show "keys_ok item" using below.prems(2) below.hyps(1) by (auto simp: list_all_iff)
  qed
  with found no_list show ?case by (auto split: option.splits)
qed

text \<open>
  C27: no node inside a list entry has a helper, at any depth and whatever the document says: the
  walk looks at the value of a fresh object, whose lists are empty.
\<close>

theorem list_entries_without_helpers:
  assumes "heap_ok s" and "config_closed s"
    and "same_value v (class_value table n cls)" and "keys_ok (class_value table n cls)"
    and "root_extmethods yf v s = (Inr d, s')"
    and "inside_list table cls ks" and "list_all (\<lambda>k. CHR ''/'' \<notin> set k) ks"
  shows "path_of '''' ks \<notin> dict_keys d"
proof
  assume "path_of '''' ks \<in> dict_keys d"
  then obtain h where "(path_of '''' ks, config_at s' h) \<in> set (dict_map (config_at s') d)"
    by (force simp: dict_keys_def dict_map_def)
  with path_flags_sound(1) [OF extmethods_flags [OF assms(1,2,5)]]
  obtain us c where us: "path_of '''' ks = path_of '''' us" "reaches yf v (yf_root yf) True us c" by blast
  from us(2) assms(3) have r: "reaches yf (class_value table n cls) (yf_root yf) True us c"
    by (rule same_value_reaches_1)
  from path_of_inj [OF us(1) assms(7) reaches_keys [OF r assms(4)]] reaches_class_value [OF r refl assms(4)] assms(6)
  show False by simp
qed

text \<open>The statistics of an interface, two levels below the list.\<close>

theorem list_entries_without_helpers_witness:
  "\<exists>d s'. root_extmethods (yin_of '''' None ietf_interfaces_document) (fresh_value (repository_models ! 2)) sample_state = (Inr d, s') \<and>
     path_of '''' [''interfaces-state'', ''interface'', ''statistics'', ''in-octets''] \<notin> dict_keys d"
proof -
  let ?rm = "repository_models ! 2" and ?ks = "[''interfaces-state'', ''interface'', ''statistics'', ''in-octets'']"
  let ?yf = "yin_of '''' None ietf_interfaces_document"
  have rm: "?rm \<in> set repository_models" and doc: "rm_document ?rm = ietf_interfaces_document"
    by (simp_all add: repository_models_def)
  from rm repository_keys repository_configs have ok: "keys_ok (fresh_value ?rm)" "configs_ok ?yf ietf_interfaces_document"
    by (auto simp only: list_all_iff doc [symmetric])
  have root: "yf_root ?yf = ietf_interfaces_document" by (simp add: yin_of_def)
  obtain r s' where walk: "root_extmethods ?yf (fresh_value ?rm) sample_state = (r, s')" by fastforce
  from path_flags_returns(1) [OF ok(2)] obtain fl
    where "path_flags ?yf (fresh_value ?rm) ietf_interfaces_document '''' True = Inr fl" by blast
  with root_extmethods_walk(1) [OF sample_state_ok walk] obtain d where r: "r = Inr d"
    unfolding root by (cases r) (auto simp only: flags_of_def sum.case sum.distinct)
  have "inside_list (rm_classes ?rm) (rm_class ?rm) ?ks" by code_simp
  from list_entries_without_helpers [OF sample_state_ok same_value_refl [OF ok(1)] ok(1) walk [unfolded r] this]
  show ?thesis using walk r by auto
qed

end
