(* ===== verification/ConstructorErrors.thy ===== *)
theory ConstructorErrors
  imports GeneratedBindings
begin

section \<open>Which exception a generated constructor raises\<close>

text \<open>
  What is wrong with copying one element (\<open>element_error\<close>), and that the constructor raises just
  these exceptions: of the elements that cannot be set, the one that Python happens to visit
  first decides.
\<close>

definition element_error ::
  "('a, 'v) pybind \<Rightarrow> (string \<Rightarrow> 'a option) \<Rightarrow> bool \<Rightarrow> 'v pb_object \<Rightarrow> string \<Rightarrow> pyexc option" where
  "element_error lib src load ob e =
     (case member_named (o_class ob) e of
        None \<Rightarrow> Some (AttributeError (''_set_'' @ e))
      | Some m \<Rightarrow>
          (case src e of
             None \<Rightarrow> Some (AttributeError e)
           | Some v \<Rightarrow>
               if key_protected ob m load then Some key_error
               else
                 (case dyn lib ob m (Some v) of
                    Inr t \<Rightarrow> None
                  | Inl (TypeError s) \<Rightarrow> Some (type_error m)
                  | Inl (ValueError s) \<Rightarrow> Some (type_error m)
                  | Inl (ValueErrorOf d) \<Rightarrow> Some (type_error m)
                  | Inl x \<Rightarrow> Some x)))"

lemma element_error_header:
  assumes "header_only lib" and "same_header ob ob'"
  shows "element_error lib src load ob e = element_error lib src load ob' e"
proof -
  have c: "o_class ob = o_class ob'" using assms(2) by (simp add: same_header_def)
  have d: "dyn lib ob m v = dyn lib ob' m v" for m v by (rule header_onlyD [OF assms])
  show ?thesis
    unfolding element_error_def c d header_copied(4) [OF assms] ..
qed

text \<open>Copying one element, when there is no hook.\<close>

lemma copy_element:
  assumes "hook_keeps lib"
  shows "element_error lib src load ob e = Some x \<Longrightarrow>
      \<exists>ob'. copy_members lib (e # es) src load ob = (Inl x, ob')"
    and "element_error lib src load ob e = None \<Longrightarrow>
      \<exists>n t. copy_members lib (e # es) src load ob = copy_members lib es src load (put_value n t ob)"
  using assms
  by (auto simp: element_error_def set_member_eq
      split: option.splits sum.splits pyexc.splits if_splits)

lemma copy_members_error:
  assumes "hook_keeps lib" and "header_only lib"
  shows "fst (copy_members lib es src load ob) =
    (case List.map_filter (element_error lib src load ob) es of [] \<Rightarrow> Inr () | x # xs \<Rightarrow> Inl x)"
proof (induction es arbitrary: ob)
  case Nil
  then show ?case by (simp add: List.map_filter_simps)
next
  case (Cons e es)
  show ?case
  proof (cases "element_error lib src load ob e")
    case None
    with copy_element(2) [OF assms(1)] obtain n t
      where step: "copy_members lib (e # es) src load ob = copy_members lib es src load (put_value n t ob)" by blast
    have "element_error lib src load (put_value n t ob) = element_error lib src load ob"
      by (rule ext, rule element_error_header [OF assms(2)]) simp
    with Cons.IH [of "put_value n t ob"] step None show ?thesis by (simp add: List.map_filter_simps)
  next
    case (Some x)
    with copy_element(1) [OF assms(1) Some, of es] show ?thesis by (auto simp: List.map_filter_simps)
  qed
qed

lemma first_in_some_order:
  assumes "e \<in> set es"
  shows "\<exists>es'. mset (e # es') = mset es"
proof -
  from assms have "e \<in># mset es" by simp
  then obtain M where "mset es = add_mset e M" by (metis insert_DiffM)
  moreover obtain es' where "mset es' = M" using ex_mset by blast
  ultimately show ?thesis by auto
qed

text \<open>
  C26: the exceptions of the constructor: when the members have defaults and the other object
  has all attributes, then the exceptions that it can raise, over all orders in which Python may
  visit the elements, are exactly those of the elements that cannot be set.
\<close>

theorem constructor_errors:
  assumes "hook_keeps lib" and "header_only lib"
    and "init_members lib (pb_members cls) (new_object cls parent kw) = (Inr (), ob)"
    and "list_all (\<lambda>e. src e \<noteq> None) (pb_elements cls)"
  shows "(\<exists>es. mset es = mset (pb_elements cls) \<and>
      pb_init (lib\<lparr>key_order := \<lambda>_. es\<rparr>) cls parent kw [src] load = Inl x) \<longleftrightarrow>
    (\<exists>e \<in> set (pb_elements cls). element_error lib src (load = Some True) ob e = Some x)"
proof -
  let ?err = "element_error lib src (load = Some True) ob"
  have init: "pb_init (lib\<lparr>key_order := \<lambda>_. es\<rparr>) cls parent kw [src] load = Inl x \<longleftrightarrow>
      (\<exists>xs. List.map_filter ?err es = x # xs)" if "mset es = mset (pb_elements cls)" for es
  proof -
    have "list_all (\<lambda>e. src e \<noteq> None) es"
      using assms(4) mset_eq_setD [OF that] by (simp add: list_all_iff)
    then show ?thesis
      using copy_members_error [OF assms(1,2), of es src "load = Some True" ob]
      by (cases "copy_members lib es src (load = Some True) ob")
        (auto simp: pb_init_def assms(3) split: list.splits sum.splits)
  qed
  show ?thesis
  proof
    assume "\<exists>es. mset es = mset (pb_elements cls) \<and>
      pb_init (lib\<lparr>key_order := \<lambda>_. es\<rparr>) cls parent kw [src] load = Inl x"
    then obtain es xs where es: "mset es = mset (pb_elements cls)" "List.map_filter ?err es = x # xs"
      using init by blast
    then have "x \<in> set (List.map_filter ?err es)" by simp
    with mset_eq_setD [OF es(1)] show "\<exists>e \<in> set (pb_elements cls). ?err e = Some x"
      by (auto simp: List.map_filter_def)
  next
    assume "\<exists>e \<in> set (pb_elements cls). ?err e = Some x"
    then obtain e es where "?err e = Some x" and es: "mset (e # es) = mset (pb_elements cls)"
      using first_in_some_order by metis
    then have "List.map_filter ?err (e # es) = x # List.map_filter ?err es"
      by (simp add: List.map_filter_simps)
    with init [OF es] es show "\<exists>es. mset es = mset (pb_elements cls) \<and>
      pb_init (lib\<lparr>key_order := \<lambda>_. es\<rparr>) cls parent kw [src] load = Inl x" by blast
  qed
qed

text \<open>Copying an entry of the list of deviations without \<open>load\<close>: the keys are refused.\<close>

theorem constructor_errors_witness:
  "\<exists>es. mset es = mset (pb_elements deviation) \<and>
     pb_init (text_lib\<lparr>key_order := \<lambda>_. es\<rparr>) deviation (ParentObject ExtFalse []) ExtNone [source] None = Inl key_error"
proof -
  have "init_members text_lib (pb_members deviation) (new_object deviation (ParentObject ExtFalse []) ExtNone) =
      (Inr (), deviation_object (ParentObject ExtFalse []))"
    "list_all (\<lambda>e. source e \<noteq> None) (pb_elements deviation)"
    by code_simp+
  note iff = constructor_errors [OF text_lib_ok this, of None key_error]
  have "\<exists>e \<in> set (pb_elements deviation).
      element_error text_lib source (None = Some True) (deviation_object (ParentObject ExtFalse [])) e = Some key_error"
    by code_simp
  then show ?thesis using iff by blast
qed

end
