(* ===== verification/Spec2Isabelle.thy ===== *)
theory Spec2Isabelle
  imports DataResource RestconfUrl Requests YinHelpers Timestamps DeviceFacts ModelWalk MainScript
    RepositoryModels ConstructorErrors
begin

text \<open>
  This library models the Python code of the repository: the message library of the RESTCONF
  provider (\<open>tools/restconf/message\<close>), the mock RESTCONF device used to test it
  (\<open>tools/mockDevice\<close>), and the bindings that pyangbind generated for four YANG modules
  (\<open>modules/generated-code\<close>, \<open>tools/mockDevice/ietf_yang_library.py\<close>). The code is Python 2;
  a \<open>str\<close> is a \<open>string\<close>, an exception a value of \<open>pyexc\<close>, a result a sum \<open>'a res\<close>, a
  dictionary an association list in iteration order.

  \<^bold>\<open>The parts and how they interact.\<close> A URL of a request is split into API root, resource and
  query (\<open>RestconfUrl\<close>), its path into identifiers and list instances (\<open>DataResource\<close>,
  \<open>ListInstance\<close>, \<open>Identifiers\<close>, \<open>KeyValues\<close>). The mock device reads YIN documents (\<open>YinFile\<close>) and
  walks them together with the generated class of the module (\<open>Bindings\<close>), creating one helper for each
  node; a helper of a configurable node keeps a time stamp and an entity tag, and a change is
  recorded at the node, at all its ancestors and at the datastore (\<open>Helpers\<close>). \<open>YangModel\<close>
  holds document, class and helpers of a module; \<open>dataModels.py\<close> loads all of them and registers the URL
  rules, \<open>yangLibrary.py\<close> and \<open>apiResource.py\<close> add theirs (\<open>MockDevice\<close>).

  \<^bold>\<open>Theories and code.\<close>
  \<^item> \<open>Prelude\<close>: exceptions, results, the string methods of Python 2, with the collections
    \<open>pystr\<close> and \<open>pyres\<close>. \<open>Contracts\<close>: the interfaces as locales (\<open>codec\<close>, \<open>exact_codec\<close>,
    \<open>dictionary\<close>, \<open>keyed_dictionary\<close>) and the dictionary that provides the latter.
  \<^item> \<open>Identifiers\<close>, \<open>DataResource\<close>: \<open>restconfDataResource.py\<close>. \<open>KeyValues\<close>, \<open>ListInstance\<close>:
    \<open>restconfListInstance.py\<close>. \<open>UrlParse\<close>: \<open>urlparse\<close> of Python 2.7. \<open>RestconfUrl\<close>:
    \<open>restconfUrl.py\<close> and its three subclasses. \<open>Requests\<close>: \<open>request.py\<close>. Where a call in the code cannot succeed (a
    method that does not exist, a string that is called), the definition takes the outcome of that one call as
    an argument: \<open>RestconfDataResource\<close>, \<open>RestconfListInstance\<close>, \<open>RestconfUrl\<close> and \<open>create\<close>
    are the code as written, those with \<open>_via\<close> the same code for other outcomes of the call. Nothing else is
    repaired: the arguments that \<open>_parse_api_path\<close> swaps are swapped in \<open>parse_segment\<close>.
  \<^item> \<open>Elements\<close>: what is used of \<open>xml.etree.ElementTree\<close>. \<open>Helpers\<close>: the three helper classes
    and \<open>update_datastore\<close>, over a store of helpers (\<open>rstate\<close>), with the locale \<open>helper_store\<close>
    for its laws. \<open>YinFile\<close>: \<open>yinFile.py\<close>, with the pure walk \<open>path_flags\<close> as its
    reference. \<open>YinPaths\<close>: its properties; \<open>YinHelpers\<close>: the tree of helpers.
    \<open>YangModel\<close>: \<open>yangModel.py\<close>; \<open>ModelWalk\<close>: its method \<open>_get_extmethods\<close>. \<open>Timestamps\<close>: runs of loading, changing and setting times.
    \<open>Documents\<close>: the three YIN documents of the repository.
  \<^item> \<open>MockDevice\<close>: \<open>globals.py\<close>, \<open>dataModels.py\<close>, \<open>yangLibrary.py\<close>, \<open>apiResource.py\<close>, \<open>resource/datastore.py\<close> and
    \<open>mockDevice.py\<close>, over the module variables (\<open>device\<close>). \<open>DeviceFacts\<close>: their properties.
    \<open>CommandLine\<close>: \<open>parse_args\<close> of \<open>mockDevice.py\<close>, with what its options use of
    \<open>argparse\<close>; \<open>CommandGrammar\<close>: the grammar of command lines.
  \<^item> \<open>Imports\<close>: the import statements of all these modules and the import of Python 2, over
    \<open>sys.modules\<close>; a statement of a module body that may raise, as the parsing of the command line in \<open>mockDevice.py\<close>,
    is a step with its outcome (\<open>Execute\<close>). \<open>ImportCycles\<close>: modules that wait for each other. \<open>MainScript\<close>: \<open>mockDevice.py\<close> run as a script.
  \<^item> \<open>Bindings\<close>: the shape of the generated classes. \<open>BindingFacts\<close>: its properties.
    \<open>BindingSchema\<close>: how classes fit together. \<open>ToasterBinding\<close>, \<open>YangLibraryBinding\<close>, \<open>JukeboxBinding\<close>,
    \<open>InterfacesBinding\<close>: the generated classes themselves. \<open>GeneratedBindings\<close>: properties of
    all four and applications. \<open>ConstructorErrors\<close>: the exceptions of constructors. \<open>RepositoryModels\<close>: the loader of the device on the documents and classes
    of the repository.

  \<^bold>\<open>What the lemmas show.\<close> Message library: the grammar that identifiers satisfy, which paths are accepted
  and what is recorded for them once the missing method answers (each segment is taken for a module and the
  name before it for the identifier), the round trip of printed keys, and that as written no data resource, valid list
  instance or URL can be built. Helpers and YIN files: the walk returns exactly the paths of
  document and class with the flag that \<open>config\<close> statements give them by inheritance, the helpers form the tree of these paths, and therefore
  \<open>set_modified\<close> never meets an ancestor that refuses it; it stamps the ancestors and nothing else. These carry over to
  models and to the whole start of the device by the invariant \<open>device_ok\<close>. Over every run of the device the
  time of a resource is that of the last change at or below it, whatever the clock does; where the times of
  changes never go back, a resource is at least as new as those below it; and a change gives tags that no resource had
  before. No node inside a list entry has a helper. The models of the repository load with the helpers that their documents name.
  Command line: \<open>parse_args\<close> accepts the grammar's command lines with the expected settings and no
  others, and settings survive being written out as a command line. Imports: every import ends;
  modules that wait for each other never load, in no sequence of imports, so the script ends in an \<open>ImportError\<close>, in a
  refused command line or in a root resource that Flask refuses. Bindings: setters change one member or
  nothing, after any assignments a member has the last value that was accepted, construction by copying is exact and does not depend on the order of a dictionary, except for which
  exception is raised, and these are just the exceptions of the elements that cannot be set; keys of list
  entries are protected, and the paths and helpers of all objects that a program constructs below a root follow the schema, which the four generated
  modules satisfy.

  \<^bold>\<open>Recursion and fuel.\<close> \<open>set_modified\<close> follows parent pointers and is a \<open>partial_function\<close>; it is
  shown to return for every store whose parents are older than their children. An import takes fuel for the depth of
  nested loads; the number of modules is enough (\<open>load_module_ends\<close>) and more fuel changes nothing
  (\<open>load_more_fuel\<close>). The value of a class (\<open>class_value\<close>) takes fuel for the depth of nested
  containers, and more fuel than that depth changes nothing (\<open>class_value_fuel\<close>). All other recursions are on the data.

  \<^bold>\<open>Arguments of the model.\<close> Code outside the repository is an argument of the definitions that use
  it: the clock and the UUIDs (\<open>env\<close>), directives of \<open>strptime\<close>, the XML parser and the generated packages
  (\<open>generated\<close>), Flask's \<open>add_url_rule\<close> and \<open>register_blueprint\<close>, the directory listing, the installed libraries (\<open>library\<close>),
  and pyangbind (\<open>pybind\<close>). Hypotheses on them state what they document: \<open>add_url_rule\<close> refuses unknown
  converters and rules without a leading slash; \<open>YANGDynClass\<close> looks at the member and the value, not at the
  other members; the method \<open>_set\<close> that pyangbind gives to the objects it wraps, and that setters call, returns and leaves the object as it
  is modelled alone (\<open>hook_keeps\<close>); a method \<open>get\<close> of pyangbind reports the members under their YANG names, in any
  order (\<open>same_value\<close>).

  \<^bold>\<open>Not modelled.\<close> Lines printed for \<open>verbose\<close> where they cannot fail; the HTTP server, which is
  never reached; the printer of the host metadata; the text of XML elements, which the walk never reads; the tests; the class of
  \<open>cancel-toast\<close>, whose body is \<open>pass\<close>; the Java code of the provider.

  \<^bold>\<open>Left for later.\<close> The printer of the host metadata, whose text is made by the package \<open>xrd\<close>; how
  the flag of a leaf in a class relates to the \<open>config\<close> statement in its document.
\<close>

end
